(* ===== verification/Rescue_Prelude.thy ===== *)
theory Rescue_Prelude
  imports Main "HOL-Library.Sublist" "HOL-Library.Char_ord" "HOL-Library.List_Lexorder"
    "HOL-Library.Product_Lexorder"
begin

text \<open>
  Shared vocabulary of the development: the collections of facts the component theories feed and
  use, results with errors, programs over an explicit state, and the operations of Python's
  \<open>str\<close> the program calls.

  A Python string is a \<^typ>\<open>string\<close> of ASCII characters. On that range \<open>casefold\<close> and
  \<open>lower\<close> agree, and \<open>str.isspace\<close> holds of the codes 9 to 13 and 28 to 32. The lexicographic
  order of \<^typ>\<open>string\<close> (from List_Lexorder and Char_ord) is Python's order of strings, and the
  lexicographic order of pairs is Python's order of tuples.
\<close>

named_theorems prog_simps \<open>equations that run the program combinators\<close>
named_theorems keeps_intros \<open>how a state property passes through the program combinators\<close>
named_theorems yields_intros \<open>which values a program can return\<close>
named_theorems errs_intros \<open>which exceptions a result can be\<close>
named_theorems text_simps \<open>facts about the operations on text\<close>

section \<open>Results: a raised exception or a value\<close>

type_synonym ('e, 'a) result = "'e + 'a"

fun bind_res :: "'e + 'a \<Rightarrow> ('a \<Rightarrow> 'e + 'b) \<Rightarrow> 'e + 'b" where
  "bind_res (Inl e) f = Inl e"
| "bind_res (Inr x) f = f x"

fun map_res :: "('a \<Rightarrow> 'e + 'b) \<Rightarrow> 'a list \<Rightarrow> 'e + 'b list" where
  "map_res f [] = Inr []"
| "map_res f (x # xs) = bind_res (f x) (\<lambda>y. bind_res (map_res f xs) (\<lambda>ys. Inr (y # ys)))"

lemma bind_res_Inr_iff: "bind_res r f = Inr y \<longleftrightarrow> (\<exists>x. r = Inr x \<and> f x = Inr y)"
  by (cases r) auto

lemma bind_res_Inl_iff:
  "bind_res r f = Inl e \<longleftrightarrow> r = Inl e \<or> (\<exists>x. r = Inr x \<and> f x = Inl e)"
  by (cases r) auto

lemma bind_res_InrE:
  assumes "bind_res r f = Inr y"
  obtains x where "r = Inr x" "f x = Inr y"
  using assms by (auto simp: bind_res_Inr_iff)

text \<open>\<open>errs P r\<close>: whatever exception \<open>r\<close> is, it satisfies \<open>P\<close>.\<close>

definition errs :: "('e \<Rightarrow> bool) \<Rightarrow> 'e + 'a \<Rightarrow> bool" where
  "errs P r \<longleftrightarrow> (\<forall>e. r = Inl e \<longrightarrow> P e)"

lemma errsD: "errs P r \<Longrightarrow> r = Inl e \<Longrightarrow> P e"
  by (simp add: errs_def)

lemma errs_Inl [errs_intros]: "P e \<Longrightarrow> errs P (Inl e)"
  by (simp add: errs_def)

lemma errs_Inr [errs_intros]: "errs P (Inr x)"
  by (simp add: errs_def)

lemma errs_bind [errs_intros]: "errs P r \<Longrightarrow> (\<And>x. r = Inr x \<Longrightarrow> errs P (f x)) \<Longrightarrow> errs P (bind_res r f)"
  by (cases r) (auto simp: errs_def)

lemma errs_if [errs_intros]:
  "(b \<Longrightarrow> errs P r) \<Longrightarrow> (\<not> b \<Longrightarrow> errs P q) \<Longrightarrow> errs P (if b then r else q)"
  by simp

lemma errs_case_option [errs_intros]:
  "errs P r \<Longrightarrow> (\<And>x. errs P (f x)) \<Longrightarrow> errs P (case v of None \<Rightarrow> r | Some x \<Rightarrow> f x)"
  by (cases v) auto

lemma errs_case_sum [errs_intros]:
  "(\<And>e. errs P (g e)) \<Longrightarrow> (\<And>x. errs P (f x)) \<Longrightarrow> errs P (case v of Inl e \<Rightarrow> g e | Inr x \<Rightarrow> f x)"
  by (cases v) auto

lemma map_res_Inr_iff: "map_res f xs = Inr ys \<longleftrightarrow> list_all2 (\<lambda>x y. f x = Inr y) xs ys"
  by (induction xs arbitrary: ys)
    (auto simp: bind_res_Inr_iff list_all2_Cons1)

lemma map_res_member: "map_res f xs = Inr ys \<Longrightarrow> x \<in> set xs \<Longrightarrow> \<exists>y \<in> set ys. f x = Inr y"
  by (induction xs arbitrary: ys) (auto simp: bind_res_Inr_iff)

lemma map_res_total: "(\<And>x. x \<in> set xs \<Longrightarrow> f x = Inr (g x)) \<Longrightarrow> map_res f xs = Inr (map g xs)"
  by (induction xs) auto

section \<open>Programs: state passing with exceptions\<close>

text \<open>
  A method that reads and changes state and may raise is a function from the state to its outcome
  and the state it leaves behind. The state is kept when an exception is raised: what was written
  before the \<open>raise\<close> stays written.
\<close>

type_synonym ('s, 'e, 'a) prog = "'s \<Rightarrow> ('e + 'a) \<times> 's"

definition return_p :: "'a \<Rightarrow> ('s, 'e, 'a) prog" where
  "return_p x s = (Inr x, s)"

definition raise_p :: "'e \<Rightarrow> ('s, 'e, 'a) prog" where
  "raise_p e s = (Inl e, s)"

definition bind_p :: "('s, 'e, 'a) prog \<Rightarrow> ('a \<Rightarrow> ('s, 'e, 'b) prog) \<Rightarrow> ('s, 'e, 'b) prog" where
  "bind_p m f s = (case m s of (Inl e, s') \<Rightarrow> (Inl e, s') | (Inr x, s') \<Rightarrow> f x s')"

definition then_p :: "('s, 'e, 'a) prog \<Rightarrow> ('s, 'e, 'b) prog \<Rightarrow> ('s, 'e, 'b) prog" where
  "then_p m k = bind_p m (\<lambda>_. k)"

definition catch_p :: "('s, 'e, 'a) prog \<Rightarrow> ('e \<Rightarrow> ('s, 'e, 'a) prog) \<Rightarrow> ('s, 'e, 'a) prog" where
  "catch_p m h s = (case m s of (Inl e, s') \<Rightarrow> h e s' | (Inr x, s') \<Rightarrow> (Inr x, s'))"

text \<open>\<open>try m finally f\<close>: an exception of \<open>f\<close> replaces the outcome of \<open>m\<close>.\<close>

definition finally_p :: "('s, 'e, 'a) prog \<Rightarrow> ('s, 'e, unit) prog \<Rightarrow> ('s, 'e, 'a) prog" where
  "finally_p m f s =
     (case m s of (r, s1) \<Rightarrow> case f s1 of (Inl e, s2) \<Rightarrow> (Inl e, s2) | (Inr _, s2) \<Rightarrow> (r, s2))"

definition reads_p :: "('s \<Rightarrow> 'a) \<Rightarrow> ('s, 'e, 'a) prog" where
  "reads_p f s = (Inr (f s), s)"

definition update_p :: "('s \<Rightarrow> 's) \<Rightarrow> ('s, 'e, unit) prog" where
  "update_p f s = (Inr (), f s)"

definition result_p :: "'e + 'a \<Rightarrow> ('s, 'e, 'a) prog" where
  "result_p r s = (r, s)"

fun each_p :: "('a \<Rightarrow> ('s, 'e, unit) prog) \<Rightarrow> 'a list \<Rightarrow> ('s, 'e, unit) prog" where
  "each_p f [] = return_p ()"
| "each_p f (x # xs) = then_p (f x) (each_p f xs)"

lemma return_p_run [simp, prog_simps]: "return_p x s = (Inr x, s)"
  by (simp add: return_p_def)

lemma raise_p_run [simp, prog_simps]: "raise_p e s = (Inl e, s)"
  by (simp add: raise_p_def)

lemma reads_p_run [simp, prog_simps]: "reads_p f s = (Inr (f s), s)"
  by (simp add: reads_p_def)

lemma update_p_run [simp, prog_simps]: "update_p f s = (Inr (), f s)"
  by (simp add: update_p_def)

lemma result_p_run [simp, prog_simps]: "result_p r s = (r, s)"
  by (simp add: result_p_def)

lemma bind_p_ok [prog_simps]: "m s = (Inr x, s') \<Longrightarrow> bind_p m f s = f x s'"
  by (simp add: bind_p_def)

lemma bind_p_err [prog_simps]: "m s = (Inl e, s') \<Longrightarrow> bind_p m f s = (Inl e, s')"
  by (simp add: bind_p_def)

lemma then_p_ok [prog_simps]: "m s = (Inr x, s') \<Longrightarrow> then_p m k s = k s'"
  by (simp add: then_p_def bind_p_def)

lemma then_p_err [prog_simps]: "m s = (Inl e, s') \<Longrightarrow> then_p m k s = (Inl e, s')"
  by (simp add: then_p_def bind_p_def)

lemma catch_p_ok [prog_simps]: "m s = (Inr x, s') \<Longrightarrow> catch_p m h s = (Inr x, s')"
  by (simp add: catch_p_def)

lemma catch_p_err [prog_simps]: "m s = (Inl e, s') \<Longrightarrow> catch_p m h s = h e s'"
  by (simp add: catch_p_def)

lemma bind_p_cases:
  assumes "bind_p m f s = (r, t)"
  obtains (err) e where "m s = (Inl e, t)" "r = Inl e"
  | (ok) x s' where "m s = (Inr x, s')" "f x s' = (r, t)"
  using assms by (auto simp: bind_p_def split: prod.splits sum.splits)

lemma catch_p_cases:
  assumes "catch_p m h s = (r, t)"
  obtains (err) e s' where "m s = (Inl e, s')" "h e s' = (r, t)"
  | (ok) x where "m s = (Inr x, t)" "r = Inr x"
  using assms by (auto simp: catch_p_def split: prod.splits sum.splits)

lemma finally_p_cases:
  assumes "finally_p m f s = (r, t)"
  obtains (err) x s1 e where "m s = (x, s1)" "f s1 = (Inl e, t)" "r = Inl e"
  | (ok) s1 where "m s = (r, s1)" "f s1 = (Inr (), t)"
  using assms by (auto simp: finally_p_def split: prod.splits sum.splits)

section \<open>Properties that programs keep\<close>

text \<open>
  \<open>keeps I m\<close>: whenever \<open>I\<close> relates a fixed start state to the current state, it still does after
  \<open>m\<close>, whether \<open>m\<close> returns or raises. With a state property as \<open>I\<close> this is invariance; with a
  reflexive and transitive relation it bounds what a program can do to the state.
\<close>

definition keeps :: "('s \<Rightarrow> bool) \<Rightarrow> ('s, 'e, 'a) prog \<Rightarrow> bool" where
  "keeps I m \<longleftrightarrow> (\<forall>s. I s \<longrightarrow> I (snd (m s)))"

lemma keepsI: "(\<And>s. I s \<Longrightarrow> I (snd (m s))) \<Longrightarrow> keeps I m"
  by (simp add: keeps_def)

lemma keepsD: "keeps I m \<Longrightarrow> I s \<Longrightarrow> m s = (r, t) \<Longrightarrow> I t"
  unfolding keeps_def by (metis snd_conv)

lemma keeps_return [keeps_intros]: "keeps I (return_p x)"
  by (simp add: keeps_def)

lemma keeps_raise [keeps_intros]: "keeps I (raise_p e)"
  by (simp add: keeps_def)

lemma keeps_reads [keeps_intros]: "keeps I (reads_p f)"
  by (simp add: keeps_def)

lemma keeps_result [keeps_intros]: "keeps I (result_p r)"
  by (simp add: keeps_def)

lemma keeps_bind [keeps_intros]: "keeps I m \<Longrightarrow> (\<And>x. keeps I (f x)) \<Longrightarrow> keeps I (bind_p m f)"
  unfolding keeps_def bind_p_def by (auto split: prod.splits sum.splits)

lemma keeps_then [keeps_intros]: "keeps I m \<Longrightarrow> keeps I k \<Longrightarrow> keeps I (then_p m k)"
  unfolding then_p_def by (intro keeps_bind)

lemma keeps_catch [keeps_intros]: "keeps I m \<Longrightarrow> (\<And>e. keeps I (h e)) \<Longrightarrow> keeps I (catch_p m h)"
  unfolding keeps_def catch_p_def by (auto split: prod.splits sum.splits)

lemma keeps_finally [keeps_intros]: "keeps I m \<Longrightarrow> keeps I f \<Longrightarrow> keeps I (finally_p m f)"
  unfolding keeps_def finally_p_def by (auto split: prod.splits sum.splits)

lemma keeps_if [keeps_intros]:
  "(b \<Longrightarrow> keeps I m) \<Longrightarrow> (\<not> b \<Longrightarrow> keeps I k) \<Longrightarrow> keeps I (if b then m else k)"
  by simp

lemma keeps_case_option [keeps_intros]:
  "(v = None \<Longrightarrow> keeps I m) \<Longrightarrow> (\<And>x. v = Some x \<Longrightarrow> keeps I (f x))
    \<Longrightarrow> keeps I (case v of None \<Rightarrow> m | Some x \<Rightarrow> f x)"
  by (cases v) auto

lemma keeps_case_list [keeps_intros]:
  "(v = [] \<Longrightarrow> keeps I m) \<Longrightarrow> (\<And>x xs. v = x # xs \<Longrightarrow> keeps I (f x xs))
    \<Longrightarrow> keeps I (case v of [] \<Rightarrow> m | x # xs \<Rightarrow> f x xs)"
  by (cases v) auto

lemma keeps_each [keeps_intros]: "(\<And>x. keeps I (f x)) \<Longrightarrow> keeps I (each_p f xs)"
  by (induction xs) (auto intro: keeps_intros)

lemma keeps_case_sum [keeps_intros]:
  "(\<And>e. keeps I (g e)) \<Longrightarrow> (\<And>x. keeps I (f x)) \<Longrightarrow> keeps I (case v of Inl e \<Rightarrow> g e | Inr x \<Rightarrow> f x)"
  by (cases v) auto

lemma bind_result_Inr: "bind_p (result_p (Inr x)) f = f x"
  by (simp add: fun_eq_iff bind_p_def)

text \<open>\<open>yields I m Q\<close>: \<open>m\<close> keeps \<open>I\<close>, and a value it returns satisfies \<open>Q\<close>.\<close>

definition yields :: "('s \<Rightarrow> bool) \<Rightarrow> ('s, 'e, 'a) prog \<Rightarrow> ('a \<Rightarrow> bool) \<Rightarrow> bool" where
  "yields I m Q \<longleftrightarrow> (\<forall>s. I s \<longrightarrow> I (snd (m s)) \<and> (\<forall>x. fst (m s) = Inr x \<longrightarrow> Q x))"

lemma yieldsI:
  "(\<And>s r t. I s \<Longrightarrow> m s = (r, t) \<Longrightarrow> I t \<and> (\<forall>x. r = Inr x \<longrightarrow> Q x)) \<Longrightarrow> yields I m Q"
  unfolding yields_def by (metis prod.collapse)

lemma yieldsD: "yields I m Q \<Longrightarrow> I s \<Longrightarrow> m s = (r, t) \<Longrightarrow> I t \<and> (\<forall>x. r = Inr x \<longrightarrow> Q x)"
  unfolding yields_def by (metis fst_conv snd_conv)

lemma yields_keeps: "yields I m Q \<Longrightarrow> keeps I m"
  by (simp add: yields_def keeps_def)

lemma keeps_yields: "keeps I m \<Longrightarrow> yields I m (\<lambda>_. True)"
  by (simp add: yields_def keeps_def)

lemma yields_weaken: "yields I m Q \<Longrightarrow> (\<And>x. Q x \<Longrightarrow> R x) \<Longrightarrow> yields I m R"
  unfolding yields_def by blast

lemma yields_return [yields_intros]: "Q x \<Longrightarrow> yields I (return_p x) Q"
  by (simp add: yields_def)

lemma yields_raise [yields_intros]: "yields I (raise_p e) Q"
  by (simp add: yields_def)

lemma yields_result [yields_intros]: "(\<And>x. r = Inr x \<Longrightarrow> Q x) \<Longrightarrow> yields I (result_p r) Q"
  by (simp add: yields_def)

lemma yields_bind: "yields I m Q \<Longrightarrow> (\<And>x. Q x \<Longrightarrow> yields I (f x) R) \<Longrightarrow> yields I (bind_p m f) R"
  unfolding yields_def bind_p_def by (auto split: prod.splits sum.splits)

lemma yields_bind_keeps: "keeps I m \<Longrightarrow> (\<And>x. yields I (f x) R) \<Longrightarrow> yields I (bind_p m f) R"
  by (rule yields_bind [OF keeps_yields])

lemma yields_then: "keeps I m \<Longrightarrow> yields I k R \<Longrightarrow> yields I (then_p m k) R"
  unfolding then_p_def by (rule yields_bind_keeps)

lemma yields_catch: "yields I m Q \<Longrightarrow> (\<And>e. yields I (h e) Q) \<Longrightarrow> yields I (catch_p m h) Q"
  unfolding yields_def catch_p_def by (auto split: prod.splits sum.splits)

lemma yields_if [yields_intros]:
  "(b \<Longrightarrow> yields I m Q) \<Longrightarrow> (\<not> b \<Longrightarrow> yields I k Q) \<Longrightarrow> yields I (if b then m else k) Q"
  by simp

lemma yields_case_option [yields_intros]:
  "(v = None \<Longrightarrow> yields I m Q) \<Longrightarrow> (\<And>x. v = Some x \<Longrightarrow> yields I (f x) Q)
    \<Longrightarrow> yields I (case v of None \<Rightarrow> m | Some x \<Rightarrow> f x) Q"
  by (cases v) auto

lemma keeps_bind_yields: "yields I m Q \<Longrightarrow> (\<And>x. Q x \<Longrightarrow> keeps I (f x)) \<Longrightarrow> keeps I (bind_p m f)"
  unfolding yields_def keeps_def bind_p_def by (auto split: prod.splits sum.splits)

section \<open>Text\<close>

definition code :: "char \<Rightarrow> nat" where
  "code c = of_char c"

definition is_space :: "char \<Rightarrow> bool" where
  "is_space c \<longleftrightarrow> (9 \<le> code c \<and> code c \<le> 13) \<or> (28 \<le> code c \<and> code c \<le> 32)"

definition is_digit :: "char \<Rightarrow> bool" where
  "is_digit c \<longleftrightarrow> 48 \<le> code c \<and> code c \<le> 57"

definition is_upper :: "char \<Rightarrow> bool" where
  "is_upper c \<longleftrightarrow> 65 \<le> code c \<and> code c \<le> 90"

definition is_lower :: "char \<Rightarrow> bool" where
  "is_lower c \<longleftrightarrow> 97 \<le> code c \<and> code c \<le> 122"

definition is_alpha :: "char \<Rightarrow> bool" where
  "is_alpha c \<longleftrightarrow> is_upper c \<or> is_lower c"

definition lower_char :: "char \<Rightarrow> char" where
  "lower_char c = (if is_upper c then char_of (code c + 32) else c)"

definition upper_char :: "char \<Rightarrow> char" where
  "upper_char c = (if is_lower c then char_of (code c - 32) else c)"

definition casefold :: "string \<Rightarrow> string" where
  "casefold s = map lower_char s"

definition upper :: "string \<Rightarrow> string" where
  "upper s = map upper_char s"

definition strip_by :: "(char \<Rightarrow> bool) \<Rightarrow> string \<Rightarrow> string" where
  "strip_by p s = rev (dropWhile p (rev (dropWhile p s)))"

definition strip :: "string \<Rightarrow> string" where
  "strip = strip_by is_space"

definition rstrip_by :: "(char \<Rightarrow> bool) \<Rightarrow> string \<Rightarrow> string" where
  "rstrip_by p s = rev (dropWhile p (rev s))"

fun split_on :: "char \<Rightarrow> string \<Rightarrow> string list" where
  "split_on d [] = [[]]"
| "split_on d (c # cs) =
     (if c = d then [] # split_on d cs
      else (case split_on d cs of [] \<Rightarrow> [[c]] | w # ws \<Rightarrow> (c # w) # ws))"

fun join_with :: "string \<Rightarrow> string list \<Rightarrow> string" where
  "join_with sep [] = []"
| "join_with sep [w] = w"
| "join_with sep (w # v # ws) = w @ sep @ join_with sep (v # ws)"

fun contains :: "string \<Rightarrow> string \<Rightarrow> bool" where
  "contains pat [] = (pat = [])"
| "contains pat (c # cs) = (prefix pat (c # cs) \<or> contains pat cs)"

function decimal_nat :: "nat \<Rightarrow> string" where
  "decimal_nat n =
     (if n < 10 then [char_of (48 + n)] else decimal_nat (n div 10) @ [char_of (48 + n mod 10)])"
  by pat_completeness auto
termination by (relation "measure id") auto

declare decimal_nat.simps [simp del]

definition decimal :: "int \<Rightarrow> string" where
  "decimal i = (if i < 0 then ''-'' @ decimal_nat (nat (- i)) else decimal_nat (nat i))"

text \<open>\<open>str.count\<close> counts disjoint occurrences from the left; \<open>s.replace(pat, rep, 1)\<close> replaces the
  first one.\<close>

function count_sub :: "string \<Rightarrow> string \<Rightarrow> nat" where
  "count_sub pat s =
     (if pat = [] then length s + 1
      else if s = [] then 0
      else if prefix pat s then 1 + count_sub pat (drop (length pat) s)
      else count_sub pat (tl s))"
  by pat_completeness auto
termination by (relation "measure (\<lambda>(pat, s). length s)") auto

declare count_sub.simps [simp del]

fun replace_first :: "string \<Rightarrow> string \<Rightarrow> string \<Rightarrow> string" where
  "replace_first pat rep [] = (if pat = [] then rep else [])"
| "replace_first pat rep (c # cs) =
     (if prefix pat (c # cs) then rep @ drop (length pat) (c # cs)
      else c # replace_first pat rep cs)"

text \<open>\<open>repr\<close> of a string.\<close>

definition hex_digit :: "nat \<Rightarrow> char" where
  "hex_digit n = char_of (if n < 10 then 48 + n else 87 + n)"

definition repr_char :: "char \<Rightarrow> char \<Rightarrow> string" where
  "repr_char q c =
     (if c = q \<or> c = CHR 0x5C then [CHR 0x5C, c]
      else if c = CHR 0x0A then [CHR 0x5C, CHR ''n'']
      else if c = CHR 0x0D then [CHR 0x5C, CHR ''r'']
      else if c = CHR 0x09 then [CHR 0x5C, CHR ''t'']
      else if code c < 32 \<or> code c = 127
      then [CHR 0x5C, CHR ''x'', hex_digit (code c div 16), hex_digit (code c mod 16)]
      else [c])"

definition py_repr :: "string \<Rightarrow> string" where
  "py_repr s =
     (let q = (if CHR 0x27 \<in> set s \<and> CHR 0x22 \<notin> set s then CHR 0x22 else CHR 0x27)
      in q # concat (map (repr_char q) s) @ [q])"

text \<open>\<open>re.sub("[^...]+", d, s)\<close>: every maximal run of characters outside the class becomes one \<open>d\<close>.\<close>

fun collapse_runs :: "(char \<Rightarrow> bool) \<Rightarrow> char \<Rightarrow> string \<Rightarrow> string" where
  "collapse_runs keep d [] = []"
| "collapse_runs keep d (c # cs) =
     (if keep c then c # collapse_runs keep d cs
      else if cs = [] \<or> keep (hd cs) then d # collapse_runs keep d cs
      else collapse_runs keep d cs)"

fun first_some :: "('a \<Rightarrow> 'b option) \<Rightarrow> 'a list \<Rightarrow> 'b option" where
  "first_some f [] = None"
| "first_some f (x # xs) = (case f x of Some y \<Rightarrow> Some y | None \<Rightarrow> first_some f xs)"

text \<open>\<open>list(dict.fromkeys(xs))\<close>: the first occurrence of each element, in order.\<close>

fun first_occurrences :: "'a list \<Rightarrow> 'a list" where
  "first_occurrences [] = []"
| "first_occurrences (x # xs) = x # first_occurrences (filter (\<lambda>y. y \<noteq> x) xs)"

section \<open>Facts about text\<close>

lemma lower_char_idem [simp]: "lower_char (lower_char c) = lower_char c"
proof (cases "is_upper c")
  case True
  then have "code c + 32 < 256" by (simp add: is_upper_def)
  then have "\<not> is_upper (char_of (code c + 32))"
    using True by (simp add: is_upper_def code_def)
  with True show ?thesis by (simp add: lower_char_def)
qed (simp add: lower_char_def)

lemma casefold_idem [simp]: "casefold (casefold s) = casefold s"
  by (simp add: casefold_def)

lemma casefold_append [simp]: "casefold (s @ t) = casefold s @ casefold t"
  by (simp add: casefold_def)

lemma length_casefold [simp]: "length (casefold s) = length s"
  by (simp add: casefold_def)

lemma contains_iff: "contains pat s \<longleftrightarrow> sublist pat s"
  by (induction s) (auto simp: sublist_Cons_right)

lemma contains_set: "contains pat s \<Longrightarrow> set pat \<subseteq> set s"
  by (auto simp: contains_iff sublist_def)

lemma split_on_ne [simp]: "split_on d s \<noteq> []"
  by (induction s) (auto split: list.splits)

lemma join_split [simp]: "join_with [d] (split_on d s) = s"
proof (induction s)
  case (Cons c cs)
  then obtain w ws where w: "split_on d cs = w # ws" by (cases "split_on d cs") auto
  with Cons show ?case by (cases ws) auto
qed simp

lemma split_on_no_sep: "w \<in> set (split_on d s) \<Longrightarrow> d \<notin> set w"
proof (induction s arbitrary: w)
  case (Cons c cs)
  then show ?case by (cases "split_on d cs") (auto split: if_splits)
qed simp

lemma first_some_Some: "first_some f xs = Some y \<Longrightarrow> \<exists>x \<in> set xs. f x = Some y"
  by (induction xs) (auto split: option.splits)

lemma first_some_None: "first_some f xs = None \<longleftrightarrow> (\<forall>x \<in> set xs. f x = None)"
  by (induction xs) (auto split: option.splits)

lemma set_first_occurrences [simp]: "set (first_occurrences xs) = set xs"
  by (induction xs rule: first_occurrences.induct) auto

lemma distinct_first_occurrences [simp]: "distinct (first_occurrences xs)"
  by (induction xs rule: first_occurrences.induct) auto

lemma set_collapse_runs: "c \<in> set (collapse_runs keep d s) \<Longrightarrow> keep c \<or> c = d"
  by (induction s) (auto split: if_splits)

lemma set_strip_by: "set (strip_by p s) \<subseteq> set s"
  unfolding strip_by_def by (auto dest!: set_dropWhileD)

text \<open>
  A pattern whose first character occurs nowhere else in it has no two overlapping occurrences:
  its count is the number of positions where it starts.
\<close>

definition headed :: "char \<Rightarrow> string \<Rightarrow> bool" where
  "headed c pat \<longleftrightarrow> (\<exists>cs. pat = c # cs \<and> c \<notin> set cs)"

fun positions :: "string \<Rightarrow> string \<Rightarrow> nat" where
  "positions pat [] = 0"
| "positions pat (c # cs) = (if prefix pat (c # cs) then 1 else 0) + positions pat cs"

lemma positions_skip: "headed c pat \<Longrightarrow> c \<notin> set a \<Longrightarrow> positions pat (a @ b) = positions pat b"
  by (induction a) (auto simp: headed_def)

lemma count_sub_positions: "headed c pat \<Longrightarrow> count_sub pat s = positions pat s"
proof (induction s rule: length_induct)
  case (1 s)
  show ?case
  proof (cases s)
    case Nil
    with 1 show ?thesis by (subst count_sub.simps) (auto simp: headed_def)
  next
    case (Cons x xs)
    from 1(2) obtain cs where pat: "pat = c # cs" "c \<notin> set cs" by (auto simp: headed_def)
    show ?thesis
    proof (cases "prefix pat s")
      case True
      then obtain r where r: "xs = cs @ r" "x = c" using Cons pat by (auto simp: prefix_def)
      then have "count_sub pat r = positions pat r" using 1 Cons by simp
      moreover have "positions pat xs = positions pat r"
        using positions_skip [OF 1(2) pat(2)] r by simp
      ultimately show ?thesis
        using True Cons pat r by (subst count_sub.simps) simp
    next
      case False
      then have "count_sub pat s = count_sub pat xs"
        using Cons pat False by (subst count_sub.simps) (simp only: list.simps if_False list.sel refl if_True simp_thms)
      moreover have "count_sub pat xs = positions pat xs" using 1 Cons by simp
      ultimately show ?thesis using False Cons by simp
    qed
  qed
qed

lemma headed_prefix_append:
  assumes "headed c p" "headed c q" "a \<noteq> []"
  shows "prefix p (a @ q @ b) \<longleftrightarrow> prefix p a"
proof
  assume p: "prefix p (a @ q @ b)"
  show "prefix p a"
  proof (rule ccontr)
    assume "\<not> prefix p a"
    with p have "prefix a p"
      by (metis prefix_same_cases prefixI)
    then obtain r where r: "p = a @ r" by (auto simp: prefix_def)
    with p have "prefix r (q @ b)" by simp
    moreover have "r \<noteq> []" using \<open>\<not> prefix p a\<close> r by auto
    ultimately have "c \<in> set r"
      using assms(2) by (cases r) (auto simp: headed_def)
    with r assms(1,3) show False by (cases a) (auto simp: headed_def)
  qed
qed (simp add: prefix_def, metis append_assoc)

lemma positions_split:
  assumes "headed c p" "headed c q"
  shows "positions p (a @ q @ b) =
    positions p a + (if prefix p (q @ b) then 1 else 0) + positions p b"
proof (induction a)
  case Nil
  from assms(2) obtain cs where q: "q = c # cs" "c \<notin> set cs" by (auto simp: headed_def)
  then show ?case using positions_skip [OF assms(1), of cs b] by simp
next
  case (Cons x xs)
  moreover have "prefix p (x # xs @ q @ b) \<longleftrightarrow> prefix p (x # xs)"
    using headed_prefix_append [OF assms, of "x # xs" b] by simp
  ultimately show ?case by simp
qed

lemma positions_pos: "0 < positions p s \<Longrightarrow> \<exists>a b. s = a @ p @ b"
proof (induction s)
  case (Cons x xs)
  show ?case
  proof (cases "prefix p (x # xs)")
    case True
    then show ?thesis by (metis append_Nil prefix_def)
  next
    case False
    with Cons obtain a b where "xs = a @ p @ b" by auto
    then have "x # xs = (x # a) @ p @ b" by simp
    then show ?thesis by blast
  qed
qed simp

lemma replace_first_split:
  "p \<noteq> [] \<Longrightarrow> 0 < positions p s \<Longrightarrow> \<exists>a b. s = a @ p @ b \<and> replace_first p r s = a @ r @ b"
proof (induction s)
  case (Cons x xs)
  show ?case
  proof (cases "prefix p (x # xs)")
    case True
    then obtain b where b: "x # xs = p @ b" by (auto simp: prefix_def)
    then have "drop (length p) (x # xs) = b" by simp
    with True have "replace_first p r (x # xs) = [] @ r @ b" by (simp del: drop.simps)
    with b show ?thesis by (metis append_Nil)
  next
    case False
    with Cons obtain a b where "xs = a @ p @ b" "replace_first p r xs = a @ r @ b" by auto
    with False show ?thesis by (intro exI [of _ "x # a"] exI [of _ b]) simp
  qed
qed simp

end
