(* ===== verification/Py_Values.thy ===== *)
theory Py_Values
  imports Rescue_Prelude Complex_Main
begin

text \<open>
  Python's \<open>float\<close> and the JSON values of the program's dictionaries.

  A \<^verbatim>\<open>float\<close> is a finite rational, the negative zero, one of the infinities or NaN. Comparisons
  are those of IEEE 754 (NaN compares false with everything), the arithmetic operations round the
  exact rational result to the nearest double, ties to even, and \<open>fmt2\<close> is the format \<open>.2f\<close>. A
  decimal literal of the source is \<open>dbl q\<close>, the double next to \<open>q\<close>.
\<close>

datatype pyfloat = Fin rat | NegZero | Inf | NegInf | NaN

section \<open>Comparison\<close>

fun finite_value :: "pyfloat \<Rightarrow> rat option" where
  "finite_value (Fin q) = Some q"
| "finite_value NegZero = Some 0"
| "finite_value _ = None"

fun fle :: "pyfloat \<Rightarrow> pyfloat \<Rightarrow> bool" where
  "fle NaN _ = False"
| "fle _ NaN = False"
| "fle NegInf _ = True"
| "fle _ Inf = True"
| "fle Inf _ = False"
| "fle _ NegInf = False"
| "fle x y = (the (finite_value x) \<le> the (finite_value y))"

definition feq :: "pyfloat \<Rightarrow> pyfloat \<Rightarrow> bool" where
  "feq x y \<longleftrightarrow> fle x y \<and> fle y x"

definition flt :: "pyfloat \<Rightarrow> pyfloat \<Rightarrow> bool" where
  "flt x y \<longleftrightarrow> fle x y \<and> \<not> fle y x"

fun fabs :: "pyfloat \<Rightarrow> pyfloat" where
  "fabs (Fin q) = Fin \<bar>q\<bar>"
| "fabs NegZero = Fin 0"
| "fabs NegInf = Inf"
| "fabs x = x"

lemma fle_NaN [simp]: "\<not> fle NaN y" "\<not> fle x NaN"
  by simp (cases x; simp)

lemma fle_refl: "x \<noteq> NaN \<Longrightarrow> fle x x"
  by (cases x) auto

lemma fle_trans: "fle x y \<Longrightarrow> fle y z \<Longrightarrow> fle x z"
  by (cases x; cases y; cases z; simp)

lemma fle_total: "x \<noteq> NaN \<Longrightarrow> y \<noteq> NaN \<Longrightarrow> fle x y \<or> fle y x"
  by (cases x; cases y) auto

lemma flt_iff: "x \<noteq> NaN \<Longrightarrow> y \<noteq> NaN \<Longrightarrow> flt x y \<longleftrightarrow> \<not> fle y x"
  using fle_total by (auto simp: flt_def)

lemma fle_Inf_finite: "\<not> fle Inf (Fin q)"
  by simp

lemma fabs_eq_NaN [simp]: "fabs x = NaN \<longleftrightarrow> x = NaN"
  by (cases x) auto

lemma fabs_le_finite:
  "fle (fabs x) (Fin b) \<longleftrightarrow> (\<exists>q. finite_value x = Some q \<and> - b \<le> q \<and> q \<le> b)"
  by (cases x) auto

lemma finite_le:
  "fle (Fin a) x \<Longrightarrow> fle x (Fin b) \<Longrightarrow> \<exists>q. finite_value x = Some q \<and> a \<le> q \<and> q \<le> b"
  by (cases x) auto

section \<open>Rounding to a double\<close>

text \<open>\<open>rne\<close> rounds to the nearest integer, ties to even.\<close>

definition rne :: "rat \<Rightarrow> int" where
  "rne q = (let n = \<lfloor>q\<rfloor>; d = q - of_int n
     in if d < 1/2 then n else if d > 1/2 then n + 1 else if even n then n else n + 1)"

definition pow2 :: "int \<Rightarrow> rat" where
  "pow2 e = (if 0 \<le> e then 2 ^ nat e else 1 / 2 ^ nat (- e))"

function ilog2 :: "int \<Rightarrow> int" where
  "ilog2 n = (if n < 2 then 0 else ilog2 (n div 2) + 1)"
  by pat_completeness auto
termination by (relation "measure nat") auto

declare ilog2.simps [simp del]

text \<open>The exponent \<open>e\<close> with \<open>2 ^ e \<le> q < 2 ^ (e + 1)\<close>, for a positive \<open>q\<close>.\<close>

definition floor_log2 :: "rat \<Rightarrow> int" where
  "floor_log2 q = (case quotient_of q of (a, b) \<Rightarrow>
     let e = ilog2 a - ilog2 b
     in if pow2 e \<le> q then e else e - 1)"

text \<open>The spacing of the doubles around a positive \<open>q\<close>: 53 significant bits, subnormals below
  \<open>2 ^ -1022\<close>.\<close>

definition spacing :: "rat \<Rightarrow> rat" where
  "spacing q = pow2 (max (floor_log2 q - 52) (-1074))"

definition signed_zero :: "bool \<Rightarrow> pyfloat" where
  "signed_zero neg = (if neg then NegZero else Fin 0)"

definition round_double :: "rat \<Rightarrow> pyfloat" where
  "round_double q =
     (if q = 0 then Fin 0
      else let u = spacing \<bar>q\<bar>; m = of_int (rne (\<bar>q\<bar> / u)) * u
       in if m = 0 then signed_zero (q < 0)
          else if 1024 \<le> floor_log2 m then (if q < 0 then NegInf else Inf)
          else Fin (if q < 0 then - m else m))"

definition dbl :: "rat \<Rightarrow> pyfloat" where
  "dbl q = round_double q"

fun negative :: "pyfloat \<Rightarrow> bool" where
  "negative (Fin q) = (q < 0)"
| "negative NegZero = True"
| "negative NegInf = True"
| "negative _ = False"

definition round_signed :: "bool \<Rightarrow> rat \<Rightarrow> pyfloat" where
  "round_signed neg q = (if q = 0 then signed_zero neg else round_double q)"

lemma rne_of_int [simp]: "rne (of_int n) = n"
  by (simp add: rne_def)

lemma rne_zero [simp]: "rne 0 = 0"
  using rne_of_int [of 0] by simp

lemma rne_close: "\<bar>q - of_int (rne q)\<bar> \<le> 1/2"
proof -
  define n where "n = \<lfloor>q\<rfloor>"
  have "of_int n \<le> q" "q < of_int n + 1"
    unfolding n_def by linarith+
  then show ?thesis
    unfolding rne_def Let_def n_def [symmetric] by (auto simp: abs_if)
qed

lemma round_double_zero [simp]: "round_double 0 = Fin 0"
  by (simp add: round_double_def)

lemma pow2_pos: "0 < pow2 e"
  by (simp add: pow2_def)

lemma round_double_never_NaN: "round_double q \<noteq> NaN"
  by (simp add: round_double_def signed_zero_def Let_def)

text \<open>Rounding moves a value by at most half a spacing.\<close>

lemma round_double_error:
  assumes "round_double q = Fin r" "q \<noteq> 0"
  shows "\<bar>r - q\<bar> \<le> spacing \<bar>q\<bar> / 2"
proof -
  define u where "u = spacing \<bar>q\<bar>"
  define m where "m = of_int (rne (\<bar>q\<bar> / u)) * u"
  have u: "0 < u" by (simp add: u_def spacing_def pow2_pos)
  have "\<bar>\<bar>q\<bar> / u - of_int (rne (\<bar>q\<bar> / u))\<bar> * u \<le> 1/2 * u"
    using rne_close [of "\<bar>q\<bar> / u"] u by (intro mult_right_mono) auto
  moreover have "\<bar>\<bar>q\<bar> / u - of_int (rne (\<bar>q\<bar> / u))\<bar> * u = \<bar>\<bar>q\<bar> - m\<bar>"
  proof -
    have "(\<bar>q\<bar> / u - of_int (rne (\<bar>q\<bar> / u))) * u = \<bar>q\<bar> - m"
      using u by (simp add: m_def left_diff_distrib)
    then show ?thesis
      using u by (metis abs_mult abs_of_pos)
  qed
  ultimately have close: "\<bar>\<bar>q\<bar> - m\<bar> \<le> u / 2" by simp
  have "r = (if q < 0 then - m else m)"
    using assms unfolding round_double_def Let_def u_def [symmetric] m_def [symmetric]
    by (simp add: signed_zero_def split: if_split_asm)
  with close show ?thesis
    by (auto simp: u_def abs_if split: if_splits)
qed

section \<open>Arithmetic\<close>

fun fneg :: "pyfloat \<Rightarrow> pyfloat" where
  "fneg (Fin q) = (if q = 0 then NegZero else Fin (- q))"
| "fneg NegZero = Fin 0"
| "fneg Inf = NegInf"
| "fneg NegInf = Inf"
| "fneg NaN = NaN"

fun fadd :: "pyfloat \<Rightarrow> pyfloat \<Rightarrow> pyfloat" where
  "fadd NaN _ = NaN"
| "fadd _ NaN = NaN"
| "fadd Inf y = (if y = NegInf then NaN else Inf)"
| "fadd NegInf y = (if y = Inf then NaN else NegInf)"
| "fadd _ Inf = Inf"
| "fadd _ NegInf = NegInf"
| "fadd x y = round_signed (x = NegZero \<and> y = NegZero)
     (the (finite_value x) + the (finite_value y))"

definition fsub :: "pyfloat \<Rightarrow> pyfloat \<Rightarrow> pyfloat" where
  "fsub x y = fadd x (fneg y)"

definition signed_inf :: "bool \<Rightarrow> pyfloat" where
  "signed_inf neg = (if neg then NegInf else Inf)"

definition fmul :: "pyfloat \<Rightarrow> pyfloat \<Rightarrow> pyfloat" where
  "fmul x y =
     (if x = NaN \<or> y = NaN then NaN
      else let neg = (negative x \<noteq> negative y) in
       case (finite_value x, finite_value y) of
         (Some a, Some b) \<Rightarrow> round_signed neg (a * b)
       | (Some a, None) \<Rightarrow> if a = 0 then NaN else signed_inf neg
       | (None, Some b) \<Rightarrow> if b = 0 then NaN else signed_inf neg
       | (None, None) \<Rightarrow> signed_inf neg)"

text \<open>True division; the caller has excluded a zero divisor, where Python raises.\<close>

definition fdiv :: "pyfloat \<Rightarrow> pyfloat \<Rightarrow> pyfloat" where
  "fdiv x y =
     (if x = NaN \<or> y = NaN then NaN
      else let neg = (negative x \<noteq> negative y) in
       case (finite_value x, finite_value y) of
         (Some a, Some b) \<Rightarrow> round_signed neg (a / b)
       | (Some a, None) \<Rightarrow> signed_zero neg
       | (None, Some b) \<Rightarrow> signed_inf neg
       | (None, None) \<Rightarrow> NaN)"

text \<open>\<open>float(n)\<close> for an integer, and the true division \<open>a / b\<close> of integers.\<close>

definition float_of_int :: "int \<Rightarrow> pyfloat" where
  "float_of_int n = round_double (of_int n)"

definition int_truediv :: "int \<Rightarrow> int \<Rightarrow> pyfloat" where
  "int_truediv a b = round_double (of_int a / of_int b)"

lemma fsub_self: "finite_value x \<noteq> None \<Longrightarrow> fsub x x = Fin 0"
  by (cases x) (auto simp: fsub_def round_signed_def signed_zero_def)

section \<open>The format .2f\<close>

definition two_digits :: "nat \<Rightarrow> string" where
  "two_digits n = [char_of (48 + n div 10), char_of (48 + n mod 10)]"

definition hundredths :: "nat \<Rightarrow> string" where
  "hundredths n = decimal_nat (n div 100) @ ''.'' @ two_digits (n mod 100)"

fun fmt2 :: "pyfloat \<Rightarrow> string" where
  "fmt2 (Fin q) = (if q < 0 then ''-'' else '''') @ hundredths (nat (rne (\<bar>q\<bar> * 100)))"
| "fmt2 NegZero = ''-0.00''"
| "fmt2 Inf = ''inf''"
| "fmt2 NegInf = ''-inf''"
| "fmt2 NaN = ''nan''"

section \<open>JSON values\<close>

text \<open>
  A dictionary is the list of its items in insertion order. \<open>jget d k\<close> is \<open>d.get(k)\<close>: a missing
  key and a null give the same value.
\<close>

datatype json =
    JNull
  | JBool bool
  | JInt int
  | JFloat pyfloat
  | JStr string
  | JList "json list"
  | JDict "(string \<times> json) list"

type_synonym jdict = "(string \<times> json) list"

definition jget :: "jdict \<Rightarrow> string \<Rightarrow> json" where
  "jget d k = (case map_of d k of Some v \<Rightarrow> v | None \<Rightarrow> JNull)"

definition has_key :: "jdict \<Rightarrow> string \<Rightarrow> bool" where
  "has_key d k \<longleftrightarrow> map_of d k \<noteq> None"

fun truthy :: "json \<Rightarrow> bool" where
  "truthy JNull = False"
| "truthy (JBool b) = b"
| "truthy (JInt i) = (i \<noteq> 0)"
| "truthy (JFloat f) = (\<not> feq f (Fin 0))"
| "truthy (JStr s) = (s \<noteq> [])"
| "truthy (JList xs) = (xs \<noteq> [])"
| "truthy (JDict d) = (d \<noteq> [])"

definition or_else :: "json \<Rightarrow> json \<Rightarrow> json" where
  "or_else a b = (if truthy a then a else b)"

section \<open>JSON text of strings\<close>

text \<open>
  \<^verbatim>\<open>json.dumps\<close> of an ASCII string: the short escapes, \<open>\u00XX\<close> for the other characters outside the
  range from space to tilde, every other character as it is. The code is prefix free, so a quoted
  string can be read back from any text it begins.
\<close>

definition json_escape :: "char \<Rightarrow> string" where
  "json_escape c =
     (if c = CHR 0x22 \<or> c = CHR 0x5C then [CHR 0x5C, c]
      else if c = CHR 0x0A then [CHR 0x5C, CHR ''n'']
      else if c = CHR 0x0D then [CHR 0x5C, CHR ''r'']
      else if c = CHR 0x09 then [CHR 0x5C, CHR ''t'']
      else if c = CHR 0x08 then [CHR 0x5C, CHR ''b'']
      else if c = CHR 0x0C then [CHR 0x5C, CHR ''f'']
      else if code c < 32 \<or> 126 < code c
      then [CHR 0x5C, CHR ''u'', CHR ''0'', CHR ''0'', hex_digit (code c div 16), hex_digit (code c mod 16)]
      else [c])"

definition json_quote :: "string \<Rightarrow> string" where
  "json_quote s = CHR 0x22 # concat (map json_escape s) @ [CHR 0x22]"

lemma hex_digit_inj: "m < 16 \<Longrightarrow> n < 16 \<Longrightarrow> hex_digit m = hex_digit n \<longleftrightarrow> m = n"
  by (auto simp: hex_digit_def split: if_splits dest!: arg_cong [of _ _ "of_char :: char \<Rightarrow> nat"])

lemma code_bound [simp]: "code c < 256"
  by (simp add: code_def)

lemma code_inj: "code c = code d \<longleftrightarrow> c = d"
  by (simp add: code_def)

lemma hex_pair_inj:
  "hex_digit (code c div 16) = hex_digit (code d div 16) \<and> hex_digit (code c mod 16) = hex_digit (code d mod 16)
     \<longleftrightarrow> c = d"
proof -
  have "code c div 16 < 16" "code d div 16 < 16"
    using code_bound [of c] code_bound [of d] by linarith+
  moreover have "code c div 16 = code d div 16 \<and> code c mod 16 = code d mod 16 \<longleftrightarrow> code c = code d"
    by (metis div_mult_mod_eq)
  ultimately show ?thesis by (simp add: hex_digit_inj code_inj)
qed

lemma json_escape_prefix_free: "json_escape c @ x = json_escape d @ y \<longleftrightarrow> c = d \<and> x = y"
  using hex_pair_inj [of c d] by (auto simp: json_escape_def split: if_splits)

lemma json_escape_head: "\<exists>h t. json_escape c = h # t \<and> h \<noteq> CHR 0x22"
  by (auto simp: json_escape_def)

lemma json_quote_prefix_free: "json_quote s @ x = json_quote t @ y \<longleftrightarrow> s = t \<and> x = y"
proof -
  have "concat (map json_escape s) @ CHR 0x22 # x = concat (map json_escape t) @ CHR 0x22 # y \<longleftrightarrow> s = t \<and> x = y"
  proof (induction s arbitrary: t)
    case Nil
    then show ?case using json_escape_head by (cases t) (auto, metis list.inject append_Cons)
  next
    case (Cons c cs)
    show ?case
    proof (cases t)
      case Nil
      with json_escape_head [of c] show ?thesis by auto
    next
      case (Cons d ds)
      with Cons.IH [of ds] json_escape_prefix_free [of c _ d] show ?thesis by auto
    qed
  qed
  then show ?thesis by (simp add: json_quote_def)
qed

section \<open>Library functions on JSON text\<close>

text \<open>
  Three functions of the standard library that the program applies to whole JSON values stay
  parameters, collected in a record: \<^verbatim>\<open>json.loads\<close> (None where it raises \<^verbatim>\<open>JSONDecodeError\<close>),
  \<^verbatim>\<open>json.dumps(value, sort_keys=True)\<close>, and \<^verbatim>\<open>str\<close> of a value that is not a string. Every theorem holds
  for whatever they are.
\<close>

record json_lib =
  lib_loads :: "string \<Rightarrow> json option"
  lib_dumps :: "json \<Rightarrow> string"
  lib_str :: "json \<Rightarrow> string"

definition py_str :: "json_lib \<Rightarrow> json \<Rightarrow> string" where
  "py_str lib v = (case v of JStr s \<Rightarrow> s | _ \<Rightarrow> lib_str lib v)"

lemma py_str_JStr [simp]: "py_str lib (JStr s) = s"
  by (simp add: py_str_def)

end
