(* ===== verification/Models.thy ===== *)
theory Models
  imports Py_Values
begin

text \<open>
  The data model of \<^verbatim>\<open>apps/api/models.py\<close>: its enumerations as datatypes with the members in the
  source's order, its pydantic models as records, and the exceptions the components raise.

  Record fields carry a short prefix that names their class (\<open>sf_\<close> for \<^verbatim>\<open>SchemaField\<close>, \<open>ca_\<close> for
  \<^verbatim>\<open>CandidateAssessment\<close>, and so on). A timestamp is the integer number of microseconds since the
  epoch. The payload of a stored event is a value of \<open>payload\<close>, one constructor per shape of
  dictionary the workflow appends; it is written and read back as the same value, so the JSON text
  between \<^verbatim>\<open>model_dump\<close> and \<^verbatim>\<open>model_validate\<close> does not appear.
\<close>

section \<open>Enumerations\<close>

datatype case_state =
    DETECTED | CONTEXT_GATHERED | CANDIDATES_READY | VALIDATING | PATCH_READY | PR_OPEN
  | DEPLOYED | POST_DEPLOY_VERIFIED | RESOLVED | CONTAINED | FAILED

datatype event_type =
    SYSTEM_RESET | SCHEMA_CHANGE_DETECTED | INCIDENT_RAISED | E_CONTEXT_GATHERED
  | E_CANDIDATES_READY | VALIDATION_STARTED | CANDIDATE_ASSESSED | E_PATCH_READY
  | EVIDENCE_WRITTEN | PR_ATTEMPTED | PR_OPENED | DEPLOYMENT_RECORDED
  | E_POST_DEPLOY_VERIFIED | INCIDENT_RESOLVED | E_CONTAINED | E_FAILED

datatype integration_status =
    SUCCEEDED | RECORDED_REPLAY | NOT_CONFIGURED | NOT_RUN | I_FAILED

datatype semantic_verdict = MATCH | CONFLICT | MISSING

datatype candidate_outcome = REJECTED | ELIGIBLE | SELECTED

fun case_state_value :: "case_state \<Rightarrow> string" where
  "case_state_value DETECTED = ''DETECTED''"
| "case_state_value CONTEXT_GATHERED = ''CONTEXT_GATHERED''"
| "case_state_value CANDIDATES_READY = ''CANDIDATES_READY''"
| "case_state_value VALIDATING = ''VALIDATING''"
| "case_state_value PATCH_READY = ''PATCH_READY''"
| "case_state_value PR_OPEN = ''PR_OPEN''"
| "case_state_value DEPLOYED = ''DEPLOYED''"
| "case_state_value POST_DEPLOY_VERIFIED = ''POST_DEPLOY_VERIFIED''"
| "case_state_value RESOLVED = ''RESOLVED''"
| "case_state_value CONTAINED = ''CONTAINED''"
| "case_state_value FAILED = ''FAILED''"

fun integration_status_value :: "integration_status \<Rightarrow> string" where
  "integration_status_value SUCCEEDED = ''SUCCEEDED''"
| "integration_status_value RECORDED_REPLAY = ''RECORDED_REPLAY''"
| "integration_status_value NOT_CONFIGURED = ''NOT_CONFIGURED''"
| "integration_status_value NOT_RUN = ''NOT_RUN''"
| "integration_status_value I_FAILED = ''FAILED''"

fun semantic_verdict_value :: "semantic_verdict \<Rightarrow> string" where
  "semantic_verdict_value MATCH = ''MATCH''"
| "semantic_verdict_value CONFLICT = ''CONFLICT''"
| "semantic_verdict_value MISSING = ''MISSING''"

section \<open>Exceptions\<close>

text \<open>
  One constructor per exception class the program raises or distinguishes, with what its handlers
  read. \<^verbatim>\<open>InvalidStateTransition\<close>, \<^verbatim>\<open>SQLSafetyError\<close>, \<^verbatim>\<open>JSONDecodeError\<close> and pydantic's
  \<^verbatim>\<open>ValidationError\<close> are subclasses of \<^verbatim>\<open>ValueError\<close>; \<^verbatim>\<open>AssetNotAllowedError\<close> and
  \<^verbatim>\<open>HTTPAssetOutOfScopeError\<close> of \<^verbatim>\<open>PermissionError\<close>; \<open>HTTPStatusError\<close> and \<open>RequestError\<close> are the two
  branches of \<^verbatim>\<open>httpx.HTTPError\<close>. \<open>SubprocessError\<close> and \<open>OSErr\<close> carry the name of the concrete class,
  and \<open>Other\<close> is any further class by its name.
\<close>

datatype exn =
    ValueError string
  | InvalidStateTransition string
  | SQLSafetyError string
  | ValidationError string
  | JSONDecodeError string
  | DuplicateEventError string
  | EventConflictError string string
  | CaseNotFoundError string
  | AssetNotAllowedError string
  | HTTPAssetOutOfScopeError string
  | RuntimeError string
  | KeyErr string
  | TypeErr string
  | AttributeErr string
  | IntegrityError string
  | HTTPStatusError int string
  | RequestError string string
  | OSErr string string
  | SubprocessError string string
  | Other string string

fun is_value_error :: "exn \<Rightarrow> bool" where
  "is_value_error (ValueError _) = True"
| "is_value_error (InvalidStateTransition _) = True"
| "is_value_error (SQLSafetyError _) = True"
| "is_value_error (ValidationError _) = True"
| "is_value_error (JSONDecodeError _) = True"
| "is_value_error _ = False"

fun is_http_error :: "exn \<Rightarrow> bool" where
  "is_http_error (HTTPStatusError _ _) = True"
| "is_http_error (RequestError _ _) = True"
| "is_http_error _ = False"

fun is_permission_error :: "exn \<Rightarrow> bool" where
  "is_permission_error (AssetNotAllowedError _) = True"
| "is_permission_error (HTTPAssetOutOfScopeError _) = True"
| "is_permission_error (OSErr n _) = (n = ''PermissionError'')"
| "is_permission_error _ = False"

fun is_key_error :: "exn \<Rightarrow> bool" where
  "is_key_error (KeyErr _) = True"
| "is_key_error _ = False"

fun is_type_error :: "exn \<Rightarrow> bool" where
  "is_type_error (TypeErr _) = True"
| "is_type_error _ = False"

fun type_name :: "exn \<Rightarrow> string" where
  "type_name (ValueError _) = ''ValueError''"
| "type_name (InvalidStateTransition _) = ''InvalidStateTransition''"
| "type_name (SQLSafetyError _) = ''SQLSafetyError''"
| "type_name (ValidationError _) = ''ValidationError''"
| "type_name (JSONDecodeError _) = ''JSONDecodeError''"
| "type_name (DuplicateEventError _) = ''DuplicateEventError''"
| "type_name (EventConflictError _ _) = ''EventConflictError''"
| "type_name (CaseNotFoundError _) = ''CaseNotFoundError''"
| "type_name (AssetNotAllowedError _) = ''AssetNotAllowedError''"
| "type_name (HTTPAssetOutOfScopeError _) = ''HTTPAssetOutOfScopeError''"
| "type_name (RuntimeError _) = ''RuntimeError''"
| "type_name (KeyErr _) = ''KeyError''"
| "type_name (TypeErr _) = ''TypeError''"
| "type_name (AttributeErr _) = ''AttributeError''"
| "type_name (IntegrityError _) = ''IntegrityError''"
| "type_name (HTTPStatusError _ _) = ''HTTPStatusError''"
| "type_name (RequestError n _) = n"
| "type_name (OSErr n _) = n"
| "type_name (SubprocessError n _) = n"
| "type_name (Other n _) = n"

fun exn_text :: "exn \<Rightarrow> string" where
  "exn_text (ValueError m) = m"
| "exn_text (InvalidStateTransition m) = m"
| "exn_text (SQLSafetyError m) = m"
| "exn_text (ValidationError m) = m"
| "exn_text (JSONDecodeError m) = m"
| "exn_text (DuplicateEventError c) = ''Schema event already belongs to case '' @ c"
| "exn_text (EventConflictError e c) =
     ''Event id '' @ py_repr e @ '' is already bound to different content in case '' @ c"
| "exn_text (CaseNotFoundError c) = c"
| "exn_text (AssetNotAllowedError m) = m"
| "exn_text (HTTPAssetOutOfScopeError m) = m"
| "exn_text (RuntimeError m) = m"
| "exn_text (KeyErr k) = py_repr k"
| "exn_text (TypeErr m) = m"
| "exn_text (AttributeErr m) = m"
| "exn_text (IntegrityError m) = m"
| "exn_text (HTTPStatusError _ m) = m"
| "exn_text (RequestError _ m) = m"
| "exn_text (OSErr _ m) = m"
| "exn_text (SubprocessError _ m) = m"
| "exn_text (Other _ m) = m"

section \<open>Models\<close>

record integration_result =
  ir_status :: integration_status
  ir_operation :: string
  ir_message :: string
  ir_resource_id :: "string option"
  ir_evidence_refs :: "string list"
  ir_details :: jdict

record schema_field =
  sf_name :: string
  sf_data_type :: string
  sf_nullable :: bool

record schema_change_event =
  ev_event_id :: "string option"
  ev_entity_urn :: string
  ev_before_fields :: "schema_field list"
  ev_after_fields :: "schema_field list"
  ev_observed_at :: int
  ev_source :: string

record candidate_proposal =
  cp_id :: string
  cp_source_field :: string
  cp_target_alias :: string
  cp_rationale :: string
  cp_semantic_evidence :: "string list"

record reconciliation_metrics =
  rm_total_variance_pct :: pyfloat
  rm_row_count_variance_pct :: pyfloat
  rm_primary_key_overlap_pct :: pyfloat
  rm_null_rate_delta_pp :: pyfloat
  rm_current_row_count :: "int option"
  rm_baseline_row_count :: "int option"
  rm_evidence_refs :: "string list"

record build_result =
  br_passed :: bool
  br_passed_checks :: int
  br_total_checks :: int
  br_command :: string
  br_evidence_refs :: "string list"
  br_summary :: string

record policy_check =
  pc_name :: string
  pc_passed :: bool
  pc_observed :: string
  pc_requirement :: string

record candidate_assessment =
  ca_id :: string
  ca_source_field :: string
  ca_target_alias :: string
  ca_rationale :: string
  ca_semantic_verdict :: semantic_verdict
  ca_evidence_refs :: "string list"
  ca_reconciliation :: reconciliation_metrics
  ca_build :: build_result
  ca_policy_checks :: "policy_check list"
  ca_outcome :: candidate_outcome

record context_bundle =
  cb_asset_urn :: string
  cb_glossary_definition :: "string option"
  cb_owner :: "string option"
  cb_lineage_urns :: "string list"
  cb_context_documents :: "string list"
  cb_lineage_current :: bool
  cb_source :: string
  cb_integration :: integration_result

record patch_artifact =
  pa_path :: string
  pa_content :: string
  pa_sha256 :: string

record pull_request_artifact =
  pr_integration :: integration_result
  pr_branch :: "string option"
  pr_url :: "string option"
  pr_bundle_path :: "string option"

record policy_config =
  pol_semantic_evidence_required :: bool
  pol_max_total_variance_pct :: pyfloat
  pol_max_row_count_variance_pct :: pyfloat
  pol_min_primary_key_overlap_pct :: pyfloat
  pol_max_null_rate_delta_pp :: pyfloat
  pol_dbt_build_required :: bool
  pol_lineage_must_be_current :: bool

record verify_request =
  vr_merged_commit_sha :: string
  vr_reconciliation :: reconciliation_metrics
  vr_build :: build_result
  vr_semantic_verdict :: semantic_verdict
  vr_lineage_current :: bool

definition default_policy_config :: policy_config where
  "default_policy_config =
     \<lparr>pol_semantic_evidence_required = True,
      pol_max_total_variance_pct = dbl (50/100),
      pol_max_row_count_variance_pct = dbl (10/100),
      pol_min_primary_key_overlap_pct = dbl (9990/100),
      pol_max_null_rate_delta_pp = dbl (50/100),
      pol_dbt_build_required = True,
      pol_lineage_must_be_current = True\<rparr>"

section \<open>Validation at construction\<close>

text \<open>The length bounds pydantic enforces when a model is built.\<close>

definition make_schema_field :: "string \<Rightarrow> string \<Rightarrow> bool \<Rightarrow> exn + schema_field" where
  "make_schema_field name data_type nullable =
     (if name = [] then Inl (ValidationError ''name'')
      else if 255 < length name then Inl (ValidationError ''name'')
      else if 128 < length data_type then Inl (ValidationError ''data_type'')
      else Inr \<lparr>sf_name = name, sf_data_type = data_type, sf_nullable = nullable\<rparr>)"

definition make_schema_change_event ::
  "string option \<Rightarrow> string \<Rightarrow> schema_field list \<Rightarrow> schema_field list \<Rightarrow> int \<Rightarrow> string
    \<Rightarrow> exn + schema_change_event" where
  "make_schema_change_event event_id entity_urn before_fields after observed_at src =
     (if entity_urn = [] then Inl (ValidationError ''entity_urn'')
      else if 2048 < length entity_urn then Inl (ValidationError ''entity_urn'')
      else if 64 < length src then Inl (ValidationError ''source'')
      else Inr \<lparr>ev_event_id = event_id, ev_entity_urn = entity_urn, ev_before_fields = before_fields,
               ev_after_fields = after, ev_observed_at = observed_at, ev_source = src\<rparr>)"

definition is_hex :: "char \<Rightarrow> bool" where
  "is_hex c \<longleftrightarrow> is_digit c \<or> (65 \<le> code c \<and> code c \<le> 70) \<or> (97 \<le> code c \<and> code c \<le> 102)"

text \<open>\<^verbatim>\<open>VerifyDeploymentRequest\<close>: the pattern of the commit id, then \<^verbatim>\<open>require_build_checks\<close>.\<close>

definition check_verify_request :: "verify_request \<Rightarrow> exn + verify_request" where
  "check_verify_request r =
     (if \<not> (7 \<le> length (vr_merged_commit_sha r) \<and> length (vr_merged_commit_sha r) \<le> 64
            \<and> list_all is_hex (vr_merged_commit_sha r))
      then Inl (ValidationError ''merged_commit_sha'')
      else if br_passed (vr_build r)
              \<and> br_total_checks (vr_build r) < br_passed_checks (vr_build r)
      then Inl (ValidationError ''passed_checks cannot exceed total_checks'')
      else Inr r)"

section \<open>Event payloads, events and case snapshots\<close>

datatype payload =
    P_Detection schema_change_event string
  | P_Integration integration_result
  | P_Context context_bundle
  | P_Candidates "candidate_proposal list" integration_result
  | P_ValidationStarted nat string
  | P_Assessment candidate_assessment
  | P_Patch candidate_assessment patch_artifact
  | P_PullRequest pull_request_artifact
  | P_Deployment string string
  | P_PostDeploy string string reconciliation_metrics build_result "policy_check list"
  | P_Contained "string list" integration_result int
  | P_Error string string
  | P_FailedIntegration string integration_result
  | P_Reset string

record case_event =
  ce_sequence :: nat
  ce_event_id :: string
  ce_case_id :: string
  ce_event_type :: event_type
  ce_state :: "case_state option"
  ce_payload :: payload
  ce_created_at :: int

record case_snapshot =
  cs_id :: string
  cs_asset_urn :: string
  cs_state :: case_state
  cs_created_at :: int
  cs_updated_at :: int
  cs_schema_change :: schema_change_event
  cs_incident_urn :: string
  cs_incident_status :: string
  cs_incident_integration :: "integration_result option"
  cs_context :: "context_bundle option"
  cs_candidate_generation :: "integration_result option"
  cs_candidate_proposals :: "candidate_proposal list"
  cs_candidates :: "candidate_assessment list"
  cs_selected_candidate :: "candidate_assessment option"
  cs_patch :: "patch_artifact option"
  cs_evidence_writeback :: "integration_result option"
  cs_pull_request :: "pull_request_artifact option"
  cs_containment_reasons :: "string list"
  cs_deployment_commit :: "string option"
  cs_events :: "case_event list"

lemma make_schema_field_Inr:
  "make_schema_field n t b = Inr f \<longleftrightarrow>
     n \<noteq> [] \<and> length n \<le> 255 \<and> length t \<le> 128 \<and> f = \<lparr>sf_name = n, sf_data_type = t, sf_nullable = b\<rparr>"
  by (auto simp: make_schema_field_def)

lemma check_verify_request_Inr:
  "check_verify_request r = Inr r' \<Longrightarrow>
     r' = r \<and> list_all is_hex (vr_merged_commit_sha r)
     \<and> (br_passed (vr_build r) \<longrightarrow> br_passed_checks (vr_build r) \<le> br_total_checks (vr_build r))"
  by (auto simp: check_verify_request_def split: if_splits)

end
