(* ===== verification/State_Machine.thy ===== *)
theory State_Machine
  imports Models
begin

text \<open>
  The case life cycle of \<^verbatim>\<open>apps/api/state_machine.py\<close>: the table of allowed transitions and the check
  the event store makes before it appends. The locale \<open>lifecycle\<close> is the contract of a life cycle
  whose steps only go forward; it is interpreted on the program's table.
\<close>

section \<open>The model\<close>

fun allowed_transitions :: "case_state \<Rightarrow> case_state set" where
  "allowed_transitions DETECTED = {CONTEXT_GATHERED, CONTAINED, FAILED}"
| "allowed_transitions CONTEXT_GATHERED = {CANDIDATES_READY, CONTAINED, FAILED}"
| "allowed_transitions CANDIDATES_READY = {VALIDATING, CONTAINED, FAILED}"
| "allowed_transitions VALIDATING = {PATCH_READY, CONTAINED, FAILED}"
| "allowed_transitions PATCH_READY = {PR_OPEN, CONTAINED, FAILED}"
| "allowed_transitions PR_OPEN = {DEPLOYED, CONTAINED, FAILED}"
| "allowed_transitions DEPLOYED = {POST_DEPLOY_VERIFIED, CONTAINED, FAILED}"
| "allowed_transitions POST_DEPLOY_VERIFIED = {RESOLVED, CONTAINED, FAILED}"
| "allowed_transitions RESOLVED = {}"
| "allowed_transitions CONTAINED = {}"
| "allowed_transitions FAILED = {}"

definition validate_transition :: "case_state option \<Rightarrow> case_state \<Rightarrow> exn + unit" where
  "validate_transition current target =
     (case current of
        None \<Rightarrow>
          if target \<noteq> DETECTED
          then Inl (InvalidStateTransition
            (''A new case must start in DETECTED, not '' @ case_state_value target))
          else Inr ()
      | Some c \<Rightarrow>
          if c = target then Inr ()
          else if target \<notin> allowed_transitions c
          then Inl (InvalidStateTransition (''Invalid case transition: ''
            @ case_state_value c @ '' -> '' @ case_state_value target))
          else Inr ())"

text \<open>The states a case has been given, oldest first, as the store would have accepted them.\<close>

fun history_ok :: "case_state option \<Rightarrow> case_state list \<Rightarrow> bool" where
  "history_ok current [] = True"
| "history_ok current (t # ts) =
     (validate_transition current t = Inr () \<and> history_ok (Some t) ts)"

fun final_state :: "case_state \<Rightarrow> bool" where
  "final_state RESOLVED = True"
| "final_state CONTAINED = True"
| "final_state FAILED = True"
| "final_state _ = False"

section \<open>Forward life cycles\<close>

fun stutter_run :: "('s \<Rightarrow> 's \<Rightarrow> bool) \<Rightarrow> 's \<Rightarrow> 's list \<Rightarrow> bool" where
  "stutter_run edge s [] = True"
| "stutter_run edge s (t # ts) = ((t = s \<or> edge s t) \<and> stutter_run edge t ts)"

locale lifecycle =
  fixes edge :: "'s \<Rightarrow> 's \<Rightarrow> bool"
    and rank :: "'s \<Rightarrow> nat"
    and final :: "'s \<Rightarrow> bool"
    and top :: nat
  assumes edge_rank: "edge s t \<Longrightarrow> rank s < rank t"
    and rank_top: "rank s \<le> top"
    and final_edge: "final s \<Longrightarrow> \<not> edge s t"
begin

lemma run_final: "final s \<Longrightarrow> stutter_run edge s ts \<Longrightarrow> t \<in> set ts \<Longrightarrow> t = s"
  by (induction ts arbitrary: s) (auto simp: final_edge)

lemma run_rank: "stutter_run edge s ts \<Longrightarrow> t \<in> set ts \<Longrightarrow> t = s \<or> rank s < rank t"
proof (induction ts arbitrary: s)
  case Nil
  then show ?case by simp
next
  case (Cons u us)
  then show ?case using edge_rank by fastforce
qed

lemma run_changes: "stutter_run edge s ts \<Longrightarrow> length (remdups_adj (s # ts)) + rank s \<le> top + 1"
proof (induction ts arbitrary: s)
  case Nil
  then show ?case using rank_top [of s] by simp
next
  case (Cons u us)
  then have IH: "length (remdups_adj (u # us)) + rank u \<le> top + 1" by simp
  show ?case
  proof (cases "u = s")
    case True
    with IH show ?thesis by simp
  next
    case False
    with Cons.prems have "rank s < rank u" by (auto intro: edge_rank)
    with IH False show ?thesis by simp
  qed
qed

end

fun state_rank :: "case_state \<Rightarrow> nat" where
  "state_rank DETECTED = 0"
| "state_rank CONTEXT_GATHERED = 1"
| "state_rank CANDIDATES_READY = 2"
| "state_rank VALIDATING = 3"
| "state_rank PATCH_READY = 4"
| "state_rank PR_OPEN = 5"
| "state_rank DEPLOYED = 6"
| "state_rank POST_DEPLOY_VERIFIED = 7"
| "state_rank RESOLVED = 8"
| "state_rank CONTAINED = 8"
| "state_rank FAILED = 8"

interpretation cases: lifecycle "\<lambda>s t. t \<in> allowed_transitions s" state_rank final_state 8
proof unfold_locales
  show "state_rank s < state_rank t" if "t \<in> allowed_transitions s" for s t
    using that by (cases s) auto
  show "state_rank s \<le> 8" for s by (cases s) auto
  show "t \<notin> allowed_transitions s" if "final_state s" for s t
    using that by (cases s) auto
qed

section \<open>What the check accepts\<close>

lemma validate_transition_None [simp]:
  "validate_transition None t = Inr () \<longleftrightarrow> t = DETECTED"
  by (simp add: validate_transition_def)

lemma validate_transition_Some [simp]:
  "validate_transition (Some s) t = Inr () \<longleftrightarrow> t = s \<or> t \<in> allowed_transitions s"
  by (auto simp: validate_transition_def)

lemma validate_transition_error:
  "validate_transition c t \<noteq> Inr () \<Longrightarrow> \<exists>m. validate_transition c t = Inl (InvalidStateTransition m)"
  by (auto simp: validate_transition_def split: option.splits)

lemma validate_transition_Inl:
  "validate_transition c t = Inl e \<Longrightarrow> \<exists>m. e = InvalidStateTransition m"
  by (auto simp: validate_transition_def split: option.splits if_splits)

lemma history_ok_run:
  "history_ok (Some s) ts \<longleftrightarrow> stutter_run (\<lambda>s t. t \<in> allowed_transitions s) s ts"
  by (induction ts arbitrary: s) auto

lemma history_ok_None: "history_ok None ts \<longleftrightarrow> ts = [] \<or> (hd ts = DETECTED \<and> history_ok (Some DETECTED) (tl ts))"
  by (cases ts) auto

lemma history_ok_append:
  "history_ok c (ts @ us) \<longleftrightarrow>
     history_ok c ts \<and> history_ok (if ts = [] then c else Some (last ts)) us"
  by (induction ts arbitrary: c) auto

lemma final_absorbing: "final_state s \<Longrightarrow> validate_transition (Some s) t = Inr () \<Longrightarrow> t = s"
  by (cases s) auto

text \<open>The nine states from detection to resolution, in order.\<close>

definition recovery_path :: "case_state list" where
  "recovery_path =
     [DETECTED, CONTEXT_GATHERED, CANDIDATES_READY, VALIDATING, PATCH_READY, PR_OPEN, DEPLOYED,
      POST_DEPLOY_VERIFIED, RESOLVED]"

definition path_from :: "case_state \<Rightarrow> case_state list" where
  "path_from s = drop (state_rank s) recovery_path"

definition stopped :: "case_state \<Rightarrow> bool" where
  "stopped s \<longleftrightarrow> s = CONTAINED \<or> s = FAILED"

lemma path_from_simps [simp]:
  "path_from DETECTED = DETECTED # path_from CONTEXT_GATHERED"
  "path_from CONTEXT_GATHERED = CONTEXT_GATHERED # path_from CANDIDATES_READY"
  "path_from CANDIDATES_READY = CANDIDATES_READY # path_from VALIDATING"
  "path_from VALIDATING = VALIDATING # path_from PATCH_READY"
  "path_from PATCH_READY = PATCH_READY # path_from PR_OPEN"
  "path_from PR_OPEN = PR_OPEN # path_from DEPLOYED"
  "path_from DEPLOYED = DEPLOYED # path_from POST_DEPLOY_VERIFIED"
  "path_from POST_DEPLOY_VERIFIED = POST_DEPLOY_VERIFIED # path_from RESOLVED"
  "path_from RESOLVED = [RESOLVED]"
  by (simp_all add: path_from_def recovery_path_def)

text \<open>A path shape: a non-empty prefix of what lies ahead, then at most one stop.\<close>

definition path_shape :: "case_state list \<Rightarrow> case_state list \<Rightarrow> bool" where
  "path_shape ahead xs \<longleftrightarrow>
     (\<exists>done stop. xs = done @ stop \<and> prefix done ahead \<and> done \<noteq> []
        \<and> (stop = [] \<or> (\<exists>s. stop = [s] \<and> stopped s)))"

lemma path_shape_single: "path_shape (s # xs) [s]"
  unfolding path_shape_def by (intro exI [of _ "[s]"] exI [of _ "[]"]) simp

lemma path_shape_stop: "stopped t \<Longrightarrow> path_shape (s # xs) [s, t]"
  unfolding path_shape_def by (intro exI [of _ "[s]"] exI [of _ "[t]"]) auto

lemma path_shape_Cons: "path_shape xs ys \<Longrightarrow> path_shape (s # xs) (s # ys)"
  unfolding path_shape_def by (metis Cons_prefix_Cons append_Cons list.distinct(1))

lemma stopped_run: "stopped s \<Longrightarrow> history_ok (Some s) ts \<Longrightarrow> remdups_adj (s # ts) = [s]"
  by (induction ts) (auto simp: stopped_def)

lemma history_shape:
  "\<not> stopped s \<Longrightarrow> history_ok (Some s) ts \<Longrightarrow> path_shape (path_from s) (remdups_adj (s # ts))"
proof (induction ts arbitrary: s)
  case Nil
  then show ?case by (cases s) (auto simp: path_shape_single stopped_def)
next
  case (Cons t ts)
  consider (same) "t = s" | (stop) "t \<noteq> s" "stopped t" | (forward) "t \<noteq> s" "\<not> stopped t"
    by blast
  then show ?case
  proof cases
    case same
    with Cons show ?thesis by simp
  next
    case stop
    with Cons.prems have "remdups_adj (s # t # ts) = [s, t]" by (simp add: stopped_run)
    moreover obtain xs where "path_from s = s # xs"
      using Cons.prems(1) by (cases s) (auto simp: stopped_def)
    ultimately show ?thesis using stop(2) by (metis path_shape_stop)
  next
    case forward
    with Cons have "path_shape (path_from t) (remdups_adj (t # ts))" by simp
    moreover have "path_from s = s # path_from t"
      using forward Cons.prems by (cases s) (auto simp: stopped_def)
    ultimately show ?thesis using forward(1) by (simp add: path_shape_Cons)
  qed
qed

end
