(* ===== verification/Event_Store.thy ===== *)
theory Event_Store
  imports State_Machine "HOL-Library.Multiset"
begin

text \<open>
  The append-only event store of \<^verbatim>\<open>apps/api/store.py\<close>. The table \<^verbatim>\<open>events\<close> is the list of its rows in
  the order of the primary key; each method is one transaction, so its model is one step from table
  to table, and a raised exception rolls back. A fresh \<^verbatim>\<open>uuid4\<close> and the current time are arguments.
\<close>

section \<open>Rows and the table\<close>

record row =
  rw_sequence :: nat
  rw_event_id :: string
  rw_case_id :: string
  rw_event_type :: event_type
  rw_state :: "case_state option"
  rw_payload :: payload
  rw_dedup_key :: "string option"
  rw_reset_scope :: nat
  rw_created_at :: int

type_synonym table = "row list"

text \<open>\<^verbatim>\<open>COALESCE(MAX(sequence), 0)\<close> over the rows with a property.\<close>

definition max_sequence :: "(row \<Rightarrow> bool) \<Rightarrow> table \<Rightarrow> nat" where
  "max_sequence P rows = fold (\<lambda>r m. if P r then max (rw_sequence r) m else m) rows 0"

definition current_scope :: "table \<Rightarrow> nat" where
  "current_scope rows = max_sequence (\<lambda>r. rw_event_type r = SYSTEM_RESET) rows"

definition next_sequence :: "table \<Rightarrow> nat" where
  "next_sequence rows = Suc (max_sequence (\<lambda>_. True) rows)"

definition current_state :: "table \<Rightarrow> string \<Rightarrow> nat \<Rightarrow> case_state option" where
  "current_state rows case_id scope =
     (case rev (filter (\<lambda>r. rw_case_id r = case_id \<and> scope < rw_sequence r \<and> rw_state r \<noteq> None) rows) of
        [] \<Rightarrow> None
      | r # _ \<Rightarrow> rw_state r)"

definition row_by_id :: "table \<Rightarrow> string \<Rightarrow> nat \<Rightarrow> row option" where
  "row_by_id rows event_id scope =
     find (\<lambda>r. rw_event_id r = event_id \<and> rw_reset_scope r = scope) rows"

definition row_by_dedup :: "table \<Rightarrow> string \<Rightarrow> nat \<Rightarrow> row option" where
  "row_by_dedup rows dedup_key scope =
     find (\<lambda>r. rw_dedup_key r = Some dedup_key \<and> rw_reset_scope r = scope) rows"

text \<open>\<^verbatim>\<open>INSERT\<close> under the two unique indexes; the dedup index skips null keys.\<close>

definition violates_index :: "table \<Rightarrow> row \<Rightarrow> bool" where
  "violates_index rows new \<longleftrightarrow>
     (\<exists>r \<in> set rows. rw_reset_scope r = rw_reset_scope new
        \<and> (rw_event_id r = rw_event_id new
           \<or> rw_dedup_key r = rw_dedup_key new \<and> rw_dedup_key new \<noteq> None))"

definition sql_insert :: "row \<Rightarrow> (table, exn, nat) prog" where
  "sql_insert new rows =
     (if violates_index rows new
      then (Inl (IntegrityError ''UNIQUE constraint failed''), rows)
      else (Inr (rw_sequence new), rows @ [new]))"

section \<open>Equivalence of stored events\<close>

definition dump_field :: "schema_field \<Rightarrow> string" where
  \<open>dump_field f =
     ''{"data_type":'' @ json_quote (sf_data_type f) @ '',"name":'' @ json_quote (sf_name f)
     @ '',"nullable":'' @ (if sf_nullable f then ''true}'' else ''false}'')\<close>

text \<open>
  \<^verbatim>\<open>_same_event_payload\<close>: equal payloads, or detections that agree once \<^verbatim>\<open>observed_at\<close> is dropped, the
  asset is case-folded and the field lists are sorted by their JSON text.
\<close>

definition normalized_change :: "schema_change_event \<Rightarrow> schema_change_event" where
  "normalized_change e =
     e\<lparr>ev_observed_at := 0, ev_entity_urn := casefold (ev_entity_urn e),
       ev_before_fields := sort_key dump_field (ev_before_fields e),
       ev_after_fields := sort_key dump_field (ev_after_fields e)\<rparr>"

fun same_event_payload :: "payload \<Rightarrow> payload \<Rightarrow> bool" where
  "same_event_payload (P_Detection e u) (P_Detection e' u') =
     (u = u' \<and> normalized_change e = normalized_change e')"
| "same_event_payload p q = (p = q)"

definition stored_event_matches ::
  "row \<Rightarrow> string \<Rightarrow> event_type \<Rightarrow> case_state \<Rightarrow> payload \<Rightarrow> string option \<Rightarrow> bool" where
  "stored_event_matches existing case_id event_type state payload dedup_key \<longleftrightarrow>
     rw_case_id existing = case_id \<and> rw_event_type existing = event_type
     \<and> rw_state existing = Some state \<and> rw_dedup_key existing = dedup_key
     \<and> same_event_payload (rw_payload existing) payload"

section \<open>Appending\<close>

definition row_to_event :: "row \<Rightarrow> case_event" where
  "row_to_event r =
     \<lparr>ce_sequence = rw_sequence r, ce_event_id = rw_event_id r, ce_case_id = rw_case_id r,
      ce_event_type = rw_event_type r, ce_state = rw_state r, ce_payload = rw_payload r,
      ce_created_at = rw_created_at r\<rparr>"

text \<open>The outcome for an event id that is taken: the same event again, or a conflict.\<close>

definition id_taken ::
  "row \<Rightarrow> string \<Rightarrow> string \<Rightarrow> event_type \<Rightarrow> case_state \<Rightarrow> payload \<Rightarrow> string option \<Rightarrow> exn" where
  "id_taken existing event_id case_id event_type state payload dedup_key =
     (if stored_event_matches existing case_id event_type state payload dedup_key
      then DuplicateEventError (rw_case_id existing)
      else EventConflictError event_id (rw_case_id existing))"

definition append_row ::
  "string \<Rightarrow> int \<Rightarrow> string \<Rightarrow> event_type \<Rightarrow> case_state \<Rightarrow> payload \<Rightarrow> string option \<Rightarrow> nat \<Rightarrow> nat \<Rightarrow> row" where
  "append_row event_id now case_id event_type state payload dedup_key scope sequence =
     \<lparr>rw_sequence = sequence, rw_event_id = event_id, rw_case_id = case_id,
      rw_event_type = event_type, rw_state = Some state, rw_payload = payload,
      rw_dedup_key = dedup_key, rw_reset_scope = scope, rw_created_at = now\<rparr>"

text \<open>What \<^verbatim>\<open>append\<close> raises when the insert is refused, from a second read of the table.\<close>

definition reclassify ::
  "table \<Rightarrow> string \<Rightarrow> string \<Rightarrow> event_type \<Rightarrow> case_state \<Rightarrow> payload \<Rightarrow> string option \<Rightarrow> nat \<Rightarrow> exn
    \<Rightarrow> exn" where
  "reclassify rows event_id case_id event_type state payload dedup_key scope error =
     (case row_by_id rows event_id scope of
        Some existing \<Rightarrow> id_taken existing event_id case_id event_type state payload dedup_key
      | None \<Rightarrow>
          (case Option.bind dedup_key (\<lambda>key. row_by_dedup rows key scope) of
             Some existing \<Rightarrow> DuplicateEventError (rw_case_id existing)
           | None \<Rightarrow> error))"

definition append_event ::
  "string \<Rightarrow> int \<Rightarrow> string \<Rightarrow> event_type \<Rightarrow> case_state \<Rightarrow> payload \<Rightarrow> string option \<Rightarrow> string option
    \<Rightarrow> (table, exn, case_event) prog" where
  "append_event uuid now case_id event_type state payload dedup_key event_id_arg rows =
     (let event_id = (case event_id_arg of Some i \<Rightarrow> if i = [] then uuid else i | None \<Rightarrow> uuid);
          scope = current_scope rows
      in case row_by_id rows event_id scope of
           Some existing \<Rightarrow> (Inl (id_taken existing event_id case_id event_type state payload dedup_key), rows)
         | None \<Rightarrow>
      (case Option.bind dedup_key (\<lambda>key. row_by_dedup rows key scope) of
           Some existing \<Rightarrow> (Inl (DuplicateEventError (rw_case_id existing)), rows)
         | None \<Rightarrow>
      (let current = current_state rows case_id scope
       in if event_type = SCHEMA_CHANGE_DETECTED \<and> current \<noteq> None
          then (Inl (InvalidStateTransition
            (''Case id '' @ case_id @ '' is already assigned to another schema event'')), rows)
          else case validate_transition current state of
            Inl e \<Rightarrow> (Inl e, rows)
          | Inr _ \<Rightarrow>
              (let new = append_row event_id now case_id event_type state payload dedup_key scope
                           (next_sequence rows)
               in case sql_insert new rows of
                    (Inl error, rows') \<Rightarrow>
                      (Inl (reclassify rows' event_id case_id event_type state payload dedup_key scope
                              error), rows)
                  | (Inr sequence, rows') \<Rightarrow>
                      (Inr (row_to_event (new\<lparr>rw_sequence := sequence\<rparr>)), rows')))))"

definition find_case_for_event_id ::
  "table \<Rightarrow> string \<Rightarrow> string \<Rightarrow> event_type \<Rightarrow> case_state \<Rightarrow> payload \<Rightarrow> string option
    \<Rightarrow> exn + string option" where
  "find_case_for_event_id rows event_id case_id event_type state payload dedup_key =
     (case row_by_id rows event_id (current_scope rows) of
        None \<Rightarrow> Inr None
      | Some existing \<Rightarrow>
          if stored_event_matches existing case_id event_type state payload dedup_key
          then Inr (Some (rw_case_id existing))
          else Inl (EventConflictError event_id (rw_case_id existing)))"

definition reset_row :: "string \<Rightarrow> int \<Rightarrow> string \<Rightarrow> nat \<Rightarrow> nat \<Rightarrow> row" where
  "reset_row event_id now reason scope sequence =
     \<lparr>rw_sequence = sequence, rw_event_id = event_id, rw_case_id = ''__system__'',
      rw_event_type = SYSTEM_RESET, rw_state = None, rw_payload = P_Reset reason,
      rw_dedup_key = None, rw_reset_scope = scope, rw_created_at = now\<rparr>"

definition reset_store :: "string \<Rightarrow> int \<Rightarrow> string \<Rightarrow> (table, exn, nat) prog" where
  "reset_store uuid now reason rows =
     sql_insert (reset_row uuid now reason (current_scope rows) (next_sequence rows)) rows"

section \<open>Reading\<close>

definition find_case_for_dedup :: "table \<Rightarrow> string \<Rightarrow> string option" where
  "find_case_for_dedup rows dedup_key =
     map_option rw_case_id (row_by_dedup rows dedup_key (current_scope rows))"

definition case_id_exists :: "table \<Rightarrow> string \<Rightarrow> bool" where
  "case_id_exists rows case_id \<longleftrightarrow>
     (\<exists>r \<in> set rows. rw_case_id r = case_id \<and> current_scope rows < rw_sequence r)"

definition events_for_case :: "table \<Rightarrow> string \<Rightarrow> nat \<Rightarrow> case_event list" where
  "events_for_case rows case_id after =
     map row_to_event
       (filter (\<lambda>r. rw_case_id r = case_id \<and> current_scope rows < rw_sequence r
                    \<and> after < rw_sequence r) rows)"

definition all_active_events :: "table \<Rightarrow> case_event list" where
  "all_active_events rows =
     map row_to_event
       (filter (\<lambda>r. current_scope rows < rw_sequence r \<and> rw_case_id r \<noteq> ''__system__'') rows)"

definition raw_event_count :: "table \<Rightarrow> nat" where
  "raw_event_count rows = length rows"

section \<open>Well-formed logs\<close>

text \<open>
  A row may follow a log when its key is the next one, it carries the scope of the latest reset, it
  respects the unique indexes and its state is one the life cycle allows next for its case in this
  scope; a second detection of a case is not allowed. Only a reset has no state.
\<close>

definition row_ok :: "table \<Rightarrow> row \<Rightarrow> bool" where
  "row_ok rows new \<longleftrightarrow>
     rw_sequence new = Suc (length rows)
     \<and> rw_reset_scope new = current_scope rows
     \<and> \<not> violates_index rows new
     \<and> (case rw_state new of
          Some s \<Rightarrow>
            validate_transition (current_state rows (rw_case_id new) (current_scope rows)) s = Inr ()
            \<and> (rw_event_type new = SCHEMA_CHANGE_DETECTED
                 \<longrightarrow> current_state rows (rw_case_id new) (current_scope rows) = None)
        | None \<Rightarrow> rw_event_type new = SYSTEM_RESET)"

inductive store_ok :: "table \<Rightarrow> bool" where
  empty: "store_ok []"
| snoc: "store_ok rows \<Longrightarrow> row_ok rows new \<Longrightarrow> store_ok (rows @ [new])"

text \<open>The same by checking the rows one after the other.\<close>

fun log_check :: "table \<Rightarrow> table \<Rightarrow> bool" where
  "log_check rows [] = True"
| "log_check rows (r # rs) = (row_ok rows r \<and> log_check (rows @ [r]) rs)"

lemma log_check_ok: "store_ok rows \<Longrightarrow> log_check rows rs \<Longrightarrow> store_ok (rows @ rs)"
proof (induction rs arbitrary: rows)
  case (Cons r rs)
  then show ?case using Cons.IH [of "rows @ [r]"] by (simp add: store_ok.snoc)
qed simp

lemma max_sequence_Nil [simp]: "max_sequence P [] = 0"
  by (simp add: max_sequence_def)

lemma max_sequence_snoc [simp]:
  "max_sequence P (rows @ [r]) =
     (if P r then max (rw_sequence r) (max_sequence P rows) else max_sequence P rows)"
  by (simp add: max_sequence_def)

lemma sequences: "store_ok rows \<Longrightarrow> map rw_sequence rows = [1..<Suc (length rows)]"
  by (induction rule: store_ok.induct) (auto simp: row_ok_def)

lemma sequence_bounds: "store_ok rows \<Longrightarrow> r \<in> set rows \<Longrightarrow> 1 \<le> rw_sequence r \<and> rw_sequence r \<le> length rows"
proof -
  assume "store_ok rows" "r \<in> set rows"
  then have "rw_sequence r \<in> set [1..<Suc (length rows)]"
    by (metis image_eqI list.set_map sequences)
  then show ?thesis by auto
qed

lemma max_sequence_le: "store_ok rows \<Longrightarrow> max_sequence P rows \<le> length rows"
  by (induction rule: store_ok.induct) (auto simp: row_ok_def)

lemma next_sequence_length: "store_ok rows \<Longrightarrow> next_sequence rows = Suc (length rows)"
proof -
  assume "store_ok rows"
  then have "max_sequence (\<lambda>_. True) rows = length rows"
    by (induction rule: store_ok.induct) (auto simp: row_ok_def max_sequence_le)
  then show ?thesis by (simp add: next_sequence_def)
qed

lemma current_scope_le: "store_ok rows \<Longrightarrow> current_scope rows \<le> length rows"
  by (simp add: current_scope_def max_sequence_le)

lemma current_scope_snoc:
  "store_ok rows \<Longrightarrow> row_ok rows new \<Longrightarrow>
     current_scope (rows @ [new]) =
       (if rw_event_type new = SYSTEM_RESET then Suc (length rows) else current_scope rows)"
  using max_sequence_le [of rows "\<lambda>r. rw_event_type r = SYSTEM_RESET"]
  by (simp add: current_scope_def row_ok_def max_def)

lemma scope_before: "store_ok rows \<Longrightarrow> r \<in> set rows \<Longrightarrow> rw_reset_scope r < rw_sequence r"
proof (induction rule: store_ok.induct)
  case (snoc rows new)
  then show ?case using current_scope_le [of rows] by (auto simp: row_ok_def)
qed simp

text \<open>The rows after the latest reset are the rows that carry its scope.\<close>

lemma in_scope:
  "store_ok rows \<Longrightarrow> r \<in> set rows \<Longrightarrow> current_scope rows < rw_sequence r \<longleftrightarrow> rw_reset_scope r = current_scope rows"
proof (induction arbitrary: r rule: store_ok.induct)
  case (snoc rows new)
  note bounds = sequence_bounds [OF snoc.hyps(1)] scope_before [OF snoc.hyps(1)]
    current_scope_le [OF snoc.hyps(1)]
  from snoc.prems consider (new) "r = new" | (old) "r \<in> set rows" by auto
  then show ?case
  proof cases
    case new
    with snoc.hyps(2) bounds show ?thesis
      by (auto simp: current_scope_snoc [OF snoc.hyps] row_ok_def)
  next
    case old
    with bounds snoc.IH show ?thesis
      by (fastforce simp: current_scope_snoc [OF snoc.hyps])
  qed
qed simp

text \<open>The states a case has been given in a scope, oldest first.\<close>

definition case_rows :: "table \<Rightarrow> string \<Rightarrow> nat \<Rightarrow> row list" where
  "case_rows rows case_id scope =
     filter (\<lambda>r. rw_case_id r = case_id \<and> rw_reset_scope r = scope \<and> rw_state r \<noteq> None) rows"

definition case_states :: "table \<Rightarrow> string \<Rightarrow> nat \<Rightarrow> case_state list" where
  "case_states rows case_id scope = map (\<lambda>r. the (rw_state r)) (case_rows rows case_id scope)"

lemma current_state_case_rows:
  assumes "store_ok rows"
  shows "current_state rows c (current_scope rows) =
    (if case_states rows c (current_scope rows) = [] then None
     else Some (last (case_states rows c (current_scope rows))))"
proof -
  have "filter (\<lambda>r. rw_case_id r = c \<and> current_scope rows < rw_sequence r \<and> rw_state r \<noteq> None) rows
    = case_rows rows c (current_scope rows)"
    unfolding case_rows_def using in_scope [OF assms] by (auto intro!: filter_cong)
  moreover have "case_rows rows c (current_scope rows) \<noteq> [] \<Longrightarrow>
      rw_state (last (case_rows rows c (current_scope rows))) \<noteq> None"
    unfolding case_rows_def using last_in_set by fastforce
  ultimately show ?thesis
    unfolding current_state_def case_states_def
    by (cases "case_rows rows c (current_scope rows)" rule: rev_cases) (auto simp: last_map)
qed

lemma case_rows_snoc:
  "case_rows (rows @ [new]) c sc =
     case_rows rows c sc
     @ (if rw_case_id new = c \<and> rw_reset_scope new = sc \<and> rw_state new \<noteq> None then [new] else [])"
  by (simp add: case_rows_def)

lemma histories: "store_ok rows \<Longrightarrow> history_ok None (case_states rows c sc)"
proof (induction rule: store_ok.induct)
  case (snoc rows new)
  then show ?case
    using current_state_case_rows [OF snoc.hyps(1), of "rw_case_id new"]
    by (auto simp: case_states_def case_rows_snoc history_ok_append row_ok_def
        split: option.splits if_splits)
qed (simp add: case_states_def case_rows_def)

lemma one_detection:
  "store_ok rows \<Longrightarrow> r \<in> set (tl (case_rows rows c sc)) \<Longrightarrow> rw_event_type r \<noteq> SCHEMA_CHANGE_DETECTED"
proof (induction arbitrary: r rule: store_ok.induct)
  case (snoc rows new)
  show ?case
  proof (cases "r \<in> set (tl (case_rows rows c sc))")
    case False
    with snoc.prems have new: "r = new" "case_rows rows c sc \<noteq> []"
        "rw_case_id new = c" "rw_reset_scope new = sc" "rw_state new \<noteq> None"
      by (auto simp: case_rows_snoc tl_append split: if_splits list.splits)
    moreover have "sc = current_scope rows" using new snoc.hyps(2) by (auto simp: row_ok_def)
    ultimately have "current_state rows c (current_scope rows) \<noteq> None"
      using current_state_case_rows [OF snoc.hyps(1), of c] by (simp add: case_states_def)
    with new snoc.hyps(2) show ?thesis by (auto simp: row_ok_def split: option.splits)
  qed (use snoc in auto)
qed (simp add: case_rows_def)

section \<open>What the operations do to a log\<close>

lemma row_by_id_None: "row_by_id rows i sc = None \<longleftrightarrow> (\<forall>r \<in> set rows. \<not> (rw_event_id r = i \<and> rw_reset_scope r = sc))"
  by (auto simp: row_by_id_def find_None_iff)

lemma row_by_dedup_None:
  "row_by_dedup rows k sc = None \<longleftrightarrow> (\<forall>r \<in> set rows. \<not> (rw_dedup_key r = Some k \<and> rw_reset_scope r = sc))"
  by (auto simp: row_by_dedup_def find_None_iff)

lemma row_by_id_Some: "row_by_id rows i sc = Some r \<Longrightarrow> r \<in> set rows \<and> rw_event_id r = i \<and> rw_reset_scope r = sc"
  by (auto simp: row_by_id_def find_Some_iff)

lemma row_by_dedup_Some:
  "row_by_dedup rows k sc = Some r \<Longrightarrow> r \<in> set rows \<and> rw_dedup_key r = Some k \<and> rw_reset_scope r = sc"
  by (auto simp: row_by_dedup_def find_Some_iff)

definition effective_id :: "string \<Rightarrow> string option \<Rightarrow> string" where
  "effective_id uuid arg = (case arg of Some i \<Rightarrow> if i = [] then uuid else i | None \<Rightarrow> uuid)"

text \<open>The checks before the insert leave the indexes nothing to refuse.\<close>

lemma checked_insert:
  assumes "row_by_id rows i sc = None" "Option.bind d (\<lambda>k. row_by_dedup rows k sc) = None"
  shows "\<not> violates_index rows (append_row i now c e s p d sc n)"
  using assms
  by (cases d) (auto simp: violates_index_def append_row_def row_by_id_None row_by_dedup_None)

lemma append_event_cases:
  assumes "append_event uuid now c e s p d arg rows = (res, t)"
  obtains (refused) x where "res = Inl x" "t = rows" "\<And>m. x \<noteq> IntegrityError m"
  | (appended) new where
      "new = append_row (effective_id uuid arg) now c e s p d (current_scope rows) (next_sequence rows)"
      "res = Inr (row_to_event new)" "t = rows @ [new]" "\<not> violates_index rows new"
      "validate_transition (current_state rows c (current_scope rows)) s = Inr ()"
      "e = SCHEMA_CHANGE_DETECTED \<longrightarrow> current_state rows c (current_scope rows) = None"
proof -
  define i where "i = effective_id uuid arg"
  define sc where "sc = current_scope rows"
  define new where "new = append_row i now c e s p d sc (next_sequence rows)"
  note defs = append_event_def Let_def i_def [unfolded effective_id_def, symmetric]
    sc_def [symmetric] new_def [symmetric]
  show thesis
  proof (cases "row_by_id rows i sc")
    case (Some r)
    then show thesis using assms refused
      unfolding defs by (auto simp: id_taken_def split: if_splits)
  next
    case no_id: None
    show thesis
    proof (cases "Option.bind d (\<lambda>k. row_by_dedup rows k sc)")
      case (Some r)
      then show thesis using assms refused no_id unfolding defs by auto
    next
      case no_key: None
      note free = checked_insert [OF no_id no_key, of now c e s p "next_sequence rows", folded new_def]
      show thesis
      proof (cases "(e = SCHEMA_CHANGE_DETECTED \<and> current_state rows c sc \<noteq> None)
          \<or> validate_transition (current_state rows c sc) s \<noteq> Inr ()")
        case True
        then show thesis using assms refused no_id no_key
          unfolding defs by (auto split: if_splits sum.splits dest: validate_transition_Inl)
      next
        case False
        then have "append_event uuid now c e s p d arg rows = (Inr (row_to_event new), rows @ [new])"
          using no_id no_key free unfolding defs by (auto simp: sql_insert_def)
        then show thesis
          using assms appended [of new] False free by (auto simp: new_def i_def sc_def)
      qed
    qed
  qed
qed

lemma append_event_error: "append_event uuid now c e s p d arg rows = (Inl x, t) \<Longrightarrow> t = rows"
  by (erule append_event_cases) auto

lemma appended_row_ok:
  assumes "store_ok rows" "\<not> violates_index rows new"
    and "new = append_row i now c e s p d (current_scope rows) (next_sequence rows)"
    and "validate_transition (current_state rows c (current_scope rows)) s = Inr ()"
    and "e = SCHEMA_CHANGE_DETECTED \<longrightarrow> current_state rows c (current_scope rows) = None"
  shows "row_ok rows new"
  using assms by (simp add: row_ok_def append_row_def next_sequence_length)

lemma append_event_ok:
  assumes "store_ok rows" "append_event uuid now c e s p d arg rows = (res, t)"
  shows "store_ok t"
  using assms(2)
proof (cases rule: append_event_cases)
  case (appended new)
  then have "row_ok rows new" using appended_row_ok [OF assms(1)] by blast
  with assms(1) appended show ?thesis by (auto intro: store_ok.snoc)
qed (use assms in simp)

lemma reset_row_ok:
  "store_ok rows \<Longrightarrow> \<not> violates_index rows (reset_row u now reason (current_scope rows) (next_sequence rows))
    \<Longrightarrow> row_ok rows (reset_row u now reason (current_scope rows) (next_sequence rows))"
  by (simp add: row_ok_def reset_row_def next_sequence_length)

lemma reset_store_cases:
  assumes "reset_store uuid now reason rows = (res, t)"
  obtains (refused) m where "res = Inl (IntegrityError m)" "t = rows"
  | (reset) new where "new = reset_row uuid now reason (current_scope rows) (next_sequence rows)"
      "res = Inr (next_sequence rows)" "t = rows @ [new]" "\<not> violates_index rows new"
  using assms by (auto simp: reset_store_def sql_insert_def reset_row_def split: if_splits)

lemma reset_store_ok:
  assumes "store_ok rows" "reset_store uuid now reason rows = (res, t)"
  shows "store_ok t"
  using assms(2)
proof (cases rule: reset_store_cases)
  case (reset new)
  with assms(1) show ?thesis by (auto intro: store_ok.snoc reset_row_ok)
qed (use assms in simp)

section \<open>Processes sharing one table\<close>

text \<open>
  Every write of every process is one immediate transaction, so the executions of any number of
  processes are the sequences of these operations.
\<close>

datatype store_op =
    Append string int string event_type case_state payload "string option" "string option"
  | Reset string int string

fun run_op :: "store_op \<Rightarrow> (table, exn, unit) prog" where
  "run_op (Append u now c e s p d i) rows =
     (case append_event u now c e s p d i rows of (Inl x, t) \<Rightarrow> (Inl x, t) | (Inr _, t) \<Rightarrow> (Inr (), t))"
| "run_op (Reset u now reason) rows =
     (case reset_store u now reason rows of (Inl x, t) \<Rightarrow> (Inl x, t) | (Inr _, t) \<Rightarrow> (Inr (), t))"

inductive store_step :: "table \<Rightarrow> table \<Rightarrow> bool" where
  operation: "run_op op rows = (res, t) \<Longrightarrow> store_step rows t"

inductive_cases store_stepE: "store_step rows t"

text \<open>The contract of an append-only log with transactional writes.\<close>

locale append_only_log =
  fixes perform :: "'op \<Rightarrow> ('row list, 'e, unit) prog"
    and good :: "'row list \<Rightarrow> bool"
  assumes good_empty: "good []"
    and perform_good: "good rows \<Longrightarrow> perform op rows = (res, t) \<Longrightarrow> good t"
    and perform_ok: "perform op rows = (Inr (), t) \<Longrightarrow> \<exists>new. t = rows @ [new]"
    and perform_error: "perform op rows = (Inl e, t) \<Longrightarrow> t = rows"
begin

lemma perform_extends: "perform op rows = (res, t) \<Longrightarrow> prefix rows t \<and> length t \<le> Suc (length rows)"
  by (cases res) (auto dest: perform_ok perform_error)

lemma performs_extend:
  "(\<lambda>r t. \<exists>op res. perform op r = (res, t))\<^sup>*\<^sup>* rows t \<Longrightarrow> prefix rows t"
proof (induction rule: rtranclp_induct)
  case (step u v)
  then show ?case using perform_extends prefix_order.trans by blast
qed simp

lemma performs_good:
  "(\<lambda>r t. \<exists>op res. perform op r = (res, t))\<^sup>*\<^sup>* rows t \<Longrightarrow> good rows \<Longrightarrow> good t"
  by (induction rule: rtranclp_induct) (auto dest: perform_good)

end

interpretation events: append_only_log run_op store_ok
proof unfold_locales
  show "store_ok []" by (rule store_ok.empty)
  show "store_ok t" if "store_ok rows" "run_op op rows = (res, t)" for rows op res t
    using that by (cases op) (auto split: prod.splits sum.splits dest: append_event_ok reset_store_ok)
  show "\<exists>new. t = rows @ [new]" if "run_op op rows = (Inr (), t)" for op rows t
    using that by (cases op) (auto split: prod.splits sum.splits elim: append_event_cases reset_store_cases)
  show "t = rows" if "run_op op rows = (Inl e, t)" for op rows e t
    using that by (cases op) (auto split: prod.splits sum.splits elim: append_event_cases reset_store_cases)
qed

lemma store_step_eq: "store_step = (\<lambda>r t. \<exists>op res. run_op op r = (res, t))"
  by (auto simp: fun_eq_iff store_step.simps)

definition reachable_table :: "table \<Rightarrow> bool" where
  "reachable_table t \<longleftrightarrow> store_step\<^sup>*\<^sup>* [] t"

lemma reachable_ok: "reachable_table t \<Longrightarrow> store_ok t"
  using events.performs_good [OF _ store_ok.empty] by (simp add: reachable_table_def store_step_eq)

lemma steps_ok: "store_step\<^sup>*\<^sup>* rows t \<Longrightarrow> store_ok rows \<Longrightarrow> store_ok t"
  using events.performs_good by (simp add: store_step_eq)

lemma steps_extend: "store_step\<^sup>*\<^sup>* rows t \<Longrightarrow> prefix rows t"
  using events.performs_extend by (simp add: store_step_eq)

end
