(* ===== verification/Case_Projection.thy ===== *)
theory Case_Projection
  imports Event_Store
begin

text \<open>
  Case snapshots, derived from the stored events at read time: \<^verbatim>\<open>project_case\<close> and the read methods
  built on it in \<^verbatim>\<open>apps/api/store.py\<close>. A payload without the key an event type asks for is the
  \<^verbatim>\<open>KeyError\<close> of the source.
\<close>

section \<open>Reading payloads\<close>

fun payload_integration :: "payload \<Rightarrow> exn + integration_result" where
  "payload_integration (P_Integration i) = Inr i"
| "payload_integration (P_FailedIntegration _ i) = Inr i"
| "payload_integration _ = Inl (KeyErr ''integration'')"

fun payload_context :: "payload \<Rightarrow> exn + context_bundle" where
  "payload_context (P_Context c) = Inr c"
| "payload_context _ = Inl (KeyErr ''context'')"

fun payload_candidates :: "payload \<Rightarrow> exn + (integration_result \<times> candidate_proposal list)" where
  "payload_candidates (P_Candidates ps g) = Inr (g, ps)"
| "payload_candidates _ = Inl (KeyErr ''generation_integration'')"

fun payload_assessment :: "payload \<Rightarrow> exn + candidate_assessment" where
  "payload_assessment (P_Assessment a) = Inr a"
| "payload_assessment _ = Inl (KeyErr ''assessment'')"

fun payload_patch :: "payload \<Rightarrow> exn + (candidate_assessment \<times> patch_artifact)" where
  "payload_patch (P_Patch a p) = Inr (a, p)"
| "payload_patch _ = Inl (KeyErr ''selected_candidate'')"

fun payload_pull_request :: "payload \<Rightarrow> exn + pull_request_artifact" where
  "payload_pull_request (P_PullRequest p) = Inr p"
| "payload_pull_request _ = Inl (KeyErr ''pull_request'')"

fun payload_commit :: "payload \<Rightarrow> exn + string" where
  "payload_commit (P_Deployment sha _) = Inr sha"
| "payload_commit (P_PostDeploy sha _ _ _ _) = Inr sha"
| "payload_commit _ = Inl (KeyErr ''merged_commit_sha'')"

fun payload_reasons :: "payload \<Rightarrow> exn + (string list \<times> integration_result)" where
  "payload_reasons (P_Contained reasons writeback _) = Inr (reasons, writeback)"
| "payload_reasons _ = Inl (KeyErr ''reasons'')"

fun payload_detection :: "payload \<Rightarrow> exn + (schema_change_event \<times> string)" where
  "payload_detection (P_Detection e urn) = Inr (e, urn)"
| "payload_detection _ = Inl (KeyErr ''schema_change'')"

section \<open>Projection\<close>

definition replace_assessment ::
  "candidate_assessment list \<Rightarrow> candidate_assessment \<Rightarrow> candidate_assessment list" where
  "replace_assessment assessments selected =
     map (\<lambda>a. if ca_id a = ca_id selected then selected else a) assessments"

definition record_event :: "case_snapshot \<Rightarrow> case_event \<Rightarrow> case_snapshot" where
  "record_event snap e =
     snap\<lparr>cs_state := (case ce_state e of Some s \<Rightarrow> s | None \<Rightarrow> cs_state snap),
          cs_updated_at := ce_created_at e,
          cs_events := cs_events snap @ [e]\<rparr>"

fun apply_payload :: "event_type \<Rightarrow> payload \<Rightarrow> case_snapshot \<Rightarrow> exn + case_snapshot" where
  "apply_payload INCIDENT_RAISED p snap =
     bind_res (payload_integration p) (\<lambda>i.
       Inr (snap\<lparr>cs_incident_integration := Some i,
                 cs_incident_urn :=
                   (case ir_resource_id i of Some r \<Rightarrow> if r = [] then cs_incident_urn snap else r
                    | None \<Rightarrow> cs_incident_urn snap)\<rparr>))"
| "apply_payload E_CONTEXT_GATHERED p snap =
     bind_res (payload_context p) (\<lambda>c. Inr (snap\<lparr>cs_context := Some c\<rparr>))"
| "apply_payload E_CANDIDATES_READY p snap =
     bind_res (payload_candidates p) (\<lambda>(g, ps).
       Inr (snap\<lparr>cs_candidate_generation := Some g, cs_candidate_proposals := ps\<rparr>))"
| "apply_payload CANDIDATE_ASSESSED p snap =
     bind_res (payload_assessment p) (\<lambda>a. Inr (snap\<lparr>cs_candidates := cs_candidates snap @ [a]\<rparr>))"
| "apply_payload E_PATCH_READY p snap =
     bind_res (payload_patch p) (\<lambda>(selected, patch).
       Inr (snap\<lparr>cs_selected_candidate := Some selected,
                 cs_candidates := replace_assessment (cs_candidates snap) selected,
                 cs_patch := Some patch\<rparr>))"
| "apply_payload EVIDENCE_WRITTEN p snap =
     bind_res (payload_integration p) (\<lambda>i. Inr (snap\<lparr>cs_evidence_writeback := Some i\<rparr>))"
| "apply_payload PR_ATTEMPTED p snap =
     bind_res (payload_pull_request p) (\<lambda>pr. Inr (snap\<lparr>cs_pull_request := Some pr\<rparr>))"
| "apply_payload PR_OPENED p snap =
     bind_res (payload_pull_request p) (\<lambda>pr. Inr (snap\<lparr>cs_pull_request := Some pr\<rparr>))"
| "apply_payload DEPLOYMENT_RECORDED p snap =
     bind_res (payload_commit p) (\<lambda>sha. Inr (snap\<lparr>cs_deployment_commit := Some sha\<rparr>))"
| "apply_payload INCIDENT_RESOLVED p snap = Inr (snap\<lparr>cs_incident_status := ''RESOLVED''\<rparr>)"
| "apply_payload E_CONTAINED p snap =
     bind_res (payload_reasons p) (\<lambda>(reasons, writeback).
       Inr (snap\<lparr>cs_incident_status := ''ACTIVE'', cs_containment_reasons := reasons,
                 cs_evidence_writeback := Some writeback\<rparr>))"
| "apply_payload _ p snap = Inr snap"

fun project_events :: "case_snapshot \<Rightarrow> case_event list \<Rightarrow> exn + case_snapshot" where
  "project_events snap [] = Inr snap"
| "project_events snap (e # es) =
     bind_res (apply_payload (ce_event_type e) (ce_payload e) (record_event snap e))
       (\<lambda>snap'. project_events snap' es)"

definition initial_snapshot :: "case_event \<Rightarrow> schema_change_event \<Rightarrow> string \<Rightarrow> case_snapshot" where
  "initial_snapshot first change urn =
     \<lparr>cs_id = ce_case_id first, cs_asset_urn = ev_entity_urn change, cs_state = DETECTED,
      cs_created_at = ce_created_at first, cs_updated_at = ce_created_at first,
      cs_schema_change = change, cs_incident_urn = urn, cs_incident_status = ''ACTIVE'',
      cs_incident_integration = None, cs_context = None, cs_candidate_generation = None,
      cs_candidate_proposals = [], cs_candidates = [], cs_selected_candidate = None,
      cs_patch = None, cs_evidence_writeback = None, cs_pull_request = None,
      cs_containment_reasons = [], cs_deployment_commit = None, cs_events = []\<rparr>"

definition project_case :: "case_event list \<Rightarrow> exn + case_snapshot" where
  "project_case events =
     (case events of
        [] \<Rightarrow> Inl (ValueError ''Case projection must begin with SCHEMA_CHANGE_DETECTED'')
      | first # _ \<Rightarrow>
          if ce_event_type first \<noteq> SCHEMA_CHANGE_DETECTED
          then Inl (ValueError ''Case projection must begin with SCHEMA_CHANGE_DETECTED'')
          else bind_res (payload_detection (ce_payload first)) (\<lambda>(change, urn).
            project_events (initial_snapshot first change urn) events))"

definition get_case :: "table \<Rightarrow> string \<Rightarrow> exn + case_snapshot" where
  "get_case rows case_id =
     (let events = events_for_case rows case_id 0
      in if events = [] then Inl (CaseNotFoundError case_id) else project_case events)"

text \<open>\<^verbatim>\<open>list_cases\<close>: grouped by case in order of first appearance, newest update first; \<^verbatim>\<open>sorted\<close> with
  \<^verbatim>\<open>reverse=True\<close> keeps the order of equal keys.\<close>

definition active_case_ids :: "table \<Rightarrow> string list" where
  "active_case_ids rows = first_occurrences (map ce_case_id (all_active_events rows))"

definition list_cases :: "table \<Rightarrow> exn + case_snapshot list" where
  "list_cases rows =
     bind_res
       (map_res (\<lambda>c. project_case (filter (\<lambda>e. ce_case_id e = c) (all_active_events rows)))
          (active_case_ids rows))
       (\<lambda>snapshots. Inr (rev (sort_key cs_updated_at (rev snapshots))))"

definition contained_asset :: "table \<Rightarrow> string \<Rightarrow> exn + case_snapshot option" where
  "contained_asset rows asset_urn =
     bind_res (list_cases rows) (\<lambda>cases.
       Inr (find (\<lambda>c. cs_asset_urn c = asset_urn \<and> cs_state c = CONTAINED) cases))"

definition blocked_asset :: "table \<Rightarrow> string \<Rightarrow> exn + case_snapshot option" where
  "blocked_asset rows asset_urn =
     bind_res (list_cases rows) (\<lambda>cases.
       Inr (find (\<lambda>c. cs_asset_urn c = asset_urn \<and> cs_state c \<noteq> RESOLVED) cases))"

section \<open>When a projection succeeds\<close>

text \<open>The payload an event type reads.\<close>

fun payload_fits :: "event_type \<Rightarrow> payload \<Rightarrow> bool" where
  "payload_fits INCIDENT_RAISED p = (\<exists>i. payload_integration p = Inr i)"
| "payload_fits E_CONTEXT_GATHERED p = (\<exists>c. p = P_Context c)"
| "payload_fits E_CANDIDATES_READY p = (\<exists>ps g. p = P_Candidates ps g)"
| "payload_fits CANDIDATE_ASSESSED p = (\<exists>a. p = P_Assessment a)"
| "payload_fits E_PATCH_READY p = (\<exists>a q. p = P_Patch a q)"
| "payload_fits EVIDENCE_WRITTEN p = (\<exists>i. payload_integration p = Inr i)"
| "payload_fits PR_ATTEMPTED p = (\<exists>pr. p = P_PullRequest pr)"
| "payload_fits PR_OPENED p = (\<exists>pr. p = P_PullRequest pr)"
| "payload_fits DEPLOYMENT_RECORDED p = (\<exists>sha. payload_commit p = Inr sha)"
| "payload_fits E_CONTAINED p = (\<exists>r w n. p = P_Contained r w n)"
| "payload_fits _ p = True"

lemma apply_payload_fits: "payload_fits t p \<longleftrightarrow> (\<exists>snap'. apply_payload t p snap = Inr snap')"
  by (cases t; cases p) auto

lemma project_events_fits:
  "(\<exists>snap'. project_events snap es = Inr snap') \<longleftrightarrow> (\<forall>e \<in> set es. payload_fits (ce_event_type e) (ce_payload e))"
proof (induction es arbitrary: snap)
  case (Cons e es)
  let ?r = "apply_payload (ce_event_type e) (ce_payload e) (record_event snap e)"
  show ?case
  proof (cases ?r)
    case (Inl x)
    then have "\<not> payload_fits (ce_event_type e) (ce_payload e)"
      using apply_payload_fits [of _ _ "record_event snap e"] by simp
    with Inl show ?thesis by simp
  next
    case (Inr snap')
    then have "payload_fits (ce_event_type e) (ce_payload e)"
      using apply_payload_fits by blast
    with Inr Cons.IH [of snap'] show ?thesis by simp
  qed
qed simp

definition stream_ok :: "case_event list \<Rightarrow> bool" where
  "stream_ok es \<longleftrightarrow>
     es \<noteq> [] \<and> ce_event_type (hd es) = SCHEMA_CHANGE_DETECTED
     \<and> (\<exists>change urn. ce_payload (hd es) = P_Detection change urn)
     \<and> (\<forall>e \<in> set es. payload_fits (ce_event_type e) (ce_payload e))"

lemma project_case_fits: "(\<exists>snap. project_case es = Inr snap) \<longleftrightarrow> stream_ok es"
proof (cases es)
  case (Cons e rest)
  show ?thesis
  proof (cases "ce_event_type e = SCHEMA_CHANGE_DETECTED \<and> (\<exists>change urn. ce_payload e = P_Detection change urn)")
    case True
    then obtain change urn where "ce_payload e = P_Detection change urn" by blast
    with True Cons have "project_case es = project_events (initial_snapshot e change urn) es"
        "stream_ok es \<longleftrightarrow> (\<forall>e \<in> set es. payload_fits (ce_event_type e) (ce_payload e))"
      by (simp_all add: project_case_def stream_ok_def del: project_events.simps)
    then show ?thesis by (simp only: project_events_fits)
  next
    case False
    with Cons show ?thesis
      by (cases "ce_payload e") (auto simp: project_case_def stream_ok_def)
  qed
qed (simp add: project_case_def stream_ok_def)

section \<open>What a projection shows\<close>

fun last_state :: "case_state \<Rightarrow> case_event list \<Rightarrow> case_state" where
  "last_state s [] = s"
| "last_state s (e # es) = last_state (case ce_state e of Some t \<Rightarrow> t | None \<Rightarrow> s) es"

lemma apply_payload_frame:
  "apply_payload t p snap = Inr snap' \<Longrightarrow>
     cs_id snap' = cs_id snap \<and> cs_asset_urn snap' = cs_asset_urn snap \<and> cs_state snap' = cs_state snap
     \<and> cs_updated_at snap' = cs_updated_at snap \<and> cs_events snap' = cs_events snap
     \<and> cs_created_at snap' = cs_created_at snap \<and> cs_schema_change snap' = cs_schema_change snap"
  by (cases t) (auto simp: bind_res_Inr_iff)

lemma project_events_frame:
  "project_events snap es = Inr snap' \<Longrightarrow>
     cs_id snap' = cs_id snap \<and> cs_asset_urn snap' = cs_asset_urn snap
     \<and> cs_schema_change snap' = cs_schema_change snap \<and> cs_created_at snap' = cs_created_at snap
     \<and> cs_state snap' = last_state (cs_state snap) es \<and> cs_events snap' = cs_events snap @ es
     \<and> cs_updated_at snap' = (if es = [] then cs_updated_at snap else ce_created_at (last es))"
proof (induction es arbitrary: snap)
  case (Cons e es)
  then obtain snap1 where snap1: "apply_payload (ce_event_type e) (ce_payload e) (record_event snap e) = Inr snap1"
      "project_events snap1 es = Inr snap'"
    by (auto simp: bind_res_Inr_iff)
  with apply_payload_frame [OF snap1(1)] Cons.IH [OF snap1(2)] show ?case
    by (simp add: record_event_def)
qed simp

lemma project_case_frame:
  assumes "project_case es = Inr snap"
  shows "cs_id snap = ce_case_id (hd es) \<and> cs_state snap = last_state DETECTED es \<and> cs_events snap = es
    \<and> cs_updated_at snap = ce_created_at (last es) \<and> cs_asset_urn snap = ev_entity_urn (cs_schema_change snap)
    \<and> (\<exists>urn. ce_payload (hd es) = P_Detection (cs_schema_change snap) urn)"
proof -
  from assms obtain e rest where es: "es = e # rest" by (cases es) (auto simp: project_case_def)
  with assms obtain change urn where "ce_payload e = P_Detection change urn"
      "project_events (initial_snapshot e change urn) es = Inr snap"
    by (cases "ce_payload e") (auto simp: project_case_def split: if_splits)
  then show ?thesis
    using project_events_frame [of "initial_snapshot e change urn" es snap] es
    by (simp add: initial_snapshot_def)
qed

lemma last_state_filter:
  "last_state s es =
     (let states = filter (\<lambda>x. x \<noteq> None) (map ce_state es)
      in if states = [] then s else the (last states))"
proof (induction es arbitrary: s)
  case (Cons e es)
  then show ?case by (cases "ce_state e") (auto simp: Let_def)
qed simp

section \<open>The projection refines the log\<close>

lemma events_for_case_current:
  "events_for_case rows c 0 =
     map row_to_event (filter (\<lambda>r. rw_case_id r = c \<and> current_scope rows < rw_sequence r) rows)"
  unfolding events_for_case_def by (intro arg_cong [of _ _ "map row_to_event"] filter_cong) auto

lemma last_state_log:
  "last_state s (events_for_case rows c 0) =
     (case current_state rows c (current_scope rows) of None \<Rightarrow> s | Some t \<Rightarrow> t)"
proof -
  let ?P = "\<lambda>r. rw_case_id r = c \<and> current_scope rows < rw_sequence r"
  have "filter (\<lambda>x. x \<noteq> None) (map ce_state (events_for_case rows c 0))
    = map rw_state (filter (\<lambda>r. ?P r \<and> rw_state r \<noteq> None) rows)"
    by (simp add: events_for_case_current filter_map o_def row_to_event_def conj_commute conj_left_commute)
  moreover have "rev (filter (\<lambda>r. ?P r \<and> rw_state r \<noteq> None) rows) = [] \<or>
      (\<exists>r rs. rev (filter (\<lambda>r. ?P r \<and> rw_state r \<noteq> None) rows) = r # rs \<and> rw_state r \<noteq> None)"
  proof (cases "rev (filter (\<lambda>r. ?P r \<and> rw_state r \<noteq> None) rows)")
    case (Cons r rs)
    then have "r \<in> set (filter (\<lambda>r. ?P r \<and> rw_state r \<noteq> None) rows)"
      by (metis list.set_intros(1) set_rev)
    then have "rw_state r \<noteq> None" by simp
    with Cons show ?thesis by blast
  qed simp
  ultimately show ?thesis
    unfolding last_state_filter Let_def current_state_def
    by (auto simp: last_map hd_rev [symmetric] conj_assoc)
qed

lemma get_case_state:
  "get_case rows c = Inr snap \<Longrightarrow>
     cs_id snap = c \<and> cs_state snap = (case current_state rows c (current_scope rows) of None \<Rightarrow> DETECTED | Some t \<Rightarrow> t)
     \<and> cs_events snap = events_for_case rows c 0"
proof -
  assume g: "get_case rows c = Inr snap"
  then have ne: "events_for_case rows c 0 \<noteq> []" and p: "project_case (events_for_case rows c 0) = Inr snap"
    by (auto simp: get_case_def Let_def split: if_splits)
  have "\<forall>e \<in> set (events_for_case rows c 0). ce_case_id e = c"
    by (auto simp: events_for_case_def row_to_event_def)
  then have "ce_case_id (hd (events_for_case rows c 0)) = c" using ne by simp
  with project_case_frame [OF p] last_state_log [of DETECTED rows c] show ?thesis by simp
qed

lemma get_case_found: "(\<exists>snap. get_case rows c = Inr snap) \<longleftrightarrow> stream_ok (events_for_case rows c 0)"
  using project_case_fits [of "events_for_case rows c 0"]
  by (auto simp: get_case_def Let_def stream_ok_def)

section \<open>Repeated deliveries and resets\<close>

lemma same_event_payload_refl [simp]: "same_event_payload p p"
  by (cases p) auto

lemma find_snoc: "find P xs = None \<Longrightarrow> find P (xs @ [x]) = (if P x then Some x else None)"
  by (induction xs) (auto split: if_splits)

lemma taken_again:
  assumes "append_event uuid now c t s p d (Some i) rows = (Inr e, rows')" "i \<noteq> []" "t \<noteq> SYSTEM_RESET"
  shows "append_event uuid' now' c t s p d (Some i) rows' = (Inl (DuplicateEventError c), rows')
    \<and> (\<not> (c = c' \<and> t = t' \<and> s = s' \<and> d = d' \<and> same_event_payload p p') \<longrightarrow>
         append_event uuid' now' c' t' s' p' d' (Some i) rows' = (Inl (EventConflictError i c), rows'))"
  using assms(1)
proof (cases rule: append_event_cases)
  case (appended new)
  have new: "rw_event_id new = i" "rw_case_id new = c" "rw_event_type new = t" "rw_state new = Some s"
    "rw_payload new = p" "rw_dedup_key new = d" "rw_reset_scope new = current_scope rows"
    using appended(1) assms(2) by (simp_all add: append_row_def effective_id_def)
  have scope: "current_scope rows' = current_scope rows"
    using appended(3) new(3) assms(3) by (simp add: current_scope_def)
  have "row_by_id rows i (current_scope rows) = None"
    using appended(4) new(1,7) by (auto simp: row_by_id_None violates_index_def)
  then have "row_by_id rows' i (current_scope rows') = Some new"
    unfolding scope unfolding appended(3) row_by_id_def using new(1,7) by (simp add: find_snoc)
  then show ?thesis
    using new assms(2) by (auto simp: append_event_def Let_def id_taken_def stored_event_matches_def)
qed simp

lemma reset_hides:
  assumes "store_ok rows" "reset_store uuid now reason rows = (Inr n, rows')"
  shows "(\<exists>r. rows' = rows @ [r] \<and> rw_sequence r = n) \<and> list_cases rows' = Inr []
    \<and> get_case rows' c = Inl (CaseNotFoundError c) \<and> \<not> case_id_exists rows' c
    \<and> find_case_for_dedup rows' k = None"
  using assms(2)
proof (cases rule: reset_store_cases)
  case (reset new)
  have ok: "row_ok rows new" using reset_row_ok [OF assms(1)] reset by simp
  have scope: "current_scope rows' = Suc (length rows)"
    using current_scope_snoc [OF assms(1) ok] reset(1,3) by (simp add: reset_row_def)
  have seq: "rw_sequence new = Suc (length rows)" using ok by (simp add: row_ok_def)
  have old: "\<forall>r \<in> set rows'. rw_sequence r \<le> Suc (length rows)"
    using sequence_bounds [OF assms(1)] seq reset(3) by fastforce
  have none: "filter (\<lambda>r. P r \<and> current_scope rows' < rw_sequence r) rows' = []"
    "filter (\<lambda>r. current_scope rows' < rw_sequence r \<and> P r) rows' = []" for P
    using old scope by (force simp: filter_empty_conv)+
  have "all_active_events rows' = []" "events_for_case rows' c 0 = []"
    unfolding all_active_events_def events_for_case_def using none(2) none(1)
    by (auto simp: filter_empty_conv)
  moreover have "\<forall>r \<in> set rows'. rw_reset_scope r \<noteq> Suc (length rows)"
    using scope_before [OF assms(1)] sequence_bounds [OF assms(1)] reset(3) ok current_scope_le [OF assms(1)]
    by (fastforce simp: row_ok_def)
  ultimately show ?thesis
    using reset seq scope old
    by (auto simp: list_cases_def active_case_ids_def get_case_def case_id_exists_def
        find_case_for_dedup_def row_by_dedup_None row_by_dedup_def find_None_iff reset_row_def
        next_sequence_length [OF assms(1)])
qed simp

end
