(* ===== verification/Policy.thy ===== *)
theory Policy
  imports Models
begin

text \<open>
  The deterministic policy engine of \<^verbatim>\<open>packages/policy/engine.py\<close>: the seven checks in the source's
  order, the reasons of a refusal, and the outcome of a decision.
\<close>

section \<open>The model\<close>

record policy_decision =
  pd_accepted :: bool
  pd_checks :: "policy_check list"
  pd_reasons :: "string list"

definition semantic_check :: "policy_config \<Rightarrow> semantic_verdict \<Rightarrow> policy_check" where
  "semantic_check cfg v =
     \<lparr>pc_name = ''semantic_evidence'',
      pc_passed = (if pol_semantic_evidence_required cfg then v = MATCH else v \<noteq> CONFLICT),
      pc_observed = semantic_verdict_value v,
      pc_requirement =
        (if pol_semantic_evidence_required cfg then ''MATCH required'' else ''No conflict'')\<rparr>"

definition total_variance_check :: "policy_config \<Rightarrow> reconciliation_metrics \<Rightarrow> policy_check" where
  "total_variance_check cfg m =
     \<lparr>pc_name = ''total_variance'',
      pc_passed = fle (fabs (rm_total_variance_pct m)) (pol_max_total_variance_pct cfg),
      pc_observed = fmt2 (rm_total_variance_pct m) @ ''%'',
      pc_requirement = ''absolute value <= '' @ fmt2 (pol_max_total_variance_pct cfg) @ ''%''\<rparr>"

definition row_count_check :: "policy_config \<Rightarrow> reconciliation_metrics \<Rightarrow> policy_check" where
  "row_count_check cfg m =
     \<lparr>pc_name = ''row_count_variance'',
      pc_passed = fle (fabs (rm_row_count_variance_pct m)) (pol_max_row_count_variance_pct cfg),
      pc_observed = fmt2 (rm_row_count_variance_pct m) @ ''%'',
      pc_requirement = ''absolute value <= '' @ fmt2 (pol_max_row_count_variance_pct cfg) @ ''%''\<rparr>"

definition primary_key_check :: "policy_config \<Rightarrow> reconciliation_metrics \<Rightarrow> policy_check" where
  "primary_key_check cfg m =
     \<lparr>pc_name = ''primary_key_overlap'',
      pc_passed = fle (pol_min_primary_key_overlap_pct cfg) (rm_primary_key_overlap_pct m),
      pc_observed = fmt2 (rm_primary_key_overlap_pct m) @ ''%'',
      pc_requirement = ''>= '' @ fmt2 (pol_min_primary_key_overlap_pct cfg) @ ''%''\<rparr>"

definition null_rate_check :: "policy_config \<Rightarrow> reconciliation_metrics \<Rightarrow> policy_check" where
  "null_rate_check cfg m =
     \<lparr>pc_name = ''null_rate_delta'',
      pc_passed = fle (fabs (rm_null_rate_delta_pp m)) (pol_max_null_rate_delta_pp cfg),
      pc_observed = fmt2 (rm_null_rate_delta_pp m) @ '' pp'',
      pc_requirement = ''absolute value <= '' @ fmt2 (pol_max_null_rate_delta_pp cfg) @ '' pp''\<rparr>"

definition dbt_build_check :: "policy_config \<Rightarrow> build_result \<Rightarrow> policy_check" where
  "dbt_build_check cfg b =
     \<lparr>pc_name = ''dbt_build'',
      pc_passed = (if pol_dbt_build_required cfg then br_passed b else True),
      pc_observed =
        (if br_total_checks b \<noteq> 0
         then decimal (br_passed_checks b) @ ''/'' @ decimal (br_total_checks b) @ '' passed''
         else if br_passed b then ''passed'' else ''failed''),
      pc_requirement =
        (if pol_dbt_build_required cfg then ''dbt build must pass'' else ''optional'')\<rparr>"

definition lineage_check :: "policy_config \<Rightarrow> bool \<Rightarrow> policy_check" where
  "lineage_check cfg current =
     \<lparr>pc_name = ''lineage_current'',
      pc_passed = (if pol_lineage_must_be_current cfg then current else True),
      pc_observed = (if current then ''current'' else ''missing or stale''),
      pc_requirement =
        (if pol_lineage_must_be_current cfg then ''current lineage required'' else ''optional'')\<rparr>"

definition reason_text :: "policy_check \<Rightarrow> string" where
  "reason_text c = pc_name c @ '': observed '' @ pc_observed c @ ''; required '' @ pc_requirement c"

definition evaluate ::
  "policy_config \<Rightarrow> semantic_verdict \<Rightarrow> reconciliation_metrics \<Rightarrow> build_result \<Rightarrow> bool
    \<Rightarrow> policy_decision" where
  "evaluate cfg v m b current =
     (let checks = [semantic_check cfg v, total_variance_check cfg m, row_count_check cfg m,
                    primary_key_check cfg m, null_rate_check cfg m, dbt_build_check cfg b,
                    lineage_check cfg current];
          reasons = map reason_text (filter (\<lambda>c. \<not> pc_passed c) checks)
      in \<lparr>pd_accepted = (reasons = []), pd_checks = checks, pd_reasons = reasons\<rparr>)"

definition outcome :: "policy_decision \<Rightarrow> candidate_outcome" where
  "outcome d = (if pd_accepted d then ELIGIBLE else REJECTED)"

section \<open>Correctness\<close>

lemmas policy_check_defs =
  semantic_check_def total_variance_check_def row_count_check_def primary_key_check_def
  null_rate_check_def dbt_build_check_def lineage_check_def

text \<open>The policy as one condition, written without the checks.\<close>

definition acceptable ::
  "policy_config \<Rightarrow> semantic_verdict \<Rightarrow> reconciliation_metrics \<Rightarrow> build_result \<Rightarrow> bool \<Rightarrow> bool" where
  "acceptable cfg v m b current \<longleftrightarrow>
     v \<noteq> CONFLICT \<and> (pol_semantic_evidence_required cfg \<longrightarrow> v = MATCH)
     \<and> fle (fabs (rm_total_variance_pct m)) (pol_max_total_variance_pct cfg)
     \<and> fle (fabs (rm_row_count_variance_pct m)) (pol_max_row_count_variance_pct cfg)
     \<and> fle (pol_min_primary_key_overlap_pct cfg) (rm_primary_key_overlap_pct m)
     \<and> fle (fabs (rm_null_rate_delta_pp m)) (pol_max_null_rate_delta_pp cfg)
     \<and> (pol_dbt_build_required cfg \<longrightarrow> br_passed b)
     \<and> (pol_lineage_must_be_current cfg \<longrightarrow> current)"

lemma evaluate_accepted: "pd_accepted (evaluate cfg v m b l) \<longleftrightarrow> acceptable cfg v m b l"
  by (auto simp: evaluate_def acceptable_def policy_check_defs Let_def)

lemma evaluate_reasons:
  "pd_reasons (evaluate cfg v m b l) =
     map reason_text (filter (\<lambda>c. \<not> pc_passed c) (pd_checks (evaluate cfg v m b l)))"
  by (simp add: evaluate_def Let_def)

lemma evaluate_accepted_checks:
  "pd_accepted (evaluate cfg v m b l) \<longleftrightarrow> (\<forall>c \<in> set (pd_checks (evaluate cfg v m b l)). pc_passed c)"
  by (simp add: evaluate_def Let_def filter_empty_conv)

lemma evaluate_check_names:
  "map pc_name (pd_checks (evaluate cfg v m b l)) =
     [''semantic_evidence'', ''total_variance'', ''row_count_variance'', ''primary_key_overlap'',
      ''null_rate_delta'', ''dbt_build'', ''lineage_current'']"
  by (simp add: evaluate_def Let_def policy_check_defs)

lemma outcome_not_selected [simp]: "outcome d \<noteq> SELECTED"
  by (simp add: outcome_def)

lemma outcome_eligible [simp]: "outcome d = ELIGIBLE \<longleftrightarrow> pd_accepted d"
  by (simp add: outcome_def)

section \<open>The default policy\<close>

lemma dbl_half: "dbl (50/100) = Fin (1/2)"
  by code_simp

lemma dbl_tenth: "dbl (10/100) = Fin (3602879701896397/36028797018963968)"
  by code_simp

lemma dbl_overlap: "dbl (9990/100) = Fin (3514918771674317/35184372088832)"
  by code_simp

lemmas default_thresholds = dbl_half dbl_tenth dbl_overlap

lemma acceptable_default:
  "acceptable default_policy_config v m b l \<longleftrightarrow>
     v = MATCH \<and> br_passed b \<and> l
     \<and> fle (fabs (rm_total_variance_pct m)) (dbl (50/100))
     \<and> fle (fabs (rm_row_count_variance_pct m)) (dbl (10/100))
     \<and> fle (dbl (9990/100)) (rm_primary_key_overlap_pct m)
     \<and> fle (fabs (rm_null_rate_delta_pp m)) (dbl (50/100))"
  by (auto simp: acceptable_def default_policy_config_def)

section \<open>Stricter policies\<close>

definition stricter :: "policy_config \<Rightarrow> policy_config \<Rightarrow> bool" where
  "stricter c d \<longleftrightarrow>
     (pol_semantic_evidence_required d \<longrightarrow> pol_semantic_evidence_required c)
     \<and> fle (pol_max_total_variance_pct c) (pol_max_total_variance_pct d)
     \<and> fle (pol_max_row_count_variance_pct c) (pol_max_row_count_variance_pct d)
     \<and> fle (pol_min_primary_key_overlap_pct d) (pol_min_primary_key_overlap_pct c)
     \<and> fle (pol_max_null_rate_delta_pp c) (pol_max_null_rate_delta_pp d)
     \<and> (pol_dbt_build_required d \<longrightarrow> pol_dbt_build_required c)
     \<and> (pol_lineage_must_be_current d \<longrightarrow> pol_lineage_must_be_current c)"

lemma acceptable_antimono: "stricter c d \<Longrightarrow> acceptable c v m b l \<Longrightarrow> acceptable d v m b l"
  unfolding stricter_def acceptable_def by (auto intro: fle_trans)

end
