(* ===== verification/Sql_Safety.thy ===== *)
theory Sql_Safety
  imports Models
begin

text \<open>
  The SQL renderer, the independent gate on rendered SQL and the dbt patch of
  \<^verbatim>\<open>packages/remediation/sql_safety.py\<close>. The regular expression of the gate is a sequence of tokens
  that cannot run into each other, so its model reads them one after the other.
\<close>

section \<open>Identifiers\<close>

definition is_word_start :: "char \<Rightarrow> bool" where
  "is_word_start c \<longleftrightarrow> is_alpha c \<or> c = CHR ''_''"

definition is_word :: "char \<Rightarrow> bool" where
  "is_word c \<longleftrightarrow> is_alpha c \<or> is_digit c \<or> c = CHR ''_''"

definition is_identifier :: "string \<Rightarrow> bool" where
  "is_identifier s \<longleftrightarrow>
     (case s of [] \<Rightarrow> False
      | c # cs \<Rightarrow> is_word_start c \<and> length cs \<le> 127 \<and> list_all is_word cs)"

definition require_identifier :: "string \<Rightarrow> string \<Rightarrow> exn + string" where
  "require_identifier value label =
     (if \<not> is_identifier value
      then Inl (SQLSafetyError (''Unsafe '' @ label @ '': '' @ py_repr value))
      else Inr value)"

definition require_relation :: "string \<Rightarrow> exn + string" where
  "require_relation value =
     (let parts = split_on CHR ''.'' value
      in if \<not> (1 \<le> length parts \<and> length parts \<le> 3)
         then Inl (SQLSafetyError (''Unsafe relation: '' @ py_repr value))
         else bind_res (map_res (\<lambda>part. require_identifier part ''relation component'') parts)
                (\<lambda>ps. Inr (join_with ''.'' ps)))"

definition require_revenue_alias :: "string \<Rightarrow> exn + string" where
  "require_revenue_alias value =
     bind_res (require_identifier value ''target alias'') (\<lambda>alias.
       if alias \<noteq> ''revenue''
       then Inl (SQLSafetyError
         (''The v1 remediation renderer only permits target_alias='' @ py_repr ''revenue''))
       else Inr alias)"

section \<open>Rendering\<close>

definition newline :: string where
  "newline = [CHR 0x0A]"

definition render_candidate_sql :: "candidate_proposal \<Rightarrow> string \<Rightarrow> exn + string" where
  "render_candidate_sql proposal relation =
     bind_res (require_identifier (cp_source_field proposal) ''source field'') (\<lambda>source_field.
     bind_res (require_revenue_alias (cp_target_alias proposal)) (\<lambda>target_alias.
     bind_res (require_relation relation) (\<lambda>rel.
       Inr (''SELECT'' @ newline @ ''    payment_id,'' @ newline
            @ ''    '' @ source_field @ '' AS '' @ target_alias @ newline
            @ ''FROM '' @ rel))))"

section \<open>The gate\<close>

text \<open>\<open>\s*\<close>, \<open>\s+\<close>, a literal under \<^verbatim>\<open>re.IGNORECASE\<close>, and the identifier group.\<close>

definition eat_spaces :: "string \<Rightarrow> string option" where
  "eat_spaces s = Some (dropWhile is_space s)"

definition eat_spaces1 :: "string \<Rightarrow> string option" where
  "eat_spaces1 s =
     (case s of [] \<Rightarrow> None | c # cs \<Rightarrow> if is_space c then Some (dropWhile is_space cs) else None)"

definition eat_literal :: "string \<Rightarrow> string \<Rightarrow> string option" where
  "eat_literal w s =
     (if prefix (casefold w) (casefold s) then Some (drop (length w) s) else None)"

definition eat_identifier :: "string \<Rightarrow> (string \<times> string) option" where
  "eat_identifier s =
     (let w = takeWhile is_word s
      in if is_identifier w then Some (w, drop (length w) s) else None)"

definition match_candidate_sql :: "string \<Rightarrow> string \<Rightarrow> (string \<times> string) option" where
  "match_candidate_sql relation sql =
     Option.bind (eat_spaces sql) (\<lambda>s.
     Option.bind (eat_literal ''SELECT'' s) (\<lambda>s.
     Option.bind (eat_spaces1 s) (\<lambda>s.
     Option.bind (eat_literal ''payment_id'' s) (\<lambda>s.
     Option.bind (eat_spaces s) (\<lambda>s.
     Option.bind (eat_literal '','' s) (\<lambda>s.
     Option.bind (eat_spaces s) (\<lambda>s.
     Option.bind (eat_identifier s) (\<lambda>(source_field, s).
     Option.bind (eat_spaces1 s) (\<lambda>s.
     Option.bind (eat_literal ''AS'' s) (\<lambda>s.
     Option.bind (eat_spaces1 s) (\<lambda>s.
     Option.bind (eat_identifier s) (\<lambda>(target_alias, s).
     Option.bind (eat_spaces1 s) (\<lambda>s.
     Option.bind (eat_literal ''FROM'' s) (\<lambda>s.
     Option.bind (eat_spaces1 s) (\<lambda>s.
     Option.bind (eat_literal relation s) (\<lambda>s.
     Option.bind (eat_spaces s) (\<lambda>s.
       if s = [] then Some (source_field, target_alias) else None)))))))))))))))))"

definition validate_candidate_sql :: "string \<Rightarrow> string \<Rightarrow> exn + string" where
  "validate_candidate_sql sql relation =
     bind_res (require_relation relation) (\<lambda>rel.
       if contains '';'' sql \<or> contains ''--'' sql \<or> contains ''/*'' sql \<or> contains ''*/'' sql
       then Inl (SQLSafetyError ''Comments and multiple statements are not allowed'')
       else case match_candidate_sql rel sql of
         None \<Rightarrow> Inl (SQLSafetyError
           ''Candidate SQL does not match the read-only allowlisted shape'')
       | Some (source_field, target_alias) \<Rightarrow>
           bind_res (require_identifier source_field ''source field'') (\<lambda>_.
           bind_res (require_revenue_alias target_alias) (\<lambda>_. Inr sql)))"

section \<open>The dbt patch\<close>

definition revenue_default :: "string \<Rightarrow> string" where
  "revenue_default column =
     ''{% set revenue_column = env_var('' @ [CHR 0x22] @ ''DATARESCUE_REVENUE_COLUMN''
     @ [CHR 0x22] @ '', '' @ [CHR 0x22] @ column @ [CHR 0x22] @ '') %}''"

definition render_dbt_patch :: "candidate_proposal \<Rightarrow> string \<Rightarrow> exn + string" where
  "render_dbt_patch proposal existing_sql =
     bind_res (require_identifier (cp_source_field proposal) ''source field'') (\<lambda>source_field.
     bind_res (require_revenue_alias (cp_target_alias proposal)) (\<lambda>_.
       let current = revenue_default ''amount'';
           desired = revenue_default source_field;
           before_count = count_sub current existing_sql;
           desired_count = count_sub desired existing_sql
       in if before_count = 0 \<and> desired_count = 1 then Inr existing_sql
          else if before_count \<noteq> 1 \<or> desired_count \<noteq> 0
          then Inl (SQLSafetyError
            ''The staging model does not contain one unambiguous allowlisted revenue default'')
          else let patched = replace_first current desired existing_sql
            in if patched = existing_sql
               then Inl (SQLSafetyError ''The staging model patch made no change'')
               else Inr patched))"

section \<open>Identifiers are inert\<close>

lemma require_identifier_Inr [simp]:
  "require_identifier v l = Inr w \<longleftrightarrow> is_identifier v \<and> w = v"
  by (auto simp: require_identifier_def)

lemma require_identifier_ok: "is_identifier v \<Longrightarrow> require_identifier v l = Inr v"
  by simp

lemma is_identifier_words: "is_identifier s \<Longrightarrow> s \<noteq> [] \<and> list_all is_word s \<and> length s \<le> 128"
  by (cases s) (auto simp: is_identifier_def is_word_start_def is_word_def)

lemma is_word_char: "is_word c \<longleftrightarrow>
    65 \<le> code c \<and> code c \<le> 90 \<or> 97 \<le> code c \<and> code c \<le> 122 \<or> 48 \<le> code c \<and> code c \<le> 57
    \<or> c = CHR ''_''"
  by (auto simp: is_word_def is_alpha_def is_upper_def is_lower_def is_digit_def)

lemma is_word_not_space: "is_word c \<Longrightarrow> \<not> is_space c"
  by (auto simp: is_word_char is_space_def code_def)

lemma require_revenue_alias_Inr [simp]:
  "require_revenue_alias v = Inr w \<longleftrightarrow> v = ''revenue'' \<and> w = v"
proof -
  have "is_identifier ''revenue''" by code_simp
  then show ?thesis by (auto simp: require_revenue_alias_def bind_res_Inr_iff)
qed

lemma revenue_alias_ok: "require_revenue_alias ''revenue'' = Inr ''revenue''"
  by simp

lemma require_relation_Inr:
  "require_relation v = Inr w \<longleftrightarrow>
     w = v \<and> length (split_on CHR ''.'' v) \<le> 3 \<and> list_all is_identifier (split_on CHR ''.'' v)"
proof -
  have "list_all2 (\<lambda>x y. is_identifier x \<and> y = x) xs ys \<longleftrightarrow> ys = xs \<and> list_all is_identifier xs"
    for xs ys
    by (induction xs arbitrary: ys) (auto simp: list_all2_Cons1)
  moreover have "Suc 0 \<le> length (split_on CHR ''.'' v)"
    by (cases "split_on CHR ''.'' v") (use split_on_ne in auto)
  ultimately show ?thesis
    by (auto simp: require_relation_def Let_def bind_res_Inr_iff map_res_Inr_iff split: if_splits)
qed

lemma relation_chars:
  assumes "require_relation v = Inr w" "c \<in> set w"
  shows "is_word c \<or> c = CHR ''.''"
proof -
  have "set (join_with [d] ws) \<subseteq> insert d (\<Union>(set ` set ws))" for d ws
    by (induction "[d]" ws rule: join_with.induct) auto
  from this [of "CHR ''.''" "split_on CHR ''.'' v"]
  have "set v \<subseteq> insert (CHR ''.'') (\<Union>(set ` set (split_on CHR ''.'' v)))" by simp
  with assms show ?thesis
    unfolding require_relation_Inr list_all_iff using is_identifier_words
    by (fastforce simp: list_all_iff)
qed

section \<open>What the gate accepts\<close>

definition squeeze :: "string \<Rightarrow> string" where
  "squeeze s = filter (\<lambda>c. \<not> is_space c) (casefold s)"

lemma is_space_lower [simp]: "is_space (lower_char c) = is_space c"
proof (cases "is_upper c")
  case True
  then have "code c + 32 < 256" by (simp add: is_upper_def)
  with True show ?thesis by (auto simp: lower_char_def is_upper_def is_space_def code_def)
qed (simp add: lower_char_def)

lemma squeeze_append [simp]: "squeeze (s @ t) = squeeze s @ squeeze t"
  by (simp add: squeeze_def)

lemma squeeze_dropWhile [simp]: "squeeze (dropWhile is_space s) = squeeze s"
  by (induction s) (auto simp: squeeze_def casefold_def)

lemma squeeze_Cons_space: "is_space c \<Longrightarrow> squeeze (c # s) = squeeze s"
  by (simp add: squeeze_def casefold_def)

lemma squeeze_words: "list_all is_word w \<Longrightarrow> squeeze w = casefold w"
  by (induction w) (auto simp: squeeze_def casefold_def is_word_not_space)

lemma eat_spaces_squeeze: "eat_spaces s = Some r \<Longrightarrow> squeeze s = squeeze r"
  by (auto simp: eat_spaces_def)

lemma eat_spaces1_squeeze: "eat_spaces1 s = Some r \<Longrightarrow> squeeze s = squeeze r"
  by (auto simp: eat_spaces1_def squeeze_Cons_space split: list.splits if_splits)

lemma eat_literal_squeeze: "eat_literal w s = Some r \<Longrightarrow> squeeze s = squeeze w @ squeeze r"
proof -
  assume "eat_literal w s = Some r"
  then have p: "prefix (casefold w) (casefold s)" and r: "r = drop (length w) s"
    by (auto simp: eat_literal_def split: if_splits)
  from p have "casefold s = casefold w @ drop (length w) (casefold s)"
    by (auto simp: prefix_def)
  then have "casefold s = casefold w @ casefold r"
    by (simp add: r casefold_def drop_map)
  then show ?thesis by (simp add: squeeze_def)
qed

lemma eat_identifier_squeeze:
  "eat_identifier s = Some (w, r) \<Longrightarrow> is_identifier w \<and> squeeze s = casefold w @ squeeze r"
proof -
  assume "eat_identifier s = Some (w, r)"
  then have w: "w = takeWhile is_word s" "is_identifier w" "r = drop (length w) s"
    by (auto simp: eat_identifier_def Let_def split: if_splits)
  then have "s = w @ r" by (metis dropWhile_eq_drop takeWhile_dropWhile_id)
  with w(2) show ?thesis using is_identifier_words [OF w(2)] squeeze_words by simp
qed

lemma match_candidate_sql_shape:
  assumes "match_candidate_sql rel sql = Some (f, a)"
  shows "is_identifier f \<and> is_identifier a
    \<and> squeeze sql = ''selectpayment_id,'' @ casefold f @ ''as'' @ casefold a @ ''from'' @ squeeze rel"
proof -
  have lits: "squeeze ''SELECT'' = ''select''" "squeeze ''payment_id'' = ''payment_id''"
    "squeeze '','' = '',''" "squeeze ''AS'' = ''as''" "squeeze ''FROM'' = ''from''" "squeeze [] = []"
    by code_simp+
  show ?thesis
    using assms unfolding match_candidate_sql_def
    by (auto simp: bind_eq_Some_conv lits split: if_splits
        dest!: eat_spaces_squeeze eat_spaces1_squeeze eat_literal_squeeze eat_identifier_squeeze)
qed

lemma eat_spaces_run: "list_all is_space sp \<Longrightarrow> r \<noteq> [] \<Longrightarrow> \<not> is_space (hd r) \<Longrightarrow> eat_spaces (sp @ r) = Some r"
  by (induction sp) (auto simp: eat_spaces_def neq_Nil_conv)

lemma eat_spaces1_run:
  "sp \<noteq> [] \<Longrightarrow> list_all is_space sp \<Longrightarrow> r \<noteq> [] \<Longrightarrow> \<not> is_space (hd r) \<Longrightarrow> eat_spaces1 (sp @ r) = Some r"
  using eat_spaces_run [of "tl sp" r] by (cases sp) (auto simp: eat_spaces1_def eat_spaces_def)

lemma eat_literal_run: "eat_literal w (w @ r) = Some r"
  by (simp add: eat_literal_def)

lemma eat_identifier_run:
  "is_identifier w \<Longrightarrow> r = [] \<or> \<not> is_word (hd r) \<Longrightarrow> eat_identifier (w @ r) = Some (w, r)"
proof -
  assume w: "is_identifier w" and r: "r = [] \<or> \<not> is_word (hd r)"
  have "takeWhile is_word r = []" using r by (cases r) auto
  moreover have "\<forall>c \<in> set w. is_word c"
    using is_identifier_words [OF w] by (simp add: list_all_iff)
  ultimately have "takeWhile is_word (w @ r) = w" by simp
  with w show ?thesis by (simp add: eat_identifier_def Let_def)
qed

lemma render_candidate_sql_Inr:
  "render_candidate_sql p relation = Inr sql \<longleftrightarrow>
     is_identifier (cp_source_field p) \<and> cp_target_alias p = ''revenue''
     \<and> require_relation relation = Inr relation
     \<and> sql = ''SELECT'' @ newline @ ''    payment_id,'' @ newline
            @ ''    '' @ cp_source_field p @ '' AS '' @ ''revenue'' @ newline
            @ ''FROM '' @ relation"
proof -
  have "require_relation relation = Inr w \<Longrightarrow> w = relation" for w
    by (simp add: require_relation_Inr)
  then show ?thesis
    unfolding render_candidate_sql_def bind_res_Inr_iff by fastforce
qed

lemma rendered_match:
  assumes f: "is_identifier f" and rel: "require_relation relation = Inr relation"
  shows "match_candidate_sql relation
    (''SELECT'' @ newline @ ''    payment_id,'' @ newline @ ''    '' @ f @ '' AS '' @ ''revenue''
      @ newline @ ''FROM '' @ relation) = Some (f, ''revenue'')"
proof -
  have rev: "is_identifier ''revenue''" by code_simp
  have f1: "f \<noteq> []" "\<not> is_space (hd f)"
    using is_identifier_words [OF f] is_word_not_space by (cases f; auto)+
  have rel1: "relation \<noteq> []" "\<not> is_space (hd relation)"
  proof -
    show ne: "relation \<noteq> []"
      using rel unfolding require_relation_Inr by (auto simp: is_identifier_def)
    have "is_word (hd relation) \<or> hd relation = CHR ''.''"
      by (rule relation_chars [OF rel]) (simp add: ne)
    then show "\<not> is_space (hd relation)"
      using is_word_not_space by (auto simp: is_space_def code_def)
  qed
  let ?sp = "newline @ ''    ''"
  have sp: "list_all is_space ?sp" "list_all is_space '' ''" "list_all is_space newline"
    by (code_simp, code_simp, code_simp)
  have heads: "\<not> is_space CHR ''S''" "\<not> is_space CHR ''p''" "\<not> is_space CHR '',''"
    "\<not> is_space CHR ''A''" "\<not> is_space CHR ''r''" "\<not> is_space CHR ''F''"
    "\<not> is_word CHR '' ''" "\<not> is_word CHR 0x0A"
    by code_simp+
  let ?t6 = "''FROM'' @ '' '' @ relation"
  let ?t5 = "''revenue'' @ newline @ ?t6"
  let ?t4 = "''AS'' @ '' '' @ ?t5"
  let ?t3 = "f @ '' '' @ ?t4"
  let ?t2 = "'','' @ ?sp @ ?t3"
  let ?t1 = "''payment_id'' @ ?t2"
  have whole: "''SELECT'' @ newline @ ''    payment_id,'' @ newline @ ''    '' @ f @ '' AS ''
    @ ''revenue'' @ newline @ ''FROM '' @ relation = ''SELECT'' @ ?sp @ ?t1"
    by simp
  have steps:
    "eat_spaces (''SELECT'' @ ?sp @ ?t1) = Some (''SELECT'' @ ?sp @ ?t1)"
    "eat_spaces1 (?sp @ ?t1) = Some ?t1"
    "eat_spaces ?t2 = Some ?t2"
    "eat_spaces (?sp @ ?t3) = Some ?t3"
    "eat_identifier ?t3 = Some (f, '' '' @ ?t4)"
    "eat_spaces1 ('' '' @ ?t4) = Some ?t4"
    "eat_spaces1 ('' '' @ ?t5) = Some ?t5"
    "eat_identifier ?t5 = Some (''revenue'', newline @ ?t6)"
    "eat_spaces1 (newline @ ?t6) = Some ?t6"
    "eat_spaces1 ('' '' @ relation) = Some relation"
    "eat_spaces [] = Some []"
    subgoal using eat_spaces_run [of "[]" "''SELECT'' @ ?sp @ ?t1"] heads by simp
    subgoal by (rule eat_spaces1_run) (use sp heads in simp_all)
    subgoal using eat_spaces_run [of "[]" ?t2] heads by simp
    subgoal by (rule eat_spaces_run) (use sp f1 in simp_all)
    subgoal by (rule eat_identifier_run) (use f heads in simp_all)
    subgoal by (rule eat_spaces1_run) (use sp heads in simp_all)
    subgoal by (rule eat_spaces1_run) (use sp heads in simp_all)
    subgoal by (rule eat_identifier_run) (use rev heads in \<open>simp_all add: newline_def\<close>)
    subgoal by (rule eat_spaces1_run) (use sp heads in \<open>simp_all add: newline_def\<close>)
    subgoal by (rule eat_spaces1_run) (use sp rel1 in simp_all)
    subgoal by (simp add: eat_spaces_def)
    done
  have lit: "eat_literal relation relation = Some []"
    using eat_literal_run [of relation "[]"] by simp
  show ?thesis
    unfolding whole match_candidate_sql_def
    by (simp only: steps eat_literal_run lit bind.simps Option.bind.simps case_prod_conv simp_thms if_True refl)
qed

lemma render_validate:
  assumes "render_candidate_sql p relation = Inr sql"
  shows "validate_candidate_sql sql relation = Inr sql
    \<and> match_candidate_sql relation sql = Some (cp_source_field p, ''revenue'')"
proof -
  from assms have f: "is_identifier (cp_source_field p)" and rel: "require_relation relation = Inr relation"
    and sql: "sql = ''SELECT'' @ newline @ ''    payment_id,'' @ newline
            @ ''    '' @ cp_source_field p @ '' AS '' @ ''revenue'' @ newline
            @ ''FROM '' @ relation"
    unfolding render_candidate_sql_Inr by auto
  have word: "\<not> is_word CHR '';''" "\<not> is_word CHR ''-''" "\<not> is_word CHR ''*''" by code_simp+
  have "c \<notin> set (cp_source_field p)" "c \<notin> set relation" if "\<not> is_word c" "c \<noteq> CHR ''.''" for c
    using that is_identifier_words [OF f] relation_chars [OF rel] by (auto simp: list_all_iff)
  then have "CHR '';'' \<notin> set sql" "CHR ''-'' \<notin> set sql" "CHR ''*'' \<notin> set sql"
    using word by (simp_all add: sql newline_def)
  then have "\<not> contains '';'' sql" "\<not> contains ''--'' sql" "\<not> contains ''/*'' sql" "\<not> contains ''*/'' sql"
    by (auto dest!: contains_set)
  with rendered_match [OF f rel] f rel show ?thesis
    unfolding validate_candidate_sql_def sql [symmetric] rel bind_res.simps
    by (simp add: revenue_alias_ok require_identifier_ok [OF f])
qed

lemma validate_shape:
  assumes "validate_candidate_sql sql relation = Inr sql'"
  shows "sql' = sql \<and> (\<exists>f. is_identifier f
    \<and> squeeze sql = ''selectpayment_id,'' @ casefold f @ ''asrevenuefrom'' @ squeeze relation)"
proof -
  from assms obtain f a where m: "match_candidate_sql relation sql = Some (f, a)" "a = ''revenue''" "sql' = sql"
    by (auto simp: validate_candidate_sql_def bind_res_Inr_iff require_relation_Inr
        split: if_splits option.splits)
  have "casefold ''revenue'' = ''revenue''" by code_simp
  with match_candidate_sql_shape [OF m(1)] m show ?thesis by auto
qed

lemma validate_clean:
  assumes "validate_candidate_sql sql relation = Inr sql'"
  shows "\<not> contains '';'' sql \<and> \<not> contains ''--'' sql \<and> \<not> contains ''/*'' sql \<and> \<not> contains ''*/'' sql"
  using assms by (auto simp: validate_candidate_sql_def bind_res_Inr_iff split: if_splits)

section \<open>The patch touches one place, once\<close>

lemma revenue_default_headed:
  assumes "is_identifier c"
  shows "headed CHR 0x7B (revenue_default c)"
proof -
  have "CHR 0x7B \<notin> set c"
    using is_identifier_words [OF assms] is_word_char [of "CHR 0x7B"]
    by (auto simp: list_all_iff code_def)
  then show ?thesis by (simp add: headed_def revenue_default_def)
qed

lemma revenue_default_inj: "revenue_default c = revenue_default d \<longleftrightarrow> c = d"
  by (simp add: revenue_default_def)

text \<open>Both defaults end at their only closing brace, so one is never a proper prefix of the other.\<close>

lemma revenue_default_prefix:
  assumes c: "is_identifier c" and d: "is_identifier d"
  shows "prefix (revenue_default c) (revenue_default d @ b) \<longleftrightarrow> c = d"
proof
  assume p: "prefix (revenue_default c) (revenue_default d @ b)"
  let ?q = "CHR 0x22"
  have q: "?q \<notin> set c" "?q \<notin> set d"
    using is_identifier_words [OF c] is_identifier_words [OF d] is_word_char [of ?q]
    by (auto simp: list_all_iff code_def)
  from p obtain r where "c @ [?q] @ '') %}'' @ r = d @ [?q] @ '') %}'' @ b"
    by (auto simp: revenue_default_def prefix_def)
  then have "takeWhile (\<lambda>x. x \<noteq> ?q) (c @ ?q # '') %}'' @ r) = takeWhile (\<lambda>x. x \<noteq> ?q) (d @ ?q # '') %}'' @ b)"
    by simp
  with q show "c = d" by (auto simp: takeWhile_append split: if_splits)
qed (simp add: prefix_def)

lemma amount_identifier: "is_identifier ''amount''"
  by code_simp

text \<open>The two ways the patch succeeds.\<close>

lemma render_dbt_patch_cases:
  assumes "render_dbt_patch p sql = Inr out"
  obtains (applied) "count_sub (revenue_default ''amount'') sql = 0"
      "count_sub (revenue_default (cp_source_field p)) sql = 1" "out = sql"
  | (change) a b where "sql = a @ revenue_default ''amount'' @ b"
      "out = a @ revenue_default (cp_source_field p) @ b"
      "count_sub (revenue_default ''amount'') sql = 1"
      "count_sub (revenue_default (cp_source_field p)) sql = 0"
proof -
  let ?B = "revenue_default ''amount''" and ?D = "revenue_default (cp_source_field p)"
  have "(count_sub ?B sql = 0 \<and> count_sub ?D sql = 1 \<and> out = sql)
    \<or> (count_sub ?B sql = 1 \<and> count_sub ?D sql = 0 \<and> out = replace_first ?B ?D sql)"
    using assms by (auto simp: render_dbt_patch_def Let_def bind_res_Inr_iff split: if_splits)
  then show thesis
  proof
    assume h: "count_sub ?B sql = 1 \<and> count_sub ?D sql = 0 \<and> out = replace_first ?B ?D sql"
    then have "0 < positions ?B sql"
      using count_sub_positions [OF revenue_default_headed [OF amount_identifier]] by simp
    moreover have "?B \<noteq> []" by (simp add: revenue_default_def)
    ultimately obtain a b where "sql = a @ ?B @ b" "replace_first ?B ?D sql = a @ ?D @ b"
      using replace_first_split by blast
    with h change show thesis by auto
  qed (use applied in auto)
qed

lemma render_dbt_patch_identifier:
  "render_dbt_patch p sql = Inr out \<Longrightarrow> is_identifier (cp_source_field p) \<and> cp_target_alias p = ''revenue''"
  by (auto simp: render_dbt_patch_def bind_res_Inr_iff)

text \<open>After the patch the old default is gone and the new one occurs exactly once.\<close>

lemma render_dbt_patch_counts:
  assumes "render_dbt_patch p sql = Inr out"
  shows "count_sub (revenue_default ''amount'') out = 0
    \<and> count_sub (revenue_default (cp_source_field p)) out = 1"
  using assms
proof (cases rule: render_dbt_patch_cases)
  case (change a b)
  let ?B = "revenue_default ''amount''" and ?D = "revenue_default (cp_source_field p)"
  have f: "is_identifier (cp_source_field p)" using assms render_dbt_patch_identifier by blast
  have hB: "headed CHR 0x7B ?B" and hD: "headed CHR 0x7B ?D"
    using revenue_default_headed amount_identifier f by blast+
  have ne: "cp_source_field p \<noteq> ''amount''" using change(3,4) by auto
  note pre = revenue_default_prefix [OF amount_identifier amount_identifier, of b]
    revenue_default_prefix [OF amount_identifier f, of b]
    revenue_default_prefix [OF f amount_identifier, of b] revenue_default_prefix [OF f f, of b]
  show ?thesis
    using change ne pre positions_split [OF hB hB, of a b] positions_split [OF hD hB, of a b]
      positions_split [OF hB hD, of a b] positions_split [OF hD hD, of a b]
    by (simp add: count_sub_positions [OF hB] count_sub_positions [OF hD])
qed auto

lemma render_dbt_patch_again:
  assumes "render_dbt_patch p sql = Inr out"
  shows "render_dbt_patch p out = Inr out"
  using render_dbt_patch_counts [OF assms] render_dbt_patch_identifier [OF assms]
  by (simp add: render_dbt_patch_def Let_def revenue_alias_ok require_identifier_ok)

end
