(* ===== verification/Candidates.thy ===== *)
theory Candidates
  imports Sql_Safety Sha256
begin

text \<open>
  The candidate generator of \<^verbatim>\<open>packages/remediation/candidates.py\<close>. The answer of the model provider
  (the decoded body of the HTTP response, or the exception of the HTTP client) is the argument
  \<open>post\<close>; everything done with it is modelled.
\<close>

section \<open>The model\<close>

record candidate_generator =
  cg_api_key :: "string option"
  cg_model :: string
  cg_replay_mode :: bool

record candidate_generation_result =
  gr_candidates :: "candidate_proposal list"
  gr_integration :: integration_result

type_synonym model_provider = "schema_change_event \<Rightarrow> context_bundle \<Rightarrow> exn + json"

definition candidate_id :: "string \<Rightarrow> nat \<Rightarrow> string" where
  "candidate_id source_field index =
     ''candidate-'' @ source_field @ ''-''
     @ take 8 (sha256_hex (decimal (int index) @ '':'' @ source_field))"

definition after_names :: "schema_change_event \<Rightarrow> string list" where
  "after_names event = map sf_name (ev_after_fields event)"

definition net_revenue_term :: string where
  "net_revenue_term = ''urn:li:glossaryTerm:NetRevenue''"

definition ordered_fields :: "string list \<Rightarrow> string list" where
  "ordered_fields names =
     (let preferred = filter (\<lambda>n. n \<in> set names) [''gross_amount'', ''net_amount'']
      in preferred
         @ sort (remdups (filter (\<lambda>n. n \<notin> set preferred \<and> n \<noteq> ''payment_id'') names)))"

definition candidate_rationale :: "string \<Rightarrow> string" where
  "candidate_rationale field =
     (if field = ''gross_amount''
      then ''Candidate compiles but conflicts with recognized net revenue semantics''
      else if field = ''net_amount''
      then ''Matches the glossary definition of recognized net settled revenue''
      else ''Schema-compatible candidate requiring deterministic evidence validation'')"

definition deterministic_candidates ::
  "schema_change_event \<Rightarrow> context_bundle \<Rightarrow> candidate_proposal list" where
  "deterministic_candidates event context =
     (let evidence = (if cb_context_documents context = [] then [net_revenue_term]
                      else cb_context_documents context)
      in map (\<lambda>(index, field).
           \<lparr>cp_id = candidate_id field index, cp_source_field = field,
            cp_target_alias = ''revenue'', cp_rationale = candidate_rationale field,
            cp_semantic_evidence = evidence\<rparr>)
         (enumerate 0 (ordered_fields (after_names event))))"

text \<open>Subscripting and iterating a decoded value, as Python does it.\<close>

definition subscript :: "json \<Rightarrow> string \<Rightarrow> exn + json" where
  "subscript v k =
     (case v of
        JDict d \<Rightarrow> (case map_of d k of Some x \<Rightarrow> Inr x | None \<Rightarrow> Inl (KeyErr k))
      | _ \<Rightarrow> Inl (TypeErr ''object is not subscriptable by a string''))"

definition iterate :: "json \<Rightarrow> exn + json list" where
  "iterate v =
     (case v of
        JList xs \<Rightarrow> Inr xs
      | JStr s \<Rightarrow> Inr (map (\<lambda>c. JStr [c]) s)
      | JDict d \<Rightarrow> Inr (map (\<lambda>(k, _). JStr k) d)
      | _ \<Rightarrow> Inl (TypeErr ''object is not iterable''))"

text \<open>\<^verbatim>\<open>_response_output_text\<close>: the first text found, in the source's order of search.\<close>

fun content_text :: "json \<Rightarrow> string option" where
  "content_text (JDict d) = (case jget d ''text'' of JStr s \<Rightarrow> Some s | _ \<Rightarrow> None)"
| "content_text _ = None"

definition get_default :: "jdict \<Rightarrow> string \<Rightarrow> json" where
  "get_default d k = (case map_of d k of Some v \<Rightarrow> v | None \<Rightarrow> JList [])"

fun output_items_text :: "json list \<Rightarrow> exn + string" where
  "output_items_text [] = Inl (ValueError ''Responses API returned no structured output text'')"
| "output_items_text (item # items) =
     (case item of
        JDict d \<Rightarrow>
          bind_res (iterate (get_default d ''content'')) (\<lambda>contents.
            case first_some content_text contents of
              Some s \<Rightarrow> Inr s
            | None \<Rightarrow> output_items_text items)
      | _ \<Rightarrow> output_items_text items)"

definition response_output_text :: "json \<Rightarrow> exn + string" where
  "response_output_text body =
     (case body of
        JDict d \<Rightarrow>
          (case jget d ''output_text'' of
             JStr s \<Rightarrow> Inr s
           | _ \<Rightarrow> bind_res (iterate (get_default d ''output'')) output_items_text)
      | _ \<Rightarrow> Inl (AttributeErr ''object has no attribute get''))"

definition allowed_refs :: "schema_change_event \<Rightarrow> context_bundle \<Rightarrow> string list" where
  "allowed_refs event context =
     ev_entity_urn event # cb_lineage_urns context @ cb_context_documents context"

definition openai_candidate ::
  "json_lib \<Rightarrow> schema_change_event \<Rightarrow> context_bundle \<Rightarrow> nat \<times> json \<Rightarrow> exn + candidate_proposal" where
  "openai_candidate lib event context = (\<lambda>(index, raw).
     bind_res (subscript raw ''source_field'') (\<lambda>raw_field.
     bind_res (require_identifier (py_str lib raw_field) ''source field'') (\<lambda>source_field.
     bind_res (subscript raw ''target_alias'') (\<lambda>raw_alias.
     bind_res (require_revenue_alias (py_str lib raw_alias)) (\<lambda>target_alias.
       if source_field \<notin> set (after_names event)
       then Inl (SQLSafetyError (''Candidate field '' @ py_repr source_field
              @ '' is absent from current schema''))
       else
     bind_res (subscript raw ''semantic_evidence'') (\<lambda>raw_evidence.
     bind_res (iterate raw_evidence) (\<lambda>refs.
       let evidence_refs = map (py_str lib) refs;
           hallucinated =
             sort (remdups (filter (\<lambda>r. r \<notin> set (allowed_refs event context)) evidence_refs))
       in if hallucinated \<noteq> []
          then Inl (SQLSafetyError (''Candidate cited evidence absent from the fetched context: ''
                 @ join_with '', '' hallucinated))
          else
     bind_res (subscript raw ''rationale'') (\<lambda>rationale.
       Inr \<lparr>cp_id = candidate_id source_field index, cp_source_field = source_field,
            cp_target_alias = target_alias, cp_rationale = py_str lib rationale,
            cp_semantic_evidence = evidence_refs\<rparr>))))))))"

definition decision_details :: "json \<Rightarrow> jdict" where
  "decision_details model =
     [(''model'', model), (''decision_authority'', JStr ''deterministic_policy'')]"

definition openai_candidates ::
  "json_lib \<Rightarrow> model_provider \<Rightarrow> candidate_generator \<Rightarrow> schema_change_event \<Rightarrow> context_bundle
    \<Rightarrow> exn + candidate_generation_result" where
  "openai_candidates lib post gen event context =
     bind_res (post event context) (\<lambda>body.
     bind_res (response_output_text body) (\<lambda>text.
     bind_res (case lib_loads lib text of
                 Some v \<Rightarrow> Inr v | None \<Rightarrow> Inl (JSONDecodeError ''invalid JSON'')) (\<lambda>parsed.
     bind_res (subscript parsed ''candidates'') (\<lambda>raw_candidates.
     bind_res (iterate raw_candidates) (\<lambda>raws.
     bind_res (map_res (openai_candidate lib event context) (enumerate 0 raws)) (\<lambda>candidates.
       Inr \<lparr>gr_candidates = candidates,
            gr_integration =
              \<lparr>ir_status = SUCCEEDED, ir_operation = ''candidate_generation'',
               ir_message =
                 ''OpenAI proposed structured mappings; no acceptance decision was delegated'',
               ir_resource_id = None, ir_evidence_refs = [],
               ir_details = decision_details (JStr (cg_model gen))\<rparr>\<rparr>))))))"

text \<open>The exceptions the generator answers with its deterministic fallback.\<close>

definition falls_back :: "exn \<Rightarrow> bool" where
  "falls_back e \<longleftrightarrow> is_http_error e \<or> is_key_error e \<or> is_type_error e \<or> is_value_error e"

definition propose ::
  "json_lib \<Rightarrow> model_provider \<Rightarrow> candidate_generator \<Rightarrow> schema_change_event \<Rightarrow> context_bundle
    \<Rightarrow> exn + candidate_generation_result" where
  "propose lib post gen event context =
     (if cg_api_key gen = None \<or> cg_api_key gen = Some []
      then Inr \<lparr>gr_candidates = deterministic_candidates event context,
                gr_integration =
                  \<lparr>ir_status = (if cg_replay_mode gen then RECORDED_REPLAY else NOT_CONFIGURED),
                   ir_operation = ''candidate_generation'',
                   ir_message =
                     (if cg_replay_mode gen
                      then ''Recorded replay candidates loaded; deterministic policy still owns the decision''
                      else ''OPENAI_API_KEY is not configured; deterministic candidates used''),
                   ir_resource_id = None,
                   ir_evidence_refs =
                     (if cg_replay_mode gen then [''artifact://replay/candidate-proposals.json''] else []),
                   ir_details = decision_details JNull\<rparr>\<rparr>
      else case openai_candidates lib post gen event context of
        Inr r \<Rightarrow> Inr r
      | Inl e \<Rightarrow>
          if falls_back e
          then Inr \<lparr>gr_candidates = deterministic_candidates event context,
                    gr_integration =
                      \<lparr>ir_status = I_FAILED, ir_operation = ''candidate_generation'',
                       ir_message =
                         ''OpenAI candidate generation failed; safe deterministic fallback used: ''
                         @ exn_text e,
                       ir_resource_id = None, ir_evidence_refs = [],
                       ir_details = decision_details (JStr (cg_model gen))\<rparr>\<rparr>
          else Inl e)"

section \<open>Ids\<close>

lemma candidate_id_inj: "candidate_id f i = candidate_id g j \<Longrightarrow> f = g"
proof -
  assume "candidate_id f i = candidate_id g j"
  then have eq: "(f @ ''-'') @ take 8 (sha256_hex (decimal (int i) @ '':'' @ f))
    = (g @ ''-'') @ take 8 (sha256_hex (decimal (int j) @ '':'' @ g))"
    by (simp only: candidate_id_def append_assoc same_append_eq)
  have "f @ ''-'' = g @ ''-''" by (rule append_eq_append_conv [THEN iffD1, OF _ eq, THEN conjunct1]) simp
  then show "f = g" by simp
qed

lemma distinct_ids:
  "distinct fs \<Longrightarrow> distinct (map (\<lambda>(i, f). candidate_id f i) (enumerate k fs))"
proof (induction fs arbitrary: k)
  case (Cons f fs)
  have "candidate_id f k \<noteq> candidate_id g j" if "(j, g) \<in> set (enumerate (Suc k) fs)" for j g
  proof
    assume "candidate_id f k = candidate_id g j"
    then have "f = g" by (rule candidate_id_inj)
    moreover have "g \<in> set fs"
      using that by (metis in_set_enumerate_eq nth_mem snd_conv add.commute in_set_zip enumerate_eq_zip)
    ultimately show False using Cons.prems by simp
  qed
  with Cons show ?case by auto
qed simp

section \<open>The deterministic candidates\<close>

lemma set_ordered_fields: "set (ordered_fields names) = set names - {''payment_id''}"
  by (auto simp: ordered_fields_def Let_def)

lemma distinct_ordered_fields: "distinct (ordered_fields names)"
  by (auto simp: ordered_fields_def Let_def)

lemma deterministic_fields:
  "map cp_source_field (deterministic_candidates event context) = ordered_fields (after_names event)"
  by (simp add: deterministic_candidates_def Let_def map_snd_enumerate o_def case_prod_unfold)

lemma deterministic_ids: "distinct (map cp_id (deterministic_candidates event context))"
proof -
  have "map cp_id (deterministic_candidates event context)
    = map (\<lambda>(i, f). candidate_id f i) (enumerate 0 (ordered_fields (after_names event)))"
    by (simp add: deterministic_candidates_def Let_def o_def case_prod_unfold)
  then show ?thesis using distinct_ids [OF distinct_ordered_fields] by simp
qed

lemma deterministic_alias:
  "p \<in> set (deterministic_candidates event context) \<Longrightarrow> cp_target_alias p = ''revenue''"
  by (auto simp: deterministic_candidates_def Let_def)

lemma deterministic_in_schema:
  "p \<in> set (deterministic_candidates event context) \<Longrightarrow>
     cp_source_field p \<in> set (after_names event) \<and> cp_source_field p \<noteq> ''payment_id''"
  using set_ordered_fields [of "after_names event"] deterministic_fields [of event "context"]
  by (metis DiffE image_eqI insertI1 list.set_map)

section \<open>The proposals of the model provider\<close>

definition proposal_ok :: "schema_change_event \<Rightarrow> candidate_proposal \<Rightarrow> bool" where
  "proposal_ok event p \<longleftrightarrow>
     cp_source_field p \<in> set (after_names event) \<and> cp_target_alias p = ''revenue''"

definition grounded :: "schema_change_event \<Rightarrow> context_bundle \<Rightarrow> candidate_proposal \<Rightarrow> bool" where
  "grounded event context p \<longleftrightarrow>
     is_identifier (cp_source_field p)
     \<and> set (cp_semantic_evidence p) \<subseteq> set (allowed_refs event context)"

lemma no_strangers: "sort (remdups (filter P xs)) = [] \<longleftrightarrow> (\<forall>x \<in> set xs. \<not> P x)"
  for xs :: "string list"
  by (metis (no_types, lifting) filter_empty_conv remdups_eq_nil_iff set_empty set_sort)

lemma openai_candidate_ok:
  assumes "openai_candidate lib event context (i, raw) = Inr p"
  shows "proposal_ok event p \<and> grounded event context p \<and> cp_id p = candidate_id (cp_source_field p) i"
proof -
  obtain f refs rationale where
    "is_identifier f" "f \<in> set (after_names event)"
    "\<forall>r \<in> set (map (py_str lib) refs). r \<in> set (allowed_refs event context)"
    "p = \<lparr>cp_id = candidate_id f i, cp_source_field = f, cp_target_alias = ''revenue'',
          cp_rationale = py_str lib rationale, cp_semantic_evidence = map (py_str lib) refs\<rparr>"
    using assms unfolding openai_candidate_def Let_def
    by (simp add: bind_res_Inr_iff no_strangers split: if_splits) blast
  then show ?thesis by (auto simp: proposal_ok_def grounded_def)
qed

lemma openai_candidates_ok:
  assumes "openai_candidates lib post gen event context = Inr r" "p \<in> set (gr_candidates r)"
  shows "proposal_ok event p \<and> grounded event context p"
proof -
  from assms(1) obtain raws where
    "list_all2 (\<lambda>x y. openai_candidate lib event context x = Inr y) (enumerate 0 raws) (gr_candidates r)"
    unfolding openai_candidates_def bind_res_Inr_iff map_res_Inr_iff by fastforce
  with assms(2) obtain i raw where "openai_candidate lib event context (i, raw) = Inr p"
    by (auto simp: list_all2_conv_all_nth in_set_conv_nth) (metis surj_pair)
  then show ?thesis using openai_candidate_ok by blast
qed

lemma openai_candidates_status:
  "openai_candidates lib post gen event context = Inr r \<Longrightarrow> ir_status (gr_integration r) = SUCCEEDED"
  by (auto simp: openai_candidates_def bind_res_Inr_iff)

lemma propose_cases:
  assumes "propose lib post gen event context = Inr r"
  obtains (fallback) "gr_candidates r = deterministic_candidates event context"
      "ir_status (gr_integration r) \<noteq> SUCCEEDED"
  | (provider) "openai_candidates lib post gen event context = Inr r"
      "ir_status (gr_integration r) = SUCCEEDED"
  using assms openai_candidates_status
  by (fastforce simp: propose_def split: if_splits sum.splits)

lemma propose_ok: "propose lib post gen event context = Inr r \<Longrightarrow> p \<in> set (gr_candidates r) \<Longrightarrow> proposal_ok event p"
  by (erule propose_cases)
    (auto dest: openai_candidates_ok deterministic_in_schema deterministic_alias simp: proposal_ok_def)

lemma propose_Inl: "propose lib post gen event context = Inl e \<Longrightarrow> \<not> falls_back e"
  by (auto simp: propose_def split: if_splits sum.splits)

text \<open>A provider that answers with anything but a JSON object escapes the fallback.\<close>

lemma propose_non_object:
  "cg_api_key gen = Some (c # cs) \<Longrightarrow> post event context = Inr (JList xs) \<Longrightarrow>
     \<exists>m. propose lib post gen event context = Inl (AttributeErr m)"
  by (simp add: propose_def openai_candidates_def response_output_text_def falls_back_def)

end
