(* ===== verification/Dsn.thy ===== *)
theory Dsn
  imports Models
begin

text \<open>
  The connection identity of \<^verbatim>\<open>packages/evidence/executor.py\<close>: \<^verbatim>\<open>_parse_postgres_dsn\<close> with the parts of
  the standard library's \<^verbatim>\<open>urllib.parse\<close> it uses (\<^verbatim>\<open>urlsplit\<close>, the properties of its result,
  \<^verbatim>\<open>parse_qsl\<close> and \<^verbatim>\<open>unquote\<close>), and the environment handed to dbt.

  The DSN is ASCII text; a percent-decoded component is the UTF-8 encoding of the text it stands for.
  Whether the text between the brackets of a host is a valid IPv6 or future address is decided by
  the argument \<open>ip\<close>.
\<close>

section \<open>Splitting a URL\<close>

definition partition :: "char \<Rightarrow> string \<Rightarrow> string \<times> bool \<times> string" where
  "partition c s =
     (takeWhile (\<lambda>x. x \<noteq> c) s, c \<in> set s, drop 1 (dropWhile (\<lambda>x. x \<noteq> c) s))"

definition rpartition :: "char \<Rightarrow> string \<Rightarrow> string \<times> bool \<times> string" where
  "rpartition c s =
     (if c \<in> set s
      then (rev (drop 1 (dropWhile (\<lambda>x. x \<noteq> c) (rev s))), True, rev (takeWhile (\<lambda>x. x \<noteq> c) (rev s)))
      else ([], False, s))"

record split_url =
  us_scheme :: string
  us_netloc :: string
  us_path :: string
  us_query :: string
  us_fragment :: string

definition scheme_char :: "char \<Rightarrow> bool" where
  "scheme_char c \<longleftrightarrow> is_alpha c \<or> is_digit c \<or> c \<in> set ''+-.''"

definition clean_url :: "string \<Rightarrow> string" where
  "clean_url s = filter (\<lambda>c. code c \<noteq> 9 \<and> code c \<noteq> 10 \<and> code c \<noteq> 13) (dropWhile (\<lambda>c. code c \<le> 32) s)"

definition split_scheme :: "string \<Rightarrow> string \<times> string" where
  "split_scheme url =
     (case partition CHR '':'' url of (front, found, after) \<Rightarrow>
        if found \<and> front \<noteq> [] \<and> is_alpha (hd front) \<and> list_all scheme_char front
        then (casefold front, after) else ([], url))"

definition check_brackets :: "(string \<Rightarrow> bool) \<Rightarrow> string \<Rightarrow> bool" where
  "check_brackets ip netloc =
     ((CHR ''['' \<in> set netloc) = (CHR '']'' \<in> set netloc)
      \<and> (CHR ''['' \<in> set netloc \<longrightarrow>
           ip (fst (partition CHR '']'' (snd (snd (partition CHR ''['' netloc)))))))"

definition urlsplit :: "(string \<Rightarrow> bool) \<Rightarrow> string \<Rightarrow> split_url option" where
  "urlsplit ip s =
     (case split_scheme (clean_url s) of (scheme, url) \<Rightarrow>
      let has_netloc = prefix ''//'' url;
          netloc = (if has_netloc then takeWhile (\<lambda>c. c \<notin> set ''/?#'') (drop 2 url) else []);
          rest = (if has_netloc then dropWhile (\<lambda>c. c \<notin> set ''/?#'') (drop 2 url) else url)
      in if has_netloc \<and> \<not> check_brackets ip netloc then None
         else case partition CHR ''#'' rest of (before_fragment, _, fragment) \<Rightarrow>
              case partition CHR ''?'' before_fragment of (path, _, query) \<Rightarrow>
              Some \<lparr>us_scheme = scheme, us_netloc = netloc, us_path = path, us_query = query,
                    us_fragment = fragment\<rparr>)"

definition userinfo :: "string \<Rightarrow> string option \<times> string option" where
  "userinfo netloc =
     (case rpartition CHR ''@'' netloc of (info, have_info, _) \<Rightarrow>
        if have_info
        then case partition CHR '':'' info of (username, have_password, password) \<Rightarrow>
               (Some username, if have_password then Some password else None)
        else (None, None))"

definition hostinfo :: "string \<Rightarrow> string \<times> string" where
  "hostinfo netloc =
     (case rpartition CHR ''@'' netloc of (_, _, info) \<Rightarrow>
      case partition CHR ''['' info of (_, have_open, bracketed) \<Rightarrow>
        if have_open
        then case partition CHR '']'' bracketed of (hostname, _, port) \<Rightarrow>
               (hostname, snd (snd (partition CHR '':'' port)))
        else case partition CHR '':'' info of (hostname, _, port) \<Rightarrow> (hostname, port))"

text \<open>The empty string stands for the property's None.\<close>

definition hostname :: "string \<Rightarrow> string" where
  "hostname netloc =
     (case partition CHR ''%'' (fst (hostinfo netloc)) of (name, found, zone) \<Rightarrow>
        casefold name @ (if found then ''%'' else '''') @ zone)"

definition digits_value :: "string \<Rightarrow> nat" where
  "digits_value s = foldl (\<lambda>n c. 10 * n + (code c - 48)) 0 s"

definition port_of :: "string \<Rightarrow> exn + nat option" where
  "port_of netloc =
     (let port = snd (hostinfo netloc)
      in if port = [] then Inr None
         else if \<not> list_all is_digit port
         then Inl (ValueError (''Port could not be cast to integer value as '' @ py_repr port))
         else if 65535 < digits_value port then Inl (ValueError ''Port out of range 0-65535'')
         else Inr (Some (digits_value port)))"

section \<open>Percent encoding\<close>

definition hex_value :: "char \<Rightarrow> nat" where
  "hex_value c =
     (if is_digit c then code c - 48 else if is_upper c then code c - 55 else code c - 87)"

fun percent_decode :: "string \<Rightarrow> string" where
  "percent_decode (c # a # b # cs) =
     (if c = CHR ''%'' \<and> is_hex a \<and> is_hex b
      then char_of (16 * hex_value a + hex_value b) # percent_decode cs
      else c # percent_decode (a # b # cs))"
| "percent_decode s = s"

text \<open>A percent sign without two hexadecimal digits after it.\<close>

fun bad_percent :: "string \<Rightarrow> bool" where
  "bad_percent [] = False"
| "bad_percent (c # cs) =
     (c = CHR ''%'' \<and> \<not> (2 \<le> length cs \<and> list_all is_hex (take 2 cs)) \<or> bad_percent cs)"

text \<open>Well-formed UTF-8: no stray continuation, no overlong form, no surrogate, at most U+10FFFF.\<close>

definition utf8_follow :: "nat \<Rightarrow> nat" where
  "utf8_follow a =
     (if 194 \<le> a \<and> a \<le> 223 then 1 else if 224 \<le> a \<and> a \<le> 239 then 2
      else if 240 \<le> a \<and> a \<le> 244 then 3 else 0)"

definition utf8_second :: "nat \<Rightarrow> nat \<Rightarrow> bool" where
  "utf8_second a b \<longleftrightarrow>
     (a = 224 \<longrightarrow> 160 \<le> b) \<and> (a = 237 \<longrightarrow> b \<le> 159) \<and> (a = 240 \<longrightarrow> 144 \<le> b) \<and> (a = 244 \<longrightarrow> b \<le> 143)"

fun utf8_ok :: "nat list \<Rightarrow> bool" where
  "utf8_ok [] = True"
| "utf8_ok (a # r) =
     (if a < 128 then utf8_ok r
      else utf8_follow a \<noteq> 0 \<and> utf8_follow a \<le> length r
        \<and> list_all (\<lambda>b. 128 \<le> b \<and> b \<le> 191) (take (utf8_follow a) r)
        \<and> utf8_second a (hd r) \<and> utf8_ok (drop (utf8_follow a) r))"

definition unquote :: "string \<Rightarrow> exn + string" where
  "unquote s =
     (if CHR ''%'' \<notin> set s then Inr s
      else if utf8_ok (map code (percent_decode s)) then Inr (percent_decode s)
      else Inl (ValueError ''invalid utf-8''))"

text \<open>\<^verbatim>\<open>parse_qsl\<close> with \<^verbatim>\<open>keep_blank_values\<close> and \<^verbatim>\<open>strict_parsing\<close>.\<close>

definition unquote_plus :: "string \<Rightarrow> exn + string" where
  "unquote_plus s = unquote (map (\<lambda>c. if c = CHR ''+'' then CHR '' '' else c) s)"

definition parse_field :: "string \<Rightarrow> exn + string \<times> string" where
  "parse_field name_value =
     (case partition CHR ''='' name_value of (name, has_eq, value) \<Rightarrow>
        if \<not> has_eq then Inl (ValueError (''bad query field: '' @ py_repr name_value))
        else bind_res (unquote_plus name) (\<lambda>n. bind_res (unquote_plus value) (\<lambda>v. Inr (n, v))))"

definition parse_qsl :: "string \<Rightarrow> exn + (string \<times> string) list" where
  "parse_qsl qs = (if qs = [] then Inr [] else map_res parse_field (split_on CHR ''&'' qs))"

section \<open>The DSN\<close>

record postgres_connection =
  pg_host :: string
  pg_port :: nat
  pg_dbname :: string
  pg_user :: string
  pg_password :: string
  pg_sslmode :: string

definition default_postgres_port :: nat where
  "default_postgres_port = 5432"

definition reject_control_characters :: "string \<Rightarrow> string \<Rightarrow> exn + unit" where
  "reject_control_characters value label =
     (if \<exists>c \<in> set value. code c < 32 \<or> code c = 127
      then Inl (ValueError (''PostgreSQL DSN contains control characters in '' @ label))
      else Inr ())"

definition decode_dsn_component :: "string option \<Rightarrow> string \<Rightarrow> exn + string" where
  "decode_dsn_component value label =
     (case value of
        None \<Rightarrow> Inr []
      | Some v \<Rightarrow>
          if bad_percent v
          then Inl (ValueError (''PostgreSQL DSN contains invalid encoding in '' @ label))
          else case unquote v of
            Inl _ \<Rightarrow> Inl (ValueError (''PostgreSQL DSN contains invalid encoding in '' @ label))
          | Inr decoded \<Rightarrow>
              bind_res (reject_control_characters decoded label) (\<lambda>_. Inr decoded))"

text \<open>The tests on the split URL, in the source's order, up to the port.\<close>

definition check_dsn_shape :: "split_url \<Rightarrow> exn + unit" where
  "check_dsn_shape parsed =
     (let host = hostname (us_netloc parsed); path = us_path parsed
      in if casefold (us_scheme parsed) \<notin> {''postgres'', ''postgresql''}
         then Inl (ValueError ''PostgreSQL DSN must use a postgres or postgresql URL'')
         else if us_fragment parsed \<noteq> []
         then Inl (ValueError ''PostgreSQL DSN fragments are not supported'')
         else if length (filter (\<lambda>c. c = CHR ''@'') (us_netloc parsed)) \<noteq> 1
         then Inl (ValueError ''PostgreSQL DSN must contain one explicit credential set'')
         else if host = [] \<or> CHR '','' \<in> set host \<or> CHR ''%'' \<in> set host
         then Inl (ValueError ''PostgreSQL DSN must contain one explicit host'')
         else if \<not> prefix ''/'' path \<or> drop 1 path = [] \<or> CHR ''/'' \<in> set (drop 1 path)
         then Inl (ValueError ''PostgreSQL DSN must contain one URL-encoded database name'')
         else Inr ())"

definition dsn_port :: "split_url \<Rightarrow> exn + nat" where
  "dsn_port parsed =
     (case port_of (us_netloc parsed) of
        Inl _ \<Rightarrow> Inl (ValueError ''PostgreSQL DSN contains an invalid port'')
      | Inr p \<Rightarrow>
          let port = (case p of Some n \<Rightarrow> n | None \<Rightarrow> default_postgres_port)
          in if \<not> (1 \<le> port \<and> port \<le> 65535)
             then Inl (ValueError ''PostgreSQL DSN contains an invalid port'')
             else Inr port)"

definition dsn_sslmode :: "split_url \<Rightarrow> exn + string" where
  "dsn_sslmode parsed =
     (case parse_qsl (us_query parsed) of
        Inl _ \<Rightarrow> Inl (ValueError ''PostgreSQL DSN contains an invalid query string'')
      | Inr items \<Rightarrow>
          if \<not> distinct (map fst items)
          then Inl (ValueError ''PostgreSQL DSN contains duplicate connection options'')
          else if \<exists>k \<in> set (map fst items). k \<noteq> ''sslmode''
          then Inl (ValueError ''PostgreSQL DSN contains unsupported connection options'')
          else let sslmode = (case map_of items ''sslmode'' of Some v \<Rightarrow> v | None \<Rightarrow> ''disable'')
            in if sslmode \<noteq> ''disable''
               then Inl (ValueError
                 ''PostgreSQL DSN sslmode must be disable for the configured dbt profile'')
               else Inr sslmode)"

definition parse_postgres_dsn :: "(string \<Rightarrow> bool) \<Rightarrow> string \<Rightarrow> exn + postgres_connection" where
  "parse_postgres_dsn ip dsn =
     (case urlsplit ip dsn of
        None \<Rightarrow> Inl (ValueError ''PostgreSQL DSN is not a valid URL'')
      | Some parsed \<Rightarrow>
          bind_res (check_dsn_shape parsed) (\<lambda>_.
          bind_res (dsn_port parsed) (\<lambda>port.
          bind_res (decode_dsn_component (fst (userinfo (us_netloc parsed))) ''username'') (\<lambda>username.
          bind_res (decode_dsn_component (snd (userinfo (us_netloc parsed))) ''password'') (\<lambda>password.
          bind_res (decode_dsn_component (Some (drop 1 (us_path parsed))) ''database name'') (\<lambda>database.
            let host = hostname (us_netloc parsed)
            in if username = [] \<or> password = [] \<or> database = []
               then Inl (ValueError
                 ''PostgreSQL DSN must contain explicit username, password, and database'')
               else
          bind_res (reject_control_characters host ''host'') (\<lambda>_.
          bind_res (dsn_sslmode parsed) (\<lambda>sslmode.
            Inr \<lparr>pg_host = host, pg_port = port, pg_dbname = database, pg_user = username,
                 pg_password = password, pg_sslmode = sslmode\<rparr>))))))))"

section \<open>The environment of dbt\<close>

definition postgres_dbt_env_keys :: "string list" where
  "postgres_dbt_env_keys =
     [''POSTGRES_HOST'', ''POSTGRES_PORT'', ''POSTGRES_DB'', ''POSTGRES_USER'', ''POSTGRES_PASSWORD'']"

definition dbt_environment :: "postgres_connection \<Rightarrow> (string \<times> string) list" where
  "dbt_environment c =
     [(''POSTGRES_HOST'', pg_host c), (''POSTGRES_PORT'', decimal (int (pg_port c))),
      (''POSTGRES_DB'', pg_dbname c), (''POSTGRES_USER'', pg_user c),
      (''POSTGRES_PASSWORD'', pg_password c)]"

type_synonym environ = "string \<Rightarrow> string option"

definition env_pop :: "string list \<Rightarrow> environ \<Rightarrow> environ" where
  "env_pop keys env = foldl (\<lambda>m k. m(k := None)) env keys"

definition env_update :: "(string \<times> string) list \<Rightarrow> environ \<Rightarrow> environ" where
  "env_update items env = foldl (\<lambda>m (k, v). m(k \<mapsto> v)) env items"

definition dbt_process_env :: "environ \<Rightarrow> postgres_connection \<Rightarrow> string \<Rightarrow> string \<Rightarrow> environ" where
  "dbt_process_env env connection schema column =
     (env_update (dbt_environment connection) (env_pop postgres_dbt_env_keys env))
       (''DBT_SCHEMA'' \<mapsto> schema, ''DATARESCUE_REVENUE_COLUMN'' \<mapsto> column)"

section \<open>What an accepted DSN guarantees\<close>

definition plain_text :: "string \<Rightarrow> bool" where
  "plain_text s \<longleftrightarrow> s \<noteq> [] \<and> (\<forall>c \<in> set s. 32 \<le> code c \<and> code c \<noteq> 127)"

definition connection_ok :: "postgres_connection \<Rightarrow> bool" where
  "connection_ok c \<longleftrightarrow>
     plain_text (pg_host c) \<and> set (pg_host c) \<inter> set '',%'' = {}
     \<and> 1 \<le> pg_port c \<and> pg_port c \<le> 65535
     \<and> plain_text (pg_user c) \<and> plain_text (pg_password c) \<and> plain_text (pg_dbname c)
     \<and> pg_sslmode c = ''disable''"

lemma reject_control_Inr:
  "reject_control_characters v l = Inr x \<longleftrightarrow> (\<forall>c \<in> set v. 32 \<le> code c \<and> code c \<noteq> 127)"
  by (force simp: reject_control_characters_def not_less)

lemma decode_component_Inr:
  assumes "decode_dsn_component v l = Inr x"
  shows "\<forall>c \<in> set x. 32 \<le> code c \<and> code c \<noteq> 127"
proof (cases v)
  case (Some w)
  with assms have "bind_res (unquote w) (\<lambda>d. bind_res (reject_control_characters d l) (\<lambda>_. Inr d)) = Inr x"
    by (cases "bad_percent w"; cases "unquote w") (simp_all add: decode_dsn_component_def)
  then obtain u where "reject_control_characters x l = Inr u"
    by (elim bind_res_InrE) simp
  then show ?thesis by (simp only: reject_control_Inr)
qed (use assms in \<open>simp add: decode_dsn_component_def\<close>)

lemma check_dsn_shape_Inr:
  "check_dsn_shape parsed = Inr u \<Longrightarrow>
     hostname (us_netloc parsed) \<noteq> [] \<and> set (hostname (us_netloc parsed)) \<inter> set '',%'' = {}"
  by (auto simp: check_dsn_shape_def Let_def split: if_splits)

lemma dsn_port_Inr: "dsn_port parsed = Inr p \<Longrightarrow> 1 \<le> p \<and> p \<le> 65535"
  by (auto simp: dsn_port_def Let_def split: if_splits sum.splits)

lemma dsn_sslmode_Inr: "dsn_sslmode parsed = Inr m \<Longrightarrow> m = ''disable''"
  by (auto simp: dsn_sslmode_def Let_def split: if_splits sum.splits)

lemma parse_dsn_steps:
  assumes "parse_postgres_dsn ip dsn = Inr c"
  obtains parsed where "urlsplit ip dsn = Some parsed" "check_dsn_shape parsed = Inr ()"
    "dsn_port parsed = Inr (pg_port c)"
    "decode_dsn_component (fst (userinfo (us_netloc parsed))) ''username'' = Inr (pg_user c)"
    "decode_dsn_component (snd (userinfo (us_netloc parsed))) ''password'' = Inr (pg_password c)"
    "decode_dsn_component (Some (drop 1 (us_path parsed))) ''database name'' = Inr (pg_dbname c)"
    "pg_user c \<noteq> [] \<and> pg_password c \<noteq> [] \<and> pg_dbname c \<noteq> []"
    "reject_control_characters (pg_host c) ''host'' = Inr ()"
    "pg_host c = hostname (us_netloc parsed)"
    "dsn_sslmode parsed = Inr (pg_sslmode c)"
proof (cases "urlsplit ip dsn")
  case (Some parsed)
  from assms Some obtain port username password database where
    *: "check_dsn_shape parsed = Inr ()" "dsn_port parsed = Inr port"
      "decode_dsn_component (fst (userinfo (us_netloc parsed))) ''username'' = Inr username"
      "decode_dsn_component (snd (userinfo (us_netloc parsed))) ''password'' = Inr password"
      "decode_dsn_component (Some (drop 1 (us_path parsed))) ''database name'' = Inr database"
    and rest: "(if username = [] \<or> password = [] \<or> database = []
         then Inl (ValueError ''PostgreSQL DSN must contain explicit username, password, and database'')
         else bind_res (reject_control_characters (hostname (us_netloc parsed)) ''host'') (\<lambda>_.
              bind_res (dsn_sslmode parsed) (\<lambda>sslmode.
              Inr \<lparr>pg_host = hostname (us_netloc parsed), pg_port = port, pg_dbname = database,
                   pg_user = username, pg_password = password, pg_sslmode = sslmode\<rparr>))) = Inr c"
    unfolding parse_postgres_dsn_def Let_def by (simp only: option.case) (elim bind_res_InrE; simp)
  then have ne: "username \<noteq> []" "password \<noteq> []" "database \<noteq> []" by auto
  with rest obtain m where
    "reject_control_characters (hostname (us_netloc parsed)) ''host'' = Inr ()"
    "dsn_sslmode parsed = Inr m"
    "c = \<lparr>pg_host = hostname (us_netloc parsed), pg_port = port, pg_dbname = database,
          pg_user = username, pg_password = password, pg_sslmode = m\<rparr>"
    by (simp only: if_False simp_thms) (elim bind_res_InrE; simp)
  with * ne Some show ?thesis by (intro that [of parsed]) simp_all
qed (use assms in \<open>simp add: parse_postgres_dsn_def\<close>)

lemma parse_dsn_ok:
  assumes "parse_postgres_dsn ip dsn = Inr c"
  shows "connection_ok c"
  using assms
proof (rule parse_dsn_steps)
  fix parsed
  assume steps: "check_dsn_shape parsed = Inr ()" "dsn_port parsed = Inr (pg_port c)"
    "decode_dsn_component (fst (userinfo (us_netloc parsed))) ''username'' = Inr (pg_user c)"
    "decode_dsn_component (snd (userinfo (us_netloc parsed))) ''password'' = Inr (pg_password c)"
    "decode_dsn_component (Some (drop 1 (us_path parsed))) ''database name'' = Inr (pg_dbname c)"
    "pg_user c \<noteq> [] \<and> pg_password c \<noteq> [] \<and> pg_dbname c \<noteq> []"
    "reject_control_characters (pg_host c) ''host'' = Inr ()"
    "pg_host c = hostname (us_netloc parsed)" "dsn_sslmode parsed = Inr (pg_sslmode c)"
  note decoded = steps(3-5) [THEN decode_component_Inr]
  show ?thesis
    unfolding connection_ok_def plain_text_def
    using decoded steps(6,7,8) check_dsn_shape_Inr [OF steps(1)] dsn_port_Inr [OF steps(2)]
      dsn_sslmode_Inr [OF steps(9)]
    by (simp only: reject_control_Inr) simp
qed

lemma parse_dsn_error: "parse_postgres_dsn ip dsn = Inl e \<Longrightarrow> \<exists>m. e = ValueError m"
proof (erule errsD [rotated])
  show "errs (\<lambda>e. \<exists>m. e = ValueError m) (parse_postgres_dsn ip dsn)"
    unfolding parse_postgres_dsn_def check_dsn_shape_def dsn_port_def dsn_sslmode_def
      decode_dsn_component_def reject_control_characters_def Let_def
    by (intro errs_intros exI) (rule refl)+
qed

section \<open>The environment comes from the DSN alone\<close>

lemma dbt_process_env_lookup:
  "dbt_process_env env c schema column k =
     (if k = ''DATARESCUE_REVENUE_COLUMN'' then Some column
      else if k = ''DBT_SCHEMA'' then Some schema
      else if k = ''POSTGRES_HOST'' then Some (pg_host c)
      else if k = ''POSTGRES_PORT'' then Some (decimal (int (pg_port c)))
      else if k = ''POSTGRES_DB'' then Some (pg_dbname c)
      else if k = ''POSTGRES_USER'' then Some (pg_user c)
      else if k = ''POSTGRES_PASSWORD'' then Some (pg_password c)
      else env k)"
  by (simp add: dbt_process_env_def env_update_def env_pop_def dbt_environment_def
      postgres_dbt_env_keys_def)

section \<open>A DSN written from a connection is read back\<close>

definition percent_encode :: "string \<Rightarrow> string" where
  "percent_encode s = concat (map (\<lambda>c.
     if is_alpha c \<or> is_digit c then [c]
     else [CHR ''%'', hex_digit (code c div 16), hex_digit (code c mod 16)]) s)"

definition render_dsn :: "postgres_connection \<Rightarrow> string" where
  "render_dsn c =
     ''postgresql://'' @ percent_encode (pg_user c) @ '':'' @ percent_encode (pg_password c) @ ''@''
     @ pg_host c @ '':'' @ decimal_nat (pg_port c) @ ''/'' @ percent_encode (pg_dbname c)"

definition dns_name :: "string \<Rightarrow> bool" where
  "dns_name h \<longleftrightarrow> (\<forall>c \<in> set h. is_lower c \<or> is_digit c \<or> c = CHR ''-'' \<or> c = CHR ''.'')"

definition ascii_text :: "string \<Rightarrow> bool" where
  "ascii_text s \<longleftrightarrow> (\<forall>c \<in> set s. code c < 128)"

lemma partition_found [simp]: "c \<notin> set a \<Longrightarrow> partition c (a @ c # b) = (a, True, b)"
  by (auto simp: partition_def takeWhile_append dropWhile_append)

lemma partition_absent [simp]: "c \<notin> set a \<Longrightarrow> partition c a = (a, False, [])"
proof -
  assume "c \<notin> set a"
  then have *: "takeWhile (\<lambda>x. x \<noteq> c) a = a" "dropWhile (\<lambda>x. x \<noteq> c) a = []"
    by (induction a) auto
  with \<open>c \<notin> set a\<close> show ?thesis unfolding partition_def * by simp
qed

lemma rpartition_found [simp]: "c \<notin> set b \<Longrightarrow> rpartition c (a @ c # b) = (a, True, b)"
  by (auto simp: rpartition_def takeWhile_append dropWhile_append)

lemma hex_value_digit: "n < 16 \<Longrightarrow> is_hex (hex_digit n) \<and> hex_value (hex_digit n) = n"
  by (auto simp: hex_digit_def is_hex_def hex_value_def is_digit_def is_upper_def code_def)

lemma code_split: "char_of (16 * (code c div 16) + code c mod 16) = c"
  by (simp add: code_def)

lemma hex_digit_alnum: "n < 16 \<Longrightarrow> is_alpha (hex_digit n) \<or> is_digit (hex_digit n)"
  by (auto simp: hex_digit_def is_alpha_def is_lower_def is_digit_def code_def)

lemma percent_encode_chars:
  "c \<in> set (percent_encode s) \<Longrightarrow> is_alpha c \<or> is_digit c \<or> c = CHR ''%''"
proof -
  have "is_alpha (hex_digit (code x div 16)) \<or> is_digit (hex_digit (code x div 16))"
    "is_alpha (hex_digit (code x mod 16)) \<or> is_digit (hex_digit (code x mod 16))" for x
    using code_bound [of x] by (intro hex_digit_alnum; linarith)+
  moreover assume "c \<in> set (percent_encode s)"
  ultimately show ?thesis by (auto simp: percent_encode_def split: if_splits)
qed

lemma percent_encode_ne [simp]: "percent_encode s = [] \<longleftrightarrow> s = []"
  by (cases s) (auto simp: percent_encode_def)

lemma percent_decode_other: "c \<noteq> CHR ''%'' \<Longrightarrow> percent_decode (c # cs) = c # percent_decode cs"
  by (cases cs; cases "tl cs") auto

lemma percent_decode_encode [simp]: "percent_decode (percent_encode s) = s"
proof (induction s)
  case (Cons c cs)
  have "code c div 16 < 16" "code c mod 16 < 16" using code_bound [of c] by linarith+
  then have hex: "is_hex (hex_digit (code c div 16))" "is_hex (hex_digit (code c mod 16))"
    "hex_value (hex_digit (code c div 16)) = code c div 16"
    "hex_value (hex_digit (code c mod 16)) = code c mod 16"
    by (simp_all add: hex_value_digit)
  show ?case
  proof (cases "is_alpha c \<or> is_digit c")
    case True
    then have "c \<noteq> CHR ''%''" by (auto simp: is_alpha_def is_upper_def is_lower_def is_digit_def code_def)
    with True Cons show ?thesis by (simp add: percent_encode_def percent_decode_other)
  next
    case False
    with Cons hex code_split [of c] show ?thesis by (simp add: percent_encode_def)
  qed
qed (simp add: percent_encode_def)

lemma bad_percent_encode: "\<not> bad_percent (percent_encode s)"
proof (induction s)
  case (Cons c cs)
  have "code c div 16 < 16" "code c mod 16 < 16" using code_bound [of c] by linarith+
  then have "is_hex (hex_digit (code c div 16))" "is_hex (hex_digit (code c mod 16))"
    "hex_digit (code c div 16) \<noteq> CHR ''%''" "hex_digit (code c mod 16) \<noteq> CHR ''%''"
    using hex_digit_alnum [of "code c div 16"] hex_digit_alnum [of "code c mod 16"]
    by (auto simp: hex_value_digit is_alpha_def is_upper_def is_lower_def is_digit_def code_def)
  moreover have "c \<noteq> CHR ''%''" if "is_alpha c \<or> is_digit c"
    using that by (auto simp: is_alpha_def is_upper_def is_lower_def is_digit_def code_def)
  ultimately show ?case using Cons by (auto simp: percent_encode_def)
qed (simp add: percent_encode_def)

lemma utf8_ascii: "\<forall>x \<in> set xs. x < 128 \<Longrightarrow> utf8_ok xs"
  by (induction xs rule: utf8_ok.induct) auto

lemma percent_free: "CHR ''%'' \<notin> set s \<Longrightarrow> percent_decode s = s"
  by (induction s rule: percent_decode.induct) auto

lemma unquote_encoded: "ascii_text s \<Longrightarrow> unquote (percent_encode s) = Inr s"
  using percent_decode_encode [of s] percent_free [of "percent_encode s"]
  by (auto simp: unquote_def utf8_ascii ascii_text_def)

lemma decode_encoded [simp]:
  "plain_text s \<Longrightarrow> ascii_text s \<Longrightarrow> decode_dsn_component (Some (percent_encode s)) l = Inr s"
  by (auto simp: decode_dsn_component_def bad_percent_encode unquote_encoded plain_text_def
      reject_control_characters_def)

lemma digits_value_append: "digits_value (s @ [c]) = 10 * digits_value s + (code c - 48)"
  by (simp add: digits_value_def)

lemma decimal_nat_digits: "list_all is_digit (decimal_nat n) \<and> digits_value (decimal_nat n) = n"
proof (induction n rule: decimal_nat.induct)
  case (1 n)
  have digit: "code (char_of (48 + m)) = 48 + m" if "m < 10" for m :: nat
    using that by (simp add: code_def)
  show ?case
  proof (cases "n < 10")
    case True
    then show ?thesis
      using digit [of n] by (subst (1 2) decimal_nat.simps) (simp add: digits_value_def is_digit_def)
  next
    case False
    have "n mod 10 < 10" by simp
    then have "is_digit (char_of (48 + n mod 10))" "code (char_of (48 + n mod 10)) = 48 + n mod 10"
      using digit [of "n mod 10"] by (auto simp: is_digit_def)
    with False 1 show ?thesis
      by (subst (1 2) decimal_nat.simps) (simp add: digits_value_append)
  qed
qed

lemma decimal_nat_ne [simp]: "decimal_nat n \<noteq> []"
  by (subst decimal_nat.simps) simp

lemma decimal_nat_chars: "c \<in> set (decimal_nat n) \<Longrightarrow> is_digit c"
  using decimal_nat_digits [of n] by (simp add: list_all_iff)

text \<open>The characters a rendered DSN is made of, apart from its delimiters.\<close>

definition dsn_char :: "char \<Rightarrow> bool" where
  "dsn_char c \<longleftrightarrow> is_alpha c \<or> is_digit c \<or> c \<in> set ''%-.''"

lemma dsn_char_code: "dsn_char c \<Longrightarrow> 32 < code c"
  by (auto simp: dsn_char_def is_alpha_def is_upper_def is_lower_def is_digit_def code_def)

lemma dsn_char_delim: "dsn_char c \<Longrightarrow> c \<notin> set '':/?#@[]''"
  by (auto simp: dsn_char_def is_alpha_def is_upper_def is_lower_def is_digit_def code_def)

lemma dsn_chars:
  "\<forall>c \<in> set (percent_encode s). dsn_char c" "\<forall>c \<in> set (decimal_nat n). dsn_char c"
  "dns_name h \<Longrightarrow> \<forall>c \<in> set h. dsn_char c"
  using percent_encode_chars [of _ s] decimal_nat_chars [of _ n]
  by (auto simp: dsn_char_def dns_name_def is_alpha_def)

lemma dns_name_lower: "dns_name h \<Longrightarrow> casefold h = h"
  unfolding casefold_def
  by (rule map_idI)
    (auto simp: dns_name_def lower_char_def is_upper_def is_lower_def is_digit_def code_def)

lemma netloc_parts:
  assumes "\<forall>c \<in> set u. dsn_char c" "\<forall>c \<in> set p. dsn_char c" "\<forall>c \<in> set h. dsn_char c"
    "\<forall>c \<in> set n. dsn_char c"
  shows "userinfo (u @ '':'' @ p @ ''@'' @ h @ '':'' @ n) = (Some u, Some p)"
    and "hostinfo (u @ '':'' @ p @ ''@'' @ h @ '':'' @ n) = (h, n)"
    and "filter (\<lambda>c. c = CHR ''@'') (u @ '':'' @ p @ ''@'' @ h @ '':'' @ n) = ''@''"
proof -
  have no: "d \<notin> set u" "d \<notin> set p" "d \<notin> set h" "d \<notin> set n" if "d \<in> set '':/?#@[]''" for d
    using assms dsn_char_delim that by blast+
  have split: "rpartition CHR ''@'' (u @ '':'' @ p @ ''@'' @ h @ '':'' @ n)
      = (u @ '':'' @ p, True, h @ '':'' @ n)"
    using rpartition_found [of "CHR ''@''" "h @ '':'' @ n" "u @ '':'' @ p"] no by simp
  show "userinfo (u @ '':'' @ p @ ''@'' @ h @ '':'' @ n) = (Some u, Some p)"
    unfolding userinfo_def split using no by simp
  show "hostinfo (u @ '':'' @ p @ ''@'' @ h @ '':'' @ n) = (h, n)"
    unfolding hostinfo_def split using no by simp
  show "filter (\<lambda>c. c = CHR ''@'') (u @ '':'' @ p @ ''@'' @ h @ '':'' @ n) = ''@''"
  proof -
    have "filter (\<lambda>c. c = CHR ''@'') s = []" if "CHR ''@'' \<notin> set s" for s
      using that by (induction s) auto
    then show ?thesis using no [of "CHR ''@''"] by simp
  qed
qed

lemma clean_url_id:
  "\<forall>c \<in> set s. 32 < code c \<Longrightarrow> clean_url s = s"
proof -
  assume ok: "\<forall>c \<in> set s. 32 < code c"
  then have "dropWhile (\<lambda>c. code c \<le> 32) s = s" by (cases s) auto
  moreover have "filter (\<lambda>c. code c \<noteq> 9 \<and> code c \<noteq> 10 \<and> code c \<noteq> 13) s = s"
    using ok by (intro filter_True) auto
  ultimately show ?thesis by (simp add: clean_url_def)
qed

lemma split_scheme_postgres: "split_scheme (''postgresql://'' @ r) = (''postgresql'', ''//'' @ r)"
  using partition_found [of "CHR '':''" "''postgresql''" "''//'' @ r"]
  by (simp add: split_scheme_def scheme_char_def is_alpha_def is_lower_def casefold_def
      lower_char_def is_upper_def code_def)

lemma urlsplit_dsn:
  assumes "\<forall>c \<in> set netloc. 32 < code c \<and> c \<notin> set ''/?#[]''" "\<forall>c \<in> set d. dsn_char c"
  shows "urlsplit ip (''postgresql://'' @ netloc @ ''/'' @ d) =
    Some \<lparr>us_scheme = ''postgresql'', us_netloc = netloc, us_path = ''/'' @ d, us_query = [],
          us_fragment = []\<rparr>"
proof -
  have "\<forall>c \<in> set (''postgresql://'' @ netloc @ ''/'' @ d). 32 < code c"
    using assms dsn_char_code by (auto simp: code_def)
  then have clean: "clean_url (''postgresql://'' @ netloc @ ''/'' @ d) = ''postgresql://'' @ netloc @ ''/'' @ d"
    by (rule clean_url_id)
  have no: "takeWhile (\<lambda>c. c \<notin> set ''/?#'') (netloc @ ''/'' @ d) = netloc"
    "dropWhile (\<lambda>c. c \<notin> set ''/?#'') (netloc @ ''/'' @ d) = ''/'' @ d"
    using assms(1) by (auto simp: takeWhile_append dropWhile_append)
  have "check_brackets ip netloc" using assms(1) by (auto simp: check_brackets_def)
  moreover have "CHR ''#'' \<notin> set (''/'' @ d)" "CHR ''?'' \<notin> set (''/'' @ d)"
    using assms(2) dsn_char_delim by fastforce+
  ultimately show ?thesis
    unfolding urlsplit_def clean split_scheme_postgres Let_def using no by simp
qed

lemma parse_render_dsn:
  assumes "connection_ok c" "dns_name (pg_host c)"
    "ascii_text (pg_user c)" "ascii_text (pg_password c)" "ascii_text (pg_dbname c)"
  shows "parse_postgres_dsn ip (render_dsn c) = Inr c"
proof -
  define u p n d where "u = percent_encode (pg_user c)" "p = percent_encode (pg_password c)"
    "n = decimal_nat (pg_port c)" "d = percent_encode (pg_dbname c)"
  define netloc where "netloc = u @ '':'' @ p @ ''@'' @ pg_host c @ '':'' @ n"
  have chars: "\<forall>x \<in> set u. dsn_char x" "\<forall>x \<in> set p. dsn_char x" "\<forall>x \<in> set (pg_host c). dsn_char x"
    "\<forall>x \<in> set n. dsn_char x" "\<forall>x \<in> set d. dsn_char x"
    using dsn_chars assms(2) by (auto simp: u_p_n_d_def)
  note parts = netloc_parts [OF chars(1-4), folded netloc_def]
  have "\<forall>x \<in> set netloc. 32 < code x \<and> x \<notin> set ''/?#[]''"
    using chars dsn_char_code dsn_char_delim by (fastforce simp: netloc_def code_def)
  from urlsplit_dsn [OF this chars(5), of ip]
  have split: "urlsplit ip (render_dsn c) =
    Some \<lparr>us_scheme = ''postgresql'', us_netloc = netloc, us_path = ''/'' @ d, us_query = [],
          us_fragment = []\<rparr>"
    by (simp add: render_dsn_def netloc_def u_p_n_d_def)
  have ok: "plain_text (pg_user c)" "plain_text (pg_password c)" "plain_text (pg_dbname c)"
    "plain_text (pg_host c)" "1 \<le> pg_port c" "pg_port c \<le> 65535" "pg_sslmode c = ''disable''"
    "CHR '','' \<notin> set (pg_host c)" "CHR ''%'' \<notin> set (pg_host c)"
    using assms(1) by (auto simp: connection_ok_def)
  have host: "hostname netloc = pg_host c"
    using ok(9) dns_name_lower [OF assms(2)] by (simp add: hostname_def parts)
  have port: "port_of netloc = Inr (Some (pg_port c))"
    using decimal_nat_digits [of "pg_port c"] ok(6) by (simp add: port_of_def parts u_p_n_d_def)
  have "CHR ''/'' \<notin> set d" "d \<noteq> []" using chars(5) dsn_char_delim ok(3)
    by (fastforce simp: u_p_n_d_def plain_text_def)+
  then have "check_dsn_shape \<lparr>us_scheme = ''postgresql'', us_netloc = netloc, us_path = ''/'' @ d,
      us_query = [], us_fragment = []\<rparr> = Inr ()"
    using ok(4,8,9) parts(3)
    by (simp add: check_dsn_shape_def host plain_text_def casefold_def lower_char_def is_upper_def code_def)
  moreover have "reject_control_characters (pg_host c) ''host'' = Inr ()"
    using ok(4) by (simp add: reject_control_Inr plain_text_def)
  moreover have "pg_user c \<noteq> []" "pg_password c \<noteq> []" "pg_dbname c \<noteq> []"
    using ok(1-3) by (auto simp: plain_text_def)
  moreover have "decode_dsn_component (Some u) ''username'' = Inr (pg_user c)"
    "decode_dsn_component (Some p) ''password'' = Inr (pg_password c)"
    "decode_dsn_component (Some d) ''database name'' = Inr (pg_dbname c)"
    using ok(1-3) assms(3-5) by (simp_all add: u_p_n_d_def)
  ultimately show ?thesis
    unfolding parse_postgres_dsn_def split Let_def
    using ok(5-7) by (simp add: dsn_port_def port host parts dsn_sslmode_def parse_qsl_def)
qed

end
