(* ===== verification/Evidence.thy ===== *)
theory Evidence
  imports Policy Candidates Dsn
begin

text \<open>
  The evidence executors of \<^verbatim>\<open>packages/evidence/executor.py\<close>: the recorded replay and the isolated
  Postgres/dbt run.

  Everything outside the process (dbt, Postgres, the file system) is a record of answers. An answer
  may depend on everything the executor has asked before: the state of a run is the list of the
  actions it has performed, oldest first, and an answer is a function of that list.
\<close>

section \<open>Verdicts and metrics\<close>

record candidate_execution =
  cx_semantic_verdict :: semantic_verdict
  cx_evidence_refs :: "string list"
  cx_reconciliation :: reconciliation_metrics
  cx_build :: build_result

definition semantic_verdict_of :: "string \<Rightarrow> context_bundle \<Rightarrow> semantic_verdict" where
  "semantic_verdict_of source_field context =
     (let definition' = casefold (case cb_glossary_definition context of Some d \<Rightarrow> d | None \<Rightarrow> []);
          source' = casefold source_field
      in if contains ''net'' source' \<and> contains ''net'' definition' then MATCH
         else if contains ''gross'' source' \<and> contains ''net'' definition' then CONFLICT
         else MISSING)"

definition percentage_delta :: "pyfloat \<Rightarrow> pyfloat \<Rightarrow> pyfloat" where
  "percentage_delta current baseline =
     (if feq baseline (Fin 0)
      then (if feq current (Fin 0) then Fin 0 else dbl 1000000000)
      else fmul (fdiv (fsub current baseline) (fabs baseline)) (dbl 100))"

text \<open>The metrics that stand for a comparison that was not made.\<close>

definition failing_metrics :: "string list \<Rightarrow> reconciliation_metrics" where
  "failing_metrics refs =
     \<lparr>rm_total_variance_pct = dbl 1000000000, rm_row_count_variance_pct = dbl 1000000000,
      rm_primary_key_overlap_pct = Fin 0, rm_null_rate_delta_pp = dbl 1000000000,
      rm_current_row_count = None, rm_baseline_row_count = None, rm_evidence_refs = refs\<rparr>"

section \<open>Recorded replay\<close>

definition recorded_metrics :: "pyfloat \<Rightarrow> string list \<Rightarrow> reconciliation_metrics" where
  "recorded_metrics variance refs =
     \<lparr>rm_total_variance_pct = variance, rm_row_count_variance_pct = Fin 0,
      rm_primary_key_overlap_pct = dbl 100, rm_null_rate_delta_pp = Fin 0,
      rm_current_row_count = Some 10, rm_baseline_row_count = Some 10, rm_evidence_refs = refs\<rparr>"

definition replay_execute :: "candidate_proposal \<Rightarrow> context_bundle \<Rightarrow> candidate_execution" where
  "replay_execute proposal context =
     (let field = cp_source_field proposal;
          known = (field \<in> {''gross_amount'', ''net_amount''});
          reconciliation_ref =
            (if known then ''artifact://replay/artifacts/reconciliation/'' @ field @ ''.json''
             else ''artifact://replay/artifacts/containment/DR-025.json'');
          build_ref =
            (if known then ''artifact://replay/artifacts/dbt/'' @ field @ ''.json''
             else reconciliation_ref);
          metrics =
            (if field = ''gross_amount'' then recorded_metrics (dbl (340/100)) [reconciliation_ref]
             else if field = ''net_amount'' then recorded_metrics (Fin 0) [reconciliation_ref]
             else if field = ''settlement_amount''
             then recorded_metrics (dbl (-150/100)) [reconciliation_ref]
             else failing_metrics [reconciliation_ref]);
          recorded = (field \<in> {''gross_amount'', ''net_amount'', ''settlement_amount''});
          build =
            \<lparr>br_passed = recorded, br_passed_checks = (if recorded then 8 else 0),
             br_total_checks = (if recorded then 8 else 0),
             br_command =
               (if recorded then ''dbt build (recorded replay)'' else ''dbt build (not recorded)''),
             br_evidence_refs = [build_ref],
             br_summary =
               (if recorded then ''8/8 checks passed in the recorded isolated candidate run''
                else ''No recorded execution exists for this unrecognized candidate'')\<rparr>
      in \<lparr>cx_semantic_verdict = semantic_verdict_of field context,
          cx_evidence_refs =
            cp_semantic_evidence proposal @ rm_evidence_refs metrics @ br_evidence_refs build,
          cx_reconciliation = metrics, cx_build = build\<rparr>)"

section \<open>The candidate schema\<close>

definition schema_char :: "char \<Rightarrow> bool" where
  "schema_char c \<longleftrightarrow> is_lower c \<or> is_digit c \<or> c = CHR ''_''"

definition schema_part :: "string \<Rightarrow> string" where
  "schema_part s = strip_by (\<lambda>c. c = CHR ''_'') (collapse_runs schema_char CHR ''_'' (casefold s))"

definition candidate_schema :: "string \<Rightarrow> string \<Rightarrow> exn + string" where
  "candidate_schema case_id source_field =
     (let case_part = schema_part case_id;
          source_part = schema_part source_field;
          normalized = ''candidate_'' @ case_part @ ''_'' @ source_part;
          digest = take 12 (sha256_hex normalized);
          suffix = ''_'' @ take 16 source_part @ ''_'' @ digest;
          short = rstrip_by (\<lambda>c. c = CHR ''_'') (take (63 - length suffix) normalized) @ suffix
      in require_identifier (if 63 < length normalized then short else normalized)
           ''candidate schema'')"

section \<open>The outside of a run\<close>

record executor_config =
  xc_postgres_dsn :: string
  xc_dbt_project_dir :: string
  xc_dbt_profiles_dir :: string
  xc_dbt_target :: string
  xc_evidence_dir :: "string option"
  xc_source_relation :: string
  xc_baseline_relation :: string

text \<open>A query of the reconciliation: the aggregates of a relation, or the joined row count.\<close>

datatype query = Aggregates string string | Overlap "string \<times> string" "string \<times> string"

datatype action =
    WriteFile string string
  | MakeTemp string
  | RemoveTemp string
  | RunDbt "string list" environ
  | CopyFile string string
  | Connect postgres_connection bool
  | Query query
  | DropSchema string

record aggregate_row =
  ag_count :: int
  ag_total :: pyfloat
  ag_null_rate :: pyfloat

text \<open>What is found at the path of \<^verbatim>\<open>run_results.json\<close>, and what reading it gives.\<close>

datatype results_file = Missing | Directory | File "exn + string"

record outside =
  os_environ :: environ
  os_json :: json_lib
  os_loads_error :: "string \<Rightarrow> string"
  os_dump_metrics :: "reconciliation_metrics \<Rightarrow> string"
  os_bracketed_host :: "string \<Rightarrow> bool"
  os_perform :: "action list \<Rightarrow> exn + unit"
  os_temp_dir :: "action list \<Rightarrow> string"
  os_exit_code :: "action list \<Rightarrow> int"
  os_results_file :: "action list \<Rightarrow> string \<Rightarrow> results_file"
  os_aggregates :: "action list \<Rightarrow> aggregate_row option"
  os_overlap :: "action list \<Rightarrow> int option"

type_synonym 'a run = "(action list, exn, 'a) prog"

text \<open>Performing an action records it, and may raise.\<close>

definition perform :: "outside \<Rightarrow> action \<Rightarrow> unit run" where
  "perform out a trace = (os_perform out (trace @ [a]), trace @ [a])"

definition asks :: "outside \<Rightarrow> action \<Rightarrow> (action list \<Rightarrow> 'a) \<Rightarrow> 'a run" where
  "asks out a answer = then_p (perform out a) (reads_p answer)"

definition is_os_error :: "exn \<Rightarrow> bool" where
  "is_os_error e \<longleftrightarrow> (case e of OSErr _ _ \<Rightarrow> True | _ \<Rightarrow> False)"

definition is_timeout :: "exn \<Rightarrow> bool" where
  "is_timeout e \<longleftrightarrow> (case e of SubprocessError n _ \<Rightarrow> n = ''TimeoutExpired'' | _ \<Rightarrow> False)"

definition connect :: "outside \<Rightarrow> executor_config \<Rightarrow> bool \<Rightarrow> unit run" where
  "connect out cfg autocommit =
     bind_p (result_p (parse_postgres_dsn (os_bracketed_host out) (xc_postgres_dsn cfg))) (\<lambda>connection.
       perform out (Connect connection autocommit))"

definition write_evidence ::
  "outside \<Rightarrow> executor_config \<Rightarrow> string \<Rightarrow> string \<Rightarrow> string \<Rightarrow> string option run" where
  "write_evidence out cfg schema name content =
     (case xc_evidence_dir cfg of
        None \<Rightarrow> return_p None
      | Some dir \<Rightarrow>
          let destination = dir @ ''/'' @ schema @ ''/'' @ name
          in then_p (perform out (WriteFile destination content)) (return_p (Some destination)))"

definition drop_candidate_schema :: "outside \<Rightarrow> executor_config \<Rightarrow> string \<Rightarrow> unit run" where
  "drop_candidate_schema out cfg schema =
     then_p (connect out cfg True) (perform out (DropSchema schema))"

section \<open>Reading run_results.json\<close>

record build_evidence =
  be_passed_checks :: nat
  be_total_checks :: nat
  be_passed_nodes :: nat
  be_total_nodes :: nat
  be_error :: "string option"

definition no_evidence :: "string \<Rightarrow> build_evidence" where
  "no_evidence problem =
     \<lparr>be_passed_checks = 0, be_total_checks = 0, be_passed_nodes = 0, be_total_nodes = 0,
      be_error = Some problem\<rparr>"

definition min_expected_dbt_checks :: nat where
  "min_expected_dbt_checks = 8"

definition expected_dbt_model_suffixes :: "string list" where
  "expected_dbt_model_suffixes = [''.stg_payments'', ''.fct_revenue'']"

definition unique_id :: "json_lib \<Rightarrow> jdict \<Rightarrow> string" where
  "unique_id lib item =
     py_str lib (case map_of item ''unique_id'' of Some v \<Rightarrow> v | None \<Rightarrow> JStr [])"

text \<open>Membership in a set of strings hashes the value: a list or an object raises.\<close>

definition node_passed :: "jdict \<Rightarrow> exn + bool" where
  "node_passed item =
     (case jget item ''status'' of
        JStr s \<Rightarrow> Inr (s = ''pass'' \<or> s = ''success'')
      | JList _ \<Rightarrow> Inl (TypeErr ''unhashable type'')
      | JDict _ \<Rightarrow> Inl (TypeErr ''unhashable type'')
      | _ \<Rightarrow> Inr False)"

definition count_passed :: "jdict list \<Rightarrow> exn + nat" where
  "count_passed items = bind_res (map_res node_passed items) (\<lambda>bs. Inr (length (filter id bs)))"

fun as_dict :: "json \<Rightarrow> jdict option" where
  "as_dict (JDict d) = Some d"
| "as_dict _ = None"

definition is_build_report :: "jdict \<Rightarrow> bool" where
  "is_build_report report =
     (case jget report ''args'' of JDict args \<Rightarrow> jget args ''which'' = JStr ''build'' | _ \<Rightarrow> False)"

definition result_nodes :: "jdict \<Rightarrow> json list" where
  "result_nodes report = (case jget report ''results'' of JList nodes \<Rightarrow> nodes | _ \<Rightarrow> [])"

definition missing_models :: "json_lib \<Rightarrow> jdict list \<Rightarrow> string list" where
  "missing_models lib nodes =
     (let model_ids = filter (prefix ''model.'') (map (unique_id lib) nodes)
      in filter (\<lambda>s. \<not> list_ex (suffix s) model_ids) expected_dbt_model_suffixes)"

definition inspect_results :: "json_lib \<Rightarrow> json \<Rightarrow> exn + build_evidence" where
  "inspect_results lib artifact =
     (case artifact of
        JDict report \<Rightarrow>
          if \<not> is_build_report report
          then Inr (no_evidence ''run_results.json is not from dbt build'')
          else if result_nodes report = []
          then Inr (no_evidence ''run_results.json has no result nodes'')
          else if \<not> list_all (\<lambda>item. as_dict item \<noteq> None) (result_nodes report)
          then Inr (no_evidence ''run_results.json contains an invalid result node'')
          else let nodes = map (the \<circ> as_dict) (result_nodes report);
                   tests = filter (\<lambda>item. prefix ''test.'' (unique_id lib item)) nodes
          in bind_res (count_passed nodes) (\<lambda>passed_nodes.
             bind_res (count_passed tests) (\<lambda>passed_checks.
             let missing = missing_models lib nodes;
                 problem =
                   (if missing \<noteq> []
                    then Some (''run_results.json is missing expected models: ''
                               @ join_with '', '' missing)
                    else if length tests < min_expected_dbt_checks
                    then Some (''run_results.json contains fewer than ''
                               @ decimal (int min_expected_dbt_checks) @ '' dbt tests'')
                    else None)
             in Inr \<lparr>be_passed_checks = passed_checks, be_total_checks = length tests,
                     be_passed_nodes = passed_nodes, be_total_nodes = length nodes,
                     be_error = problem\<rparr>))
      | _ \<Rightarrow> Inr (no_evidence ''run_results.json root is not an object''))"

definition examine_results :: "outside \<Rightarrow> results_file \<Rightarrow> exn + build_evidence" where
  "examine_results out file =
     (case file of
        File (Inr text) \<Rightarrow>
          (case lib_loads (os_json out) text of
             Some artifact \<Rightarrow> inspect_results (os_json out) artifact
           | None \<Rightarrow> Inr (no_evidence (os_loads_error out text)))
      | File (Inl e) \<Rightarrow>
          if is_os_error e \<or> is_value_error e then Inr (no_evidence (exn_text e)) else Inl e
      | _ \<Rightarrow> Inr (no_evidence ''run_results.json is missing''))"

section \<open>The dbt run\<close>

definition failed_build :: "string \<Rightarrow> string \<Rightarrow> build_result" where
  "failed_build command summary =
     \<lparr>br_passed = False, br_passed_checks = 0, br_total_checks = 0, br_command = command,
      br_evidence_refs = [], br_summary = summary\<rparr>"

definition dbt_command :: "executor_config \<Rightarrow> string \<Rightarrow> string list" where
  "dbt_command cfg target =
     [''dbt'', ''build'', ''--project-dir'', xc_dbt_project_dir cfg, ''--profiles-dir'',
      xc_dbt_profiles_dir cfg, ''--target'', xc_dbt_target cfg, ''--target-path'', target]"

definition build_passed :: "int \<Rightarrow> build_evidence \<Rightarrow> bool" where
  "build_passed returncode ev \<longleftrightarrow>
     returncode = 0 \<and> be_error ev = None \<and> 0 < be_total_nodes ev
     \<and> be_passed_nodes ev = be_total_nodes ev \<and> be_passed_checks ev = be_total_checks ev"

definition build_summary :: "int \<Rightarrow> build_evidence \<Rightarrow> string" where
  "build_summary returncode ev =
     ''dbt exited '' @ decimal returncode @ ''; ''
     @ decimal (int (be_passed_checks ev)) @ ''/'' @ decimal (int (be_total_checks ev))
     @ '' tests passed; ''
     @ decimal (int (be_passed_nodes ev)) @ ''/'' @ decimal (int (be_total_nodes ev))
     @ '' total nodes succeeded; ''
     @ (case be_error ev of None \<Rightarrow> ''run_results.json verified''
        | Some problem \<Rightarrow> ''invalid build evidence: '' @ problem)"

definition keep_results ::
  "outside \<Rightarrow> executor_config \<Rightarrow> string \<Rightarrow> string \<Rightarrow> results_file \<Rightarrow> string option run" where
  "keep_results out cfg schema results_path file =
     (case xc_evidence_dir cfg of
        None \<Rightarrow> return_p None
      | Some dir \<Rightarrow>
          if file = Missing then return_p None
          else let destination = dir @ ''/'' @ schema @ ''/run_results.json''
               in then_p (perform out (CopyFile results_path destination))
                    (return_p (Some destination)))"

definition run_process :: "outside \<Rightarrow> string list \<Rightarrow> environ \<Rightarrow> (exn + int) run" where
  "run_process out command env =
     catch_p (bind_p (asks out (RunDbt command env) (os_exit_code out)) (\<lambda>code. return_p (Inr code)))
       (\<lambda>e. if is_os_error e \<or> is_timeout e then return_p (Inl e) else raise_p e)"

definition dbt_build ::
  "outside \<Rightarrow> executor_config \<Rightarrow> string \<Rightarrow> environ \<Rightarrow> string \<Rightarrow> build_result run" where
  "dbt_build out cfg schema env target =
     (let command = dbt_command cfg target; results_path = target @ ''/run_results.json''
      in bind_p (run_process out command env) (\<lambda>completed.
         case completed of
           Inl error \<Rightarrow>
             return_p (failed_build (join_with '' '' command)
               (''dbt did not complete: '' @ exn_text error))
         | Inr returncode \<Rightarrow>
             bind_p (reads_p (\<lambda>trace. os_results_file out trace results_path)) (\<lambda>file.
             bind_p (result_p (examine_results out file)) (\<lambda>ev.
             bind_p (keep_results out cfg schema results_path file) (\<lambda>build_artifact.
               return_p
                 \<lparr>br_passed = build_passed returncode ev,
                  br_passed_checks = int (be_passed_checks ev),
                  br_total_checks = int (be_total_checks ev),
                  br_command = join_with '' '' command,
                  br_evidence_refs = (case build_artifact of Some a \<Rightarrow> [a] | None \<Rightarrow> []),
                  br_summary = build_summary returncode ev\<rparr>)))))"

definition run_dbt :: "outside \<Rightarrow> executor_config \<Rightarrow> string \<Rightarrow> string \<Rightarrow> build_result run" where
  "run_dbt out cfg schema source_field =
     (case parse_postgres_dsn (os_bracketed_host out) (xc_postgres_dsn cfg) of
        Inl error \<Rightarrow>
          return_p (failed_build ''dbt build (not run: invalid PostgreSQL DSN)''
            (''dbt was not started: '' @ exn_text error))
      | Inr connection \<Rightarrow>
          bind_p (result_p (require_identifier source_field ''source field'')) (\<lambda>column.
          bind_p (asks out (MakeTemp (''datarescue-dbt-'' @ schema @ ''-'')) (os_temp_dir out)) (\<lambda>target.
            finally_p
              (dbt_build out cfg schema (dbt_process_env (os_environ out) connection schema column)
                 target)
              (perform out (RemoveTemp target)))))"

section \<open>Reconciliation\<close>

definition postgres_ref :: "string \<Rightarrow> string \<Rightarrow> string" where
  "postgres_ref schema name = ''postgres://execution/'' @ schema @ ''/'' @ name"

definition or_ref :: "string option \<Rightarrow> string \<Rightarrow> string list" where
  "or_ref artifact fallback = [case artifact of Some a \<Rightarrow> a | None \<Rightarrow> fallback]"

definition fetch :: "outside \<Rightarrow> query \<Rightarrow> (action list \<Rightarrow> 'a option) \<Rightarrow> string \<Rightarrow> 'a run" where
  "fetch out q answer problem =
     bind_p (asks out (Query q) answer) (\<lambda>found.
       case found of None \<Rightarrow> raise_p (RuntimeError problem) | Some x \<Rightarrow> return_p x)"

definition reconciled :: "aggregate_row \<Rightarrow> aggregate_row \<Rightarrow> int \<Rightarrow> reconciliation_metrics" where
  "reconciled current baseline overlap =
     \<lparr>rm_total_variance_pct = percentage_delta (ag_total current) (ag_total baseline),
      rm_row_count_variance_pct =
        percentage_delta (float_of_int (ag_count current)) (float_of_int (ag_count baseline)),
      rm_primary_key_overlap_pct =
        (if ag_count baseline = 0 then dbl 100
         else fmul (int_truediv overlap (ag_count baseline)) (dbl 100)),
      rm_null_rate_delta_pp = fmul (fsub (ag_null_rate current) (ag_null_rate baseline)) (dbl 100),
      rm_current_row_count = Some (ag_count current),
      rm_baseline_row_count = Some (ag_count baseline), rm_evidence_refs = []\<rparr>"

definition baseline_parts :: "executor_config \<Rightarrow> exn + string \<times> string" where
  "baseline_parts cfg =
     bind_res (map_res (\<lambda>part. require_identifier part ''baseline relation'')
                 (split_on CHR ''.'' (xc_baseline_relation cfg)))
       (\<lambda>parts. case parts of
          [s, r] \<Rightarrow> Inr (s, r)
        | _ \<Rightarrow> Inl (ValueError ''Baseline relation must be schema-qualified''))"

definition reconcile :: "outside \<Rightarrow> executor_config \<Rightarrow> string \<Rightarrow> reconciliation_metrics run" where
  "reconcile out cfg schema =
     bind_p (result_p (baseline_parts cfg)) (\<lambda>baseline.
     bind_p (connect out cfg False) (\<lambda>_.
     bind_p (fetch out (Aggregates schema ''fct_revenue'') (os_aggregates out)
               ''Candidate reconciliation returned no aggregate row'') (\<lambda>current.
     bind_p (fetch out (Aggregates (fst baseline) (snd baseline)) (os_aggregates out)
               ''Baseline reconciliation returned no aggregate row'') (\<lambda>base.
     bind_p (fetch out (Overlap (schema, ''fct_revenue'') baseline) (os_overlap out)
               ''Primary-key reconciliation returned no aggregate row'') (\<lambda>overlap.
     let metrics = reconciled current base overlap
     in bind_p (write_evidence out cfg schema ''reconciliation.json''
                  (os_dump_metrics out metrics @ newline)) (\<lambda>artifact.
          return_p (metrics\<lparr>rm_evidence_refs :=
            or_ref artifact (postgres_ref schema ''reconciliation'')\<rparr>)))))))"

definition not_run_text :: "string \<Rightarrow> string" where
  "not_run_text summary =
     ''{'' @ newline @ ''  '' @ json_quote ''build_summary'' @ '': '' @ json_quote summary @ '',''
     @ newline @ ''  '' @ json_quote ''reason'' @ '': ''
     @ json_quote ''dbt build evidence did not pass'' @ '','' @ newline
     @ ''  '' @ json_quote ''status'' @ '': '' @ json_quote ''NOT_RUN'' @ newline @ ''}'' @ newline"

definition failed_reconciliation ::
  "outside \<Rightarrow> executor_config \<Rightarrow> string \<Rightarrow> string \<Rightarrow> reconciliation_metrics run" where
  "failed_reconciliation out cfg schema summary =
     bind_p (write_evidence out cfg schema ''reconciliation-not-run.json'' (not_run_text summary))
       (\<lambda>artifact.
          return_p (failing_metrics (or_ref artifact (postgres_ref schema ''reconciliation-not-run''))))"

section \<open>Execution of a candidate\<close>

definition gather_evidence ::
  "outside \<Rightarrow> executor_config \<Rightarrow> string \<Rightarrow> string option \<Rightarrow> candidate_proposal \<Rightarrow> context_bundle
    \<Rightarrow> candidate_execution run" where
  "gather_evidence out cfg schema candidate_ref proposal context =
     bind_p (run_dbt out cfg schema (cp_source_field proposal)) (\<lambda>build.
     bind_p (if br_passed build then reconcile out cfg schema
             else failed_reconciliation out cfg schema (br_summary build)) (\<lambda>metrics.
       return_p
         \<lparr>cx_semantic_verdict = semantic_verdict_of (cp_source_field proposal) context,
          cx_evidence_refs =
            [postgres_ref schema ''fct_revenue'']
            @ (case candidate_ref of Some r \<Rightarrow> [r] | None \<Rightarrow> [])
            @ rm_evidence_refs metrics @ br_evidence_refs build @ cp_semantic_evidence proposal,
          cx_reconciliation = metrics, cx_build = build\<rparr>))"

definition live_execute ::
  "outside \<Rightarrow> executor_config \<Rightarrow> string \<Rightarrow> candidate_proposal \<Rightarrow> context_bundle
    \<Rightarrow> candidate_execution run" where
  "live_execute out cfg case_id proposal context =
     bind_p (result_p (candidate_schema case_id (cp_source_field proposal))) (\<lambda>schema.
     bind_p (result_p (render_candidate_sql proposal (xc_source_relation cfg))) (\<lambda>candidate_query.
     bind_p (write_evidence out cfg schema ''candidate.sql'' (candidate_query @ newline)) (\<lambda>candidate_ref.
       finally_p (gather_evidence out cfg schema candidate_ref proposal context)
         (drop_candidate_schema out cfg schema))))"

section \<open>The candidate schema is a safe identifier\<close>

lemma rstrip_by_append:
  "rstrip_by p (a @ b) = (if list_all p b then rstrip_by p a else a @ rstrip_by p b)"
  by (auto simp: rstrip_by_def dropWhile_append list_all_iff)

lemma set_rstrip_by: "set (rstrip_by p s) \<subseteq> set s"
  unfolding rstrip_by_def by (auto dest!: set_dropWhileD)

lemma length_rstrip_by: "length (rstrip_by p s) \<le> length s"
  unfolding rstrip_by_def by (simp add: length_dropWhile_le le_trans [OF length_dropWhile_le])

lemma schema_part_chars: "c \<in> set (schema_part s) \<Longrightarrow> schema_char c"
  using set_strip_by [of "\<lambda>c. c = CHR ''_''" "collapse_runs schema_char CHR ''_'' (casefold s)"]
    set_collapse_runs [of c schema_char "CHR ''_''" "casefold s"]
  by (auto simp: schema_part_def schema_char_def)

lemma hex_digit_schema_char: "n < 16 \<Longrightarrow> schema_char (hex_digit n)"
  by (auto simp: schema_char_def hex_digit_def is_lower_def is_digit_def code_def)

lemma schema_char_word: "schema_char c \<Longrightarrow> is_word c"
  by (auto simp: schema_char_def is_word_def is_alpha_def)

lemma candidate_identifier:
  "prefix ''candidate_'' s \<Longrightarrow> length s \<le> 63 \<Longrightarrow> \<forall>c \<in> set s. schema_char c \<Longrightarrow> is_identifier s"
  by (auto simp: prefix_def is_identifier_def is_word_start_def is_alpha_def is_lower_def code_def
      list_all_iff schema_char_word)

lemma sha256_schema_chars: "c \<in> set (sha256_hex s) \<Longrightarrow> schema_char c"
  using sha256_hex_digits [of s]
  by (auto simp: list_all_iff is_lower_hex_def schema_char_def is_lower_def is_digit_def)

text \<open>The name the source computes before it checks it.\<close>

definition short_schema :: "string \<Rightarrow> string \<Rightarrow> string" where
  "short_schema normalized source_part =
     (let suffix = ''_'' @ take 16 source_part @ ''_'' @ take 12 (sha256_hex normalized)
      in rstrip_by (\<lambda>c. c = CHR ''_'') (take (63 - length suffix) normalized) @ suffix)"

lemma short_schema_prefix:
  assumes "normalized = ''candidate_'' @ r"
  shows "prefix ''candidate_'' (short_schema normalized source_part)"
    and "length (short_schema normalized source_part) \<le> 63"
proof -
  define suffix where "suffix = ''_'' @ take 16 source_part @ ''_'' @ take 12 (sha256_hex normalized)"
  define p where "p = (\<lambda>c. c = CHR ''_'')"
  have len: "length suffix \<le> 30" by (simp add: suffix_def)
  have skip: "take (63 - length suffix) (w @ r) = w @ take (53 - length suffix) r" if "length w = 10" for w
    using len that by (simp add: take_append)
  have "take (63 - length suffix) normalized = ''candidate_'' @ take (53 - length suffix) r"
    unfolding assms using skip [of "''candidate_''"] by simp
  then have eq: "short_schema normalized source_part =
      rstrip_by p (''candidate_'' @ take (53 - length suffix) r) @ suffix"
    unfolding short_schema_def Let_def suffix_def [symmetric] p_def [symmetric] by simp
  have "rstrip_by p ''candidate_'' = ''candidate''"
    by (simp add: rstrip_by_def p_def)
  then have "prefix ''candidate_'' (rstrip_by p (''candidate_'' @ x) @ ''_'' @ y)" for x y
    using rstrip_by_append [of p "''candidate_''" x] by simp
  then show "prefix ''candidate_'' (short_schema normalized source_part)"
    unfolding eq suffix_def by simp
  show "length (short_schema normalized source_part) \<le> 63"
  proof -
    have "length (rstrip_by p (take (63 - length suffix) normalized)) \<le> 63 - length suffix"
      using length_rstrip_by [of p "take (63 - length suffix) normalized"] by simp
    then show ?thesis
      using len unfolding short_schema_def Let_def suffix_def [symmetric] p_def [symmetric]
      by (simp only: length_append)
  qed
qed

lemma candidate_schema_value:
  "candidate_schema case_id f = Inr s \<longleftrightarrow>
     s = (let n = ''candidate_'' @ schema_part case_id @ ''_'' @ schema_part f
          in if 63 < length n then short_schema n (schema_part f) else n)"
  (is "?l \<longleftrightarrow> s = ?s")
proof -
  define n where "n = ''candidate_'' @ schema_part case_id @ ''_'' @ schema_part f"
  have s: "?s = (if 63 < length n then short_schema n (schema_part f) else n)"
    by (simp add: n_def Let_def)
  have chars: "\<forall>c \<in> set n. schema_char c"
    by (auto simp: n_def dest: schema_part_chars)
      (auto simp: schema_char_def is_lower_def code_def)
  have "\<forall>c \<in> set (short_schema n (schema_part f)). schema_char c"
    using chars set_rstrip_by set_take_subset sha256_schema_chars schema_part_chars
    unfolding short_schema_def Let_def set_append
    by (auto 0 3 simp: schema_char_def [of "CHR ''_''"] dest!: in_set_takeD subsetD [OF set_rstrip_by])
  then have "is_identifier ?s"
    unfolding s using chars short_schema_prefix [of n]
    by (intro candidate_identifier) (auto simp: n_def)
  moreover have "candidate_schema case_id f = require_identifier ?s ''candidate schema''"
    unfolding s n_def by (simp add: candidate_schema_def short_schema_def Let_def)
  ultimately show ?thesis by (metis require_identifier_Inr)
qed

lemma candidate_schema_ok:
  "\<exists>s. candidate_schema case_id f = Inr s \<and> is_identifier s \<and> prefix ''candidate_'' s \<and> length s \<le> 63"
proof -
  obtain s where s: "candidate_schema case_id f = Inr s"
    using candidate_schema_value by blast
  then have "is_identifier s"
    by (auto simp: candidate_schema_def Let_def)
  moreover have "prefix ''candidate_'' s \<and> length s \<le> 63"
    using s short_schema_prefix [OF refl]
    unfolding candidate_schema_value by (auto simp: Let_def)
  ultimately show ?thesis using s by blast
qed

text \<open>With names that need no digest, two fields of one case share a schema only when they have the same
  lower-case name between their outer underscores.\<close>

lemma candidate_schema_short_inj:
  assumes "candidate_schema c f = Inr s" "candidate_schema c g = Inr s"
    and "length (schema_part c) + length (schema_part f) \<le> 52"
    and "length (schema_part c) + length (schema_part g) \<le> 52"
  shows "schema_part f = schema_part g"
  using assms unfolding candidate_schema_value by (simp add: Let_def)

section \<open>What a run may do to the outside\<close>

definition acts :: "('a \<Rightarrow> bool) \<Rightarrow> 'a list \<Rightarrow> 'a list \<Rightarrow> bool" where
  "acts ok start trace \<longleftrightarrow> (\<exists>new. trace = start @ new \<and> list_all ok new)"

lemma acts_refl [simp]: "acts ok tr tr"
  by (simp add: acts_def)

lemma acts_drop: "acts ok tr tr' \<Longrightarrow> list_all ok (drop (length tr) tr')"
  by (auto simp: acts_def)

lemma keeps_perform [keeps_intros]: "ok a \<Longrightarrow> keeps (acts ok tr) (perform out a)"
  by (auto simp: keeps_def perform_def acts_def)

lemma keeps_asks [keeps_intros]: "ok a \<Longrightarrow> keeps (acts ok tr) (asks out a answer)"
  unfolding asks_def by (intro keeps_intros)

lemma keeps_bind_result:
  "(\<And>x. r = Inr x \<Longrightarrow> keeps I (f x)) \<Longrightarrow> keeps I (bind_p (result_p r) f)"
  by (cases r) (auto simp: keeps_def bind_p_def)

text \<open>
  What an execution for \<open>schema\<close> and \<open>field\<close> may do: files below its own evidence directory, one
  dbt process with the environment of the configured DSN, connections to that same DSN, reads of its
  own mart and of the baseline, and the removal of its own schema.
\<close>

fun own_action :: "outside \<Rightarrow> executor_config \<Rightarrow> string \<Rightarrow> string \<Rightarrow> action \<Rightarrow> bool" where
  "own_action out cfg schema field (WriteFile p text) =
     (\<exists>dir name. xc_evidence_dir cfg = Some dir \<and> p = dir @ ''/'' @ schema @ ''/'' @ name)"
| "own_action out cfg schema field (CopyFile p q) =
     (\<exists>dir. xc_evidence_dir cfg = Some dir \<and> q = dir @ ''/'' @ schema @ ''/run_results.json'')"
| "own_action out cfg schema field (MakeTemp p) = (p = ''datarescue-dbt-'' @ schema @ ''-'')"
| "own_action out cfg schema field (RemoveTemp p) = True"
| "own_action out cfg schema field (RunDbt command env) =
     (\<exists>c target. parse_postgres_dsn (os_bracketed_host out) (xc_postgres_dsn cfg) = Inr c
        \<and> env = dbt_process_env (os_environ out) c schema field \<and> command = dbt_command cfg target)"
| "own_action out cfg schema field (Connect c autocommit) =
     (parse_postgres_dsn (os_bracketed_host out) (xc_postgres_dsn cfg) = Inr c)"
| "own_action out cfg schema field (Query q) =
     (\<exists>b. baseline_parts cfg = Inr b \<and>
        (q = Aggregates schema ''fct_revenue'' \<or> q = Aggregates (fst b) (snd b)
         \<or> q = Overlap (schema, ''fct_revenue'') b))"
| "own_action out cfg schema field (DropSchema s) = (s = schema)"

lemma connect_own: "keeps (acts (own_action out cfg schema field) tr) (connect out cfg autocommit)"
  unfolding connect_def by (rule keeps_bind_result) (intro keeps_intros; simp)

lemma write_evidence_own:
  "keeps (acts (own_action out cfg schema field) tr) (write_evidence out cfg schema name content)"
  unfolding write_evidence_def Let_def by (intro keeps_intros) auto

lemma drop_schema_own:
  "keeps (acts (own_action out cfg schema field) tr) (drop_candidate_schema out cfg schema)"
  unfolding drop_candidate_schema_def by (intro keeps_intros connect_own) simp

lemma run_process_own:
  "own_action out cfg schema field (RunDbt command env) \<Longrightarrow>
     keeps (acts (own_action out cfg schema field) tr) (run_process out command env)"
  unfolding run_process_def by (intro keeps_intros)

lemma keep_results_own:
  "keeps (acts (own_action out cfg schema field) tr) (keep_results out cfg schema path file)"
  unfolding keep_results_def Let_def by (intro keeps_intros) auto

lemma dbt_build_own:
  assumes "own_action out cfg schema field (RunDbt (dbt_command cfg target) env)"
  shows "keeps (acts (own_action out cfg schema field) tr) (dbt_build out cfg schema env target)"
  unfolding dbt_build_def Let_def
  by (intro keeps_intros run_process_own keep_results_own assms)

lemma run_dbt_own: "keeps (acts (own_action out cfg schema field) tr) (run_dbt out cfg schema field)"
proof (cases "parse_postgres_dsn (os_bracketed_host out) (xc_postgres_dsn cfg)")
  case (Inr c)
  show ?thesis
    unfolding run_dbt_def Inr sum.case
    by (rule keeps_bind_result) (intro keeps_intros dbt_build_own; use Inr in auto)
qed (simp add: run_dbt_def keeps_intros)

lemma fetch_own:
  "own_action out cfg schema field (Query q) \<Longrightarrow>
     keeps (acts (own_action out cfg schema field) tr) (fetch out q answer problem)"
  unfolding fetch_def by (intro keeps_intros)

lemma reconcile_own: "keeps (acts (own_action out cfg schema field) tr) (reconcile out cfg schema)"
  unfolding reconcile_def Let_def
  by (rule keeps_bind_result) (intro keeps_intros connect_own fetch_own write_evidence_own; auto)

lemma gather_evidence_own:
  "keeps (acts (own_action out cfg schema (cp_source_field p)) tr) (gather_evidence out cfg schema ref p cx)"
  unfolding gather_evidence_def failed_reconciliation_def
  by (intro keeps_intros run_dbt_own reconcile_own write_evidence_own)

lemma live_execute_own:
  assumes "live_execute out cfg case_id p cx tr = (r, tr')"
  shows "\<exists>schema. candidate_schema case_id (cp_source_field p) = Inr schema
    \<and> acts (own_action out cfg schema (cp_source_field p)) tr tr'"
proof -
  obtain schema where schema: "candidate_schema case_id (cp_source_field p) = Inr schema"
    using candidate_schema_ok by blast
  have "keeps (acts (own_action out cfg schema (cp_source_field p)) tr) (live_execute out cfg case_id p cx)"
    unfolding live_execute_def schema bind_result_Inr
    by (intro keeps_intros gather_evidence_own drop_schema_own write_evidence_own)
  from keepsD [OF this acts_refl assms] schema show ?thesis by blast
qed

section \<open>What a passed build rests on\<close>

text \<open>A complete report: every node passed, both models are there, and at least eight tests.\<close>

definition complete_report :: "json_lib \<Rightarrow> json \<Rightarrow> bool" where
  "complete_report lib v \<longleftrightarrow>
     (\<exists>report nodes. v = JDict report \<and> is_build_report report \<and> result_nodes report = map JDict nodes
        \<and> nodes \<noteq> [] \<and> (\<forall>n \<in> set nodes. node_passed n = Inr True)
        \<and> 8 \<le> length (filter (\<lambda>n. prefix ''test.'' (unique_id lib n)) nodes)
        \<and> (\<forall>s \<in> {''.stg_payments'', ''.fct_revenue''}.
             \<exists>n \<in> set nodes. prefix ''model.'' (unique_id lib n) \<and> suffix s (unique_id lib n)))"

lemma dict_list:
  "list_all (\<lambda>item. as_dict item \<noteq> None) xs \<Longrightarrow> xs = map JDict (map (the \<circ> as_dict) xs)"
  by (induction xs) (auto elim!: as_dict.elims)

lemma count_passed_all:
  "count_passed items = Inr (length items) \<Longrightarrow> \<forall>n \<in> set items. node_passed n = Inr True"
proof -
  assume "count_passed items = Inr (length items)"
  then obtain bs where bs: "list_all2 (\<lambda>x y. node_passed x = Inr y) items bs"
      "length (filter id bs) = length items"
    by (auto simp: count_passed_def bind_res_Inr_iff map_res_Inr_iff)
  then have "length (filter id bs) = length bs" by (simp add: list_all2_lengthD)
  then have "\<forall>b \<in> set bs. b" by (metis id_apply length_filter_less less_irrefl)
  with bs(1) show ?thesis by (induction rule: list_all2_induct) auto
qed

lemma missing_models_Nil:
  "missing_models lib nodes = [] \<Longrightarrow>
     \<forall>s \<in> {''.stg_payments'', ''.fct_revenue''}.
       \<exists>n \<in> set nodes. prefix ''model.'' (unique_id lib n) \<and> suffix s (unique_id lib n)"
  unfolding missing_models_def expected_dbt_model_suffixes_def Let_def filter_empty_conv
  by (force simp: list_ex_iff)

lemma inspect_results_complete:
  assumes "inspect_results lib v = Inr ev" "be_error ev = None" "0 < be_total_nodes ev"
    "be_passed_nodes ev = be_total_nodes ev"
  shows "complete_report lib v \<and> 8 \<le> be_total_checks ev"
proof (cases v)
  case (JDict report)
  define nodes where "nodes = map (the \<circ> as_dict) (result_nodes report)"
  define tests where "tests = filter (\<lambda>n. prefix ''test.'' (unique_id lib n)) nodes"
  have ok: "is_build_report report" "result_nodes report \<noteq> []"
    "list_all (\<lambda>item. as_dict item \<noteq> None) (result_nodes report)"
    using assms(1,2) JDict by (auto simp: inspect_results_def no_evidence_def split: if_splits)
  then obtain pn pc where counts: "count_passed nodes = Inr pn"
      "be_passed_nodes ev = pn" "be_total_nodes ev = length nodes" "be_total_checks ev = length tests"
      "missing_models lib nodes = []" "\<not> length tests < min_expected_dbt_checks"
    using assms(1,2) JDict
    unfolding inspect_results_def nodes_def tests_def
    by (simp add: bind_res_Inr_iff Let_def split: if_splits) auto
  have "count_passed nodes = Inr (length nodes)" using counts assms(4) by simp
  from count_passed_all [OF this] have "\<forall>n \<in> set nodes. node_passed n = Inr True" .
  moreover have "result_nodes report = map JDict nodes" using dict_list [OF ok(3)] by (simp add: nodes_def)
  moreover have "nodes \<noteq> []" using ok(2) by (simp add: nodes_def)
  moreover have "8 \<le> length tests" using counts(6) by (simp add: min_expected_dbt_checks_def)
  ultimately show ?thesis
    using ok(1) missing_models_Nil [OF counts(5)] JDict counts(4)
    unfolding complete_report_def tests_def
    by (intro conjI exI [of _ report] exI [of _ nodes]) simp_all
qed (use assms in \<open>auto simp: inspect_results_def no_evidence_def\<close>)

text \<open>The point of a run at which dbt had exited and its report was read.\<close>

definition built_at :: "outside \<Rightarrow> executor_config \<Rightarrow> string \<Rightarrow> string \<Rightarrow> action list \<Rightarrow> bool" where
  "built_at out cfg schema field trace \<longleftrightarrow>
     (\<exists>earlier connection target text v.
        parse_postgres_dsn (os_bracketed_host out) (xc_postgres_dsn cfg) = Inr connection
        \<and> trace = earlier @ [RunDbt (dbt_command cfg target)
                             (dbt_process_env (os_environ out) connection schema field)]
        \<and> os_exit_code out trace = 0
        \<and> os_results_file out trace (target @ ''/run_results.json'') = File (Inr text)
        \<and> lib_loads (os_json out) text = Some v \<and> complete_report (os_json out) v)"

lemma examine_results_complete:
  assumes "examine_results out file = Inr ev" "build_passed rc ev"
  obtains content v where "file = File (Inr content)" "lib_loads (os_json out) content = Some v"
    "complete_report (os_json out) v" "8 \<le> be_total_checks ev" "rc = 0"
proof -
  have no: "be_error ev = None" "0 < be_total_nodes ev" "be_passed_nodes ev = be_total_nodes ev" "rc = 0"
    using assms(2) by (auto simp: build_passed_def)
  with assms(1) obtain content v where "file = File (Inr content)" "lib_loads (os_json out) content = Some v"
      "inspect_results (os_json out) v = Inr ev"
    by (auto simp: examine_results_def no_evidence_def split: results_file.splits sum.splits
        option.splits if_splits)
  with inspect_results_complete no that show thesis by blast
qed

lemma run_process_Inr:
  assumes "run_process out command env tr = (Inr (Inr rc), tr')"
  shows "tr' = tr @ [RunDbt command env] \<and> rc = os_exit_code out tr'"
  using assms unfolding run_process_def
  by (elim catch_p_cases bind_p_cases)
    (auto simp: asks_def perform_def then_p_def bind_p_def split: sum.splits if_splits)

lemma keep_results_trace:
  "keep_results out cfg schema path file tr = (r, tr') \<Longrightarrow> prefix tr tr'"
  unfolding keep_results_def Let_def
  by (auto simp: perform_def then_p_def bind_p_def split: option.splits if_splits sum.splits)

lemma dbt_build_passed:
  assumes "dbt_build out cfg schema env target tr = (Inr b, tr')" "br_passed b"
  obtains content v where
    "os_exit_code out (tr @ [RunDbt (dbt_command cfg target) env]) = 0"
    "os_results_file out (tr @ [RunDbt (dbt_command cfg target) env]) (target @ ''/run_results.json'')
       = File (Inr content)"
    "lib_loads (os_json out) content = Some v" "complete_report (os_json out) v"
    "8 \<le> br_total_checks b" "br_passed_checks b = br_total_checks b"
    "prefix (tr @ [RunDbt (dbt_command cfg target) env]) tr'"
proof -
  let ?t1 = "tr @ [RunDbt (dbt_command cfg target) env]"
  from assms(1) obtain completed t1 where c: "run_process out (dbt_command cfg target) env tr = (Inr completed, t1)"
    and rest: "(case completed of
           Inl error \<Rightarrow> return_p (failed_build (join_with '' '' (dbt_command cfg target))
               (''dbt did not complete: '' @ exn_text error))
         | Inr returncode \<Rightarrow>
             bind_p (reads_p (\<lambda>trace. os_results_file out trace (target @ ''/run_results.json''))) (\<lambda>file.
             bind_p (result_p (examine_results out file)) (\<lambda>ev.
             bind_p (keep_results out cfg schema (target @ ''/run_results.json'') file) (\<lambda>build_artifact.
               return_p
                 \<lparr>br_passed = build_passed returncode ev,
                  br_passed_checks = int (be_passed_checks ev),
                  br_total_checks = int (be_total_checks ev),
                  br_command = join_with '' '' (dbt_command cfg target),
                  br_evidence_refs = (case build_artifact of Some a \<Rightarrow> [a] | None \<Rightarrow> []),
                  br_summary = build_summary returncode ev\<rparr>)))) t1 = (Inr b, tr')"
    unfolding dbt_build_def Let_def by (elim bind_p_cases) simp_all
  obtain rc where rc: "completed = Inr rc"
    using rest assms(2) by (cases completed) (auto simp: failed_build_def)
  from run_process_Inr [OF c [unfolded rc]] have t1: "t1 = ?t1" "rc = os_exit_code out ?t1" by auto
  from rest [unfolded rc sum.case] obtain ev a where
    ev: "examine_results out (os_results_file out t1 (target @ ''/run_results.json'')) = Inr ev"
    and keep: "keep_results out cfg schema (target @ ''/run_results.json'')
        (os_results_file out t1 (target @ ''/run_results.json'')) t1 = (Inr a, tr')"
    and b: "br_passed b = build_passed rc ev" "br_total_checks b = int (be_total_checks ev)"
      "br_passed_checks b = int (be_passed_checks ev)"
    by (elim bind_p_cases) auto
  with assms(2) have passed: "build_passed rc ev" by simp
  from examine_results_complete [OF ev passed] obtain content v where
    "os_results_file out t1 (target @ ''/run_results.json'') = File (Inr content)"
    "lib_loads (os_json out) content = Some v" "complete_report (os_json out) v"
    "8 \<le> be_total_checks ev" "rc = 0" .
  then show thesis
    using that [of content v] t1 b passed keep_results_trace [OF keep] by (simp add: build_passed_def)
qed

lemma asks_Inr: "asks out a answer tr = (Inr x, t) \<Longrightarrow> t = tr @ [a] \<and> x = answer t"
  by (auto simp: asks_def perform_def then_p_def bind_p_def split: sum.splits)

lemma perform_trace: "perform out a tr = (r, t) \<Longrightarrow> t = tr @ [a]"
  by (simp add: perform_def)

lemma run_dbt_passed:
  assumes "run_dbt out cfg schema field tr = (Inr b, tr')" "br_passed b"
  shows "\<exists>trace. built_at out cfg schema field trace \<and> prefix trace tr' \<and> 8 \<le> br_total_checks b
    \<and> br_passed_checks b = br_total_checks b"
proof (cases "parse_postgres_dsn (os_bracketed_host out) (xc_postgres_dsn cfg)")
  case (Inr c)
  define env where "env = dbt_process_env (os_environ out) c schema field"
  from assms(1) obtain target t1 where
    "asks out (MakeTemp (''datarescue-dbt-'' @ schema @ ''-'')) (os_temp_dir out) tr = (Inr target, t1)"
    "finally_p (dbt_build out cfg schema env target) (perform out (RemoveTemp target)) t1 = (Inr b, tr')"
    unfolding run_dbt_def Inr sum.case env_def
    by (elim bind_p_cases) auto
  then obtain t2 where t2: "dbt_build out cfg schema env target t1 = (Inr b, t2)"
      "perform out (RemoveTemp target) t2 = (Inr (), tr')"
    by (auto elim: finally_p_cases)
  from dbt_build_passed [OF t2(1) assms(2)] obtain content v where r:
    "os_exit_code out (t1 @ [RunDbt (dbt_command cfg target) env]) = 0"
    "os_results_file out (t1 @ [RunDbt (dbt_command cfg target) env]) (target @ ''/run_results.json'')
       = File (Inr content)"
    "lib_loads (os_json out) content = Some v" "complete_report (os_json out) v"
    "8 \<le> br_total_checks b" "br_passed_checks b = br_total_checks b"
    "prefix (t1 @ [RunDbt (dbt_command cfg target) env]) t2" .
  then have "built_at out cfg schema field (t1 @ [RunDbt (dbt_command cfg target) env])"
    unfolding built_at_def env_def using Inr by blast
  moreover have "prefix (t1 @ [RunDbt (dbt_command cfg target) env]) tr'"
    using r(7) perform_trace [OF t2(2)] by (simp add: prefix_prefix)
  ultimately show ?thesis using r(5,6) by blast
qed (use assms in \<open>auto simp: run_dbt_def failed_build_def\<close>)

section \<open>What an execution returns\<close>

lemma live_execute_steps:
  assumes "live_execute out cfg case_id p cx tr = (r, tr')"
  obtains (early) e t where "r = Inl e" "\<forall>a \<in> set (drop (length tr) tr'). \<exists>q c. a = WriteFile q c"
  | (ran) schema ref t1 t2 x where
      "candidate_schema case_id (cp_source_field p) = Inr schema"
      "gather_evidence out cfg schema ref p cx t1 = (x, t2)"
      "finally_p (gather_evidence out cfg schema ref p cx) (drop_candidate_schema out cfg schema) t1 = (r, tr')"
      "acts (own_action out cfg schema (cp_source_field p)) tr t1"
proof -
  obtain schema where schema: "candidate_schema case_id (cp_source_field p) = Inr schema"
    using candidate_schema_ok by blast
  show thesis
  proof (cases "render_candidate_sql p (xc_source_relation cfg)")
    case (Inl e)
    with assms schema early [of e] show thesis by (simp add: live_execute_def bind_p_def)
  next
    case (Inr sql)
    from assms schema Inr have "bind_p (write_evidence out cfg schema ''candidate.sql'' (sql @ newline))
        (\<lambda>ref. finally_p (gather_evidence out cfg schema ref p cx) (drop_candidate_schema out cfg schema)) tr
        = (r, tr')"
      by (simp add: live_execute_def bind_result_Inr)
    then show thesis
    proof (cases rule: bind_p_cases)
      case (err e)
      have "keeps (acts (\<lambda>a. \<exists>q c. a = WriteFile q c) tr)
          (write_evidence out cfg schema ''candidate.sql'' (sql @ newline))"
        unfolding write_evidence_def Let_def by (intro keeps_intros) auto
      from keepsD [OF this acts_refl err(1)] have "\<forall>a \<in> set (drop (length tr) tr'). \<exists>q c. a = WriteFile q c"
        by (drule_tac acts_drop) (simp add: list_all_iff)
      with err early show thesis by blast
    next
      case (ok ref t1)
      then show thesis
        using ran [OF schema _ ok(2) keepsD [OF write_evidence_own acts_refl ok(1)]]
        by (metis surj_pair)
    qed
  qed
qed

lemma gather_evidence_Inr:
  assumes "gather_evidence out cfg schema ref p cx tr = (Inr x, tr')"
  obtains b t m where "run_dbt out cfg schema (cp_source_field p) tr = (Inr b, t)" "cx_build x = b"
    "(if br_passed b then reconcile out cfg schema
      else failed_reconciliation out cfg schema (br_summary b)) t = (Inr m, tr')"
    "cx_reconciliation x = m"
    "cx_semantic_verdict x = semantic_verdict_of (cp_source_field p) cx"
  using assms unfolding gather_evidence_def by (elim bind_p_cases) auto

lemma failed_reconciliation_Inr:
  "failed_reconciliation out cfg schema summary tr = (Inr m, tr') \<Longrightarrow> \<exists>refs. m = failing_metrics refs"
  unfolding failed_reconciliation_def by (elim bind_p_cases) auto

lemma acts_prefix: "acts ok tr tr' \<Longrightarrow> prefix tr tr'"
  by (auto simp: acts_def)

lemma drop_candidate_schema_trace:
  assumes "parse_postgres_dsn (os_bracketed_host out) (xc_postgres_dsn cfg) = Inr c"
  shows "drop_candidate_schema out cfg schema tr =
    (case os_perform out (tr @ [Connect c True]) of
       Inl e \<Rightarrow> (Inl e, tr @ [Connect c True])
     | Inr _ \<Rightarrow> (os_perform out (tr @ [Connect c True, DropSchema schema]),
                 tr @ [Connect c True, DropSchema schema]))"
  unfolding drop_candidate_schema_def connect_def assms bind_result_Inr
  by (simp add: then_p_def bind_p_def perform_def split: sum.splits)

text \<open>The schema is dropped by the last action of every run that did more than write its candidate
  SQL; the one exception is a connection that cannot be opened, and then the run raises.\<close>

lemma live_execute_drops:
  assumes "live_execute out cfg case_id p cx tr = (r, tr')"
    and "parse_postgres_dsn (os_bracketed_host out) (xc_postgres_dsn cfg) = Inr c"
    and "\<exists>a \<in> set (drop (length tr) tr'). \<nexists>q content. a = WriteFile q content"
  shows "\<exists>schema t. candidate_schema case_id (cp_source_field p) = Inr schema
    \<and> (tr' = t @ [Connect c True, DropSchema schema]
       \<or> tr' = t @ [Connect c True] \<and> (\<exists>e. r = Inl e))"
  using assms(1)
proof (cases rule: live_execute_steps)
  case (ran schema ref t1 t2 x)
  then have "finally_p (gather_evidence out cfg schema ref p cx) (drop_candidate_schema out cfg schema) t1 = (r, tr')"
    by simp
  then show ?thesis
  proof (cases rule: finally_p_cases)
    case (err y s1 e)
    then show ?thesis
      using ran(1) drop_candidate_schema_trace [OF assms(2), of schema s1]
      by (auto split: sum.splits)
  next
    case (ok s1)
    then show ?thesis
      using ran(1) drop_candidate_schema_trace [OF assms(2), of schema s1]
      by (auto split: sum.splits)
  qed
qed (use assms(3) in blast)

text \<open>With a DSN that does not parse, the clean-up raises whatever the run had found out.\<close>

lemma live_execute_invalid_dsn:
  assumes "parse_postgres_dsn (os_bracketed_host out) (xc_postgres_dsn cfg) = Inl e"
  shows "\<exists>x. fst (live_execute out cfg case_id p cx tr) = Inl x"
proof -
  have drop: "drop_candidate_schema out cfg schema s = (Inl e, s)" for schema s
    by (simp add: drop_candidate_schema_def connect_def assms then_p_def bind_p_def)
  obtain r tr' where run: "live_execute out cfg case_id p cx tr = (r, tr')" by fastforce
  then show ?thesis
    by (cases rule: live_execute_steps) (auto simp: finally_p_def drop run split: prod.splits)
qed

lemma live_execute_Inr:
  assumes "live_execute out cfg case_id p cx tr = (Inr x, tr')"
  obtains schema ref t1 t2 where "candidate_schema case_id (cp_source_field p) = Inr schema"
    "gather_evidence out cfg schema ref p cx t1 = (Inr x, t2)" "prefix tr t1" "prefix t2 tr'"
  using assms
proof (cases rule: live_execute_steps)
  case (ran schema ref t1 t2 y)
  from ran(3) obtain s1 where s1: "gather_evidence out cfg schema ref p cx t1 = (Inr x, s1)"
      "drop_candidate_schema out cfg schema s1 = (Inr (), tr')"
    by (cases rule: finally_p_cases) auto
  have "prefix s1 tr'"
    using acts_prefix keepsD [OF drop_schema_own acts_refl s1(2)] by blast
  with that [OF ran(1) s1(1)] acts_prefix [OF ran(4)] show thesis by blast
qed simp

section \<open>The contract of the executors\<close>

text \<open>
  What the workflow relies on: the semantic verdict is the one of the glossary, and a build that did
  not pass comes with metrics no bounded policy accepts.
\<close>

locale evidence_executor =
  fixes execute :: "candidate_proposal \<Rightarrow> context_bundle \<Rightarrow> ('s, exn, candidate_execution) prog"
  assumes verdict: "execute p cx s = (Inr x, t) \<Longrightarrow>
      cx_semantic_verdict x = semantic_verdict_of (cp_source_field p) cx"
    and unbuilt: "execute p cx s = (Inr x, t) \<Longrightarrow> \<not> br_passed (cx_build x) \<Longrightarrow>
      \<exists>refs. cx_reconciliation x = failing_metrics refs"
begin

definition accepts :: "policy_config \<Rightarrow> bool \<Rightarrow> candidate_execution \<Rightarrow> bool" where
  "accepts cfg current x \<longleftrightarrow>
     pd_accepted (evaluate cfg (cx_semantic_verdict x) (cx_reconciliation x) (cx_build x) current)"

lemma accepted_verdict:
  "execute p cx s = (Inr x, t) \<Longrightarrow> accepts cfg current x \<Longrightarrow>
     semantic_verdict_of (cp_source_field p) cx \<noteq> CONFLICT"
  by (auto simp: accepts_def evaluate_accepted acceptable_def dest: verdict)

lemma accepted_built:
  assumes "execute p cx s = (Inr x, t)" "accepts cfg current x"
    and "fle (pol_max_total_variance_pct cfg) (Fin 100)"
  shows "br_passed (cx_build x)"
proof (rule ccontr)
  assume "\<not> br_passed (cx_build x)"
  with unbuilt [OF assms(1)] obtain refs where "cx_reconciliation x = failing_metrics refs" by blast
  moreover have "dbl 1000000000 = Fin 1000000000" by code_simp
  ultimately have "fle (Fin 1000000000) (pol_max_total_variance_pct cfg)"
    using assms(2) by (simp add: accepts_def evaluate_accepted acceptable_def failing_metrics_def)
  from fle_trans [OF this assms(3)] show False by simp
qed

end

interpretation replay: evidence_executor "\<lambda>p cx. return_p (replay_execute p cx)"
  by unfold_locales (auto simp: replay_execute_def Let_def split: if_splits)

interpretation live: evidence_executor "live_execute out cfg case_id"
  for out cfg case_id
proof unfold_locales
  show "cx_semantic_verdict x = semantic_verdict_of (cp_source_field p) cx"
    if "live_execute out cfg case_id p cx s = (Inr x, t)" for p cx s x t
    using that by (elim live_execute_Inr gather_evidence_Inr) simp
  show "\<exists>refs. cx_reconciliation x = failing_metrics refs"
    if run: "live_execute out cfg case_id p cx s = (Inr x, t)" and "\<not> br_passed (cx_build x)" for p cx s x t
    using that by (elim live_execute_Inr gather_evidence_Inr) (auto dest: failed_reconciliation_Inr)
qed

text \<open>The metrics of a passed build are computed from the answers to the three queries, asked in order of
  the mart dbt has just built and of the configured baseline.\<close>

definition reconciled_from :: "outside \<Rightarrow> executor_config \<Rightarrow> string \<Rightarrow> reconciliation_metrics \<Rightarrow> bool" where
  "reconciled_from out cfg schema m \<longleftrightarrow>
     (\<exists>t b current base overlap refs q1 q2 q3.
        baseline_parts cfg = Inr b
        \<and> q1 = t @ [Query (Aggregates schema ''fct_revenue'')]
        \<and> q2 = q1 @ [Query (Aggregates (fst b) (snd b))]
        \<and> q3 = q2 @ [Query (Overlap (schema, ''fct_revenue'') b)]
        \<and> os_aggregates out q1 = Some current \<and> os_aggregates out q2 = Some base
        \<and> os_overlap out q3 = Some overlap
        \<and> m = (reconciled current base overlap)\<lparr>rm_evidence_refs := refs\<rparr>)"

lemma fetch_Inr:
  "fetch out q answer problem tr = (Inr x, t) \<Longrightarrow> t = tr @ [Query q] \<and> answer t = Some x"
  unfolding fetch_def by (elim bind_p_cases) (auto dest!: asks_Inr split: option.splits)

lemma reconcile_Inr:
  assumes "reconcile out cfg schema tr = (Inr m, tr')"
  shows "reconciled_from out cfg schema m"
proof -
  from assms obtain b where b: "baseline_parts cfg = Inr b"
    by (auto simp: reconcile_def elim!: bind_p_cases)
  from assms obtain t1 t2 t3 t4 current base overlap refs where
    f: "fetch out (Aggregates schema ''fct_revenue'') (os_aggregates out)
       ''Candidate reconciliation returned no aggregate row'' t1 = (Inr current, t2)"
    "fetch out (Aggregates (fst b) (snd b)) (os_aggregates out)
       ''Baseline reconciliation returned no aggregate row'' t2 = (Inr base, t3)"
    "fetch out (Overlap (schema, ''fct_revenue'') b) (os_overlap out)
       ''Primary-key reconciliation returned no aggregate row'' t3 = (Inr overlap, t4)"
    and m: "m = (reconciled current base overlap)\<lparr>rm_evidence_refs := refs\<rparr>"
    unfolding reconcile_def b bind_result_Inr Let_def by (elim bind_p_cases) auto
  show ?thesis
    unfolding reconciled_from_def
    by (rule exI [of _ t1], rule exI [of _ b], rule exI [of _ current], rule exI [of _ base],
        rule exI [of _ overlap], rule exI [of _ refs], rule exI [of _ t2], rule exI [of _ t3],
        rule exI [of _ t4])
      (use b m fetch_Inr [OF f(1)] fetch_Inr [OF f(2)] fetch_Inr [OF f(3)] in auto)
qed

lemma live_execute_passed:
  assumes "live_execute out cfg case_id p cx tr = (Inr x, tr')" "br_passed (cx_build x)"
  shows "\<exists>schema trace. candidate_schema case_id (cp_source_field p) = Inr schema
    \<and> built_at out cfg schema (cp_source_field p) trace \<and> prefix trace tr'
    \<and> 8 \<le> br_total_checks (cx_build x) \<and> br_passed_checks (cx_build x) = br_total_checks (cx_build x)
    \<and> reconciled_from out cfg schema (cx_reconciliation x)"
proof -
  from assms(1) obtain schema ref t1 t2 where s:
    "candidate_schema case_id (cp_source_field p) = Inr schema"
    "gather_evidence out cfg schema ref p cx t1 = (Inr x, t2)" "prefix t2 tr'"
    by (rule live_execute_Inr)
  from s(2) obtain t where t: "run_dbt out cfg schema (cp_source_field p) t1 = (Inr (cx_build x), t)"
      "reconcile out cfg schema t = (Inr (cx_reconciliation x), t2)"
    using assms(2) by (elim gather_evidence_Inr) simp
  from run_dbt_passed [OF t(1) assms(2)] obtain trace where
    "built_at out cfg schema (cp_source_field p) trace" "prefix trace t" "8 \<le> br_total_checks (cx_build x)"
    "br_passed_checks (cx_build x) = br_total_checks (cx_build x)"
    by blast
  moreover have "prefix t t2"
    using acts_prefix keepsD [OF reconcile_own acts_refl t(2)] by blast
  ultimately show ?thesis
    using s reconcile_Inr [OF t(2)] by (meson prefix_order.trans)
qed

end
