(* ===== verification/Git_Remote.thy ===== *)
theory Git_Remote
  imports Dsn Sql_Safety
begin

text \<open>
  Which GitHub repository a remote URL names: \<^verbatim>\<open>_github_repository_from_remote_url\<close> and
  \<^verbatim>\<open>_repository_from_path\<close> of \<^verbatim>\<open>packages/remediation/github.py\<close>, over the URL splitting of Dsn.
\<close>

definition repository_char :: "char \<Rightarrow> bool" where
  "repository_char c \<longleftrightarrow> is_alpha c \<or> is_digit c \<or> c \<in> set ''_.-''"

definition repository_from_path :: "string \<Rightarrow> string option" where
  "repository_from_path path =
     (let stripped = strip_by (\<lambda>c. c = CHR ''/'') path;
          normalized =
            (if suffix ''.git'' (casefold stripped) then take (length stripped - 4) stripped
             else stripped);
          parts = split_on CHR ''/'' normalized
      in if length parts \<noteq> 2 \<or> \<not> list_all (\<lambda>p. p \<noteq> [] \<and> list_all repository_char p) parts then None
         else Some (join_with ''/'' parts))"

text \<open>The scp form: the literal prefix in any case, then at least one character and no query mark.
  Outside DOTALL mode the class \<open>[^?#]\<close> does match a newline.\<close>

definition scp_path :: "string \<Rightarrow> string option" where
  "scp_path url =
     (case eat_literal ''git@github.com:'' url of
        Some rest \<Rightarrow>
          if rest \<noteq> [] \<and> CHR ''?'' \<notin> set rest \<and> CHR ''#'' \<notin> set rest then Some rest else None
      | None \<Rightarrow> None)"

definition github_repository_from_remote_url ::
  "(string \<Rightarrow> bool) \<Rightarrow> string \<Rightarrow> exn + string option" where
  "github_repository_from_remote_url ip url =
     (case scp_path url of
        Some path \<Rightarrow> Inr (repository_from_path path)
      | None \<Rightarrow>
     (case urlsplit ip url of
        None \<Rightarrow> Inl (ValueError ''Invalid IPv6 URL'')
      | Some parsed \<Rightarrow>
          let netloc = us_netloc parsed; (username, password) = userinfo netloc
          in case port_of netloc of
               Inl _ \<Rightarrow> Inr None
             | Inr port \<Rightarrow>
                 if us_query parsed \<noteq> [] \<or> us_fragment parsed \<noteq> [] \<or> hostname netloc = []
                 then Inr None
                 else if casefold (hostname netloc) \<noteq> ''github.com'' then Inr None
                 else if us_scheme parsed = ''https''
                 then (if username \<noteq> None \<or> password \<noteq> None \<or> port \<notin> {None, Some 443}
                       then Inr None else Inr (repository_from_path (us_path parsed)))
                 else if us_scheme parsed = ''ssh''
                 then (if username \<noteq> Some ''git'' \<or> password \<noteq> None \<or> port \<notin> {None, Some 22}
                       then Inr None else Inr (repository_from_path (us_path parsed)))
                 else Inr None))"

section \<open>What a recognised repository looks like\<close>

lemma repository_from_path_shape:
  assumes "repository_from_path path = Some r"
  shows "\<exists>owner name. r = owner @ ''/'' @ name \<and> owner \<noteq> [] \<and> name \<noteq> []
    \<and> list_all repository_char owner \<and> list_all repository_char name"
proof -
  from assms obtain parts where p: "length parts = 2" "r = join_with ''/'' parts"
      "list_all (\<lambda>p. p \<noteq> [] \<and> list_all repository_char p) parts"
    by (auto simp: repository_from_path_def Let_def split: if_splits)
  from p(1) obtain a b where "parts = [a, b]"
    by (metis One_nat_def length_0_conv length_Suc_conv numeral_2_eq_2)
  with p(2,3) show ?thesis by auto
qed

text \<open>A recognised URL goes to github.com without credentials of its own: over https with no user at
  all, over ssh as the user git.\<close>

lemma remote_url_github:
  assumes "github_repository_from_remote_url ip url = Inr (Some r)"
  shows "scp_path url \<noteq> None
    \<or> (\<exists>u. urlsplit ip url = Some u \<and> casefold (hostname (us_netloc u)) = ''github.com''
         \<and> snd (userinfo (us_netloc u)) = None
         \<and> (us_scheme u = ''https'' \<and> fst (userinfo (us_netloc u)) = None
            \<or> us_scheme u = ''ssh'' \<and> fst (userinfo (us_netloc u)) = Some ''git''))"
  using assms
  by (auto simp: github_repository_from_remote_url_def Let_def split: option.splits sum.splits
      if_splits prod.splits)

lemma remote_url_shape:
  assumes "github_repository_from_remote_url ip url = Inr (Some r)"
  shows "\<exists>owner name. r = owner @ ''/'' @ name \<and> owner \<noteq> [] \<and> name \<noteq> []
    \<and> list_all repository_char owner \<and> list_all repository_char name"
proof -
  from assms obtain path where "repository_from_path path = Some r"
    by (auto simp: github_repository_from_remote_url_def Let_def split: option.splits sum.splits
        if_splits prod.splits)
  then show ?thesis by (rule repository_from_path_shape)
qed

end
