(* ===== verification/Workflow.thy ===== *)
theory Workflow
  imports Case_Projection Evidence Git_Remote
begin

text \<open>
  The workflow service of \<^verbatim>\<open>apps/api/workflow.py\<close>: ingesting a schema change, advancing a case to a
  draft pull request or to containment, and verifying a deployment.

  The adapters the service is given (DataHub, the candidate generator, the evidence executor, GitHub,
  git and the file system) are programs over an arbitrary type \<open>'w\<close> of worlds, collected in a record;
  each may raise. The event store is shared with other processes: before every store transaction of
  this process, \<open>sv_others\<close> lets them perform any list of store operations. The worker lock is held by
  one operation at a time, so within a process the operations below do not interleave; the
  optimistic read of \<^verbatim>\<open>ingest\<close>, which runs outside the lock, is one more store read.
\<close>

section \<open>Configuration and services\<close>

record settings =
  st_allowed_assets :: string
  st_replay_mode :: bool
  st_execution_mode :: string
  st_runtime_dir :: string
  st_github_repository :: string
  st_github_repo_root :: string
  st_github_base_branch :: string
  st_github_patch_path :: string
  st_policy :: policy_config

text \<open>\<^verbatim>\<open>Settings.allowed_asset_urns\<close>: the non-blank entries between semicolons and line breaks.\<close>

definition allowed_asset_urns :: "settings \<Rightarrow> string list" where
  "allowed_asset_urns cfg =
     (let normalized = map (\<lambda>c. if c = CHR 0x0A then CHR '';'' else c) (st_allowed_assets cfg)
      in filter (\<lambda>a. a \<noteq> []) (map strip (split_on CHR '';'' normalized)))"

datatype report =
    ValidatedReport candidate_assessment string
  | RecoveredReport string "policy_check list"
  | RefusedReport "string list"

record mcp_context =
  mc_context :: jdict
  mc_integration :: integration_result

type_synonym 'w execution_call =
  "string \<Rightarrow> candidate_proposal \<Rightarrow> context_bundle \<Rightarrow> 'w \<Rightarrow> (exn + candidate_execution) \<times> 'w"

datatype 'w executor =
  Executor
    (ex_live: bool)
    (ex_execute: "'w execution_call")
    (ex_bind: "(string \<Rightarrow> string \<Rightarrow> 'w \<Rightarrow> (exn + 'w executor) \<times> 'w) option")

record 'w services =
  sv_uuid :: "nat \<Rightarrow> string"
  sv_now :: "nat \<Rightarrow> int"
  sv_others :: "nat \<Rightarrow> store_op list"
  sv_raise_incident :: "string \<Rightarrow> string \<Rightarrow> ('w, exn, integration_result) prog"
  sv_resolve_incident :: "string \<Rightarrow> ('w, exn, integration_result) prog"
  sv_fetch_context :: "string \<Rightarrow> ('w, exn, mcp_context) prog"
  sv_write_report :: "string \<Rightarrow> string \<Rightarrow> report \<Rightarrow> bool \<Rightarrow> ('w, exn, integration_result) prog"
  sv_propose :: "schema_change_event \<Rightarrow> context_bundle \<Rightarrow> ('w, exn, candidate_generation_result) prog"
  sv_executor :: "'w executor"
  sv_create_draft :: "string \<Rightarrow> patch_artifact \<Rightarrow> ('w, exn, pull_request_artifact) prog"
  sv_read_patch_file :: "('w, exn, string) prog"
  sv_git :: "string list \<Rightarrow> nat \<Rightarrow> ('w, exn, int \<times> string) prog"
  sv_make_temp_dir :: "string \<Rightarrow> ('w, exn, string) prog"
  sv_remove_temp_dir :: "string \<Rightarrow> ('w, exn, unit) prog"
  sv_bracketed_host :: "string \<Rightarrow> bool"

record 'w wf_state =
  wf_rows :: table
  wf_world :: 'w
  wf_tick :: nat
  wf_active :: "string set"
  wf_settled :: "string set"

type_synonym ('w, 'a) wf = "('w wf_state, exn, 'a) prog"

definition world_p :: "('w, exn, 'a) prog \<Rightarrow> ('w, 'a) wf" where
  "world_p m st = (case m (wf_world st) of (r, w) \<Rightarrow> (r, st\<lparr>wf_world := w\<rparr>))"

definition run_ops :: "store_op list \<Rightarrow> table \<Rightarrow> table" where
  "run_ops ops rows = foldl (\<lambda>t op. snd (run_op op t)) rows ops"

text \<open>One store transaction, after whatever the other processes did since the last one.\<close>

definition store_p :: "'w services \<Rightarrow> (string \<Rightarrow> int \<Rightarrow> (table, exn, 'a) prog) \<Rightarrow> ('w, 'a) wf" where
  "store_p sv f st =
     (let n = wf_tick st
      in case f (sv_uuid sv n) (sv_now sv n) (run_ops (sv_others sv n) (wf_rows st)) of
           (r, rows) \<Rightarrow> (r, st\<lparr>wf_rows := rows, wf_tick := Suc n\<rparr>))"

definition read_p :: "'w services \<Rightarrow> (table \<Rightarrow> exn + 'a) \<Rightarrow> ('w, 'a) wf" where
  "read_p sv f = store_p sv (\<lambda>_ _ rows. (f rows, rows))"

definition append_p ::
  "'w services \<Rightarrow> string \<Rightarrow> event_type \<Rightarrow> case_state \<Rightarrow> payload \<Rightarrow> string option \<Rightarrow> string option
    \<Rightarrow> ('w, unit) wf" where
  "append_p sv case_id event_type state payload dedup_key event_id =
     then_p (store_p sv (\<lambda>uuid now.
       append_event uuid now case_id event_type state payload dedup_key event_id)) (return_p ())"

abbreviation log_p ::
  "'w services \<Rightarrow> string \<Rightarrow> event_type \<Rightarrow> case_state \<Rightarrow> payload \<Rightarrow> ('w, unit) wf" where
  "log_p sv case_id event_type state payload \<equiv>
     append_p sv case_id event_type state payload None None"

abbreviation case_p :: "'w services \<Rightarrow> string \<Rightarrow> ('w, case_snapshot) wf" where
  "case_p sv case_id \<equiv> read_p sv (\<lambda>rows. get_case rows case_id)"

section \<open>Identity of a schema change\<close>

definition field_key :: "schema_field \<Rightarrow> string \<times> string \<times> bool" where
  "field_key f = (sf_name f, sf_data_type f, sf_nullable f)"

definition dump_fields :: "schema_field list \<Rightarrow> string" where
  "dump_fields fs = ''['' @ join_with '','' (map dump_field (sort_key field_key fs)) @ '']''"

definition dedup_text :: "schema_change_event \<Rightarrow> string" where
  "dedup_text e =
     ''{'' @ json_quote ''after_fields'' @ '':'' @ dump_fields (ev_after_fields e)
     @ '','' @ json_quote ''before_fields'' @ '':'' @ dump_fields (ev_before_fields e)
     @ '','' @ json_quote ''entity_urn'' @ '':'' @ json_quote (casefold (ev_entity_urn e)) @ ''}''"

definition schema_event_dedup_key :: "schema_change_event \<Rightarrow> string" where
  "schema_event_dedup_key e = sha256_hex (dedup_text e)"

definition case_id_from_dedup :: "string \<Rightarrow> string" where
  "case_id_from_dedup dedup_key = ''DR-'' @ upper (take 8 dedup_key)"

definition detection_payload :: "schema_change_event \<Rightarrow> string \<Rightarrow> payload" where
  "detection_payload event case_id =
     P_Detection event (''urn:li:dataRescueIncident:'' @ case_id)"

text \<open>\<^verbatim>\<open>range(16, len(digest) + 1, 8)\<close>\<close>

definition id_widths :: "nat \<Rightarrow> nat list" where
  "id_widths n = filter (\<lambda>w. 8 dvd w) [16..<Suc n]"

fun wider_id :: "'w services \<Rightarrow> string \<Rightarrow> string \<Rightarrow> nat list \<Rightarrow> ('w, string) wf" where
  "wider_id sv preferred digest [] =
     raise_p (RuntimeError ''Could not allocate a collision-safe case id'')"
| "wider_id sv preferred digest (w # ws) =
     (let candidate = ''DR-'' @ take w digest
      in if candidate = preferred then wider_id sv preferred digest ws
         else bind_p (read_p sv (\<lambda>rows. Inr (case_id_exists rows candidate))) (\<lambda>taken.
           if taken then wider_id sv preferred digest ws else return_p candidate))"

definition available_case_id :: "'w services \<Rightarrow> string \<Rightarrow> ('w, string) wf" where
  "available_case_id sv dedup_key =
     bind_p (read_p sv (\<lambda>rows. Inr (find_case_for_dedup rows dedup_key))) (\<lambda>existing.
       case existing of
         Some case_id \<Rightarrow> return_p case_id
       | None \<Rightarrow>
           let preferred = case_id_from_dedup dedup_key
           in bind_p (read_p sv (\<lambda>rows. Inr (case_id_exists rows preferred))) (\<lambda>taken.
              if \<not> taken then return_p preferred
              else let digest = upper dedup_key
                   in wider_id sv preferred digest (id_widths (length digest))))"

section \<open>Context\<close>

definition string_value :: "json \<Rightarrow> string option" where
  "string_value v = (case v of JStr s \<Rightarrow> Some s | _ \<Rightarrow> None)"

definition owner_value :: "json \<Rightarrow> string option" where
  "owner_value v =
     (case v of
        JStr s \<Rightarrow> Some s
      | JDict d \<Rightarrow> first_some (\<lambda>key. string_value (jget d key)) [''name'', ''urn'', ''id'']
      | _ \<Rightarrow> None)"

definition string_list :: "json \<Rightarrow> string list" where
  "string_list v = (case v of JList xs \<Rightarrow> List.map_filter string_value xs | _ \<Rightarrow> [])"

definition replay_context :: "string \<Rightarrow> integration_result \<Rightarrow> context_bundle" where
  "replay_context asset_urn integration =
     \<lparr>cb_asset_urn = asset_urn,
      cb_glossary_definition =
        Some ''Recognized revenue is the net settled amount after processing fees.'',
      cb_owner = Some ''Finance Data (demo fixture)'',
      cb_lineage_urns =
        [asset_urn,
         ''urn:li:dataset:(urn:li:dataPlatform:dbt,datarescue.analytics.stg_payments,PROD)'',
         ''urn:li:dataset:(urn:li:dataPlatform:dbt,datarescue.analytics.fct_revenue,PROD)''],
      cb_context_documents =
        [''urn:li:glossaryTerm:NetRevenue'', ''artifact://replay/artifacts/context-bundle.json''],
      cb_lineage_current = True, cb_source = ''RECORDED_REPLAY'', cb_integration = integration\<rparr>"

text \<open>Setting two keys of a dictionary that keeps its insertion order.\<close>

definition dict_set :: "jdict \<Rightarrow> string \<Rightarrow> json \<Rightarrow> jdict" where
  "dict_set d k v = (if has_key d k then map (\<lambda>(k', v'). if k' = k then (k, v) else (k', v')) d else d @ [(k, v)])"

definition mark_fallback :: "integration_result \<Rightarrow> integration_result" where
  "mark_fallback i =
     i\<lparr>ir_details := dict_set (dict_set (ir_details i) ''fallback'' (JStr ''RECORDED_REPLAY''))
                     ''live_status'' (JStr (integration_status_value (ir_status i)))\<rparr>"

definition context_of :: "settings \<Rightarrow> string \<Rightarrow> mcp_context \<Rightarrow> context_bundle" where
  "context_of cfg asset_urn result =
     (let integration = mc_integration result; raw = mc_context result
      in if ir_status integration = SUCCEEDED
         then \<lparr>cb_asset_urn = asset_urn,
               cb_glossary_definition = string_value (jget raw ''glossary_definition''),
               cb_owner = owner_value (jget raw ''owner''),
               cb_lineage_urns = string_list (jget raw ''lineage_urns''),
               cb_context_documents = string_list (jget raw ''context_documents''),
               cb_lineage_current = truthy (jget raw ''lineage_current''),
               cb_source = ''DATAHUB_MCP'', cb_integration = integration\<rparr>
         else if st_replay_mode cfg then replay_context asset_urn (mark_fallback integration)
         else \<lparr>cb_asset_urn = asset_urn, cb_glossary_definition = None, cb_owner = None,
               cb_lineage_urns = [], cb_context_documents = [], cb_lineage_current = False,
               cb_source = ''UNAVAILABLE'', cb_integration = integration\<rparr>)"

definition fetch_context :: "settings \<Rightarrow> 'w services \<Rightarrow> string \<Rightarrow> ('w, context_bundle) wf" where
  "fetch_context cfg sv asset_urn =
     bind_p (world_p (sv_fetch_context sv asset_urn)) (\<lambda>result.
       return_p (context_of cfg asset_urn result))"

definition context_complete :: "context_bundle \<Rightarrow> bool" where
  "context_complete cx \<longleftrightarrow>
     cb_glossary_definition cx \<noteq> None \<and> cb_glossary_definition cx \<noteq> Some [] \<and> cb_lineage_current cx"

section \<open>Containment and the gate of connected mode\<close>

definition contain :: "'w services \<Rightarrow> string \<Rightarrow> string \<Rightarrow> string list \<Rightarrow> ('w, unit) wf" where
  "contain sv case_id asset_urn reasons =
     (let concise = (if take 20 reasons = [] then [''No candidate satisfies recovery policy'']
                     else take 20 reasons)
      in bind_p (world_p (sv_write_report sv asset_urn case_id (RefusedReport concise) True)) (\<lambda>writeback.
         log_p sv case_id E_CONTAINED CONTAINED (P_Contained concise writeback 75)))"

definition connected_integration_ready ::
  "settings \<Rightarrow> 'w services \<Rightarrow> string \<Rightarrow> integration_result \<Rightarrow> string \<Rightarrow> ('w, bool) wf" where
  "connected_integration_ready cfg sv case_id integration label =
     (if st_replay_mode cfg \<or> ir_status integration = SUCCEEDED then return_p True
      else then_p
        (log_p sv case_id E_FAILED FAILED
           (P_FailedIntegration (label @ '' is required in connected mode'') integration))
        (return_p False))"

section \<open>The steps of an advance\<close>

text \<open>Each step returns None where \<^verbatim>\<open>_advance\<close> returns early.\<close>

definition resumable :: "case_state \<Rightarrow> bool" where
  "resumable s \<longleftrightarrow> s \<in> {DETECTED, CONTEXT_GATHERED, CANDIDATES_READY, VALIDATING, PATCH_READY}"

definition incident_step ::
  "settings \<Rightarrow> 'w services \<Rightarrow> string \<Rightarrow> schema_change_event \<Rightarrow> case_snapshot \<Rightarrow> ('w, bool) wf" where
  "incident_step cfg sv case_id event snap =
     bind_p
       (case cs_incident_integration snap of
          Some i \<Rightarrow> return_p i
        | None \<Rightarrow>
            bind_p (world_p (sv_raise_incident sv (ev_entity_urn event) case_id)) (\<lambda>i.
            then_p (log_p sv case_id INCIDENT_RAISED DETECTED (P_Integration i)) (return_p i)))
       (\<lambda>i. connected_integration_ready cfg sv case_id i ''DataHub incident creation'')"

definition context_step ::
  "settings \<Rightarrow> 'w services \<Rightarrow> string \<Rightarrow> schema_change_event \<Rightarrow> case_snapshot
    \<Rightarrow> ('w, context_bundle option) wf" where
  "context_step cfg sv case_id event snap =
     (case cs_context snap of
        None \<Rightarrow>
          bind_p (fetch_context cfg sv (ev_entity_urn event)) (\<lambda>cx.
            if \<not> context_complete cx
            then then_p (contain sv case_id (ev_entity_urn event)
                          [''Required semantic context or current lineage is unavailable''])
                   (return_p None)
            else then_p (log_p sv case_id E_CONTEXT_GATHERED CONTEXT_GATHERED (P_Context cx))
                   (return_p (Some cx)))
      | Some cx \<Rightarrow>
          if \<not> context_complete cx
          then then_p (contain sv case_id (ev_entity_urn event)
                        [''Persisted semantic context or lineage is incomplete''])
                 (return_p None)
          else return_p (Some cx))"

definition generate_candidates ::
  "settings \<Rightarrow> 'w services \<Rightarrow> string \<Rightarrow> schema_change_event \<Rightarrow> context_bundle
    \<Rightarrow> ('w, candidate_proposal list option) wf" where
  "generate_candidates cfg sv case_id event cx =
     bind_p (world_p (sv_propose sv event cx)) (\<lambda>generated.
     bind_p (connected_integration_ready cfg sv case_id (gr_integration generated)
               ''OpenAI candidate generation'') (\<lambda>ready.
       if \<not> ready then return_p None
       else if gr_candidates generated = []
       then then_p (contain sv case_id (ev_entity_urn event)
                     [''No schema-compatible candidate exists'']) (return_p None)
       else then_p (log_p sv case_id E_CANDIDATES_READY CANDIDATES_READY
                     (P_Candidates (gr_candidates generated) (gr_integration generated)))
              (return_p (Some (gr_candidates generated)))))"

definition candidates_step ::
  "settings \<Rightarrow> 'w services \<Rightarrow> string \<Rightarrow> schema_change_event \<Rightarrow> context_bundle \<Rightarrow> case_snapshot
    \<Rightarrow> ('w, candidate_proposal list option) wf" where
  "candidates_step cfg sv case_id event cx snap =
     (case cs_candidate_generation snap of
        None \<Rightarrow> generate_candidates cfg sv case_id event cx
      | Some i \<Rightarrow>
          if cs_candidate_proposals snap = [] then generate_candidates cfg sv case_id event cx
          else bind_p (connected_integration_ready cfg sv case_id i ''OpenAI candidate generation'')
            (\<lambda>ready. return_p (if ready then Some (cs_candidate_proposals snap) else None)))"

definition validation_step ::
  "settings \<Rightarrow> 'w services \<Rightarrow> string \<Rightarrow> candidate_proposal list \<Rightarrow> case_snapshot \<Rightarrow> ('w, unit) wf" where
  "validation_step cfg sv case_id proposals snap =
     (if cs_state snap = CANDIDATES_READY
      then log_p sv case_id VALIDATION_STARTED VALIDATING
             (P_ValidationStarted (length proposals) (st_execution_mode cfg))
      else return_p ())"

definition failed_execution :: "string \<Rightarrow> candidate_execution" where
  "failed_execution error_type =
     \<lparr>cx_semantic_verdict = MISSING, cx_evidence_refs = [], cx_reconciliation = failing_metrics [],
      cx_build = failed_build ''dbt build''
        (''Candidate execution failed ('' @ error_type @ ''); no success was claimed'')\<rparr>"

definition assess ::
  "settings \<Rightarrow> context_bundle \<Rightarrow> candidate_proposal \<Rightarrow> candidate_execution
    \<Rightarrow> candidate_assessment \<times> policy_decision" where
  "assess cfg cx proposal execution =
     (let decision = evaluate (st_policy cfg) (cx_semantic_verdict execution)
                       (cx_reconciliation execution) (cx_build execution) (cb_lineage_current cx)
      in (\<lparr>ca_id = cp_id proposal, ca_source_field = cp_source_field proposal,
           ca_target_alias = cp_target_alias proposal, ca_rationale = cp_rationale proposal,
           ca_semantic_verdict = cx_semantic_verdict execution,
           ca_evidence_refs = cx_evidence_refs execution,
           ca_reconciliation = cx_reconciliation execution, ca_build = cx_build execution,
           ca_policy_checks = pd_checks decision, ca_outcome = outcome decision\<rparr>, decision))"

definition safe_execute ::
  "'w services \<Rightarrow> string \<Rightarrow> candidate_proposal \<Rightarrow> context_bundle \<Rightarrow> ('w, candidate_execution) wf" where
  "safe_execute sv case_id proposal cx =
     catch_p (world_p (ex_execute (sv_executor sv) case_id proposal cx))
       (\<lambda>e. return_p (failed_execution (type_name e)))"

definition rejection :: "candidate_proposal \<Rightarrow> string \<Rightarrow> string" where
  "rejection proposal reason = cp_source_field proposal @ '': '' @ reason"

type_synonym assessments = "string \<Rightarrow> candidate_assessment option"

fun assess_all ::
  "settings \<Rightarrow> 'w services \<Rightarrow> string \<Rightarrow> context_bundle \<Rightarrow> candidate_proposal list \<Rightarrow> assessments
    \<Rightarrow> string list \<Rightarrow> ('w, assessments \<times> string list) wf" where
  "assess_all cfg sv case_id cx [] by_id reasons = return_p (by_id, reasons)"
| "assess_all cfg sv case_id cx (p # ps) by_id reasons =
     (case by_id (cp_id p) of
        Some existing \<Rightarrow>
          assess_all cfg sv case_id cx ps by_id
            (reasons @ map (\<lambda>c. rejection p (pc_name c))
                         (filter (\<lambda>c. \<not> pc_passed c) (ca_policy_checks existing)))
      | None \<Rightarrow>
          bind_p (safe_execute sv case_id p cx) (\<lambda>execution.
            let (assessment, decision) = assess cfg cx p execution
            in then_p (log_p sv case_id CANDIDATE_ASSESSED VALIDATING (P_Assessment assessment))
                 (assess_all cfg sv case_id cx ps (by_id(ca_id assessment \<mapsto> assessment))
                    (reasons @ map (rejection p) (pd_reasons decision)))))"

definition assessments_by_id :: "candidate_assessment list \<Rightarrow> assessments" where
  "assessments_by_id as = foldl (\<lambda>m a. m(ca_id a \<mapsto> a)) Map.empty as"

definition in_order :: "assessments \<Rightarrow> candidate_proposal list \<Rightarrow> exn + candidate_assessment list" where
  "in_order by_id proposals =
     map_res (\<lambda>p. case by_id (cp_id p) of Some a \<Rightarrow> Inr a | None \<Rightarrow> Inl (KeyErr (cp_id p))) proposals"

definition eligible :: "candidate_assessment list \<Rightarrow> candidate_assessment list" where
  "eligible as = filter (\<lambda>a. ca_outcome a \<in> {ELIGIBLE, SELECTED}) as"

text \<open>The order of Python tuples \<open>(abs(total), abs(rows), field)\<close>: the first unequal position decides.\<close>

definition total_key :: "candidate_assessment \<Rightarrow> pyfloat" where
  "total_key a = fabs (rm_total_variance_pct (ca_reconciliation a))"

definition rows_key :: "candidate_assessment \<Rightarrow> pyfloat" where
  "rows_key a = fabs (rm_row_count_variance_pct (ca_reconciliation a))"

definition ranks_before :: "candidate_assessment \<Rightarrow> candidate_assessment \<Rightarrow> bool" where
  "ranks_before a b \<longleftrightarrow>
     (if \<not> feq (total_key a) (total_key b) then flt (total_key a) (total_key b)
      else if \<not> feq (rows_key a) (rows_key b) then flt (rows_key a) (rows_key b)
      else ca_source_field a < ca_source_field b)"

fun best :: "candidate_assessment \<Rightarrow> candidate_assessment list \<Rightarrow> candidate_assessment" where
  "best a [] = a"
| "best a (b # bs) = best (if ranks_before b a then b else a) bs"

definition select ::
  "settings \<Rightarrow> 'w services \<Rightarrow> string \<Rightarrow> candidate_proposal list \<Rightarrow> candidate_assessment
    \<Rightarrow> candidate_assessment list \<Rightarrow> ('w, candidate_assessment \<times> patch_artifact) wf" where
  "select cfg sv case_id proposals first rest =
     (let selected = (best first rest)\<lparr>ca_outcome := SELECTED\<rparr>
      in case find (\<lambda>p. cp_id p = ca_id selected) proposals of
           None \<Rightarrow> raise_p (Other ''StopIteration'' [])
         | Some proposal \<Rightarrow>
             bind_p (world_p (sv_read_patch_file sv)) (\<lambda>existing_sql.
             bind_p (result_p (render_dbt_patch proposal existing_sql)) (\<lambda>content.
               let patch = \<lparr>pa_path = st_github_patch_path cfg, pa_content = content,
                            pa_sha256 = sha256_hex content\<rparr>
               in then_p (log_p sv case_id E_PATCH_READY PATCH_READY (P_Patch selected patch))
                    (return_p (selected, patch)))))"

definition patch_step ::
  "settings \<Rightarrow> 'w services \<Rightarrow> string \<Rightarrow> candidate_proposal list \<Rightarrow> candidate_assessment
    \<Rightarrow> candidate_assessment list \<Rightarrow> case_snapshot
    \<Rightarrow> ('w, candidate_assessment \<times> patch_artifact) wf" where
  "patch_step cfg sv case_id proposals first rest snap =
     (case (cs_selected_candidate snap, cs_patch snap) of
        (Some selected, Some patch) \<Rightarrow> return_p (selected, patch)
      | _ \<Rightarrow> select cfg sv case_id proposals first rest)"

definition writeback_step ::
  "settings \<Rightarrow> 'w services \<Rightarrow> string \<Rightarrow> schema_change_event \<Rightarrow> candidate_assessment \<Rightarrow> patch_artifact
    \<Rightarrow> case_snapshot \<Rightarrow> ('w, bool) wf" where
  "writeback_step cfg sv case_id event selected patch snap =
     bind_p
       (case cs_evidence_writeback snap of
          Some i \<Rightarrow> return_p i
        | None \<Rightarrow>
            bind_p (world_p (sv_write_report sv (ev_entity_urn event) case_id
                       (ValidatedReport selected (pa_sha256 patch)) False)) (\<lambda>i.
            then_p (log_p sv case_id EVIDENCE_WRITTEN PATCH_READY (P_Integration i)) (return_p i)))
       (\<lambda>i. connected_integration_ready cfg sv case_id i ''DataHub patch evidence write-back'')"

definition pull_request_step ::
  "'w services \<Rightarrow> string \<Rightarrow> patch_artifact \<Rightarrow> case_snapshot \<Rightarrow> ('w, unit) wf" where
  "pull_request_step sv case_id patch snap =
     (let create =
        bind_p (world_p (sv_create_draft sv case_id patch)) (\<lambda>pr.
          if ir_status (pr_integration pr) = SUCCEEDED
          then log_p sv case_id PR_OPENED PR_OPEN (P_PullRequest pr)
          else log_p sv case_id PR_ATTEMPTED PATCH_READY (P_PullRequest pr))
      in case cs_pull_request snap of
           Some pr \<Rightarrow>
             if ir_status (pr_integration pr) = SUCCEEDED
             then (if cs_state snap = PATCH_READY
                   then log_p sv case_id PR_OPENED PR_OPEN (P_PullRequest pr) else return_p ())
             else create
         | None \<Rightarrow> create)"

section \<open>Advancing a case\<close>

definition finish ::
  "settings \<Rightarrow> 'w services \<Rightarrow> string \<Rightarrow> schema_change_event \<Rightarrow> candidate_proposal list
    \<Rightarrow> assessments \<Rightarrow> string list \<Rightarrow> ('w, unit) wf" where
  "finish cfg sv case_id event proposals by_id reasons =
     bind_p (result_p (in_order by_id proposals)) (\<lambda>assessments.
       case eligible assessments of
         [] \<Rightarrow> contain sv case_id (ev_entity_urn event) reasons
       | first # rest \<Rightarrow>
           bind_p (case_p sv case_id) (\<lambda>snap.
           bind_p (patch_step cfg sv case_id proposals first rest snap) (\<lambda>(selected, patch).
           bind_p (case_p sv case_id) (\<lambda>snap.
           bind_p (writeback_step cfg sv case_id event selected patch snap) (\<lambda>ready.
             if \<not> ready then return_p ()
             else bind_p (case_p sv case_id) (pull_request_step sv case_id patch))))))"

definition validate_proposals ::
  "settings \<Rightarrow> 'w services \<Rightarrow> string \<Rightarrow> schema_change_event \<Rightarrow> context_bundle
    \<Rightarrow> candidate_proposal list \<Rightarrow> ('w, unit) wf" where
  "validate_proposals cfg sv case_id event cx proposals =
     (if \<not> distinct (map cp_id proposals)
      then raise_p (ValueError ''Candidate proposal ids must be unique'')
      else bind_p (case_p sv case_id) (\<lambda>snap.
      then_p (validation_step cfg sv case_id proposals snap)
      (bind_p (case_p sv case_id) (\<lambda>snap.
      bind_p (assess_all cfg sv case_id cx proposals (assessments_by_id (cs_candidates snap)) [])
        (\<lambda>(by_id, reasons). finish cfg sv case_id event proposals by_id reasons)))))"

definition gather_and_validate ::
  "settings \<Rightarrow> 'w services \<Rightarrow> string \<Rightarrow> schema_change_event \<Rightarrow> ('w, unit) wf" where
  "gather_and_validate cfg sv case_id event =
     bind_p (case_p sv case_id) (\<lambda>snap.
     bind_p (context_step cfg sv case_id event snap) (\<lambda>found.
     case found of
       None \<Rightarrow> return_p ()
     | Some cx \<Rightarrow>
         bind_p (case_p sv case_id) (\<lambda>snap.
         bind_p (candidates_step cfg sv case_id event cx snap) (\<lambda>found.
         case found of
           None \<Rightarrow> return_p ()
         | Some proposals \<Rightarrow> validate_proposals cfg sv case_id event cx proposals))))"

definition advance :: "settings \<Rightarrow> 'w services \<Rightarrow> string \<Rightarrow> schema_change_event \<Rightarrow> ('w, unit) wf" where
  "advance cfg sv case_id event =
     bind_p (case_p sv case_id) (\<lambda>snap.
       if \<not> resumable (cs_state snap) then return_p ()
       else bind_p (incident_step cfg sv case_id event snap) (\<lambda>ready.
         if ready then gather_and_validate cfg sv case_id event else return_p ()))"

definition settle :: "string \<Rightarrow> bool \<Rightarrow> ('w, unit) wf" where
  "settle case_id completed =
     update_p (\<lambda>st. st\<lparr>wf_active := wf_active st - {case_id},
                      wf_settled := (if completed then insert case_id (wf_settled st)
                                     else wf_settled st)\<rparr>)"

definition record_failure :: "'w services \<Rightarrow> string \<Rightarrow> exn \<Rightarrow> ('w, unit) wf" where
  "record_failure sv case_id error =
     bind_p (case_p sv case_id) (\<lambda>current.
       if cs_state current \<notin> {RESOLVED, CONTAINED, FAILED}
       then log_p sv case_id E_FAILED FAILED
              (P_Error (type_name error) ''Workflow execution failed; inspect server logs for details'')
       else return_p ())"

definition advance_safely :: "settings \<Rightarrow> 'w services \<Rightarrow> string \<Rightarrow> schema_change_event \<Rightarrow> ('w, unit) wf" where
  "advance_safely cfg sv case_id event =
     then_p (update_p (\<lambda>st. st\<lparr>wf_active := insert case_id (wf_active st)\<rparr>))
       (catch_p
          (then_p (catch_p (advance cfg sv case_id event) (record_failure sv case_id))
             (settle case_id True))
          (\<lambda>e. then_p (settle case_id False) (raise_p e)))"

section \<open>Ingesting a schema change\<close>

record schema_change_response =
  sr_case :: case_snapshot
  sr_deduplicated :: bool

definition owned_p :: "string \<Rightarrow> ('w, bool) wf" where
  "owned_p case_id = reads_p (\<lambda>st. case_id \<in> wf_active st \<or> case_id \<in> wf_settled st)"

definition find_event_case ::
  "'w services \<Rightarrow> schema_change_event \<Rightarrow> string \<Rightarrow> string \<Rightarrow> ('w, string option) wf" where
  "find_event_case sv event dedup_key case_id =
     (case ev_event_id event of
        None \<Rightarrow> return_p None
      | Some event_id \<Rightarrow>
          read_p sv (\<lambda>rows. find_case_for_event_id rows event_id case_id SCHEMA_CHANGE_DETECTED
            DETECTED (detection_payload event case_id) (Some dedup_key)))"

definition deduplicated_response ::
  "'w services \<Rightarrow> schema_change_event \<Rightarrow> string \<Rightarrow> string \<Rightarrow> ('w, schema_change_response option) wf" where
  "deduplicated_response sv event dedup_key case_id =
     then_p (find_event_case sv event dedup_key case_id)
       (catch_p
          (bind_p (case_p sv case_id) (\<lambda>snap.
             return_p (Some \<lparr>sr_case = snap, sr_deduplicated = True\<rparr>)))
          (\<lambda>e. case e of CaseNotFoundError _ \<Rightarrow> return_p None | _ \<Rightarrow> raise_p e))"

definition respond :: "'w services \<Rightarrow> string \<Rightarrow> bool \<Rightarrow> ('w, schema_change_response) wf" where
  "respond sv case_id deduplicated =
     bind_p (case_p sv case_id) (\<lambda>snap.
       return_p \<lparr>sr_case = snap, sr_deduplicated = deduplicated\<rparr>)"

definition existing_case :: "'w services \<Rightarrow> string \<Rightarrow> ('w, string option) wf" where
  "existing_case sv dedup_key =
     bind_p (read_p sv (\<lambda>rows. Inr (find_case_for_dedup rows dedup_key))) (\<lambda>found.
       return_p (if found = Some [] then None else found))"

text \<open>One attempt to record the detection: \<open>Inl\<close> a case the event already belongs to, \<open>Inr\<close> the claim.\<close>

definition record_detection ::
  "'w services \<Rightarrow> schema_change_event \<Rightarrow> string \<Rightarrow> string \<Rightarrow> ('w, string + unit) wf" where
  "record_detection sv event dedup_key case_id =
     bind_p (find_event_case sv event dedup_key case_id) (\<lambda>duplicate.
       case duplicate of
         Some c \<Rightarrow> return_p (Inl c)
       | None \<Rightarrow>
           catch_p
             (then_p (append_p sv case_id SCHEMA_CHANGE_DETECTED DETECTED
                        (detection_payload event case_id) (Some dedup_key) (ev_event_id event))
                (return_p (Inr ())))
             (\<lambda>e. case e of DuplicateEventError c \<Rightarrow> return_p (Inl c) | _ \<Rightarrow> raise_p e))"

text \<open>The eight attempts; \<open>k\<close> more are left after this one.\<close>

fun claim_case ::
  "nat \<Rightarrow> 'w services \<Rightarrow> schema_change_event \<Rightarrow> string \<Rightarrow> string \<Rightarrow> ('w, string + string) wf" where
  "claim_case k sv event dedup_key case_id =
     catch_p
       (bind_p (record_detection sv event dedup_key case_id) (\<lambda>outcome.
          return_p (case outcome of Inl c \<Rightarrow> Inl c | Inr _ \<Rightarrow> Inr case_id)))
       (\<lambda>e. case (e, k) of
          (InvalidStateTransition _, Suc k') \<Rightarrow>
            bind_p (available_case_id sv dedup_key) (claim_case k' sv event dedup_key)
        | _ \<Rightarrow> raise_p e)"

declare claim_case.simps [simp del]

definition ingest_new ::
  "settings \<Rightarrow> 'w services \<Rightarrow> schema_change_event \<Rightarrow> string \<Rightarrow> ('w, schema_change_response) wf" where
  "ingest_new cfg sv event dedup_key =
     bind_p (available_case_id sv dedup_key) (\<lambda>case_id.
     bind_p (claim_case 7 sv event dedup_key case_id) (\<lambda>outcome.
       case outcome of
         Inl existing \<Rightarrow> respond sv existing True
       | Inr claimed \<Rightarrow>
           then_p (advance_safely cfg sv claimed event) (respond sv claimed False)))"

definition ingest_locked ::
  "settings \<Rightarrow> 'w services \<Rightarrow> schema_change_event \<Rightarrow> string \<Rightarrow> ('w, schema_change_response) wf" where
  "ingest_locked cfg sv event dedup_key =
     bind_p (existing_case sv dedup_key) (\<lambda>existing.
       case existing of
         None \<Rightarrow> ingest_new cfg sv event dedup_key
       | Some case_id \<Rightarrow>
           bind_p (deduplicated_response sv event dedup_key case_id) (\<lambda>duplicate.
             case duplicate of
               None \<Rightarrow> ingest_new cfg sv event dedup_key
             | Some response \<Rightarrow>
                 bind_p (owned_p case_id) (\<lambda>owned.
                   then_p
                     (if resumable (cs_state (sr_case response)) \<and> \<not> owned
                      then advance_safely cfg sv case_id event else return_p ())
                     (respond sv case_id True))))"

definition ingest ::
  "settings \<Rightarrow> 'w services \<Rightarrow> schema_change_event \<Rightarrow> ('w, schema_change_response) wf" where
  "ingest cfg sv event =
     (if ev_entity_urn event \<notin> set (allowed_asset_urns cfg)
      then raise_p (AssetNotAllowedError
        (''Asset is outside the configured remediation allowlist: '' @ ev_entity_urn event))
      else
        let dedup_key = schema_event_dedup_key event
        in bind_p (existing_case sv dedup_key) (\<lambda>existing.
             case existing of
               None \<Rightarrow> ingest_locked cfg sv event dedup_key
             | Some case_id \<Rightarrow>
                 bind_p (deduplicated_response sv event dedup_key case_id) (\<lambda>duplicate.
                   case duplicate of
                     None \<Rightarrow> ingest_locked cfg sv event dedup_key
                   | Some response \<Rightarrow>
                       bind_p (owned_p case_id) (\<lambda>owned.
                         if \<not> resumable (cs_state (sr_case response)) \<or> owned
                         then return_p response
                         else ingest_locked cfg sv event dedup_key))))"

definition reset_workflow :: "'w services \<Rightarrow> string \<Rightarrow> ('w, nat) wf" where
  "reset_workflow sv reason = store_p sv (\<lambda>uuid now. reset_store uuid now reason)"

section \<open>Verifying a deployment\<close>

definition produces_live_evidence :: "'w executor \<Rightarrow> bool" where
  "produces_live_evidence e = ex_live e"

text \<open>\<^verbatim>\<open>git\<close> with \<^verbatim>\<open>check=True\<close>.\<close>

definition git :: "'w services \<Rightarrow> nat \<Rightarrow> string list \<Rightarrow> ('w, string) wf" where
  "git sv timeout args =
     bind_p
       (catch_p (world_p (sv_git sv args timeout))
          (\<lambda>e. if is_os_error e \<or> is_timeout e
               then raise_p (ValueError (''Merged commit verification failed: '' @ type_name e))
               else raise_p e))
       (\<lambda>(returncode, out).
          if returncode \<noteq> 0
          then raise_p (ValueError ''Merged commit verification failed: CalledProcessError'')
          else return_p out)"

definition decode_utf8 :: "string \<Rightarrow> string \<Rightarrow> exn + string" where
  "decode_utf8 bytes problem =
     (if utf8_ok (map code bytes) then Inr bytes else Inl (ValueError problem))"

definition decode_ascii :: "string \<Rightarrow> string \<Rightarrow> exn + string" where
  "decode_ascii bytes problem =
     (if list_all (\<lambda>c. code c < 128) bytes then Inr bytes else Inl (ValueError problem))"

text \<open>\<^verbatim>\<open>Path(s)\<close>: absolute or not, and its parts.\<close>

definition path_parts :: "string \<Rightarrow> string list" where
  "path_parts s = filter (\<lambda>p. p \<noteq> [] \<and> p \<noteq> ''.'') (split_on CHR ''/'' s)"

definition is_absolute :: "string \<Rightarrow> bool" where
  "is_absolute s = prefix ''/'' s"

definition as_posix :: "string \<Rightarrow> string" where
  "as_posix s = (if path_parts s = [] then ''.'' else join_with ''/'' (path_parts s))"

definition check_patch_path :: "settings \<Rightarrow> patch_artifact \<Rightarrow> exn + unit" where
  "check_patch_path cfg patch =
     (let configured = st_github_patch_path cfg; stored = pa_path patch
      in if is_absolute configured \<or> ''..'' \<in> set (path_parts configured)
            \<or> is_absolute stored \<or> ''..'' \<in> set (path_parts stored)
         then Inl (ValueError ''Configured patch path is not repository-relative'')
         else if path_parts stored \<noteq> path_parts configured
         then Inl (ValueError
           ''Stored patch path does not match the configured repository path'')
         else Inr ())"

definition check_origin :: "settings \<Rightarrow> 'w services \<Rightarrow> ('w, unit) wf" where
  "check_origin cfg sv =
     bind_p (git sv 30 [''remote'', ''get-url'', ''origin'']) (\<lambda>out.
     bind_p (result_p (decode_utf8 out ''Git origin fetch URL is not valid UTF-8'')) (\<lambda>url.
     bind_p (result_p (github_repository_from_remote_url (sv_bracketed_host sv) (strip url))) (\<lambda>repository.
       if map_option casefold repository \<noteq> Some (casefold (strip (st_github_repository cfg)))
       then raise_p (ValueError
         ''Git origin fetch URL does not match the configured GitHub repository'')
       else return_p ())))"

definition full_commit :: "string \<Rightarrow> bool" where
  "full_commit c \<longleftrightarrow> length c \<in> {40, 64} \<and> list_all is_hex c"

definition trusted_base_ref :: "settings \<Rightarrow> string" where
  "trusted_base_ref cfg = ''refs/remotes/origin/'' @ st_github_base_branch cfg"

definition rev_parse :: "'w services \<Rightarrow> string \<Rightarrow> ('w, string) wf" where
  "rev_parse sv revision =
     bind_p (git sv 30 [''rev-parse'', ''--verify'', revision @ ''^{commit}'']) (\<lambda>out.
     bind_p (result_p (decode_ascii out ''Verified commit id is not valid ASCII'')) (\<lambda>commit.
       return_p (strip commit)))"

text \<open>The commit the fetched base branch points at, when it is the requested one.\<close>

definition trusted_commit :: "settings \<Rightarrow> 'w services \<Rightarrow> string \<Rightarrow> ('w, string) wf" where
  "trusted_commit cfg sv commit =
     bind_p (git sv 30 [''check-ref-format'', ''--branch'', st_github_base_branch cfg]) (\<lambda>_.
     bind_p (check_origin cfg sv) (\<lambda>_.
     bind_p (git sv 60 [''fetch'', ''--quiet'', ''--no-tags'', ''origin'',
               ''+refs/heads/'' @ st_github_base_branch cfg @ '':'' @ trusted_base_ref cfg]) (\<lambda>_.
     bind_p (git sv 30 [''cat-file'', ''-e'', trusted_base_ref cfg @ ''^{commit}'']) (\<lambda>_.
     bind_p (rev_parse sv (trusted_base_ref cfg)) (\<lambda>tip.
     bind_p (rev_parse sv commit) (\<lambda>requested.
       if \<not> full_commit tip \<or> \<not> full_commit requested
       then raise_p (ValueError ''Git did not return a canonical full commit id'')
       else if casefold requested \<noteq> casefold tip
       then raise_p (ValueError ''Merged commit must exactly match the fetched origin/base tip'')
       else return_p tip))))))"

definition check_merged_patch :: "'w services \<Rightarrow> patch_artifact \<Rightarrow> string \<Rightarrow> ('w, unit) wf" where
  "check_merged_patch sv patch commit =
     (if sha256_hex (pa_content patch) \<noteq> casefold (pa_sha256 patch)
      then raise_p (ValueError ''Stored patch artifact hash does not match its content'')
      else bind_p (git sv 30 [''show'', commit @ '':'' @ as_posix (pa_path patch)]) (\<lambda>merged.
        if sha256_hex merged \<noteq> casefold (pa_sha256 patch) \<or> merged \<noteq> pa_content patch
        then raise_p (ValueError
          ''Merged commit does not contain the exact validated patch artifact'')
        else return_p ()))"

definition try_git :: "'w services \<Rightarrow> string list \<Rightarrow> ('w, unit) wf" where
  "try_git sv args =
     catch_p (then_p (world_p (sv_git sv args 30)) (return_p ()))
       (\<lambda>e. case e of OSErr _ _ \<Rightarrow> return_p () | SubprocessError _ _ \<Rightarrow> return_p () | _ \<Rightarrow> raise_p e)"

definition cleanup_worktree :: "'w services \<Rightarrow> string \<Rightarrow> ('w, unit) wf" where
  "cleanup_worktree sv checkout =
     then_p (try_git sv [''worktree'', ''remove'', ''--force'', checkout])
       (try_git sv [''worktree'', ''prune''])"

text \<open>Binding the executor to the checkout and running it there.\<close>

definition verified_execution ::
  "settings \<Rightarrow> 'w services \<Rightarrow> string \<Rightarrow> string \<Rightarrow> candidate_proposal \<Rightarrow> context_bundle
    \<Rightarrow> ('w, candidate_execution) wf" where
  "verified_execution cfg sv checkout case_id proposal cx =
     (case ex_bind (sv_executor sv) of
        None \<Rightarrow> raise_p (ValueError
          ''Live evidence executor cannot bind to a verified git checkout'')
      | Some bind \<Rightarrow>
          bind_p (world_p (bind checkout (st_github_repo_root cfg))) (\<lambda>bound.
            if \<not> produces_live_evidence bound
            then raise_p (ValueError ''Verified-checkout executor does not produce live evidence'')
            else catch_p (world_p (ex_execute bound case_id proposal cx))
              (\<lambda>e. raise_p (ValueError
                 (''Post-deploy live evidence execution failed: '' @ type_name e)))))"

definition in_worktree ::
  "settings \<Rightarrow> 'w services \<Rightarrow> string \<Rightarrow> string \<Rightarrow> candidate_proposal \<Rightarrow> context_bundle
    \<Rightarrow> ('w, candidate_execution) wf" where
  "in_worktree cfg sv commit case_id proposal cx =
     bind_p (world_p (sv_make_temp_dir sv (''verify-'' @ casefold case_id @ ''-''))) (\<lambda>root.
       let checkout = root @ ''/checkout''
       in finally_p
            (then_p (git sv 60 [''worktree'', ''add'', ''--detach'', checkout, commit])
               (finally_p (verified_execution cfg sv checkout case_id proposal cx)
                  (cleanup_worktree sv checkout)))
            (world_p (sv_remove_temp_dir sv root)))"

definition proposal_of :: "candidate_assessment \<Rightarrow> candidate_proposal" where
  "proposal_of a =
     \<lparr>cp_id = ca_id a, cp_source_field = ca_source_field a, cp_target_alias = ca_target_alias a,
      cp_rationale = ca_rationale a, cp_semantic_evidence = ca_evidence_refs a\<rparr>"

definition live_post_deploy_evidence ::
  "settings \<Rightarrow> 'w services \<Rightarrow> case_snapshot \<Rightarrow> verify_request
    \<Rightarrow> ('w, candidate_execution \<times> bool \<times> string) wf" where
  "live_post_deploy_evidence cfg sv snap request =
     (case cs_selected_candidate snap of
        None \<Rightarrow> raise_p (ValueError ''Case has no selected candidate'')
      | Some selected \<Rightarrow>
     (case cs_patch snap of
        None \<Rightarrow> raise_p (ValueError ''Case has no stored patch artifact to verify'')
      | Some patch \<Rightarrow>
          bind_p (result_p (check_patch_path cfg patch)) (\<lambda>_.
          bind_p (trusted_commit cfg sv (vr_merged_commit_sha request)) (\<lambda>commit.
          bind_p (check_merged_patch sv patch commit) (\<lambda>_.
          bind_p (fetch_context cfg sv (cs_asset_urn snap)) (\<lambda>cx.
            if cb_source cx \<noteq> ''DATAHUB_MCP'' \<or> ir_status (cb_integration cx) \<noteq> SUCCEEDED
            then raise_p (ValueError
              ''Fresh live DataHub context is required for post-deploy verification'')
            else bind_p (in_worktree cfg sv commit (cs_id snap) (proposal_of selected) cx) (\<lambda>execution.
              return_p (execution, cb_lineage_current cx, commit))))))))"

text \<open>The evidence a decision is taken on: recomputed in postgres mode, the caller's in replay mode.\<close>

record deployment_evidence =
  de_verdict :: semantic_verdict
  de_reconciliation :: reconciliation_metrics
  de_build :: build_result
  de_lineage :: bool
  de_mode :: string
  de_commit :: string

definition live_incident :: "case_snapshot \<Rightarrow> bool" where
  "live_incident snap =
     (case cs_incident_integration snap of Some i \<Rightarrow> ir_status i = SUCCEEDED | None \<Rightarrow> False)"

definition deployment_evidence_p ::
  "settings \<Rightarrow> 'w services \<Rightarrow> case_snapshot \<Rightarrow> verify_request \<Rightarrow> ('w, deployment_evidence) wf" where
  "deployment_evidence_p cfg sv snap request =
     (if casefold (strip (st_execution_mode cfg)) = ''postgres''
      then if \<not> produces_live_evidence (sv_executor sv)
        then raise_p (ValueError
          ''Post-deploy verification requires an executor that explicitly produces live evidence'')
        else bind_p (live_post_deploy_evidence cfg sv snap request) (\<lambda>(execution, lineage, commit).
          return_p \<lparr>de_verdict = cx_semantic_verdict execution,
                   de_reconciliation = cx_reconciliation execution, de_build = cx_build execution,
                   de_lineage = lineage, de_mode = ''LIVE_RECOMPUTED'', de_commit = commit\<rparr>)
      else if live_incident snap
      then raise_p (ValueError
        ''Resolving a live incident requires postgres execution mode to recompute post-deploy evidence'')
      else return_p \<lparr>de_verdict = vr_semantic_verdict request,
                    de_reconciliation = vr_reconciliation request, de_build = vr_build request,
                    de_lineage = vr_lineage_current request, de_mode = ''RECORDED_REPLAY_INPUT'',
                    de_commit = vr_merged_commit_sha request\<rparr>)"

definition resolve_case ::
  "'w services \<Rightarrow> string \<Rightarrow> case_snapshot \<Rightarrow> ('w, case_snapshot) wf" where
  "resolve_case sv case_id snap =
     bind_p (world_p (sv_resolve_incident sv (cs_incident_urn snap))) (\<lambda>resolution.
       if live_incident snap \<and> ir_status resolution \<noteq> SUCCEEDED
       then then_p (log_p sv case_id E_FAILED FAILED
              (P_FailedIntegration
                 ''Data recovered, but the remote incident could not be resolved'' resolution))
              (case_p sv case_id)
       else then_p (log_p sv case_id INCIDENT_RESOLVED RESOLVED (P_Integration resolution))
              (case_p sv case_id))"

definition close_case ::
  "'w services \<Rightarrow> string \<Rightarrow> case_snapshot \<Rightarrow> deployment_evidence \<Rightarrow> policy_decision
    \<Rightarrow> ('w, case_snapshot) wf" where
  "close_case sv case_id snap ev decision =
     then_p (log_p sv case_id E_POST_DEPLOY_VERIFIED POST_DEPLOY_VERIFIED
       (P_PostDeploy (de_commit ev) (de_mode ev) (de_reconciliation ev) (de_build ev) (pd_checks decision)))
     (bind_p (world_p (sv_write_report sv (cs_asset_urn snap) case_id
        (RecoveredReport (de_commit ev) (pd_checks decision)) False)) (\<lambda>writeback.
       if live_incident snap \<and> ir_status writeback \<noteq> SUCCEEDED
       then then_p (log_p sv case_id E_FAILED FAILED
              (P_FailedIntegration
                 ''Post-deploy data passed, but final DataHub evidence write-back failed; incident remains active''
                 writeback))
              (case_p sv case_id)
       else resolve_case sv case_id snap))"

definition verify_deployment ::
  "settings \<Rightarrow> 'w services \<Rightarrow> string \<Rightarrow> verify_request \<Rightarrow> ('w, case_snapshot) wf" where
  "verify_deployment cfg sv case_id request =
     bind_p (case_p sv case_id) (\<lambda>snap.
       if cs_state snap \<noteq> PR_OPEN
       then raise_p (ValueError ''Post-deploy verification requires a real draft PR in PR_OPEN'')
       else if cs_selected_candidate snap = None
       then raise_p (ValueError ''Case has no selected candidate'')
       else bind_p (deployment_evidence_p cfg sv snap request) (\<lambda>ev.
       then_p (log_p sv case_id DEPLOYMENT_RECORDED DEPLOYED (P_Deployment (de_commit ev) (de_mode ev)))
       (let decision = evaluate (st_policy cfg) (de_verdict ev) (de_reconciliation ev) (de_build ev)
                         (de_lineage ev)
        in if \<not> pd_accepted decision
           then then_p (contain sv case_id (cs_asset_urn snap) (pd_reasons decision)) (case_p sv case_id)
           else close_case sv case_id snap ev decision)))"

end
