(* ===== verification/Read_Back.thy ===== *)
theory Read_Back
  imports Rescue_Prelude
begin

text \<open>
  The loop both DataHub adapters confirm their writes with: read, remember the exception of a read that
  failed, wait, read again; after the last attempt raise. And a count of what a program asks of its world.
\<close>

section \<open>Trying and trying again\<close>

text \<open>\<^verbatim>\<open>try: return m except (...) as error: last_error = error\<close>\<close>

definition attempted :: "('e \<Rightarrow> bool) \<Rightarrow> ('s, 'e, 'a) prog \<Rightarrow> ('s, 'e, 'e + 'a) prog" where
  "attempted caught m =
     catch_p (bind_p m (\<lambda>x. return_p (Inr x)))
       (\<lambda>e. if caught e then return_p (Inl e) else raise_p e)"

text \<open>\<open>k\<close> more attempts are allowed after this one; \<open>final\<close> is what is raised after the last.\<close>

fun retrying ::
  "nat \<Rightarrow> ('s, 'e, 'e + 'a) prog \<Rightarrow> ('s, 'e, unit) prog \<Rightarrow> ('e \<Rightarrow> 'e) \<Rightarrow> ('s, 'e, 'a) prog" where
  "retrying k attempt pause final =
     bind_p attempt (\<lambda>answer.
       case answer of
         Inr x \<Rightarrow> return_p x
       | Inl e \<Rightarrow>
           (case k of
              0 \<Rightarrow> raise_p (final e)
            | Suc k' \<Rightarrow> then_p pause (retrying k' attempt pause final)))"

declare retrying.simps [simp del]

lemma attempted_Inr: "attempted caught m s = (Inr (Inr x), t) \<Longrightarrow> m s = (Inr x, t)"
  by (auto simp: attempted_def catch_p_def bind_p_def split: prod.splits sum.splits if_splits)

lemma attempted_Inl: "attempted caught m s = (Inr (Inl e), t) \<Longrightarrow> m s = (Inl e, t) \<and> caught e"
  by (auto simp: attempted_def catch_p_def bind_p_def split: prod.splits sum.splits if_splits)

text \<open>Success is the success of the last attempt.\<close>

lemma retrying_Inr: "retrying k attempt pause final s = (Inr x, t) \<Longrightarrow> \<exists>v. attempt v = (Inr (Inr x), t)"
proof (induction k arbitrary: s)
  case 0
  then show ?case
    unfolding retrying.simps [of 0] by (auto elim!: bind_p_cases split: sum.splits)
next
  case (Suc k)
  then show ?case
    unfolding retrying.simps [of "Suc k"] then_p_def by (auto elim!: bind_p_cases split: sum.splits)
qed

section \<open>Counting\<close>

text \<open>What a program may add to a count of the world.\<close>

definition adds :: "('w \<Rightarrow> nat) \<Rightarrow> nat \<Rightarrow> ('w, 'e, 'a) prog \<Rightarrow> bool" where
  "adds n k m \<longleftrightarrow> (\<forall>w. n (snd (m w)) \<le> n w + k)"

lemma adds_return: "adds n k (return_p x)"
  and adds_raise: "adds n k (raise_p e)"
  and adds_result: "adds n k (result_p r)"
  by (simp_all add: adds_def)

lemma addsD: "adds n k m \<Longrightarrow> m w = (r, t) \<Longrightarrow> n t \<le> n w + k"
  unfolding adds_def by (metis snd_conv)

lemma adds_bind:
  assumes m: "adds n j m" and f: "\<And>x. adds n k (f x)"
  shows "adds n (j + k) (bind_p m f)"
proof (unfold adds_def, rule allI)
  fix w
  obtain r t where run: "bind_p m f w = (r, t)" by fastforce
  then have "n t \<le> n w + (j + k)"
  proof (cases rule: bind_p_cases)
    case (err e)
    then show ?thesis using addsD [OF m] by fastforce
  next
    case (ok x s)
    then show ?thesis using addsD [OF m ok(1)] addsD [OF f ok(2)] by simp
  qed
  with run show "n (snd (bind_p m f w)) \<le> n w + (j + k)" by simp
qed

lemma adds_then: "adds n j m \<Longrightarrow> adds n k p \<Longrightarrow> adds n (j + k) (then_p m p)"
  unfolding then_p_def by (rule adds_bind)

lemma adds_catch:
  assumes m: "adds n j m" and h: "\<And>e. adds n 0 (h e)"
  shows "adds n j (catch_p m h)"
proof (unfold adds_def, rule allI)
  fix w
  obtain r t where run: "catch_p m h w = (r, t)" by fastforce
  then have "n t \<le> n w + j"
  proof (cases rule: catch_p_cases)
    case (err e s)
    then show ?thesis using addsD [OF m err(1)] addsD [OF h err(2)] by simp
  next
    case (ok x)
    then show ?thesis using addsD [OF m] by fastforce
  qed
  with run show "n (snd (catch_p m h w)) \<le> n w + j" by simp
qed

lemma adds_attempted: "adds n j m \<Longrightarrow> adds n j (attempted caught m)"
  unfolding attempted_def
  using adds_bind [of n j m 0 "\<lambda>x. return_p (Inr x)"]
  by (intro adds_catch) (auto simp: adds_return adds_raise)

lemma adds_retrying:
  assumes "adds n j attempt" and "adds n 0 pause"
  shows "adds n (Suc k * j) (retrying k attempt pause final)"
proof (induction k)
  case 0
  have "adds n (j + 0) (retrying 0 attempt pause final)"
    unfolding retrying.simps [of 0]
    by (rule adds_bind [OF assms(1)]) (auto simp: adds_return adds_raise split: sum.split)
  then show ?case by simp
next
  case (Suc k)
  have later: "adds n (0 + Suc k * j) (then_p pause (retrying k attempt pause final))"
    by (rule adds_then [OF assms(2) Suc])
  have "adds n (j + Suc k * j) (retrying (Suc k) attempt pause final)"
    unfolding retrying.simps [of "Suc k"]
    by (rule adds_bind [OF assms(1)]) (use later in \<open>auto simp: adds_return split: sum.split\<close>)
  then show ?case by simp
qed

lemma adds_mono: "adds n j m \<Longrightarrow> j \<le> k \<Longrightarrow> adds n k m"
  unfolding adds_def by (meson add_left_mono le_trans)

section \<open>Exceptions of a program\<close>

text \<open>\<open>raises P m\<close>: whatever \<open>m\<close> raises satisfies \<open>P\<close>.\<close>

definition raises :: "('e \<Rightarrow> bool) \<Rightarrow> ('s, 'e, 'a) prog \<Rightarrow> bool" where
  "raises P m \<longleftrightarrow> (\<forall>s. errs P (fst (m s)))"

lemma raisesI: "(\<And>s e t. m s = (Inl e, t) \<Longrightarrow> P e) \<Longrightarrow> raises P m"
  unfolding raises_def errs_def by (metis prod.collapse)

lemma raisesD: "raises P m \<Longrightarrow> m s = (Inl e, t) \<Longrightarrow> P e"
  unfolding raises_def errs_def by (metis fst_conv)

lemma raises_return [errs_intros]: "raises P (return_p x)"
  by (simp add: raises_def errs_Inr)

lemma raises_raise [errs_intros]: "P e \<Longrightarrow> raises P (raise_p e)"
  by (simp add: raises_def errs_Inl)

lemma raises_result [errs_intros]: "errs P r \<Longrightarrow> raises P (result_p r)"
  by (simp add: raises_def)

lemma raises_bind [errs_intros]: "raises P m \<Longrightarrow> (\<And>x. raises P (f x)) \<Longrightarrow> raises P (bind_p m f)"
  by (rule raisesI) (auto elim!: bind_p_cases dest: raisesD)

lemma raises_then [errs_intros]: "raises P m \<Longrightarrow> raises P k \<Longrightarrow> raises P (then_p m k)"
  unfolding then_p_def by (rule raises_bind)

lemma raises_catch: "raises Q m \<Longrightarrow> (\<And>e. Q e \<Longrightarrow> raises P (h e)) \<Longrightarrow> raises P (catch_p m h)"
  by (rule raisesI) (auto elim!: catch_p_cases dest: raisesD)

lemma raises_if [errs_intros]:
  "(b \<Longrightarrow> raises P m) \<Longrightarrow> (\<not> b \<Longrightarrow> raises P k) \<Longrightarrow> raises P (if b then m else k)"
  by simp

lemma raises_bind_value:
  assumes "raises P m" "\<And>x s t. m s = (Inr x, t) \<Longrightarrow> raises P (f x)"
  shows "raises P (bind_p m f)"
proof (rule raisesI)
  fix s e t
  assume "bind_p m f s = (Inl e, t)"
  then show "P e"
  proof (cases rule: bind_p_cases)
    case (err e')
    then show ?thesis using raisesD [OF assms(1)] by simp
  next
    case (ok x s')
    then show ?thesis using raisesD [OF assms(2) [OF ok(1)] ok(2)] by simp
  qed
qed

lemma raises_attempted: "raises P m \<Longrightarrow> raises P (attempted caught m)"
  unfolding attempted_def
  by (rule raises_catch [where Q = P]) (auto intro: errs_intros)

lemma raises_retrying:
  assumes "raises P attempt" "raises P pause" "\<And>e. P (final e)"
  shows "raises P (retrying k attempt pause final)"
proof (induction k)
  case 0
  show ?case
    unfolding retrying.simps [of 0]
    by (intro raises_bind assms) (auto intro: errs_intros assms split: sum.split)
next
  case (Suc k)
  show ?case
    unfolding retrying.simps [of "Suc k"]
    by (intro raises_bind assms) (auto intro: errs_intros assms Suc split: sum.split)
qed

section \<open>What both keep\<close>

lemma attempted_keeps [keeps_intros]: "keeps I m \<Longrightarrow> keeps I (attempted caught m)"
  unfolding attempted_def by (intro keeps_intros)

lemma retrying_keeps [keeps_intros]:
  assumes "keeps I attempt" "keeps I pause"
  shows "keeps I (retrying k attempt pause final)"
proof (induction k)
  case 0
  show ?case
    unfolding retrying.simps [of 0]
    by (intro keeps_bind assms) (auto intro: keeps_intros split: sum.split)
next
  case (Suc k)
  show ?case
    unfolding retrying.simps [of "Suc k"]
    by (intro keeps_bind assms) (auto intro: keeps_intros assms Suc split: sum.split)
qed

section \<open>Programs that only read\<close>

lemma keeps_snd: "keeps I m \<Longrightarrow> I s \<Longrightarrow> I (snd (m s))"
  by (simp add: keeps_def)

definition leaves_world :: "('w, 'e, 'a) prog \<Rightarrow> bool" where
  "leaves_world m \<longleftrightarrow> (\<forall>w. snd (m w) = w)"

lemma reads_only_keeps: "leaves_world m \<longleftrightarrow> (\<forall>w. keeps (\<lambda>s. s = w) m)"
  by (auto simp: leaves_world_def keeps_def)

lemma reads_only_bind: "leaves_world m \<Longrightarrow> (\<And>x. leaves_world (f x)) \<Longrightarrow> leaves_world (bind_p m f)"
  unfolding reads_only_keeps by (intro allI keeps_bind) auto

lemma reads_only_catch: "leaves_world m \<Longrightarrow> (\<And>e. leaves_world (h e)) \<Longrightarrow> leaves_world (catch_p m h)"
  unfolding reads_only_keeps by (intro allI keeps_catch) auto

lemma reads_only_basic:
  "leaves_world (return_p x)" "leaves_world (raise_p e)" "leaves_world (result_p r)"
  by (auto simp: leaves_world_def return_p_def raise_p_def result_p_def split: sum.split)

lemma reads_onlyD: "leaves_world m \<Longrightarrow> m w = (r, w') \<Longrightarrow> w' = w"
  unfolding leaves_world_def by (metis snd_conv)

lemma reads_only_keepsI: "leaves_world m \<Longrightarrow> keeps I m"
  by (simp add: leaves_world_def keeps_def)

end
