(* ===== verification/Json_Ops.thy ===== *)
theory Json_Ops
  imports Workflow Read_Back
begin

text \<open>
  Comparing, matching and overlaying decoded JSON the way Python's dictionaries do: equality of values,
  \<^verbatim>\<open>_contains\<close> and \<^verbatim>\<open>_merge_required\<close> of \<^verbatim>\<open>scripts/seed_datahub_context.py\<close>. Equality of two lists or
  dictionaries compares their elements by value (Python would find one NaN object equal to itself).
\<close>

section \<open>Equality\<close>

text \<open>A bool is an integer, and an integer and a float compare by value.\<close>

fun number_of :: "json \<Rightarrow> pyfloat option" where
  "number_of (JBool b) = Some (Fin (if b then 1 else 0))"
| "number_of (JInt i) = Some (Fin (of_int i))"
| "number_of (JFloat f) = Some f"
| "number_of _ = None"

function (sequential) py_eq :: "json \<Rightarrow> json \<Rightarrow> bool"
  and py_eq_list :: "json list \<Rightarrow> json list \<Rightarrow> bool"
  and py_eq_items :: "jdict \<Rightarrow> jdict \<Rightarrow> bool" where
  "py_eq JNull JNull = True"
| "py_eq (JStr s) (JStr t) = (s = t)"
| "py_eq (JList xs) (JList ys) = py_eq_list xs ys"
| "py_eq (JDict d) (JDict e) = (length d = length e \<and> py_eq_items d e)"
| "py_eq v w =
     (case (number_of v, number_of w) of (Some x, Some y) \<Rightarrow> feq x y | _ \<Rightarrow> False)"
| "py_eq_list [] [] = True"
| "py_eq_list (x # xs) (y # ys) = (py_eq x y \<and> py_eq_list xs ys)"
| "py_eq_list _ _ = False"
| "py_eq_items [] e = True"
| "py_eq_items ((k, v) # d) e =
     ((case map_of e k of Some w \<Rightarrow> py_eq v w | None \<Rightarrow> False) \<and> py_eq_items d e)"
  by pat_completeness auto
termination
  by (relation "measure (case_sum (\<lambda>(v, _). size v)
    (case_sum (\<lambda>(xs, _). size_list size xs) (\<lambda>(d, _). size_list (size_prod (\<lambda>_. 0) size) d)))") auto

lemma py_eq_JStr [simp]: "py_eq v (JStr s) \<longleftrightarrow> v = JStr s"
  by (cases v) auto

section \<open>Matching and overlaying\<close>

function (sequential) covers :: "jdict \<Rightarrow> jdict \<Rightarrow> bool" where
  "covers actual [] = True"
| "covers actual ((k, JDict expected) # rest) =
     ((case jget actual k of JDict d \<Rightarrow> covers d expected | _ \<Rightarrow> False) \<and> covers actual rest)"
| "covers actual ((k, v) # rest) = (py_eq (jget actual k) v \<and> covers actual rest)"
  by pat_completeness auto
termination
  by (relation "measure (\<lambda>(_, e). size_list (size_prod (\<lambda>_. 0) size) e)") auto

function (sequential) merge_required :: "jdict \<Rightarrow> jdict \<Rightarrow> jdict" where
  "merge_required updated [] = updated"
| "merge_required updated ((k, v) # rest) =
     (case (v, jget updated k) of
        (JDict required, JDict current) \<Rightarrow>
          merge_required (dict_set updated k (JDict (merge_required current required))) rest
      | _ \<Rightarrow> merge_required (dict_set updated k v) rest)"
  by pat_completeness auto
termination
  by (relation "measure (\<lambda>(_, r). size_list (size_prod (\<lambda>_. 0) size) r)") auto

definition dict_update :: "jdict \<Rightarrow> jdict \<Rightarrow> jdict" where
  "dict_update d e = foldl (\<lambda>d (k, v). dict_set d k v) d e"

definition set_default :: "jdict \<Rightarrow> string \<Rightarrow> json \<Rightarrow> jdict" where
  "set_default d k v = (if has_key d k then d else d @ [(k, v)])"

section \<open>Numbers and paths\<close>

text \<open>\<^verbatim>\<open>math.isclose\<close> on floats, and \<^verbatim>\<open>float\<close> of a JSON number.\<close>

definition is_close :: "pyfloat \<Rightarrow> pyfloat \<Rightarrow> pyfloat \<Rightarrow> pyfloat \<Rightarrow> bool" where
  "is_close rel_tol abs_tol a b \<longleftrightarrow>
     feq a b
     \<or> (finite_value a \<noteq> None \<and> finite_value b \<noteq> None
        \<and> (let diff = fabs (fsub b a)
           in fle diff (fabs (fmul rel_tol b)) \<or> fle diff (fabs (fmul rel_tol a)) \<or> fle diff abs_tol))"

definition to_float :: "json \<Rightarrow> exn + pyfloat" where
  "to_float v =
     (case v of
        JFloat f \<Rightarrow> Inr f
      | JBool b \<Rightarrow> Inr (float_of_int (if b then 1 else 0))
      | JInt i \<Rightarrow>
          if float_of_int i \<in> {Inf, NegInf} then Inl (Other ''OverflowError'' ''int too large to convert to float'')
          else Inr (float_of_int i)
      | _ \<Rightarrow> Inl (TypeErr ''float() argument must be a string or a real number''))"

text \<open>The value below a list of keys; null where there is none.\<close>

fun json_at :: "json \<Rightarrow> string list \<Rightarrow> json" where
  "json_at v [] = v"
| "json_at v (k # ks) = (case v of JDict d \<Rightarrow> json_at (jget d k) ks | _ \<Rightarrow> JNull)"

section \<open>Facts\<close>

lemma map_of_replaced:
  "map_of (map (\<lambda>(k', v'). if k' = k then (k, v) else (k', v')) d) x
     = (if x = k \<and> map_of d k \<noteq> None then Some v else map_of d x)"
  by (induction d) auto

lemma map_of_dict_set: "map_of (dict_set d k v) x = (if x = k then Some v else map_of d x)"
  by (simp add: dict_set_def has_key_def map_of_replaced map_add_def split: option.split)

lemma map_of_set_default:
  "map_of (set_default d k v) x = (if x = k \<and> map_of d k = None then Some v else map_of d x)"
  by (simp add: set_default_def has_key_def map_add_def split: option.split)

lemma jget_dict_set [simp]: "jget (dict_set d k v) x = (if x = k then v else jget d x)"
  by (simp add: jget_def map_of_dict_set)

lemma jget_set_default: "jget (set_default d k v) x = (if x = k \<and> \<not> has_key d k then v else jget d x)"
  by (simp add: jget_def map_of_set_default has_key_def)

lemma jget_dict_update:
  "distinct (map fst e) \<Longrightarrow> jget (dict_update d e) x = (case map_of e x of Some v \<Rightarrow> v | None \<Rightarrow> jget d x)"
proof (induction e arbitrary: d)
  case (Cons kv e)
  then have "map_of e (fst kv) = None" by (simp add: map_of_eq_None_iff)
  moreover have "dict_update d (kv # e) = dict_update (dict_set d (fst kv) (snd kv)) e"
    by (simp add: dict_update_def split_def)
  ultimately show ?case using Cons by (auto split: option.split)
qed (simp add: dict_update_def)

text \<open>A value without NaN whose dictionaries have distinct keys, as the program's literals are.\<close>

function (sequential) plain :: "json \<Rightarrow> bool" and plain_list :: "json list \<Rightarrow> bool"
  and plain_items :: "jdict \<Rightarrow> bool" where
  "plain (JFloat f) = (f \<noteq> NaN)"
| "plain (JList xs) = plain_list xs"
| "plain (JDict d) = (distinct (map fst d) \<and> plain_items d)"
| "plain _ = True"
| "plain_list [] = True"
| "plain_list (x # xs) = (plain x \<and> plain_list xs)"
| "plain_items [] = True"
| "plain_items ((k, v) # d) = (plain v \<and> plain_items d)"
  by pat_completeness auto
termination
  by (relation "measure (case_sum size (case_sum (size_list size) (size_list (size_prod (\<lambda>_. 0) size))))") auto

lemma feq_refl: "x \<noteq> NaN \<Longrightarrow> feq x x"
  by (simp add: feq_def fle_refl)

lemma plain_itemsI: "plain_items d \<Longrightarrow> (k, v) \<in> set d \<Longrightarrow> plain v"
  by (induction d) auto

lemma py_eq_items_mono:
  "(\<And>k v. (k, v) \<in> set d \<Longrightarrow> \<exists>w. map_of e k = Some w \<and> py_eq v w) \<Longrightarrow> py_eq_items d e"
  by (induction d) fastforce+

lemma py_eq_refl: "plain v \<Longrightarrow> py_eq v v"
  and py_eq_list_refl: "plain_list xs \<Longrightarrow> py_eq_list xs xs"
  and py_eq_members: "plain_items d \<Longrightarrow> (k, v) \<in> set d \<Longrightarrow> py_eq v v"
proof (induction v and xs and d arbitrary: and and k v rule: plain_plain_list_plain_items.induct)
  case (3 d)
  then show ?case by (auto intro!: py_eq_items_mono simp: map_of_is_SomeI)
qed (auto simp: feq_refl)

lemma covers_refl_gen:
  "plain_items e \<Longrightarrow> distinct (map fst e) \<Longrightarrow> list_all (\<lambda>(k, v). jget a k = v) e \<Longrightarrow> covers a e"
proof (induction a e rule: covers.induct)
  case (2 actual k expected rest)
  have found: "jget actual k = JDict expected" using "2.prems" by simp
  have "list_all (\<lambda>(x, v). jget expected x = v) expected"
    using "2.prems"(1) by (auto simp: jget_def list_all_iff)
  then have "covers expected expected" using "2.IH"(1) [OF found] "2.prems"(1) by simp
  moreover have "covers actual rest" using "2.IH"(2) "2.prems" by simp
  ultimately show ?case using found by simp
qed (auto simp: feq_refl py_eq_list_refl)

lemma covers_refl: "plain (JDict e) \<Longrightarrow> covers e e"
  by (rule covers_refl_gen) (auto simp: jget_def list_all_iff)

lemma merge_required_other: "k \<notin> fst ` set r \<Longrightarrow> jget (merge_required d r) k = jget d k"
  by (induction d r rule: merge_required.induct) (auto split: json.split)

text \<open>What was required holds of the overlay; what was not mentioned is kept.\<close>

lemma covers_cong: "(\<And>k. k \<in> fst ` set e \<Longrightarrow> jget a k = jget b k) \<Longrightarrow> covers a e \<longleftrightarrow> covers b e"
  by (induction a e rule: covers.induct) auto

lemma covers_merge: "plain (JDict r) \<Longrightarrow> covers (merge_required d r) r"
proof (induction "size_list (size_prod (\<lambda>_. 0) size) r" arbitrary: d r rule: less_induct)
  case less
  show ?case
  proof (cases r)
    case (Cons kv rest)
    obtain k v where kv: "kv = (k, v)" by fastforce
    have rest: "k \<notin> fst ` set rest" "plain (JDict rest)" "plain v"
      using less.prems Cons kv by auto
    have tail: "covers (merge_required u rest) rest" for u
      using less.hyps [OF _ rest(2)] Cons by simp
    show ?thesis
    proof (cases "\<exists>q c. v = JDict q \<and> jget d k = JDict c")
      case True
      then obtain q c where q: "v = JDict q" "jget d k = JDict c" by blast
      then have "covers (merge_required c q) q"
        using less.hyps [of q c] rest(3) Cons kv by simp
      then show ?thesis
        using q tail merge_required_other [OF rest(1)] Cons kv by simp
    next
      case False
      then have merged: "merge_required d ((k, v) # rest) = merge_required (dict_set d k v) rest"
        by (auto split: json.split)
      have "jget (merge_required (dict_set d k v) rest) k = v"
        using merge_required_other [OF rest(1)] by simp
      then show ?thesis
        unfolding Cons kv merged
        using tail py_eq_refl [OF rest(3)] covers_refl rest(3) by (cases v) auto
    qed
  qed simp
qed

end
