(* ===== verification/Checkout.thy ===== *)
theory Checkout
  imports Workflow
begin

text \<open>
  Which executor the service runs (\<^verbatim>\<open>_default_executor\<close> of \<^verbatim>\<open>apps/api/workflow.py\<close> over the settings of
  \<^verbatim>\<open>apps/api/config.py\<close>) and how the live executor is bound to the verified checkout of a deployment
  (\<^verbatim>\<open>PostgresDbtExecutor.bind_to_checkout\<close>).

  The file system is a parameter: how a path resolves, and which paths are directories. A resolved path
  is absolute, so it is known by its parts.
\<close>

section \<open>Paths\<close>

record file_system =
  fs_resolve :: "string \<Rightarrow> string"
  fs_is_dir :: "string \<Rightarrow> bool"

definition absolute_path :: "string list \<Rightarrow> string" where
  "absolute_path parts = ''/'' @ join_with ''/'' parts"

text \<open>\<^verbatim>\<open>Path.relative_to\<close> for absolute paths: the parts below the base, None where it raises.\<close>

definition relative_parts :: "string \<Rightarrow> string \<Rightarrow> string list option" where
  "relative_parts path base =
     (if prefix (path_parts base) (path_parts path)
      then Some (drop (length (path_parts base)) (path_parts path)) else None)"

text \<open>\<^verbatim>\<open>base == path or base in path.parents\<close>\<close>

definition inside :: "string \<Rightarrow> string \<Rightarrow> bool" where
  "inside base path \<longleftrightarrow> prefix (path_parts base) (path_parts path)"

section \<open>The live executor\<close>

text \<open>\<^verbatim>\<open>PostgresDbtExecutor.__init__\<close>\<close>

definition new_executor :: "file_system \<Rightarrow> executor_config \<Rightarrow> exn + executor_config" where
  "new_executor fs cfg =
     bind_res (require_identifier (xc_dbt_target cfg) ''dbt target'') (\<lambda>target.
       Inr (cfg\<lparr>xc_dbt_project_dir := fs_resolve fs (xc_dbt_project_dir cfg),
               xc_dbt_profiles_dir := fs_resolve fs (xc_dbt_profiles_dir cfg),
               xc_dbt_target := target,
               xc_evidence_dir := map_option (fs_resolve fs) (xc_evidence_dir cfg)\<rparr>))"

definition bound_project :: "file_system \<Rightarrow> executor_config \<Rightarrow> string \<Rightarrow> string \<Rightarrow> exn + string" where
  "bound_project fs cfg checkout repository =
     (case relative_parts (xc_dbt_project_dir cfg) repository of
        None \<Rightarrow> Inl (ValueError
          ''Live dbt project must be located inside the configured git repository'')
      | Some parts \<Rightarrow>
          let project = fs_resolve fs (absolute_path (path_parts checkout @ parts))
          in if \<not> inside checkout project
             then Inl (ValueError ''Verified dbt project resolves outside the isolated worktree'')
             else if \<not> fs_is_dir fs project
             then Inl (ValueError ''Verified commit does not contain the configured dbt project'')
             else Inr project)"

definition bound_profiles :: "file_system \<Rightarrow> executor_config \<Rightarrow> string \<Rightarrow> string \<Rightarrow> exn + string" where
  "bound_profiles fs cfg checkout repository =
     (case relative_parts (xc_dbt_profiles_dir cfg) repository of
        None \<Rightarrow> Inr (xc_dbt_profiles_dir cfg)
      | Some parts \<Rightarrow>
          let profiles = fs_resolve fs (absolute_path (path_parts checkout @ parts))
          in if \<not> inside checkout profiles
             then Inl (ValueError ''dbt profiles resolve outside the isolated worktree'')
             else if \<not> fs_is_dir fs profiles
             then Inl (ValueError ''Verified commit does not contain the configured dbt profiles'')
             else Inr profiles)"

definition bind_to_checkout ::
  "file_system \<Rightarrow> executor_config \<Rightarrow> string \<Rightarrow> string \<Rightarrow> exn + executor_config" where
  "bind_to_checkout fs cfg checkout_root repository_root =
     (let repository = fs_resolve fs repository_root; checkout = fs_resolve fs checkout_root
      in bind_res (bound_project fs cfg checkout repository) (\<lambda>project.
         bind_res (bound_profiles fs cfg checkout repository) (\<lambda>profiles.
           new_executor fs (cfg\<lparr>xc_dbt_project_dir := project, xc_dbt_profiles_dir := profiles\<rparr>))))"

text \<open>
  The executors as the workflow sees them, in a world that records the actions of a run. An executor
  that is bound can be bound again; the first argument bounds how often.
\<close>

fun postgres_executor ::
  "nat \<Rightarrow> outside \<Rightarrow> file_system \<Rightarrow> executor_config \<Rightarrow> action list executor" where
  "postgres_executor 0 out fs cfg = Executor True (live_execute out cfg) None"
| "postgres_executor (Suc n) out fs cfg =
     Executor True (live_execute out cfg)
       (Some (\<lambda>checkout repository.
          bind_p (result_p (bind_to_checkout fs cfg checkout repository))
            (\<lambda>bound. return_p (postgres_executor n out fs bound))))"

text \<open>Binding the replay executor gives the replay executor.\<close>

fun replay_executor :: "nat \<Rightarrow> 'w executor" where
  "replay_executor 0 = Executor False (\<lambda>_ proposal cx. return_p (replay_execute proposal cx)) None"
| "replay_executor (Suc n) =
     Executor False (\<lambda>_ proposal cx. return_p (replay_execute proposal cx))
       (Some (\<lambda>_ _. return_p (replay_executor n)))"

section \<open>The settings of an installation\<close>

record app_settings =
  as_core :: settings
  as_database_path :: "string option"
  as_postgres_dsn :: "string option"
  as_dbt_project_dir :: string
  as_dbt_profiles_dir :: string
  as_dbt_target :: string
  as_cors_origins :: string

definition join_path :: "string \<Rightarrow> string \<Rightarrow> string" where
  "join_path base name = base @ ''/'' @ name"

definition resolved_database_path :: "app_settings \<Rightarrow> string" where
  "resolved_database_path s =
     (case as_database_path s of
        Some p \<Rightarrow> p
      | None \<Rightarrow> join_path (st_runtime_dir (as_core s)) ''state.sqlite3'')"

definition allowed_origins :: "app_settings \<Rightarrow> string list" where
  "allowed_origins s = filter (\<lambda>o'. o' \<noteq> []) (map strip (split_on CHR '','' (as_cors_origins s)))"

text \<open>\<open>Inl\<close> the exception, \<open>Inr None\<close> the replay executor, \<open>Inr (Some cfg)\<close> the live one.\<close>

definition default_executor :: "file_system \<Rightarrow> app_settings \<Rightarrow> exn + executor_config option" where
  "default_executor fs s =
     (let mode = casefold (strip (st_execution_mode (as_core s)))
      in if mode = ''postgres''
         then case as_postgres_dsn s of
           None \<Rightarrow> Inl (ValueError
             ''DATARESCUE_POSTGRES_DSN is required when execution mode is postgres'')
         | Some dsn \<Rightarrow>
             if strip dsn = []
             then Inl (ValueError
               ''DATARESCUE_POSTGRES_DSN is required when execution mode is postgres'')
             else bind_res
               (new_executor fs
                  \<lparr>xc_postgres_dsn = dsn, xc_dbt_project_dir = as_dbt_project_dir s,
                   xc_dbt_profiles_dir = as_dbt_profiles_dir s, xc_dbt_target = as_dbt_target s,
                   xc_evidence_dir = Some (join_path (st_runtime_dir (as_core s)) ''evidence''),
                   xc_source_relation = ''raw.payments_raw'',
                   xc_baseline_relation = ''audit.payments_fct_last_good''\<rparr>)
               (\<lambda>cfg. Inr (Some cfg))
         else if mode = ''replay'' then Inr None
         else Inl (ValueError
           (''Unsupported execution mode: '' @ py_repr (st_execution_mode (as_core s)))))"

section \<open>A bound executor stays inside the checkout\<close>

lemma bound_project_inside:
  "bound_project fs cfg checkout repository = Inr project \<Longrightarrow>
     inside checkout project \<and> fs_is_dir fs project \<and> inside repository (xc_dbt_project_dir cfg)"
  by (auto simp: bound_project_def Let_def relative_parts_def inside_def split: option.splits if_splits)

lemma bound_profiles_inside:
  "bound_profiles fs cfg checkout repository = Inr profiles \<Longrightarrow>
     inside checkout profiles
     \<or> profiles = xc_dbt_profiles_dir cfg \<and> \<not> inside repository (xc_dbt_profiles_dir cfg)"
  by (auto simp: bound_profiles_def Let_def relative_parts_def inside_def split: option.splits if_splits)

lemma bound_resolved:
  "bound_project fs cfg checkout repository = Inr project \<Longrightarrow> \<exists>p. project = fs_resolve fs p"
  "bound_profiles fs cfg checkout repository = Inr profiles \<Longrightarrow>
     profiles = xc_dbt_profiles_dir cfg \<or> (\<exists>p. profiles = fs_resolve fs p)"
  by (auto simp: bound_project_def bound_profiles_def Let_def split: option.splits if_splits)

text \<open>
  With a file system that resolves a resolved path to itself: the bound project is a directory of the
  checkout, the profiles are in the checkout or outside of the repository, and the connection, the
  target and the relations are those of the executor that was bound.
\<close>

lemma bind_to_checkout_inside:
  assumes "bind_to_checkout fs cfg checkout_root repository_root = Inr bound"
    and idem: "\<And>p. fs_resolve fs (fs_resolve fs p) = fs_resolve fs p"
    and cfg: "fs_resolve fs (xc_dbt_profiles_dir cfg) = xc_dbt_profiles_dir cfg"
  shows "inside (fs_resolve fs checkout_root) (xc_dbt_project_dir bound)
    \<and> fs_is_dir fs (xc_dbt_project_dir bound)
    \<and> (inside (fs_resolve fs checkout_root) (xc_dbt_profiles_dir bound)
       \<or> xc_dbt_profiles_dir bound = xc_dbt_profiles_dir cfg
         \<and> \<not> inside (fs_resolve fs repository_root) (xc_dbt_profiles_dir bound))
    \<and> xc_postgres_dsn bound = xc_postgres_dsn cfg \<and> xc_dbt_target bound = xc_dbt_target cfg
    \<and> xc_source_relation bound = xc_source_relation cfg
    \<and> xc_baseline_relation bound = xc_baseline_relation cfg"
proof -
  define checkout where "checkout = fs_resolve fs checkout_root"
  define repository where "repository = fs_resolve fs repository_root"
  from assms(1) obtain project profiles where
    p: "bound_project fs cfg checkout repository = Inr project"
       "bound_profiles fs cfg checkout repository = Inr profiles"
    and n: "new_executor fs (cfg\<lparr>xc_dbt_project_dir := project, xc_dbt_profiles_dir := profiles\<rparr>) = Inr bound"
    unfolding bind_to_checkout_def Let_def checkout_def repository_def by (elim bind_res_InrE)
  have "fs_resolve fs project = project" "fs_resolve fs profiles = profiles"
    using bound_resolved(1) [OF p(1)] bound_resolved(2) [OF p(2)] idem cfg by auto
  with n have "xc_dbt_project_dir bound = project" "xc_dbt_profiles_dir bound = profiles"
      "xc_postgres_dsn bound = xc_postgres_dsn cfg" "xc_dbt_target bound = xc_dbt_target cfg"
      "xc_source_relation bound = xc_source_relation cfg"
      "xc_baseline_relation bound = xc_baseline_relation cfg"
    by (auto simp: new_executor_def elim!: bind_res_InrE)
  with bound_project_inside [OF p(1)] bound_profiles_inside [OF p(2)] show ?thesis
    by (auto simp: checkout_def repository_def)
qed

lemma default_executor_modes:
  "default_executor fs s = Inr executor \<Longrightarrow>
     (casefold (strip (st_execution_mode (as_core s))) = ''replay'' \<and> executor = None)
     \<or> (casefold (strip (st_execution_mode (as_core s))) = ''postgres''
        \<and> (\<exists>cfg dsn. executor = Some cfg \<and> as_postgres_dsn s = Some dsn \<and> strip dsn \<noteq> []
             \<and> xc_postgres_dsn cfg = dsn \<and> is_identifier (xc_dbt_target cfg)))"
  by (auto simp: default_executor_def Let_def new_executor_def split: if_splits option.splits
      elim!: bind_res_InrE)

end
