(* ===== verification/Text_Lines.thy ===== *)
theory Text_Lines
  imports Sql_Safety
begin

text \<open>
  Splitting text into lines and words the way \<^verbatim>\<open>str.splitlines()\<close> and \<^verbatim>\<open>str.split()\<close> do, for text of
  ASCII characters.
\<close>

section \<open>Lines\<close>

definition line_break :: "char \<Rightarrow> bool" where
  "line_break c \<longleftrightarrow> code c \<in> {10, 11, 12, 13, 28, 29, 30}"

fun line_pieces :: "string \<Rightarrow> string \<Rightarrow> string list" where
  "line_pieces current [] = (if current = [] then [] else [rev current])"
| "line_pieces current (c # cs) =
     (if code c = 13 \<and> cs \<noteq> [] \<and> code (hd cs) = 10 then rev current # line_pieces [] (tl cs)
      else if line_break c then rev current # line_pieces [] cs
      else line_pieces (c # current) cs)"

definition splitlines :: "string \<Rightarrow> string list" where
  "splitlines s = line_pieces [] s"

lemma line_pieces_plain:
  "list_all (\<lambda>c. \<not> line_break c) w \<Longrightarrow> line_pieces current (w @ newline @ rest)
     = (rev current @ w) # line_pieces [] rest"
  by (induction w arbitrary: current) (auto simp: line_break_def newline_def code_def)

lemma line_pieces_last:
  "list_all (\<lambda>c. \<not> line_break c) w \<Longrightarrow> current @ w \<noteq> [] \<Longrightarrow> line_pieces current w = [rev current @ w]"
  by (induction w arbitrary: current) (auto simp: line_break_def newline_def code_def)

text \<open>Text made of lines is split into these lines.\<close>

lemma splitlines_lines:
  "list_all (list_all (\<lambda>c. \<not> line_break c)) ws \<Longrightarrow>
     splitlines (concat (map (\<lambda>w. w @ newline) ws) @ last_line)
       = ws @ line_pieces [] last_line"
  unfolding splitlines_def by (induction ws) (simp_all add: line_pieces_plain)

section \<open>Words\<close>

definition words :: "string \<Rightarrow> string list" where
  "words s = filter (\<lambda>w. w \<noteq> []) (split_on CHR '' '' (map (\<lambda>c. if is_space c then CHR '' '' else c) s))"

text \<open>\<^verbatim>\<open>str.removeprefix\<close>\<close>

definition remove_prefix :: "string \<Rightarrow> string \<Rightarrow> string" where
  "remove_prefix p s = (if prefix p s then drop (length p) s else s)"

lemma remove_prefix_append [simp]: "remove_prefix p (p @ s) = s"
  by (simp add: remove_prefix_def)

end
