(* ===== verification/Replay_Package.thy ===== *)
theory Replay_Package
  imports Json_Ops Checkout Text_Lines
begin

text \<open>
  \<^verbatim>\<open>scripts/verify-replay.py\<close>: verifying the immutable package of recorded evidence. The file system and the
  JSON parser are parameters; a file's bytes are characters.
\<close>

section \<open>Values\<close>

record 'w replay_files =
  rp_resolve :: "string \<Rightarrow> ('w, exn, string) prog"
  rp_is_file :: "string \<Rightarrow> ('w, exn, bool) prog"
  rp_bytes :: "string \<Rightarrow> ('w, exn, string) prog"
  rp_read_text :: "string \<Rightarrow> ('w, exn, string) prog"
  rp_json_files :: "string \<Rightarrow> ('w, exn, string list) prog"
  rp_loads :: "string \<Rightarrow> json option"
  rp_loads_error :: "string \<Rightarrow> string"
  rp_str :: "json \<Rightarrow> string"

definition replay_error :: "string \<Rightarrow> exn" where
  "replay_error m = Other ''VerificationError'' m"

definition is_replay_error :: "exn \<Rightarrow> bool" where
  "is_replay_error e \<longleftrightarrow> (case e of Other n _ \<Rightarrow> n = ''VerificationError'' | _ \<Rightarrow> False)"

definition require :: "bool \<Rightarrow> string \<Rightarrow> exn + unit" where
  "require c m = (if c then Inr () else Inl (replay_error m))"

definition is_read_error :: "exn \<Rightarrow> bool" where
  "is_read_error e \<longleftrightarrow>
     (case e of OSErr _ _ \<Rightarrow> True | Other n _ \<Rightarrow> n = ''UnicodeDecodeError'' | _ \<Rightarrow> False)"

definition read_object :: "'w replay_files \<Rightarrow> string \<Rightarrow> ('w, exn, jdict) prog" where
  "read_object fs path =
     bind_p (catch_p (rp_read_text fs path)
       (\<lambda>e. raise_p (if is_read_error e
                     then replay_error (''Cannot read valid JSON from '' @ path @ '': '' @ exn_text e)
                     else e)))
       (\<lambda>content. case rp_loads fs content of
          None \<Rightarrow> raise_p (replay_error
            (''Cannot read valid JSON from '' @ path @ '': '' @ rp_loads_error fs content))
        | Some (JDict d) \<Rightarrow> return_p d
        | Some _ \<Rightarrow> raise_p (replay_error (''Expected a JSON object in '' @ path)))"

definition as_mapping :: "json \<Rightarrow> string \<Rightarrow> exn + jdict" where
  "as_mapping v label =
     (case v of JDict d \<Rightarrow> Inr d | _ \<Rightarrow> Inl (replay_error (''Expected object at '' @ label)))"

definition values_close :: "'w replay_files \<Rightarrow> json \<Rightarrow> pyfloat \<Rightarrow> string \<Rightarrow> exn + unit" where
  "values_close fs actual expected label =
     bind_res (require (case actual of JInt _ \<Rightarrow> True | JFloat _ \<Rightarrow> True | JBool _ \<Rightarrow> True | _ \<Rightarrow> False)
       (''Expected numeric value at '' @ label)) (\<lambda>_.
     bind_res (to_float actual) (\<lambda>x.
       require (is_close (dbl (1 / 1000000000)) (dbl (1 / 1000000000)) x expected)
         (''Unexpected '' @ label @ '': '' @ rp_str fs actual)))"

function (sequential) all_strings :: "json \<Rightarrow> string list" and strings_in_list :: "json list \<Rightarrow> string list"
  and strings_in_items :: "jdict \<Rightarrow> string list" where
  "all_strings (JStr s) = [s]"
| "all_strings (JDict d) = strings_in_items d"
| "all_strings (JList xs) = strings_in_list xs"
| "all_strings _ = []"
| "strings_in_list [] = []"
| "strings_in_list (x # xs) = all_strings x @ strings_in_list xs"
| "strings_in_items [] = []"
| "strings_in_items ((k, v) # d) = all_strings v @ strings_in_items d"
  by pat_completeness auto
termination
  by (relation "measure (case_sum size (case_sum (size_list size) (size_list (size_prod (\<lambda>_. 0) size))))") auto

text \<open>\<^verbatim>\<open>set(d.values()) == {"NOT_RUN"}\<close>: a value that cannot be hashed raises.\<close>

definition only_not_run :: "jdict \<Rightarrow> exn + bool" where
  "only_not_run d =
     (if list_ex (\<lambda>(_, v). case v of JList _ \<Rightarrow> True | JDict _ \<Rightarrow> True | _ \<Rightarrow> False) d
      then Inl (TypeErr ''unhashable type'')
      else Inr (d \<noteq> [] \<and> list_all (\<lambda>(_, v). v = JStr ''NOT_RUN'') d))"

definition require_not_run :: "jdict \<Rightarrow> string \<Rightarrow> exn + unit" where
  "require_not_run d message = bind_res (only_not_run d) (\<lambda>ok. require ok message)"

section \<open>The manifest\<close>

definition manifest_header :: "jdict \<Rightarrow> exn + unit" where
  "manifest_header manifest =
     bind_res (require (py_eq (jget manifest ''manifest_version'') (JInt 1))
       ''Unsupported replay manifest version'') (\<lambda>_.
     bind_res (require (jget manifest ''hash_algorithm'' = JStr ''sha256'') ''Manifest must use SHA-256'') (\<lambda>_.
     bind_res (as_mapping (jget manifest ''provenance'') ''manifest.provenance'') (\<lambda>provenance.
     bind_res (require (jget provenance ''status'' = JStr ''RECORDED_REPLAY'')
       ''Manifest provenance must be RECORDED_REPLAY'') (\<lambda>_.
     bind_res (as_mapping (jget provenance ''integrations'') ''manifest.provenance.integrations'') (\<lambda>integrations.
       require_not_run integrations ''Replay manifest must mark every external integration NOT_RUN'')))))"

definition entry_paths :: "json list \<Rightarrow> json list" where
  "entry_paths entries =
     List.map_filter (\<lambda>item. case item of JDict d \<Rightarrow> Some (jget d ''path'') | _ \<Rightarrow> None) entries"

definition text_value :: "json \<Rightarrow> string option" where
  "text_value v = (case v of JStr s \<Rightarrow> Some s | _ \<Rightarrow> None)"

text \<open>The entries of the manifest and their paths.\<close>

definition manifest_entries :: "jdict \<Rightarrow> exn + json list \<times> string list" where
  "manifest_entries manifest =
     (case jget manifest ''files'' of
        JList entries \<Rightarrow>
          bind_res (require (entries \<noteq> []) ''Manifest files must be a non-empty list'') (\<lambda>_.
          let values = entry_paths entries; paths = List.map_filter text_value values in
          bind_res (require (length values = length entries)
            ''Each manifest file entry must be an object with a path'') (\<lambda>_.
          bind_res (require (list_all (\<lambda>v. text_value v \<noteq> None) values)
            ''Manifest paths must be strings'') (\<lambda>_.
          bind_res (require (sorted paths) ''Manifest file entries must be sorted by path'') (\<lambda>_.
          bind_res (require (distinct paths) ''Manifest contains duplicate paths'') (\<lambda>_.
            Inr (entries, paths))))))
      | _ \<Rightarrow> Inl (replay_error ''Manifest files must be a non-empty list''))"

definition parent_dir :: "string \<Rightarrow> string" where
  "parent_dir path = absolute_path (butlast (path_parts path))"

definition artifact_path :: "string \<Rightarrow> string \<Rightarrow> string" where
  "artifact_path root_dir raw_path = absolute_path (path_parts root_dir @ path_parts raw_path)"

section \<open>The artifacts\<close>

definition recorded_status :: "jdict \<Rightarrow> exn + bool" where
  "recorded_status provenance =
     (case jget provenance ''status'' of
        JList _ \<Rightarrow> Inl (TypeErr ''unhashable type'')
      | JDict _ \<Rightarrow> Inl (TypeErr ''unhashable type'')
      | v \<Rightarrow> Inr (v \<in> {JStr ''RECORDED_REPLAY'', JStr ''NOT_RUN''}))"

definition target_path :: "'w replay_files \<Rightarrow> string \<Rightarrow> string \<Rightarrow> ('w, exn, string) prog" where
  "target_path fs root_dir raw_path =
     then_p (result_p (require (\<not> is_absolute raw_path) (''Absolute artifact path is forbidden: '' @ raw_path)))
     (then_p (result_p (require (''..'' \<notin> set (path_parts raw_path))
        (''Path traversal is forbidden: '' @ raw_path)))
     (bind_p (rp_resolve fs (artifact_path root_dir raw_path)) (\<lambda>target.
      then_p (result_p (require (inside root_dir target) (''Artifact escapes replay root: '' @ raw_path)))
     (bind_p (rp_is_file fs target) (\<lambda>found.
      then_p (result_p (require found (''Missing replay artifact: '' @ raw_path)))
        (return_p target))))))"

definition check_payload :: "jdict \<Rightarrow> string \<Rightarrow> string \<Rightarrow> exn + unit" where
  "check_payload entry raw_path payload =
     bind_res (require (case jget entry ''bytes'' of JInt _ \<Rightarrow> True | JBool _ \<Rightarrow> True | _ \<Rightarrow> False)
       (''Missing byte size for '' @ raw_path)) (\<lambda>_.
     bind_res (require (py_eq (JInt (int (length payload))) (jget entry ''bytes''))
       (''Byte-size mismatch for '' @ raw_path)) (\<lambda>_.
     bind_res (require (text_value (jget entry ''sha256'') \<noteq> None) (''Missing SHA-256 for '' @ raw_path)) (\<lambda>_.
       require (JStr (sha256_hex payload) = jget entry ''sha256'') (''SHA-256 mismatch for '' @ raw_path))))"

definition check_artifact :: "jdict \<Rightarrow> string \<Rightarrow> jdict \<Rightarrow> exn + unit" where
  "check_artifact entry raw_path artifact =
     bind_res (require (py_eq (jget artifact ''artifact_type'') (jget entry ''artifact_type''))
       (''Artifact type mismatch for '' @ raw_path)) (\<lambda>_.
     bind_res (as_mapping (jget artifact ''provenance'') (raw_path @ ''.provenance'')) (\<lambda>provenance.
     bind_res (recorded_status provenance) (\<lambda>ok.
       require ok (''Replay artifact has unsupported provenance for '' @ raw_path))))"

definition verify_entry ::
  "'w replay_files \<Rightarrow> string \<Rightarrow> json \<Rightarrow> ('w, exn, string \<times> jdict) prog" where
  "verify_entry fs root_dir raw_entry =
     bind_p (result_p (as_mapping raw_entry ''manifest.files[]'')) (\<lambda>entry.
     case map_of entry ''path'' of
       None \<Rightarrow> raise_p (KeyErr ''path'')
     | Some (JStr raw_path) \<Rightarrow>
         bind_p (target_path fs root_dir raw_path) (\<lambda>target.
         bind_p (rp_bytes fs target) (\<lambda>payload.
         then_p (result_p (check_payload entry raw_path payload))
         (bind_p (read_object fs target) (\<lambda>artifact.
          then_p (result_p (check_artifact entry raw_path artifact))
            (return_p (raw_path, artifact))))))
     | Some _ \<Rightarrow> raise_p (replay_error ''Manifest path must be a string''))"

text \<open>The paths are distinct by then, so the dictionary is the list of its items.\<close>

fun verify_entries ::
  "'w replay_files \<Rightarrow> string \<Rightarrow> json list \<Rightarrow> ('w, exn, (string \<times> jdict) list) prog" where
  "verify_entries fs root_dir [] = return_p []"
| "verify_entries fs root_dir (entry # entries) =
     bind_p (verify_entry fs root_dir entry) (\<lambda>item.
     bind_p (verify_entries fs root_dir entries) (\<lambda>items. return_p (item # items)))"

definition reference_prefix :: string where
  "reference_prefix = ''artifact://replay/''"

definition dangling :: "string list \<Rightarrow> string \<Rightarrow> bool" where
  "dangling paths v \<longleftrightarrow> prefix reference_prefix v \<and> remove_prefix reference_prefix v \<notin> set paths"

definition check_references :: "(string \<times> jdict) list \<Rightarrow> exn + unit" where
  "check_references artifacts =
     (case List.find (\<lambda>(_, v). dangling (map fst artifacts) v)
             (concat (map (\<lambda>(raw_path, artifact). map (Pair raw_path) (all_strings (JDict artifact))) artifacts)) of
        None \<Rightarrow> Inr ()
      | Some (raw_path, v) \<Rightarrow>
          Inl (replay_error (''Broken artifact reference in '' @ raw_path @ '': '' @ v)))"

definition verify_manifest ::
  "'w replay_files \<Rightarrow> string \<Rightarrow> ('w, exn, jdict \<times> (string \<times> jdict) list) prog" where
  "verify_manifest fs manifest_path =
     bind_p (rp_resolve fs manifest_path) (\<lambda>resolved.
     let root_dir = parent_dir resolved in
     bind_p (read_object fs resolved) (\<lambda>manifest.
     then_p (result_p (manifest_header manifest))
     (bind_p (result_p (manifest_entries manifest)) (\<lambda>(entries, paths).
      bind_p (rp_json_files fs root_dir) (\<lambda>discovered.
      then_p (result_p (require (set paths = set discovered)
        ''Manifest does not exactly cover the replay JSON artifacts''))
     (bind_p (verify_entries fs root_dir entries) (\<lambda>artifacts.
      then_p (result_p (check_references artifacts))
        (return_p (manifest, artifacts)))))))))"

section \<open>The claims\<close>

type_synonym replay_artifacts = "(string \<times> jdict) list"

definition artifact_at :: "replay_artifacts \<Rightarrow> string \<Rightarrow> exn + jdict" where
  "artifact_at artifacts name =
     (case map_of artifacts name of Some d \<Rightarrow> Inr d | None \<Rightarrow> Inl (KeyErr name))"

text \<open>\<^verbatim>\<open>mapping(d[key], label)\<close>\<close>

definition section_at :: "jdict \<Rightarrow> string \<Rightarrow> string \<Rightarrow> exn + jdict" where
  "section_at d key label =
     (case map_of d key of Some v \<Rightarrow> as_mapping v label | None \<Rightarrow> Inl (KeyErr key))"

definition require_value :: "jdict \<Rightarrow> string \<Rightarrow> json \<Rightarrow> string \<Rightarrow> exn + unit" where
  "require_value d key expected message = require (py_eq (jget d key) expected) message"

text \<open>\<^verbatim>\<open>require(d.get(key) is True, ...)\<close>, for either truth value.\<close>

definition require_flag :: "jdict \<Rightarrow> string \<Rightarrow> bool \<Rightarrow> string \<Rightarrow> exn + unit" where
  "require_flag d key b message = require (jget d key = JBool b) message"

abbreviation and_then :: "exn + unit \<Rightarrow> exn + unit \<Rightarrow> exn + unit" where
  "and_then a b \<equiv> bind_res a (\<lambda>_. b)"

definition context_claims :: "replay_artifacts \<Rightarrow> exn + unit" where
  "context_claims artifacts =
     bind_res (artifact_at artifacts ''artifacts/context-bundle.json'') (\<lambda>context_artifact.
     bind_res (section_at context_artifact ''provenance'' ''context.provenance'') (\<lambda>provenance.
     bind_res (section_at provenance ''integrations'' ''context.integrations'') (\<lambda>integrations.
     bind_res (require_not_run integrations ''Recorded context must not claim a live integration'') (\<lambda>_.
     bind_res (section_at context_artifact ''lineage'' ''context.lineage'') (\<lambda>lineage.
       require_flag lineage ''current_within_recording'' True ''Recorded lineage must be current'')))))"

definition candidate_claims ::
  "'w replay_files \<Rightarrow> replay_artifacts \<Rightarrow> string \<Rightarrow> string \<Rightarrow> string \<Rightarrow> pyfloat \<Rightarrow> string \<Rightarrow> string \<Rightarrow> exn + unit"
  where
  "candidate_claims fs artifacts name short title variance decision verb =
     bind_res (artifact_at artifacts (''artifacts/reconciliation/'' @ name @ ''.json'')) (\<lambda>found.
     bind_res (section_at found ''metrics'' (short @ ''.metrics'')) (\<lambda>metrics.
     bind_res (section_at found ''policy'' (short @ ''.policy'')) (\<lambda>policy.
     bind_res (values_close fs (jget metrics ''total_variance_pct'') variance (short @ '' total variance'')) (\<lambda>_.
     bind_res (values_close fs (jget metrics ''primary_key_overlap_pct'') (Fin 100) (short @ '' PK overlap'')) (\<lambda>_.
       require_value policy ''outcome'' (JStr decision) (title @ '' candidate must be '' @ verb))))))"

definition build_claims :: "replay_artifacts \<Rightarrow> string \<Rightarrow> exn + unit" where
  "build_claims artifacts candidate =
     bind_res (artifact_at artifacts (''artifacts/dbt/'' @ candidate @ ''.json'')) (\<lambda>dbt.
     bind_res (section_at dbt ''result'' (''dbt.'' @ candidate @ ''.result'')) (\<lambda>result.
       and_then (require_value result ''status'' (JStr ''PASSED'') (candidate @ '' dbt build must pass''))
      (and_then (require_value result ''tests_passed'' (JInt 8) (candidate @ '' must have 8 passing tests''))
      (and_then (require_value result ''tests_total'' (JInt 8) (candidate @ '' must have 8 total tests''))
        (require_value result ''tests_failed'' (JInt 0) (candidate @ '' must have no failed tests''))))))"

definition case_claims :: "replay_artifacts \<Rightarrow> exn + unit" where
  "case_claims artifacts =
     bind_res (artifact_at artifacts ''artifacts/cases/DR-024.json'') (\<lambda>recorded_case.
     bind_res (require_value recorded_case ''state'' (JStr ''PATCH_READY'')
       ''Replay case must stop at PATCH_READY'') (\<lambda>_.
     bind_res (section_at recorded_case ''incident'' ''case.incident'') (\<lambda>incident.
     bind_res (require_value incident ''local_status'' (JStr ''ACTIVE'')
       ''Replay incident must remain active'') (\<lambda>_.
     bind_res (section_at recorded_case ''pull_request'' ''case.pull_request'') (\<lambda>pull_request.
     bind_res (require_value pull_request ''status'' (JStr ''NOT_RUN'')
       ''Replay must not claim a GitHub PR'') (\<lambda>_.
     bind_res (section_at recorded_case ''deployment'' ''case.deployment'') (\<lambda>deployment.
       require_not_run deployment ''Replay must not claim deployment proof'')))))))"

definition evidence_claims :: "replay_artifacts \<Rightarrow> exn + unit" where
  "evidence_claims artifacts =
     bind_res (artifact_at artifacts ''artifacts/evidence/DR-024.json'') (\<lambda>evidence.
     bind_res (require_flag evidence ''recovery_claimed'' False ''Replay must not claim recovery'') (\<lambda>_.
     bind_res (section_at evidence ''external_operations'' ''evidence.external_operations'') (\<lambda>operations.
       require_not_run operations ''Every external replay operation must be NOT_RUN'')))"

definition containment_claims :: "'w replay_files \<Rightarrow> replay_artifacts \<Rightarrow> exn + unit" where
  "containment_claims fs artifacts =
     bind_res (artifact_at artifacts ''artifacts/containment/DR-025.json'') (\<lambda>containment.
     bind_res (require_value containment ''state'' (JStr ''CONTAINED'')
       ''Fail-closed replay must be contained'') (\<lambda>_.
     bind_res (section_at containment ''candidate'' ''containment.candidate'') (\<lambda>candidate.
     bind_res (require_value candidate ''source_field'' (JStr ''settlement_amount'')
       ''Containment must evaluate settlement_amount'') (\<lambda>_.
     bind_res (section_at candidate ''reconciliation'' ''containment.candidate.reconciliation'') (\<lambda>metrics.
     bind_res (values_close fs (jget metrics ''total_variance_pct'') (dbl (- 3 / 2))
       ''containment total variance'') (\<lambda>_.
     bind_res (values_close fs (jget metrics ''primary_key_overlap_pct'') (Fin 100)
       ''containment PK overlap'') (\<lambda>_.
     bind_res (section_at candidate ''dbt'' ''containment.candidate.dbt'') (\<lambda>dbt.
     bind_res (require_value dbt ''status'' (JStr ''PASSED'') ''Containment dbt build must pass'') (\<lambda>_.
     bind_res (require_value dbt ''tests_passed'' (JInt 8) ''Containment must have 8 tests'') (\<lambda>_.
     bind_res (require_value candidate ''policy_outcome'' (JStr ''REJECTED'')
       ''Containment candidate must remain rejected'') (\<lambda>_.
     bind_res (section_at containment ''effects'' ''containment.effects'') (\<lambda>effects.
       and_then (require_value effects ''guard_contract_exit_code'' (JInt 75) ''Guard exit code must be 75'')
      (and_then (require_flag effects ''downstream_command_must_run'' False
         ''Contained downstream command must remain blocked'')
        (require_value effects ''github_draft_pr_status'' (JStr ''NOT_RUN'') ''Containment cannot open a PR''))))))))))))))"

definition expected_claims :: "'w replay_files \<Rightarrow> jdict \<Rightarrow> exn + unit" where
  "expected_claims fs manifest =
     bind_res (section_at manifest ''expected_claims'' ''manifest.expected_claims'') (\<lambda>expected.
       and_then (values_close fs (jget expected ''gross_total_variance_pct'') (dbl (34 / 10)) ''manifest gross claim'')
      (and_then (values_close fs (jget expected ''net_total_variance_pct'') (Fin 0) ''manifest net claim'')
      (and_then (values_close fs (jget expected ''containment_total_variance_pct'') (dbl (- 3 / 2))
         ''manifest containment claim'')
      (and_then (require_value expected ''containment_dbt_tests'' (JInt 8)
         ''Manifest containment test claim is incorrect'')
      (and_then (require_value expected ''github_replay_status'' (JStr ''NOT_RUN'') ''Manifest PR status is unsafe'')
        (require_value expected ''guard_exit_code'' (JInt 75) ''Manifest guard claim is incorrect''))))))"

definition verify_claims :: "'w replay_files \<Rightarrow> jdict \<Rightarrow> replay_artifacts \<Rightarrow> exn + unit" where
  "verify_claims fs manifest artifacts =
     and_then (context_claims artifacts)
    (and_then (candidate_claims fs artifacts ''gross_amount'' ''gross'' ''Gross'' (dbl (34 / 10)) ''REJECTED'' ''rejected'')
    (and_then (candidate_claims fs artifacts ''net_amount'' ''net'' ''Net'' (Fin 0) ''SELECTED'' ''selected'')
    (and_then (build_claims artifacts ''gross_amount'')
    (and_then (build_claims artifacts ''net_amount'')
    (and_then (case_claims artifacts)
    (and_then (evidence_claims artifacts)
    (and_then (containment_claims fs artifacts)
      (expected_claims fs manifest))))))))"

text \<open>\<^verbatim>\<open>main\<close>: the exit code.\<close>

definition replay_main :: "'w replay_files \<Rightarrow> string \<Rightarrow> ('w, exn, int) prog" where
  "replay_main fs manifest_path =
     catch_p
       (bind_p (verify_manifest fs manifest_path) (\<lambda>(manifest, artifacts).
          then_p (result_p (verify_claims fs manifest artifacts)) (return_p 0)))
       (\<lambda>e. if is_replay_error e then return_p 1 else raise_p e)"

end
