(* ===== verification/Replay_Safety.thy ===== *)
theory Replay_Safety
  imports Replay_Package
begin

text \<open>
  What it means that the recorded package was accepted, over files that nobody changes meanwhile.
\<close>

section \<open>What is checked\<close>

definition files_only_read :: "'w replay_files \<Rightarrow> bool" where
  "files_only_read fs \<longleftrightarrow>
     (\<forall>x. leaves_world (rp_resolve fs x) \<and> leaves_world (rp_is_file fs x) \<and> leaves_world (rp_bytes fs x)
        \<and> leaves_world (rp_read_text fs x) \<and> leaves_world (rp_json_files fs x))"

text \<open>The JSON object a file holds.\<close>

definition holds_object :: "'w replay_files \<Rightarrow> 'w \<Rightarrow> string \<Rightarrow> jdict \<Rightarrow> bool" where
  "holds_object fs w path d \<longleftrightarrow>
     (case fst (rp_read_text fs path w) of Inl _ \<Rightarrow> False | Inr content \<Rightarrow> rp_loads fs content = Some (JDict d))"

definition holds_bytes :: "'w replay_files \<Rightarrow> 'w \<Rightarrow> string \<Rightarrow> (string \<Rightarrow> bool) \<Rightarrow> bool" where
  "holds_bytes fs w path P \<longleftrightarrow> (case fst (rp_bytes fs path w) of Inl _ \<Rightarrow> False | Inr payload \<Rightarrow> P payload)"

definition sealed_artifact ::
  "'w replay_files \<Rightarrow> string \<Rightarrow> 'w \<Rightarrow> json \<Rightarrow> string \<times> jdict \<Rightarrow> bool" where
  "sealed_artifact fs root_dir w raw_entry item \<longleftrightarrow>
     (case raw_entry of
        JDict entry \<Rightarrow>
          jget entry ''path'' = JStr (fst item)
          \<and> \<not> is_absolute (fst item) \<and> ''..'' \<notin> set (path_parts (fst item))
          \<and> (case fst (rp_resolve fs (artifact_path root_dir (fst item)) w) of
               Inl _ \<Rightarrow> False
             | Inr target \<Rightarrow>
                 inside root_dir target
                 \<and> holds_bytes fs w target (\<lambda>payload.
                      py_eq (JInt (int (length payload))) (jget entry ''bytes'')
                      \<and> jget entry ''sha256'' = JStr (sha256_hex payload))
                 \<and> holds_object fs w target (snd item))
      | _ \<Rightarrow> False)"

definition claim_at :: "replay_artifacts \<Rightarrow> string \<Rightarrow> string list \<Rightarrow> json" where
  "claim_at artifacts name ks =
     (case map_of artifacts (''artifacts/'' @ name @ ''.json'') of Some d \<Rightarrow> json_at (JDict d) ks | None \<Rightarrow> JNull)"

section \<open>Steps\<close>

lemma require_Inr [simp]: "require c m = Inr x \<longleftrightarrow> c"
  by (simp add: require_def)

lemma map_filter_length: "length (List.map_filter f xs) \<le> length xs"
  by (simp add: List.map_filter_def)

lemma map_filter_full:
  "length (List.map_filter f xs) = length xs \<Longrightarrow> list_all2 (\<lambda>x y. f x = Some y) xs (List.map_filter f xs)"
proof (induction xs)
  case (Cons x xs)
  then show ?case
    using map_filter_length [of f xs] by (cases "f x") (auto simp: List.map_filter_simps)
qed (simp add: List.map_filter_simps)

lemma map_filter_all: "list_all (\<lambda>x. f x \<noteq> None) xs \<Longrightarrow> length (List.map_filter f xs) = length xs"
  by (induction xs) (auto simp: List.map_filter_simps)

lemma manifest_entries_paths:
  assumes "manifest_entries manifest = Inr (entries, paths)"
  shows "jget manifest ''files'' = JList entries" "entries \<noteq> []" "distinct paths"
    "list_all2 (\<lambda>e p. \<exists>d. e = JDict d \<and> jget d ''path'' = JStr p) entries paths"
proof -
  from assms have files: "jget manifest ''files'' = JList entries" "entries \<noteq> []" "distinct paths"
      and full: "length (entry_paths entries) = length entries"
        "list_all (\<lambda>v. text_value v \<noteq> None) (entry_paths entries)"
      and paths: "paths = List.map_filter text_value (entry_paths entries)"
    by (auto simp: manifest_entries_def Let_def elim!: bind_res_InrE split: json.splits)
  show "jget manifest ''files'' = JList entries" "entries \<noteq> []" "distinct paths"
    by (fact files)+
  have "list_all2 (\<lambda>e v. (case e of JDict d \<Rightarrow> Some (jget d ''path'') | _ \<Rightarrow> None) = Some v) entries (entry_paths entries)"
    using map_filter_full full(1) unfolding entry_paths_def by blast
  moreover have "list_all2 (\<lambda>v p. text_value v = Some p) (entry_paths entries) paths"
    unfolding paths by (intro map_filter_full map_filter_all full(2))
  ultimately show "list_all2 (\<lambda>e p. \<exists>d. e = JDict d \<and> jget d ''path'' = JStr p) entries paths"
  proof (rule list_all2_trans [rotated])
    show "\<exists>d. e = JDict d \<and> jget d ''path'' = JStr p"
      if "(case e of JDict d \<Rightarrow> Some (jget d ''path'') | _ \<Rightarrow> None) = Some v" "text_value v = Some p" for e v p
      using that by (auto simp: text_value_def split: json.splits)
  qed
qed

lemma bind_InrE:
  assumes "bind_p m f s = (Inr y, t)"
  obtains x s' where "m s = (Inr x, s')" "f x s' = (Inr y, t)"
  using assms by (auto simp: bind_p_def split: prod.splits sum.splits)

lemma checked_InrE:
  assumes "then_p (result_p r) m s = (Inr y, t)"
  obtains x where "r = Inr x" "m s = (Inr y, t)"
  using assms by (auto simp: then_p_def bind_p_def split: sum.splits)

lemma file_reads:
  assumes "files_only_read fs"
  shows "rp_resolve fs x w = (r1, w') \<Longrightarrow> w' = w" "rp_is_file fs x w = (r2, w') \<Longrightarrow> w' = w"
    "rp_bytes fs x w = (r1, w') \<Longrightarrow> w' = w" "rp_read_text fs x w = (r1, w') \<Longrightarrow> w' = w"
    "rp_json_files fs x w = (r3, w') \<Longrightarrow> w' = w"
  using assms by (auto simp: files_only_read_def leaves_world_def dest!: spec [of _ x] spec [of _ w])

lemma read_object_run:
  assumes "files_only_read fs" "read_object fs path w = (Inr d, w')"
  shows "w' = w" "holds_object fs w path d"
proof -
  obtain r w1 where r: "rp_read_text fs path w = (r, w1)" by fastforce
  obtain content where content: "rp_read_text fs path w = (Inr content, w')" "rp_loads fs content = Some (JDict d)"
  proof (cases r)
    case (Inr content)
    with assms(2) r have "w1 = w'" "rp_loads fs content = Some (JDict d)"
      by (simp_all add: read_object_def bind_p_def catch_p_def split: option.splits json.splits)
    with r Inr show ?thesis by (intro that) simp_all
  qed (use assms(2) r in \<open>simp add: read_object_def bind_p_def catch_p_def\<close>)
  then show "w' = w"
    using file_reads(4) [OF assms(1)] by simp
  then show "holds_object fs w path d"
    using content by (simp add: holds_object_def)
qed

lemma target_path_run:
  assumes "files_only_read fs" "target_path fs root_dir p w = (Inr target, w')"
  shows "w' = w" "\<not> is_absolute p" "''..'' \<notin> set (path_parts p)"
    "rp_resolve fs (artifact_path root_dir p) w = (Inr target, w)" "inside root_dir target"
proof -
  from assms(2) obtain w1 found where run: "rp_resolve fs (artifact_path root_dir p) w = (Inr target, w1)"
      "rp_is_file fs target w1 = (Inr found, w')"
      and ok: "\<not> is_absolute p" "''..'' \<notin> set (path_parts p)" "inside root_dir target"
    unfolding target_path_def by (auto elim!: bind_InrE checked_InrE)
  have "w1 = w" "w' = w1"
    using file_reads(1) [OF assms(1) run(1)] file_reads(2) [OF assms(1) run(2)] by simp_all
  with run ok show "w' = w" "\<not> is_absolute p" "''..'' \<notin> set (path_parts p)"
    "rp_resolve fs (artifact_path root_dir p) w = (Inr target, w)" "inside root_dir target"
    by simp_all
qed

lemma verify_entry_run:
  assumes "files_only_read fs" "verify_entry fs root_dir e w = (Inr item, w')"
  shows "w' = w \<and> sealed_artifact fs root_dir w e item"
proof -
  obtain p a where item: "item = (p, a)" by fastforce
  from assms(2) obtain entry target payload w1 w2 where e: "e = JDict entry" "jget entry ''path'' = JStr p"
      and run: "target_path fs root_dir p w = (Inr target, w1)" "rp_bytes fs target w1 = (Inr payload, w2)"
        "check_payload entry p payload = Inr ()" "read_object fs target w2 = (Inr a, w')"
    unfolding item verify_entry_def
    by (auto simp: as_mapping_def jget_def elim!: bind_InrE checked_InrE split: json.splits option.splits)
  note target = target_path_run [OF assms(1) run(1)]
  have "w2 = w1"
    using file_reads(3) [OF assms(1) run(2)] .
  note found = read_object_run [OF assms(1) run(4)]
  have "py_eq (JInt (int (length payload))) (jget entry ''bytes'')"
      "jget entry ''sha256'' = JStr (sha256_hex payload)"
    using run(3) by (auto simp: check_payload_def elim!: bind_res_InrE)
  with target found run(2) \<open>w2 = w1\<close> show ?thesis
    by (simp add: sealed_artifact_def e item holds_bytes_def)
qed

lemma verify_entries_run:
  assumes "files_only_read fs"
  shows "verify_entries fs root_dir es w = (Inr items, w') \<Longrightarrow>
    w' = w \<and> list_all2 (sealed_artifact fs root_dir w) es items"
proof (induction es arbitrary: w items)
  case (Cons e es)
  from Cons.prems obtain item w1 rest where run: "verify_entry fs root_dir e w = (Inr item, w1)"
      "verify_entries fs root_dir es w1 = (Inr rest, w')" "items = item # rest"
    by (auto elim!: bind_InrE)
  with verify_entry_run [OF assms run(1)] Cons.IH [OF run(2)] show ?case by simp
qed simp

lemma references_closed:
  assumes "check_references artifacts = Inr ()" "(p, a) \<in> set artifacts" "v \<in> set (all_strings (JDict a))"
    "prefix reference_prefix v"
  shows "remove_prefix reference_prefix v \<in> fst ` set artifacts"
proof -
  have "List.find (\<lambda>(_, v). dangling (map fst artifacts) v)
      (concat (map (\<lambda>(raw_path, artifact). map (Pair raw_path) (all_strings (JDict artifact))) artifacts)) = None"
    using assms(1) by (auto simp: check_references_def split: option.splits)
  then have "\<not> dangling (map fst artifacts) v"
    using assms(2,3) unfolding find_None_iff by fastforce
  with assms(4) show ?thesis by (simp add: dangling_def)
qed

section \<open>Acceptance\<close>

lemma section_at_Inr: "section_at d k label = Inr s \<Longrightarrow> jget d k = JDict s"
  by (auto simp: section_at_def as_mapping_def jget_def split: option.splits json.splits)

lemma artifact_at_Inr: "artifact_at artifacts name = Inr d \<longleftrightarrow> map_of artifacts name = Some d"
  by (auto simp: artifact_at_def split: option.splits)

lemma candidate_claims_Inr:
  assumes "candidate_claims fs artifacts name short title variance decision verb = Inr ()"
  shows "claim_at artifacts (''reconciliation/'' @ name) [''policy'', ''outcome''] = JStr decision"
  using assms
  by (auto simp: candidate_claims_def require_value_def claim_at_def artifact_at_Inr
    elim!: bind_res_InrE dest!: section_at_Inr)

lemma build_claims_Inr:
  assumes "build_claims artifacts name = Inr ()"
  shows "claim_at artifacts (''dbt/'' @ name) [''result'', ''status''] = JStr ''PASSED''"
  using assms
  by (auto simp: build_claims_def require_value_def claim_at_def artifact_at_Inr
    elim!: bind_res_InrE dest!: section_at_Inr)

lemma case_claims_Inr:
  assumes "case_claims artifacts = Inr ()"
  shows "claim_at artifacts ''cases/DR-024'' [''state''] = JStr ''PATCH_READY''"
    "claim_at artifacts ''cases/DR-024'' [''pull_request'', ''status''] = JStr ''NOT_RUN''"
  using assms
  by (auto simp: case_claims_def require_value_def claim_at_def artifact_at_Inr
    elim!: bind_res_InrE dest!: section_at_Inr)

lemma evidence_claims_Inr:
  assumes "evidence_claims artifacts = Inr ()"
  shows "claim_at artifacts ''evidence/DR-024'' [''recovery_claimed''] = JBool False"
  using assms
  by (auto simp: evidence_claims_def require_flag_def claim_at_def artifact_at_Inr elim!: bind_res_InrE)

lemma containment_claims_Inr:
  assumes "containment_claims fs artifacts = Inr ()"
  shows "claim_at artifacts ''containment/DR-025'' [''state''] = JStr ''CONTAINED''"
    "claim_at artifacts ''containment/DR-025'' [''candidate'', ''policy_outcome''] = JStr ''REJECTED''"
    "claim_at artifacts ''containment/DR-025'' [''effects'', ''downstream_command_must_run''] = JBool False"
  using assms
  by (auto simp: containment_claims_def require_value_def require_flag_def claim_at_def artifact_at_Inr
    elim!: bind_res_InrE dest!: section_at_Inr)

lemma verify_claims_parts:
  assumes "verify_claims fs manifest artifacts = Inr ()"
  shows "candidate_claims fs artifacts ''gross_amount'' ''gross'' ''Gross'' (dbl (34 / 10)) ''REJECTED'' ''rejected'' = Inr ()"
    "candidate_claims fs artifacts ''net_amount'' ''net'' ''Net'' (Fin 0) ''SELECTED'' ''selected'' = Inr ()"
    "build_claims artifacts ''gross_amount'' = Inr ()" "build_claims artifacts ''net_amount'' = Inr ()"
    "case_claims artifacts = Inr ()" "evidence_claims artifacts = Inr ()"
    "containment_claims fs artifacts = Inr ()"
  using assms by (auto simp: verify_claims_def elim!: bind_res_InrE)

lemma replay_main_accepts:
  assumes "replay_main fs path w = (Inr 0, w')"
  obtains manifest artifacts where "verify_manifest fs path w = (Inr (manifest, artifacts), w')"
    "verify_claims fs manifest artifacts = Inr ()"
proof -
  let ?m = "bind_p (verify_manifest fs path) (\<lambda>(manifest, artifacts).
      then_p (result_p (verify_claims fs manifest artifacts)) (return_p (0 :: int)))"
  have "?m w = (Inr 0, w')"
    using assms by (auto simp: replay_main_def catch_p_def split: prod.splits sum.splits if_splits)
  then show thesis
    by (auto elim!: bind_InrE checked_InrE intro: that)
qed

lemma verify_manifest_run:
  assumes "files_only_read fs" "verify_manifest fs path w = (Inr (manifest, artifacts), w')"
  obtains resolved entries paths discovered where
    "w' = w" "rp_resolve fs path w = (Inr resolved, w)" "holds_object fs w resolved manifest"
    "manifest_entries manifest = Inr (entries, paths)"
    "rp_json_files fs (parent_dir resolved) w = (Inr discovered, w)" "set paths = set discovered"
    "list_all2 (sealed_artifact fs (parent_dir resolved) w) entries artifacts"
    "check_references artifacts = Inr ()"
proof -
  from assms(2) obtain resolved w1 w2 w3 entries paths discovered where run:
      "rp_resolve fs path w = (Inr resolved, w1)" "read_object fs resolved w1 = (Inr manifest, w2)"
      "manifest_entries manifest = Inr (entries, paths)"
      "rp_json_files fs (parent_dir resolved) w2 = (Inr discovered, w3)"
      "require (set paths = set discovered) ''Manifest does not exactly cover the replay JSON artifacts'' = Inr ()"
      "verify_entries fs (parent_dir resolved) entries w3 = (Inr artifacts, w')"
      "check_references artifacts = Inr ()"
    unfolding verify_manifest_def Let_def
    by (auto elim!: bind_InrE checked_InrE)
  have w: "w1 = w" "w3 = w2"
    using file_reads(1) [OF assms(1) run(1)] file_reads(5) [OF assms(1) run(4)] by simp_all
  note found = read_object_run [OF assms(1) run(2)]
  note items = verify_entries_run [OF assms(1) run(6)]
  show thesis
    by (rule that [of resolved entries paths discovered])
      (use w found items run in simp_all)
qed

text \<open>The paths of the artifacts are those of the manifest.\<close>

lemma sealed_paths:
  assumes "list_all2 (sealed_artifact fs root_dir w) entries artifacts"
    "list_all2 (\<lambda>e p. \<exists>d. e = JDict d \<and> jget d ''path'' = JStr p) entries paths"
  shows "map fst artifacts = paths"
  using assms(2,1)
proof (induction arbitrary: artifacts rule: list_all2_induct)
  case (Cons e es p ps)
  then show ?case by (auto simp: list_all2_Cons1 sealed_artifact_def)
qed simp

text \<open>What the artifacts have to say, and nothing more than that.\<close>

definition told_honestly :: "replay_artifacts \<Rightarrow> bool" where
  "told_honestly artifacts \<longleftrightarrow>
     claim_at artifacts ''reconciliation/gross_amount'' [''policy'', ''outcome''] = JStr ''REJECTED''
     \<and> claim_at artifacts ''reconciliation/net_amount'' [''policy'', ''outcome''] = JStr ''SELECTED''
     \<and> claim_at artifacts ''dbt/gross_amount'' [''result'', ''status''] = JStr ''PASSED''
     \<and> claim_at artifacts ''dbt/net_amount'' [''result'', ''status''] = JStr ''PASSED''
     \<and> claim_at artifacts ''cases/DR-024'' [''state''] = JStr ''PATCH_READY''
     \<and> claim_at artifacts ''cases/DR-024'' [''pull_request'', ''status''] = JStr ''NOT_RUN''
     \<and> claim_at artifacts ''evidence/DR-024'' [''recovery_claimed''] = JBool False
     \<and> claim_at artifacts ''containment/DR-025'' [''state''] = JStr ''CONTAINED''
     \<and> claim_at artifacts ''containment/DR-025'' [''candidate'', ''policy_outcome''] = JStr ''REJECTED''
     \<and> claim_at artifacts ''containment/DR-025'' [''effects'', ''downstream_command_must_run''] = JBool False"

lemma claims_honest:
  assumes "verify_claims fs manifest artifacts = Inr ()"
  shows "told_honestly artifacts"
proof -
  note parts = verify_claims_parts [OF assms]
  show ?thesis
    unfolding told_honestly_def
    using candidate_claims_Inr [OF parts(1)] candidate_claims_Inr [OF parts(2)] build_claims_Inr [OF parts(3)]
      build_claims_Inr [OF parts(4)] case_claims_Inr [OF parts(5)] evidence_claims_Inr [OF parts(6)]
      containment_claims_Inr [OF parts(7)]
    by simp
qed

text \<open>The package of an accepted replay.\<close>

definition sealed_package ::
  "'w replay_files \<Rightarrow> 'w \<Rightarrow> string \<Rightarrow> json list \<Rightarrow> string list \<Rightarrow> replay_artifacts \<Rightarrow> bool" where
  "sealed_package fs w root_dir entries discovered artifacts \<longleftrightarrow>
     distinct (map fst artifacts) \<and> set (map fst artifacts) = set discovered
     \<and> list_all2 (sealed_artifact fs root_dir w) entries artifacts
     \<and> list_all (\<lambda>(_, a). list_all (\<lambda>v. prefix reference_prefix v \<longrightarrow>
          remove_prefix reference_prefix v \<in> set discovered) (all_strings (JDict a))) artifacts"

lemma accepted_package:
  assumes "files_only_read fs" "replay_main fs path w = (Inr 0, w')"
  obtains resolved manifest entries discovered artifacts where "w' = w"
    "rp_resolve fs path w = (Inr resolved, w)" "holds_object fs w resolved manifest"
    "jget manifest ''files'' = JList entries" "rp_json_files fs (parent_dir resolved) w = (Inr discovered, w)"
    "sealed_package fs w (parent_dir resolved) entries discovered artifacts" "told_honestly artifacts"
proof -
  obtain manifest artifacts where run: "verify_manifest fs path w = (Inr (manifest, artifacts), w')"
      "verify_claims fs manifest artifacts = Inr ()"
    by (rule replay_main_accepts [OF assms(2)])
  obtain resolved entries paths discovered where found: "w' = w" "rp_resolve fs path w = (Inr resolved, w)"
      "holds_object fs w resolved manifest" "manifest_entries manifest = Inr (entries, paths)"
      "rp_json_files fs (parent_dir resolved) w = (Inr discovered, w)" "set paths = set discovered"
      "list_all2 (sealed_artifact fs (parent_dir resolved) w) entries artifacts"
      "check_references artifacts = Inr ()"
    by (rule verify_manifest_run [OF assms(1) run(1)])
  note listed = manifest_entries_paths [OF found(4)]
  have paths: "map fst artifacts = paths"
    by (rule sealed_paths [OF found(7) listed(4)])
  have closed: "remove_prefix reference_prefix v \<in> set discovered"
    if "(p, a) \<in> set artifacts" "v \<in> set (all_strings (JDict a))" "prefix reference_prefix v" for p a v
    using references_closed [OF found(8) that] paths found(6) by (metis list.set_map)
  have "sealed_package fs w (parent_dir resolved) entries discovered artifacts"
    unfolding sealed_package_def paths list_all_iff using found(6,7) listed(3) closed by auto
  with found listed(1) claims_honest [OF run(2)] show thesis
    by (intro that)
qed

end
