(* ===== verification/Replay_Examples.thy ===== *)
theory Replay_Examples
  imports Replay_Safety
begin

text \<open>
  A small package in memory that the verifier accepts, and one that lacks an artifact. A file's content is one
  letter, which the parser's table expands.
\<close>

definition recorded :: "jdict \<Rightarrow> jdict" where
  "recorded d = (''artifact_type'', JStr ''example'') # (''provenance'', JDict
     [(''status'', JStr ''RECORDED_REPLAY''), (''integrations'', JDict [(''github'', JStr ''NOT_RUN'')])]) # d"

definition reconciliation_json :: "rat \<Rightarrow> string \<Rightarrow> jdict" where
  "reconciliation_json variance decision = recorded
     [(''metrics'', JDict [(''total_variance_pct'', JFloat (dbl variance)), (''primary_key_overlap_pct'', JInt 100)]),
      (''policy'', JDict [(''outcome'', JStr decision)])]"

definition build_json :: jdict where
  "build_json = recorded [(''result'', JDict [(''status'', JStr ''PASSED''), (''tests_passed'', JInt 8),
     (''tests_total'', JInt 8), (''tests_failed'', JInt 0)])]"

definition package_files :: "(string \<times> string \<times> jdict) list" where
  "package_files =
     [(''artifacts/cases/DR-024.json'', ''a'', recorded
        [(''state'', JStr ''PATCH_READY''), (''incident'', JDict [(''local_status'', JStr ''ACTIVE'')]),
         (''pull_request'', JDict [(''status'', JStr ''NOT_RUN'')]),
         (''deployment'', JDict [(''build'', JStr ''NOT_RUN'')]),
         (''evidence_ref'', JStr ''artifact://replay/artifacts/evidence/DR-024.json'')]),
      (''artifacts/containment/DR-025.json'', ''b'', recorded
        [(''state'', JStr ''CONTAINED''),
         (''candidate'', JDict
           [(''source_field'', JStr ''settlement_amount''), (''policy_outcome'', JStr ''REJECTED''),
            (''dbt'', JDict [(''status'', JStr ''PASSED''), (''tests_passed'', JInt 8)]),
            (''reconciliation'', JDict
              [(''total_variance_pct'', JFloat (dbl (- 3 / 2))), (''primary_key_overlap_pct'', JInt 100)])]),
         (''effects'', JDict
           [(''guard_contract_exit_code'', JInt 75), (''downstream_command_must_run'', JBool False),
            (''github_draft_pr_status'', JStr ''NOT_RUN'')])]),
      (''artifacts/context-bundle.json'', ''c'', recorded
        [(''lineage'', JDict [(''current_within_recording'', JBool True)])]),
      (''artifacts/dbt/gross_amount.json'', ''d'', build_json),
      (''artifacts/dbt/net_amount.json'', ''e'', build_json),
      (''artifacts/evidence/DR-024.json'', ''f'', recorded
        [(''recovery_claimed'', JBool False),
         (''external_operations'', JDict [(''github'', JStr ''NOT_RUN'')])]),
      (''artifacts/reconciliation/gross_amount.json'', ''g'', reconciliation_json (34 / 10) ''REJECTED''),
      (''artifacts/reconciliation/net_amount.json'', ''h'', reconciliation_json 0 ''SELECTED'')]"

definition manifest_entry :: "string \<times> string \<times> jdict \<Rightarrow> json" where
  "manifest_entry = (\<lambda>(path, content, _). JDict
        [(''path'', JStr path), (''artifact_type'', JStr ''example''), (''bytes'', JInt (int (length content))),
         (''sha256'', JStr (sha256_hex content))])"

definition manifest_json :: "(string \<times> string \<times> jdict) list \<Rightarrow> jdict" where
  "manifest_json files =
     [(''manifest_version'', JInt 1), (''hash_algorithm'', JStr ''sha256''),
      (''provenance'', JDict
        [(''status'', JStr ''RECORDED_REPLAY''), (''integrations'', JDict [(''github'', JStr ''NOT_RUN'')])]),
      (''files'', JList (map manifest_entry files)),
      (''expected_claims'', JDict
        [(''gross_total_variance_pct'', JFloat (dbl (34 / 10))), (''net_total_variance_pct'', JInt 0),
         (''containment_total_variance_pct'', JFloat (dbl (- 3 / 2))), (''containment_dbt_tests'', JInt 8),
         (''github_replay_status'', JStr ''NOT_RUN''), (''guard_exit_code'', JInt 75)])]"

definition package_content :: "(string \<times> string \<times> jdict) list \<Rightarrow> string \<Rightarrow> string option" where
  "package_content files path =
     (if path = ''/demo/manifest.json'' then Some ''m''
      else map_option fst (map_of (map (\<lambda>(p, c). (''/demo/'' @ p, c)) files) path))"

definition memory_files :: "(string \<times> string \<times> jdict) list \<Rightarrow> unit replay_files" where
  "memory_files files =
     \<lparr>rp_resolve = (\<lambda>p. return_p (absolute_path (path_parts p))),
      rp_is_file = (\<lambda>p. return_p (package_content files p \<noteq> None)),
      rp_bytes = (\<lambda>p. case package_content files p of
        Some c \<Rightarrow> return_p c | None \<Rightarrow> raise_p (OSErr ''FileNotFoundError'' p)),
      rp_read_text = (\<lambda>p. case package_content files p of
        Some c \<Rightarrow> return_p c | None \<Rightarrow> raise_p (OSErr ''FileNotFoundError'' p)),
      rp_json_files = (\<lambda>_. return_p (map fst files)),
      rp_loads = (\<lambda>c. if c = ''m'' then Some (JDict (manifest_json files))
        else map_option JDict (map_of (map snd files) c)),
      rp_loads_error = (\<lambda>_. ''Expecting value''),
      rp_str = (\<lambda>_. ''value'')\<rparr>"

lemma memory_files_only_read: "files_only_read (memory_files files)"
  by (auto simp: files_only_read_def leaves_world_def memory_files_def return_p_def raise_p_def split: option.split)

text \<open>
  What a file needs so that its entry is accepted, whatever its digest is.
\<close>

definition fit_file :: "(string \<times> string \<times> jdict) list \<Rightarrow> string \<times> string \<times> jdict \<Rightarrow> bool" where
  "fit_file files = (\<lambda>(p, c, d).
     \<not> is_absolute p \<and> ''..'' \<notin> set (path_parts p)
     \<and> absolute_path (path_parts (artifact_path ''/demo'' p)) = ''/demo/'' @ p \<and> inside ''/demo'' (''/demo/'' @ p)
     \<and> package_content files (''/demo/'' @ p) = Some c \<and> c \<noteq> ''m'' \<and> map_of (map snd files) c = Some d
     \<and> jget d ''artifact_type'' = JStr ''example''
     \<and> (case jget d ''provenance'' of JDict e \<Rightarrow> jget e ''status'' = JStr ''RECORDED_REPLAY'' | _ \<Rightarrow> False))"

lemma fit_entry:
  assumes "fit_file files (p, c, d)"
  shows "verify_entry (memory_files files) ''/demo'' (manifest_entry (p, c, d)) () = (Inr (p, d), ())"
proof -
  have target: "target_path (memory_files files) ''/demo'' p () = (Inr (''/demo/'' @ p), ())"
    using assms
    by (simp add: fit_file_def target_path_def memory_files_def then_p_def bind_p_def require_def)
  have object: "read_object (memory_files files) (''/demo/'' @ p) () = (Inr d, ())"
    using assms by (simp add: fit_file_def read_object_def memory_files_def bind_p_def catch_p_def)
  have artifact: "check_artifact e p d = Inr ()"
    if "jget e ''artifact_type'' = JStr ''example''" for e
    using assms that
    by (auto simp: fit_file_def check_artifact_def require_def as_mapping_def recorded_status_def split: json.splits)
  have payload: "rp_bytes (memory_files files) (''/demo/'' @ p) () = (Inr c, ())"
    using assms by (simp add: fit_file_def memory_files_def)
  have "check_payload [(''path'', JStr p), (''artifact_type'', JStr ''example''), (''bytes'', JInt (int (length c))),
      (''sha256'', JStr (sha256_hex c))] p c = Inr ()"
    by (simp add: check_payload_def require_def jget_def text_value_def feq_refl)
  then show ?thesis
    using target object payload
    by (simp add: manifest_entry_def verify_entry_def as_mapping_def bind_p_def then_p_def artifact jget_def)
qed

lemma fit_entries:
  "list_all (fit_file files) items \<Longrightarrow>
   verify_entries (memory_files files) ''/demo'' (map manifest_entry items) ()
     = (Inr (map (\<lambda>(p, _, d). (p, d)) items), ())"
  by (induction items) (auto simp: bind_p_def fit_entry)

lemma manifest_paths_given:
  "entry_paths (map manifest_entry items) = map (\<lambda>x. JStr (fst x)) items"
  by (induction items) (auto simp: manifest_entry_def entry_paths_def List.map_filter_simps jget_def)

lemma paths_of_strings: "List.map_filter text_value (map (\<lambda>x. JStr (fst x)) items) = map fst items"
  by (induction items) (auto simp: List.map_filter_simps text_value_def)

lemma memory_manifest_verified:
  assumes "list_all (fit_file files) files" "files \<noteq> []" "sorted (map fst files)" "distinct (map fst files)"
    "check_references (map (\<lambda>(p, _, d). (p, d)) files) = Inr ()"
  shows "verify_manifest (memory_files files) ''/demo/manifest.json'' ()
    = (Inr (manifest_json files, map (\<lambda>(p, _, d). (p, d)) files), ())"
proof -
  have parts: "path_parts ''/demo/manifest.json'' = [''demo'', ''manifest.json'']"
    by code_simp
  have resolved: "rp_resolve (memory_files files) ''/demo/manifest.json'' () = (Inr ''/demo/manifest.json'', ())"
    by (simp add: memory_files_def parts absolute_path_def)
  have root_dir: "parent_dir ''/demo/manifest.json'' = ''/demo''"
    by (simp add: parent_dir_def parts absolute_path_def)
  have manifest: "read_object (memory_files files) ''/demo/manifest.json'' () = (Inr (manifest_json files), ())"
    by (simp add: read_object_def memory_files_def package_content_def bind_p_def catch_p_def)
  have header: "manifest_header (manifest_json files) = Inr ()"
    by (simp add: manifest_header_def manifest_json_def require_def as_mapping_def require_not_run_def
      only_not_run_def jget_def feq_refl)
  have entries: "manifest_entries (manifest_json files) = Inr (map manifest_entry files, map fst files)"
    using assms(2-4)
    by (simp add: manifest_entries_def manifest_json_def jget_def Let_def manifest_paths_given paths_of_strings
      require_def text_value_def list_all_iff split_def)
  have discovered: "rp_json_files (memory_files files) x () = (Inr (map fst files), ())" for x
    by (simp add: memory_files_def)
  show ?thesis
    using fit_entries [OF assms(1)] assms(5)
    by (simp add: verify_manifest_def Let_def bind_p_def then_p_def resolved root_dir manifest header entries
      discovered require_def)
qed

lemma package_fits: "list_all (fit_file package_files) package_files"
  by code_simp

lemma package_shape: "sorted (map fst package_files)" "distinct (map fst package_files)"
  "check_references (map (\<lambda>(p, _, d). (p, d)) package_files) = Inr ()"
  by code_simp+

definition package_artifacts :: replay_artifacts where
  "package_artifacts = map (\<lambda>(p, _, d). (p, d)) package_files"

lemma manifest_claims: "expected_claims fs (manifest_json files) = Inr ()"
proof -
  have "section_at (manifest_json files) ''expected_claims'' ''manifest.expected_claims'' = Inr
        [(''gross_total_variance_pct'', JFloat (dbl (34 / 10))), (''net_total_variance_pct'', JInt 0),
         (''containment_total_variance_pct'', JFloat (dbl (- 3 / 2))), (''containment_dbt_tests'', JInt 8),
         (''github_replay_status'', JStr ''NOT_RUN''), (''guard_exit_code'', JInt 75)]"
    by (simp add: section_at_def manifest_json_def as_mapping_def)
  moreover have "values_close fs (JFloat (dbl (34 / 10))) (dbl (34 / 10)) l = Inr ()"
      "values_close fs (JInt 0) (Fin 0) l = Inr ()"
      "values_close fs (JFloat (dbl (- 3 / 2))) (dbl (- 3 / 2)) l = Inr ()" for l
    by code_simp+
  ultimately show ?thesis
    by (simp add: expected_claims_def jget_def require_value_def require_def feq_refl)
qed

lemma artifact_claims:
  "context_claims package_artifacts = Inr ()"
  "candidate_claims fs package_artifacts ''gross_amount'' ''gross'' ''Gross'' (dbl (34 / 10)) ''REJECTED'' ''rejected'' = Inr ()"
  "candidate_claims fs package_artifacts ''net_amount'' ''net'' ''Net'' (Fin 0) ''SELECTED'' ''selected'' = Inr ()"
  "build_claims package_artifacts ''gross_amount'' = Inr ()" "build_claims package_artifacts ''net_amount'' = Inr ()"
  "case_claims package_artifacts = Inr ()" "evidence_claims package_artifacts = Inr ()"
  "containment_claims fs package_artifacts = Inr ()"
  by code_simp+

lemma package_accepted: "replay_main (memory_files package_files) ''/demo/manifest.json'' () = (Inr 0, ())"
proof -
  have "verify_manifest (memory_files package_files) ''/demo/manifest.json'' ()
      = (Inr (manifest_json package_files, package_artifacts), ())"
    unfolding package_artifacts_def
    by (rule memory_manifest_verified [OF package_fits _ package_shape]) (simp add: package_files_def)
  moreover have "verify_claims (memory_files package_files) (manifest_json package_files) package_artifacts = Inr ()"
    unfolding verify_claims_def artifact_claims manifest_claims by simp
  ultimately show ?thesis
    by (simp add: replay_main_def bind_p_def then_p_def catch_p_def)
qed

section \<open>A package without its containment case\<close>

definition short_package :: "(string \<times> string \<times> jdict) list" where
  "short_package = filter (\<lambda>(p, _). p \<noteq> ''artifacts/containment/DR-025.json'') package_files"

definition short_artifacts :: replay_artifacts where
  "short_artifacts = map (\<lambda>(p, _, d). (p, d)) short_package"

lemma short_fits: "list_all (fit_file short_package) short_package" "short_package \<noteq> []"
  "sorted (map fst short_package)" "distinct (map fst short_package)"
  "check_references (map (\<lambda>(p, _, d). (p, d)) short_package) = Inr ()"
  by code_simp+

lemma short_claims:
  "context_claims short_artifacts = Inr ()"
  "candidate_claims fs short_artifacts ''gross_amount'' ''gross'' ''Gross'' (dbl (34 / 10)) ''REJECTED'' ''rejected'' = Inr ()"
  "candidate_claims fs short_artifacts ''net_amount'' ''net'' ''Net'' (Fin 0) ''SELECTED'' ''selected'' = Inr ()"
  "build_claims short_artifacts ''gross_amount'' = Inr ()" "build_claims short_artifacts ''net_amount'' = Inr ()"
  "case_claims short_artifacts = Inr ()" "evidence_claims short_artifacts = Inr ()"
  "containment_claims fs short_artifacts = Inl (KeyErr ''artifacts/containment/DR-025.json'')"
  by code_simp+

text \<open>
  The package is consistent but incomplete, and the verifier ends with a bare KeyError instead of reporting a
  failed verification.
\<close>

lemma incomplete_package_raises:
  "replay_main (memory_files short_package) ''/demo/manifest.json'' ()
     = (Inl (KeyErr ''artifacts/containment/DR-025.json''), ())"
proof -
  have "verify_manifest (memory_files short_package) ''/demo/manifest.json'' ()
      = (Inr (manifest_json short_package, short_artifacts), ())"
    unfolding short_artifacts_def by (rule memory_manifest_verified [OF short_fits])
  moreover have "verify_claims (memory_files short_package) (manifest_json short_package) short_artifacts
      = Inl (KeyErr ''artifacts/containment/DR-025.json'')"
    unfolding verify_claims_def short_claims by simp
  ultimately show ?thesis
    by (simp add: replay_main_def bind_p_def then_p_def catch_p_def is_replay_error_def)
qed

end
