(* ===== verification/Audit_Trail.thy ===== *)
theory Audit_Trail
  imports Workflow
begin

text \<open>
  What the workflow writes to the event store, whatever its adapters answer and whatever other
  processes do in between: the log stays well formed and append only, and every row it writes is
  truthful. The proofs are made once, in a locale for the clients of the store.
\<close>

section \<open>Truthful rows\<close>

text \<open>An assessment whose numbers the configured policy accepts, with current lineage.\<close>

definition passes :: "settings \<Rightarrow> candidate_assessment \<Rightarrow> bool" where
  "passes cfg a \<longleftrightarrow>
     acceptable (st_policy cfg) (ca_semantic_verdict a) (ca_reconciliation a) (ca_build a) True"

definition judged :: "settings \<Rightarrow> candidate_assessment \<Rightarrow> bool" where
  "judged cfg a \<longleftrightarrow>
     ca_policy_checks a = pd_checks (evaluate (st_policy cfg) (ca_semantic_verdict a)
                            (ca_reconciliation a) (ca_build a) True)
     \<and> ca_outcome a = (if passes cfg a then ELIGIBLE else REJECTED)"

definition sealed :: "patch_artifact \<Rightarrow> bool" where
  "sealed q \<longleftrightarrow>
     pa_sha256 q = sha256_hex (pa_content q)
     \<and> count_sub (revenue_default ''amount'') (pa_content q) = 0
     \<and> (\<exists>f. is_identifier f \<and> count_sub (revenue_default f) (pa_content q) = 1)"

definition live_mode :: "settings \<Rightarrow> bool" where
  "live_mode cfg \<longleftrightarrow> casefold (strip (st_execution_mode cfg)) = ''postgres''"

definition deployment_mode :: "settings \<Rightarrow> string" where
  "deployment_mode cfg = (if live_mode cfg then ''LIVE_RECOMPUTED'' else ''RECORDED_REPLAY_INPUT'')"

fun truthful :: "settings \<Rightarrow> event_type \<Rightarrow> case_state \<Rightarrow> payload \<Rightarrow> bool" where
  "truthful cfg SCHEMA_CHANGE_DETECTED s p =
     (s = DETECTED \<and> (\<exists>e u. p = P_Detection e u \<and> ev_entity_urn e \<in> set (allowed_asset_urns cfg)))"
| "truthful cfg INCIDENT_RAISED s p = (s = DETECTED \<and> (\<exists>i. p = P_Integration i))"
| "truthful cfg E_CONTEXT_GATHERED s p =
     (s = CONTEXT_GATHERED \<and> (\<exists>cx. p = P_Context cx \<and> context_complete cx))"
| "truthful cfg E_CANDIDATES_READY s p =
     (s = CANDIDATES_READY \<and> (\<exists>ps i. p = P_Candidates ps i \<and> ps \<noteq> []
        \<and> (st_replay_mode cfg \<or> ir_status i = SUCCEEDED)))"
| "truthful cfg VALIDATION_STARTED s p = (s = VALIDATING)"
| "truthful cfg CANDIDATE_ASSESSED s p = (s = VALIDATING \<and> (\<exists>a. p = P_Assessment a \<and> judged cfg a))"
| "truthful cfg E_PATCH_READY s p =
     (s = PATCH_READY \<and> (\<exists>a q. p = P_Patch a q \<and> ca_outcome a = SELECTED \<and> passes cfg a \<and> sealed q))"
| "truthful cfg EVIDENCE_WRITTEN s p = (s = PATCH_READY \<and> (\<exists>i. p = P_Integration i))"
| "truthful cfg PR_ATTEMPTED s p =
     (s = PATCH_READY \<and> (\<exists>pr. p = P_PullRequest pr \<and> ir_status (pr_integration pr) \<noteq> SUCCEEDED))"
| "truthful cfg PR_OPENED s p =
     (s = PR_OPEN \<and> (\<exists>pr. p = P_PullRequest pr \<and> ir_status (pr_integration pr) = SUCCEEDED))"
| "truthful cfg DEPLOYMENT_RECORDED s p =
     (s = DEPLOYED \<and> (\<exists>sha. p = P_Deployment sha (deployment_mode cfg)
        \<and> (live_mode cfg \<longrightarrow> full_commit sha)))"
| "truthful cfg E_POST_DEPLOY_VERIFIED s p =
     (s = POST_DEPLOY_VERIFIED \<and> (\<exists>sha v m b l. p = P_PostDeploy sha (deployment_mode cfg) m b
          (pd_checks (evaluate (st_policy cfg) v m b l))
        \<and> acceptable (st_policy cfg) v m b l \<and> (live_mode cfg \<longrightarrow> full_commit sha)))"
| "truthful cfg INCIDENT_RESOLVED s p = (s = RESOLVED \<and> (\<exists>i. p = P_Integration i))"
| "truthful cfg E_CONTAINED s p =
     (s = CONTAINED \<and> (\<exists>rs w. p = P_Contained rs w 75 \<and> rs \<noteq> [] \<and> length rs \<le> 20))"
| "truthful cfg E_FAILED s p =
     (s = FAILED \<and> ((\<exists>t m. p = P_Error t m)
        \<or> (\<exists>m i. p = P_FailedIntegration m i \<and> ir_status i \<noteq> SUCCEEDED)))"
| "truthful cfg SYSTEM_RESET s p = False"

definition written :: "settings \<Rightarrow> row \<Rightarrow> bool" where
  "written cfg r \<longleftrightarrow>
     (case rw_state r of Some s \<Rightarrow> truthful cfg (rw_event_type r) s (rw_payload r)
      | None \<Rightarrow> rw_event_type r = SYSTEM_RESET)"

text \<open>What a snapshot of truthful rows shows: a candidate that is eligible or selected passes.\<close>

definition snapshot_truthful :: "settings \<Rightarrow> case_snapshot \<Rightarrow> bool" where
  "snapshot_truthful cfg snap \<longleftrightarrow>
     (\<forall>a \<in> set (cs_candidates snap). ca_outcome a \<in> {ELIGIBLE, SELECTED} \<longrightarrow> passes cfg a)"

section \<open>Clients of the event store\<close>

text \<open>
  \<open>J\<close> is a property of the table, kept by the other processes, by a reset and by appending; with
  \<open>trust\<close> only truthful rows have to be appended for that, and then snapshots are truthful.
\<close>

locale store_client =
  fixes cfg :: settings
    and sv :: "'w services"
    and J :: "table \<Rightarrow> bool"
    and trust :: bool
  assumes others: "J rows \<Longrightarrow> J (run_ops (sv_others sv n) rows)"
    and appends: "J rows \<Longrightarrow> (trust \<Longrightarrow> truthful cfg e s p)
      \<Longrightarrow> append_event u now c e s p d i rows = (r, rows') \<Longrightarrow> J rows'"
    and resets: "J rows \<Longrightarrow> reset_store u now reason rows = (r', rows') \<Longrightarrow> J rows'"
    and views: "J rows \<Longrightarrow> trust \<Longrightarrow> get_case rows c = Inr snap \<Longrightarrow> snapshot_truthful cfg snap"
begin

abbreviation I :: "'w wf_state \<Rightarrow> bool" where
  "I st \<equiv> J (wf_rows st)"

lemma keeps_world [keeps_intros]: "keeps I (world_p m)"
  by (simp add: keeps_def world_p_def split: prod.splits)

lemma keeps_store:
  assumes "\<And>u now rows r rows'. J rows \<Longrightarrow> f u now rows = (r, rows') \<Longrightarrow> J rows'"
  shows "keeps I (store_p sv f)"
  unfolding keeps_def store_p_def Let_def
  using assms others by (auto split: prod.splits) metis

lemma keeps_read [keeps_intros]: "keeps I (read_p sv f)"
  unfolding read_p_def by (rule keeps_store) auto

lemma keeps_append: "(trust \<Longrightarrow> truthful cfg e s p) \<Longrightarrow> keeps I (append_p sv c e s p d i)"
  unfolding append_p_def by (intro keeps_intros keeps_store) (rule appends)

lemma yields_case: "yields I (case_p sv c) (\<lambda>snap. trust \<longrightarrow> snapshot_truthful cfg snap)"
  unfolding yields_def read_p_def store_p_def Let_def
  using others by (auto split: prod.splits) (metis others views)

lemma keeps_owned [keeps_intros]: "keeps I (owned_p c)"
  unfolding owned_p_def by (intro keeps_intros)

lemma keeps_update_sets: "(\<And>st. wf_rows (f st) = wf_rows st) \<Longrightarrow> keeps I (update_p f)"
  by (simp add: keeps_def)

lemma contain_keeps [keeps_intros]: "keeps I (contain sv c urn reasons)"
  unfolding contain_def Let_def by (intro keeps_intros keeps_append) auto

lemma ready_keeps [keeps_intros]: "keeps I (connected_integration_ready cfg sv c i label)"
  unfolding connected_integration_ready_def by (intro keeps_intros keeps_append) auto

lemma incident_step_keeps [keeps_intros]: "keeps I (incident_step cfg sv c event snap)"
  unfolding incident_step_def by (intro keeps_intros keeps_append) auto

lemma fetch_context_keeps [keeps_intros]: "keeps I (fetch_context cfg sv urn)"
  unfolding fetch_context_def by (intro keeps_intros)

lemma context_step_yields:
  "yields I (context_step cfg sv c event snap) (\<lambda>found. \<forall>cx. found = Some cx \<longrightarrow> context_complete cx)"
  unfolding context_step_def
  by (intro yields_intros yields_bind_keeps yields_then keeps_intros keeps_append) auto

lemma ready_yields:
  "yields I (connected_integration_ready cfg sv c i label)
     (\<lambda>ready. ready \<longrightarrow> st_replay_mode cfg \<or> ir_status i = SUCCEEDED)"
  unfolding connected_integration_ready_def
  by (intro yields_intros yields_then keeps_append) auto

lemma candidates_step_keeps [keeps_intros]: "keeps I (candidates_step cfg sv c event cx snap)"
proof -
  have "keeps I (generate_candidates cfg sv c event cx)"
    unfolding generate_candidates_def
    by (rule keeps_bind, intro keeps_intros, rule keeps_bind_yields [OF ready_yields],
        intro keeps_intros keeps_append) auto
  then show ?thesis
    unfolding candidates_step_def by (intro keeps_intros)
qed

lemma validation_step_keeps [keeps_intros]: "keeps I (validation_step cfg sv c ps snap)"
  unfolding validation_step_def by (intro keeps_intros keeps_append) auto

text \<open>The assessments a run holds: those that can be selected pass the policy.\<close>

definition sound :: "assessments \<Rightarrow> bool" where
  "sound m \<longleftrightarrow>
     (trust \<longrightarrow> (\<forall>i a. m i = Some a \<longrightarrow> ca_outcome a \<in> {ELIGIBLE, SELECTED} \<longrightarrow> passes cfg a))"

lemma assess_judged:
  assumes "context_complete cx" "assess cfg cx p x = (a, d)"
  shows "judged cfg a"
  using assms
  by (auto simp: assess_def Let_def context_complete_def judged_def passes_def outcome_def evaluate_accepted)

lemma safe_execute_keeps [keeps_intros]: "keeps I (safe_execute sv c p cx)"
  unfolding safe_execute_def by (intro keeps_intros)

lemma assess_all_yields:
  assumes "context_complete cx"
  shows "sound m \<Longrightarrow> yields I (assess_all cfg sv c cx ps m reasons) (\<lambda>(m', _). sound m')"
proof (induction ps arbitrary: m reasons)
  case Nil
  show ?case unfolding assess_all.simps by (rule yields_return) (simp add: Nil)
next
  case (Cons p ps)
  show ?case
  proof (cases "m (cp_id p)")
    case (Some a)
    with Cons show ?thesis by simp
  next
    case None
    have "yields I (let (assessment, decision) = assess cfg cx p x
        in then_p (log_p sv c CANDIDATE_ASSESSED VALIDATING (P_Assessment assessment))
             (assess_all cfg sv c cx ps (m(ca_id assessment \<mapsto> assessment))
                (reasons @ map (rejection p) (pd_reasons decision)))) (\<lambda>(m', _). sound m')" for x
    proof -
      obtain a d where ad: "assess cfg cx p x = (a, d)" by fastforce
      have judged: "judged cfg a" by (rule assess_judged [OF assms ad])
      with Cons.prems have "sound (m(ca_id a \<mapsto> a))"
        by (auto simp: sound_def judged_def split: if_splits)
      then show ?thesis
        unfolding ad Let_def case_prod_conv
        by (intro yields_then keeps_append Cons.IH) (simp add: judged)
    qed
    with None show ?thesis
      by (simp add: yields_bind_keeps keeps_intros)
  qed
qed

lemma sound_by_id: "trust \<longrightarrow> snapshot_truthful cfg snap \<Longrightarrow> sound (assessments_by_id (cs_candidates snap))"
proof -
  assume snap: "trust \<longrightarrow> snapshot_truthful cfg snap"
  have "(foldl (\<lambda>m a. m(ca_id a \<mapsto> a)) m0 as) i = Some a \<Longrightarrow> a \<in> set as \<or> m0 i = Some a" for m0 as i a
    by (induction as arbitrary: m0) (fastforce split: if_splits)+
  from this [of Map.empty "cs_candidates snap"] snap show ?thesis
    unfolding sound_def assessments_by_id_def snapshot_truthful_def by fastforce
qed

lemma in_order_sound:
  assumes "in_order m ps = Inr as" "sound m" "trust" "a \<in> set (eligible as)"
  shows "passes cfg a"
proof -
  from assms(1) have "list_all2 (\<lambda>p a. m (cp_id p) = Some a) ps as"
    unfolding in_order_def map_res_Inr_iff
    by (rule list_all2_mono) (auto split: option.splits)
  then have "\<forall>a \<in> set as. \<exists>i. m i = Some a"
    by (induction rule: list_all2_induct) auto
  moreover from assms(2,3) have "\<forall>i a. m i = Some a \<longrightarrow> ca_outcome a \<in> {ELIGIBLE, SELECTED} \<longrightarrow> passes cfg a"
    unfolding sound_def by blast
  ultimately show ?thesis using assms(4) unfolding eligible_def by auto
qed

lemma best_in: "best a as \<in> set (a # as)"
proof (induction as arbitrary: a)
  case (Cons b bs)
  then show ?case using Cons [of "if ranks_before b a then b else a"] by (auto split: if_splits)
qed simp

lemma select_keeps:
  assumes "trust \<Longrightarrow> \<forall>a \<in> set (first # rest). passes cfg a"
  shows "keeps I (select cfg sv c ps first rest)"
proof -
  let ?a = "(best first rest)\<lparr>ca_outcome := SELECTED\<rparr>"
  have "truthful cfg E_PATCH_READY PATCH_READY (P_Patch ?a
      \<lparr>pa_path = st_github_patch_path cfg, pa_content = content, pa_sha256 = sha256_hex content\<rparr>)"
    if "trust" "render_dbt_patch p sql = Inr content" for p sql content
    using assms [OF that(1)] best_in [of first rest] render_dbt_patch_counts [OF that(2)]
      render_dbt_patch_identifier [OF that(2)]
    by (auto simp: passes_def sealed_def)
  note patched = this
  show ?thesis
    unfolding select_def Let_def
    by (rule keeps_case_option, intro keeps_intros, rule keeps_bind, intro keeps_intros,
        rule keeps_bind_result, intro keeps_intros keeps_append) (rule patched)
qed

lemma patch_step_keeps:
  "(trust \<Longrightarrow> \<forall>a \<in> set (first # rest). passes cfg a) \<Longrightarrow> keeps I (patch_step cfg sv c ps first rest snap)"
  unfolding patch_step_def
  by (cases "cs_selected_candidate snap"; cases "cs_patch snap") (simp_all add: select_keeps keeps_return del: return_p_run)

lemma writeback_step_keeps [keeps_intros]: "keeps I (writeback_step cfg sv c event selected patch snap)"
  unfolding writeback_step_def by (intro keeps_intros keeps_append) auto

lemma pull_request_step_keeps [keeps_intros]: "keeps I (pull_request_step sv c patch snap)"
  unfolding pull_request_step_def Let_def by (intro keeps_intros keeps_append) auto

lemma finish_keeps: "sound m \<Longrightarrow> keeps I (finish cfg sv c event ps m reasons)"
  unfolding finish_def case_prod_beta
  by (rule keeps_bind_result, rule keeps_case_list, intro keeps_intros, rule keeps_bind,
      intro keeps_intros, rule keeps_bind, rule patch_step_keeps)
    (metis in_order_sound, intro keeps_intros)

lemma validate_proposals_keeps:
  assumes "context_complete cx"
  shows "keeps I (validate_proposals cfg sv c event cx ps)"
proof -
  have judge: "keeps I (bind_p (case_p sv c) (\<lambda>snap.
      bind_p (assess_all cfg sv c cx ps (assessments_by_id (cs_candidates snap)) [])
        (\<lambda>(by_id, reasons). finish cfg sv c event ps by_id reasons)))"
    by (rule keeps_bind_yields [OF yields_case],
        rule keeps_bind_yields [OF assess_all_yields [OF assms sound_by_id]])
      (auto intro: finish_keeps)
  show ?thesis
    unfolding validate_proposals_def
    by (rule keeps_if, rule keeps_raise, rule keeps_bind [OF keeps_read], rule keeps_then,
        rule validation_step_keeps, rule judge)
qed

lemma gather_and_validate_keeps [keeps_intros]: "keeps I (gather_and_validate cfg sv c event)"
  unfolding gather_and_validate_def
  by (rule keeps_bind, intro keeps_intros, rule keeps_bind_yields [OF context_step_yields],
      intro keeps_intros validate_proposals_keeps) simp

lemma advance_keeps [keeps_intros]: "keeps I (advance cfg sv c event)"
  unfolding advance_def by (intro keeps_intros)

lemma settle_keeps [keeps_intros]: "keeps I (settle c b)"
  unfolding settle_def by (rule keeps_update_sets) simp

lemma record_failure_keeps [keeps_intros]: "keeps I (record_failure sv c e)"
  unfolding record_failure_def by (intro keeps_intros keeps_append) auto

lemma advance_safely_keeps [keeps_intros]: "keeps I (advance_safely cfg sv c event)"
  unfolding advance_safely_def by (intro keeps_intros keeps_update_sets) simp

section \<open>Ingest and reset\<close>

lemma find_event_case_keeps [keeps_intros]: "keeps I (find_event_case sv event k c)"
  unfolding find_event_case_def by (intro keeps_intros)

lemma keeps_case_exn:
  "(\<And>x. keeps I (f x)) \<Longrightarrow> keeps I g \<Longrightarrow> keeps I (case e of CaseNotFoundError x \<Rightarrow> f x | _ \<Rightarrow> g)"
  "(\<And>x. keeps I (f x)) \<Longrightarrow> keeps I g \<Longrightarrow> keeps I (case e of DuplicateEventError x \<Rightarrow> f x | _ \<Rightarrow> g)"
  by (cases e; simp)+

lemma deduplicated_response_keeps [keeps_intros]: "keeps I (deduplicated_response sv event k c)"
  unfolding deduplicated_response_def by (intro keeps_intros keeps_case_exn)

lemma respond_keeps [keeps_intros]: "keeps I (respond sv c b)"
  unfolding respond_def by (intro keeps_intros)

lemma existing_case_keeps [keeps_intros]: "keeps I (existing_case sv k)"
  unfolding existing_case_def by (intro keeps_intros)

lemma wider_id_keeps [keeps_intros]: "keeps I (wider_id sv p d ws)"
  by (induction ws) (auto simp: Let_def intro!: keeps_intros simp del: return_p_run raise_p_run)

lemma available_case_id_keeps [keeps_intros]: "keeps I (available_case_id sv k)"
  unfolding available_case_id_def Let_def by (intro keeps_intros)

lemma record_detection_keeps:
  "ev_entity_urn event \<in> set (allowed_asset_urns cfg) \<Longrightarrow> keeps I (record_detection sv event k c)"
  unfolding record_detection_def
  by (intro keeps_intros keeps_append keeps_case_exn) (simp add: detection_payload_def)

lemma claim_case_keeps:
  assumes "ev_entity_urn event \<in> set (allowed_asset_urns cfg)"
  shows "keeps I (claim_case n sv event k c)"
proof (induction n arbitrary: c)
  case 0
  show ?case
    by (subst claim_case.simps)
      (auto intro!: keeps_intros record_detection_keeps assms split: exn.splits simp del: return_p_run raise_p_run)
next
  case (Suc n)
  then show ?case
    by (subst claim_case.simps)
      (auto intro!: keeps_intros record_detection_keeps assms split: exn.splits simp del: return_p_run raise_p_run)
qed

lemma ingest_keeps: "keeps I (ingest cfg sv event)"
proof (cases "ev_entity_urn event \<in> set (allowed_asset_urns cfg)")
  case True
  have new: "keeps I (ingest_new cfg sv event k)" for k
    unfolding ingest_new_def by (intro keeps_intros claim_case_keeps [OF True])
  have "keeps I (ingest_locked cfg sv event k)" for k
    unfolding ingest_locked_def by (intro keeps_intros new)
  with True show ?thesis
    unfolding ingest_def Let_def by (auto intro!: keeps_intros simp del: return_p_run raise_p_run)
qed (simp add: ingest_def keeps_raise del: raise_p_run)

lemma reset_keeps: "keeps I (reset_workflow sv reason)"
  unfolding reset_workflow_def by (rule keeps_store) (rule resets)

section \<open>Verification of a deployment\<close>

lemma git_keeps [keeps_intros]: "keeps I (git sv t args)"
  unfolding git_def case_prod_beta by (intro keeps_intros)

lemma rev_parse_keeps [keeps_intros]: "keeps I (rev_parse sv r)"
  unfolding rev_parse_def by (intro keeps_intros)

lemma check_origin_keeps [keeps_intros]: "keeps I (check_origin cfg sv)"
  unfolding check_origin_def by (intro keeps_intros)

lemma trusted_commit_yields: "yields I (trusted_commit cfg sv commit) full_commit"
  unfolding trusted_commit_def
  by (intro yields_bind_keeps yields_intros keeps_intros) simp

lemma check_merged_patch_keeps [keeps_intros]: "keeps I (check_merged_patch sv q commit)"
  unfolding check_merged_patch_def by (intro keeps_intros)

lemma try_git_keeps [keeps_intros]: "keeps I (try_git sv args)"
proof -
  have "keeps I (case e of OSErr _ _ \<Rightarrow> return_p () | SubprocessError _ _ \<Rightarrow> return_p () | _ \<Rightarrow> raise_p e)" for e :: exn
    by (cases e) (simp_all add: keeps_return keeps_raise del: return_p_run raise_p_run)
  then show ?thesis unfolding try_git_def by (intro keeps_intros)
qed

lemma cleanup_worktree_keeps [keeps_intros]: "keeps I (cleanup_worktree sv checkout)"
  unfolding cleanup_worktree_def by (intro keeps_intros)

lemma verified_execution_keeps [keeps_intros]: "keeps I (verified_execution cfg sv checkout c p cx)"
  unfolding verified_execution_def by (intro keeps_intros)

lemma in_worktree_keeps [keeps_intros]: "keeps I (in_worktree cfg sv commit c p cx)"
  unfolding in_worktree_def Let_def by (intro keeps_intros)

lemma live_evidence_yields:
  "yields I (live_post_deploy_evidence cfg sv snap request) (\<lambda>(_, _, commit). full_commit commit)"
proof (cases "cs_selected_candidate snap"; cases "cs_patch snap")
  fix selected patch
  assume found: "cs_selected_candidate snap = Some selected" "cs_patch snap = Some patch"
  show ?thesis
    unfolding live_post_deploy_evidence_def found option.case
    by (rule yields_bind_keeps, intro keeps_intros, rule yields_bind [OF trusted_commit_yields],
        intro yields_bind_keeps yields_intros keeps_intros) simp
qed (simp_all add: live_post_deploy_evidence_def yields_raise del: raise_p_run)

lemma deployment_evidence_yields:
  "yields I (deployment_evidence_p cfg sv snap request)
     (\<lambda>ev. de_mode ev = deployment_mode cfg \<and> (live_mode cfg \<longrightarrow> full_commit (de_commit ev)))"
  unfolding deployment_evidence_p_def live_mode_def [symmetric]
  by (rule yields_if, rule yields_if, rule yields_raise, rule yields_bind [OF live_evidence_yields],
      (auto simp: deployment_mode_def intro!: yields_intros simp del: return_p_run raise_p_run))

lemma resolve_case_keeps [keeps_intros]: "keeps I (resolve_case sv c snap)"
  unfolding resolve_case_def by (intro keeps_intros keeps_append) auto

lemma close_case_keeps:
  assumes "de_mode ev = deployment_mode cfg" "live_mode cfg \<longrightarrow> full_commit (de_commit ev)"
    and "pd_accepted (evaluate (st_policy cfg) (de_verdict ev) (de_reconciliation ev) (de_build ev) (de_lineage ev))"
  shows "keeps I (close_case sv c snap ev
    (evaluate (st_policy cfg) (de_verdict ev) (de_reconciliation ev) (de_build ev) (de_lineage ev)))"
  unfolding close_case_def
  by (intro keeps_intros keeps_append) (use assms in \<open>auto simp: evaluate_accepted\<close>)

lemma verify_keeps: "keeps I (verify_deployment cfg sv c request)"
  unfolding verify_deployment_def Let_def
  by (rule keeps_bind, intro keeps_intros, intro keeps_if keeps_raise,
      rule keeps_bind_yields [OF deployment_evidence_yields],
      intro keeps_intros keeps_append close_case_keeps) auto

end

section \<open>The log under any interference\<close>

lemma run_ops_ok: "store_ok rows \<Longrightarrow> store_ok (run_ops ops rows)"
proof (induction ops arbitrary: rows)
  case (Cons op ops)
  have "store_ok (snd (run_op op rows))"
    using events.perform_good [OF Cons.prems] by (metis prod.collapse)
  with Cons.IH show ?case by (simp add: run_ops_def)
qed (simp add: run_ops_def)

lemma run_ops_extend: "prefix rows (run_ops ops rows)"
proof (induction ops arbitrary: rows)
  case (Cons op ops)
  have "prefix rows (snd (run_op op rows))"
    using events.perform_extends by (metis prod.collapse)
  with Cons.IH [of "snd (run_op op rows)"] show ?case
    unfolding run_ops_def by (simp add: prefix_order.trans)
qed (simp add: run_ops_def)

interpretation log: store_client cfg sv store_ok False
  for cfg :: settings and sv :: "'w services"
  by unfold_locales (auto intro: run_ops_ok append_event_ok reset_store_ok)

interpretation growing: store_client cfg sv "prefix rows" False
  for cfg :: settings and sv :: "'w services" and rows :: table
proof unfold_locales
  show "prefix rows (run_ops (sv_others sv n) t)" if "prefix rows t" for t n
    using that run_ops_extend prefix_order.trans by blast
  show "prefix rows t'" if "prefix rows t" "append_event u now c e s p d i t = (r, t')"
    for t e s p u now c d i r t'
    using that(2,1) by (cases rule: append_event_cases) (auto simp: prefix_prefix)
  show "prefix rows t'" if "prefix rows t" "reset_store u now reason t = (r', t')"
    for t u now reason r' t'
    using that(2,1) by (cases rule: reset_store_cases) (auto simp: prefix_prefix)
qed simp

section \<open>The truth of the log among honest processes\<close>

fun honest_op :: "settings \<Rightarrow> store_op \<Rightarrow> bool" where
  "honest_op cfg (Append u now c e s p d i) = truthful cfg e s p"
| "honest_op cfg (Reset u now reason) = True"

definition honest_others :: "settings \<Rightarrow> 'w services \<Rightarrow> bool" where
  "honest_others cfg sv \<longleftrightarrow> (\<forall>n. \<forall>op \<in> set (sv_others sv n). honest_op cfg op)"

lemma append_written:
  assumes "append_event u now c e s p d i rows = (r, rows')" "list_all (written cfg) rows"
    and "truthful cfg e s p"
  shows "list_all (written cfg) rows'"
  using assms by (cases rule: append_event_cases) (auto simp: written_def append_row_def)

lemma reset_written:
  assumes "reset_store u now reason rows = (r, rows')" "list_all (written cfg) rows"
  shows "list_all (written cfg) rows'"
  using assms by (cases rule: reset_store_cases) (auto simp: written_def reset_row_def)

lemma run_op_written:
  assumes "honest_op cfg op" "list_all (written cfg) rows"
  shows "list_all (written cfg) (snd (run_op op rows))"
  using assms
  by (cases op) (auto split: prod.splits sum.splits dest: append_written reset_written)

lemma run_ops_written:
  "\<forall>op \<in> set ops. honest_op cfg op \<Longrightarrow> list_all (written cfg) rows \<Longrightarrow> list_all (written cfg) (run_ops ops rows)"
  by (induction ops arbitrary: rows) (simp_all add: run_ops_def run_op_written)

definition written_event :: "settings \<Rightarrow> case_event \<Rightarrow> bool" where
  "written_event cfg e \<longleftrightarrow>
     (case ce_state e of Some s \<Rightarrow> truthful cfg (ce_event_type e) s (ce_payload e)
      | None \<Rightarrow> ce_event_type e = SYSTEM_RESET)"

lemma apply_payload_truthful:
  assumes "written_event cfg e" "snapshot_truthful cfg snap"
    and "apply_payload (ce_event_type e) (ce_payload e) (record_event snap e) = Inr snap'"
  shows "snapshot_truthful cfg snap'"
  using assms
  by (cases "ce_event_type e")
    (auto simp: written_event_def snapshot_truthful_def record_event_def bind_res_Inr_iff
      judged_def replace_assessment_def split: option.splits if_splits)

lemma project_events_truthful:
  "\<forall>e \<in> set es. written_event cfg e \<Longrightarrow> snapshot_truthful cfg snap \<Longrightarrow> project_events snap es = Inr snap'
    \<Longrightarrow> snapshot_truthful cfg snap'"
proof (induction es arbitrary: snap)
  case (Cons e es)
  then show ?case by (auto simp: bind_res_Inr_iff dest: apply_payload_truthful)
qed simp

lemma written_row_event: "written cfg r \<Longrightarrow> written_event cfg (row_to_event r)"
  by (simp add: written_def written_event_def row_to_event_def split: option.splits)

lemma get_case_truthful:
  assumes "list_all (written cfg) rows" "get_case rows c = Inr snap"
  shows "snapshot_truthful cfg snap"
proof -
  have "\<forall>e \<in> set (events_for_case rows c 0). written_event cfg e"
    using assms(1)
    by (auto simp: events_for_case_def list_all_iff intro: written_row_event)
  moreover from assms(2) obtain change urn where
    "project_events (initial_snapshot (hd (events_for_case rows c 0)) change urn) (events_for_case rows c 0) = Inr snap"
    by (auto simp: get_case_def Let_def project_case_def bind_res_Inr_iff split: if_splits list.splits)
  moreover have "snapshot_truthful cfg (initial_snapshot e change urn)" for e
    by (simp add: snapshot_truthful_def initial_snapshot_def)
  ultimately show ?thesis using project_events_truthful by blast
qed

lemma honest_client: "honest_others cfg sv \<Longrightarrow> store_client cfg sv (list_all (written cfg)) True"
proof
  assume honest: "honest_others cfg sv"
  show "list_all (written cfg) (run_ops (sv_others sv n) rows)" if "list_all (written cfg) rows" for rows n
    using honest that by (auto simp: honest_others_def intro: run_ops_written)
  show "list_all (written cfg) t'"
    if "list_all (written cfg) t" "True \<Longrightarrow> truthful cfg e s p"
      "append_event u now c e s p d i t = (r, t')" for t e s p u now c d i r t'
    using append_written [OF that(3,1)] that(2) by simp
  show "list_all (written cfg) t'" if "list_all (written cfg) t" "reset_store u now reason t = (r', t')"
    for t u now reason r' t'
    using reset_written [OF that(2,1)] .
  show "snapshot_truthful cfg snap" if "list_all (written cfg) t" "get_case t c = Inr snap" for t c snap
    using get_case_truthful that by blast
qed

text \<open>The operations of the service: what a process can run.\<close>

datatype service_call = Ingest schema_change_event | Verify string verify_request | ResetAll string

fun run_call :: "settings \<Rightarrow> 'w services \<Rightarrow> service_call \<Rightarrow> ('w, unit) wf" where
  "run_call cfg sv (Ingest event) = then_p (ingest cfg sv event) (return_p ())"
| "run_call cfg sv (Verify case_id request) = then_p (verify_deployment cfg sv case_id request) (return_p ())"
| "run_call cfg sv (ResetAll reason) = then_p (reset_workflow sv reason) (return_p ())"

definition run_calls :: "settings \<Rightarrow> 'w services \<Rightarrow> service_call list \<Rightarrow> 'w wf_state \<Rightarrow> 'w wf_state" where
  "run_calls cfg sv calls st = foldl (\<lambda>st call. snd (run_call cfg sv call st)) st calls"

lemma run_calls_keep:
  assumes "\<And>call. keeps P (run_call cfg sv call)" "P st"
  shows "P (run_calls cfg sv calls st)"
  using assms(2)
proof (induction calls arbitrary: st)
  case (Cons call calls)
  have "P (snd (run_call cfg sv call st))" using assms(1) Cons.prems by (simp add: keeps_def)
  with Cons.IH show ?case by (simp add: run_calls_def)
qed (simp add: run_calls_def)

lemma log_calls: "keeps (\<lambda>st. store_ok (wf_rows st)) (run_call cfg sv call)"
  by (cases call) (auto intro!: keeps_intros log.ingest_keeps log.verify_keeps log.reset_keeps
      simp del: return_p_run)

lemma growing_calls: "keeps (\<lambda>st. prefix rows (wf_rows st)) (run_call cfg sv call)"
  by (cases call) (auto intro!: keeps_intros growing.ingest_keeps growing.verify_keeps growing.reset_keeps
      simp del: return_p_run)

lemma honest_calls:
  assumes "honest_others cfg sv"
  shows "keeps (\<lambda>st. list_all (written cfg) (wf_rows st)) (run_call cfg sv call)"
proof -
  note client = honest_client [OF assms]
  show ?thesis
    by (cases call) (auto intro!: keeps_intros store_client.ingest_keeps [OF client]
      store_client.verify_keeps [OF client] store_client.reset_keeps [OF client] simp del: return_p_run)
qed

section \<open>The way to a resolved case\<close>

lemma store_ok_split: "store_ok (a @ b) \<Longrightarrow> store_ok a \<and> (\<forall>r b'. b = r # b' \<longrightarrow> row_ok a r)"
proof (induction b rule: rev_induct)
  case (snoc x xs)
  from snoc.prems have "store_ok (a @ xs)" "row_ok (a @ xs) x"
    by (auto elim: store_ok.cases simp flip: append_assoc)
  with snoc.IH show ?case by (cases xs) auto
qed simp

text \<open>A state other than the first is preceded, in the same scope of the same case, by a state its
  transitions come from.\<close>

lemma state_predecessor:
  assumes "store_ok (a @ r # b)" "rw_state r = Some t" "t \<noteq> DETECTED" "\<And>u. t \<in> allowed_transitions u \<Longrightarrow> u = s"
  shows "\<exists>q \<in> set a. rw_case_id q = rw_case_id r \<and> rw_reset_scope q = rw_reset_scope r \<and> rw_state q = Some s"
  using assms(1,2)
proof (induction a arbitrary: r b rule: length_induct)
  case (1 a)
  from 1(2) have ok: "store_ok a" "row_ok a r" using store_ok_split by blast+
  define c where "c = rw_case_id r"
  define sc where "sc = current_scope a"
  have sc: "rw_reset_scope r = sc" using ok(2) by (simp add: row_ok_def sc_def)
  have valid: "validate_transition (current_state a c sc) t = Inr ()"
    using ok(2) 1(3) by (simp add: row_ok_def c_def sc_def)
  then obtain u where u: "current_state a c sc = Some u" "u = t \<or> t \<in> allowed_transitions u"
    using assms(3) by (cases "current_state a c sc") auto
  then obtain q where q: "q \<in> set (case_rows a c sc)" "rw_state q = Some u"
  proof -
    have ne: "case_rows a c sc \<noteq> []" "the (rw_state (last (case_rows a c sc))) = u"
      using u(1) current_state_case_rows [OF ok(1), of c]
      by (auto simp: sc_def case_states_def last_map split: if_splits)
    then have "last (case_rows a c sc) \<in> set (case_rows a c sc)" by simp
    moreover from this have "rw_state (last (case_rows a c sc)) \<noteq> None"
      by (auto simp: case_rows_def)
    ultimately show thesis using that ne(2) by force
  qed
  then have in_a: "q \<in> set a" "rw_case_id q = c" "rw_reset_scope q = sc" by (auto simp: case_rows_def)
  show ?case
  proof (cases "u = t")
    case False
    with u(2) assms(4) q(2) in_a sc show ?thesis by (auto simp: c_def)
  next
    case True
    from in_a(1) obtain a1 a2 where a: "a = a1 @ q # a2" by (meson split_list)
    with 1(2) have "store_ok (a1 @ q # (a2 @ r # b))" by simp
    moreover have "length a1 < length a" using a by simp
    ultimately obtain q' where "q' \<in> set a1" "rw_case_id q' = rw_case_id q"
        "rw_reset_scope q' = rw_reset_scope q" "rw_state q' = Some s"
      using 1(1) q(2) True by blast
    with in_a a sc show ?thesis by (auto simp: c_def)
  qed
qed

lemma predecessors [simp]:
  "RESOLVED \<in> allowed_transitions u \<longleftrightarrow> u = POST_DEPLOY_VERIFIED"
  "POST_DEPLOY_VERIFIED \<in> allowed_transitions u \<longleftrightarrow> u = DEPLOYED"
  "DEPLOYED \<in> allowed_transitions u \<longleftrightarrow> u = PR_OPEN"
  by (cases u; simp)+

lemma truthful_type:
  "truthful cfg e RESOLVED p \<Longrightarrow> e = INCIDENT_RESOLVED"
  "truthful cfg e PR_OPEN p \<Longrightarrow> e = PR_OPENED"
  "truthful cfg e DEPLOYED p \<Longrightarrow> e = DEPLOYMENT_RECORDED"
  "truthful cfg e POST_DEPLOY_VERIFIED p \<Longrightarrow> e = E_POST_DEPLOY_VERIFIED"
  by (cases e; simp)+

lemma written_type: "written cfg r \<Longrightarrow> rw_state r = Some s \<Longrightarrow> truthful cfg (rw_event_type r) s (rw_payload r)"
  by (simp add: written_def)

lemma written_state:
  "written cfg r \<Longrightarrow> rw_state r = Some RESOLVED \<Longrightarrow> rw_event_type r = INCIDENT_RESOLVED"
  "written cfg r \<Longrightarrow> rw_state r = Some PR_OPEN \<Longrightarrow>
     \<exists>pr. rw_payload r = P_PullRequest pr \<and> ir_status (pr_integration pr) = SUCCEEDED"
  "written cfg r \<Longrightarrow> rw_state r = Some DEPLOYED \<Longrightarrow>
     \<exists>sha. rw_payload r = P_Deployment sha (deployment_mode cfg) \<and> (live_mode cfg \<longrightarrow> full_commit sha)"
  "written cfg r \<Longrightarrow> rw_state r = Some POST_DEPLOY_VERIFIED \<Longrightarrow>
     \<exists>sha v m b l. rw_payload r = P_PostDeploy sha (deployment_mode cfg) m b
        (pd_checks (evaluate (st_policy cfg) v m b l)) \<and> acceptable (st_policy cfg) v m b l"
  using written_type [of cfg r] truthful_type [of cfg "rw_event_type r" "rw_payload r"]
  by (simp_all only: truthful.simps simp_thms) (metis truthful.simps)+

text \<open>The milestones behind a resolution, in the order of the log.\<close>

definition milestones :: "settings \<Rightarrow> table \<Rightarrow> row \<Rightarrow> bool" where
  "milestones cfg rows r \<longleftrightarrow>
     (\<exists>a q1 b q2 d q3 e f pr sha sha' v m bd l.
        rows = a @ q1 # b @ q2 # d @ q3 # e @ r # f
        \<and> (\<forall>q \<in> {q1, q2, q3}. rw_case_id q = rw_case_id r \<and> rw_reset_scope q = rw_reset_scope r)
        \<and> rw_payload q1 = P_PullRequest pr \<and> ir_status (pr_integration pr) = SUCCEEDED
        \<and> rw_payload q2 = P_Deployment sha (deployment_mode cfg) \<and> (live_mode cfg \<longrightarrow> full_commit sha)
        \<and> rw_payload q3 = P_PostDeploy sha' (deployment_mode cfg) m bd
             (pd_checks (evaluate (st_policy cfg) v m bd l))
        \<and> acceptable (st_policy cfg) v m bd l)"

lemma resolved_milestones:
  assumes "store_ok rows" "list_all (written cfg) rows" "r \<in> set rows" "rw_state r = Some RESOLVED"
  shows "milestones cfg rows r"
proof -
  from assms(3) obtain x f where x: "rows = x @ r # f" by (meson split_list)
  from state_predecessor [OF assms(1) [unfolded x] assms(4), of POST_DEPLOY_VERIFIED]
  obtain q3 where q3: "q3 \<in> set x" "rw_case_id q3 = rw_case_id r" "rw_reset_scope q3 = rw_reset_scope r"
      "rw_state q3 = Some POST_DEPLOY_VERIFIED" by auto
  then obtain y e where y: "x = y @ q3 # e" by (meson split_list)
  from state_predecessor [of y q3 "e @ r # f", OF _ q3(4), of DEPLOYED] assms(1) x y
  obtain q2 where q2: "q2 \<in> set y" "rw_case_id q2 = rw_case_id r" "rw_reset_scope q2 = rw_reset_scope r"
      "rw_state q2 = Some DEPLOYED" using q3 by auto
  then obtain z d where z: "y = z @ q2 # d" by (meson split_list)
  from state_predecessor [of z q2 "d @ q3 # e @ r # f", OF _ q2(4), of PR_OPEN] assms(1) x y z
  obtain q1 where q1: "q1 \<in> set z" "rw_case_id q1 = rw_case_id r" "rw_reset_scope q1 = rw_reset_scope r"
      "rw_state q1 = Some PR_OPEN" using q2 by auto
  then obtain a b where a: "z = a @ q1 # b" by (meson split_list)
  have w: "written cfg q1" "written cfg q2" "written cfg q3"
    using assms(2) q1(1) q2(1) q3(1) x y z by (auto simp: list_all_iff)
  from written_state(2) [OF w(1) q1(4)] written_state(3) [OF w(2) q2(4)] written_state(4) [OF w(3) q3(4)]
  obtain pr sha sha' v m bd l where "rw_payload q1 = P_PullRequest pr"
    "ir_status (pr_integration pr) = SUCCEEDED"
    "rw_payload q2 = P_Deployment sha (deployment_mode cfg)" "live_mode cfg \<longrightarrow> full_commit sha"
    "rw_payload q3 = P_PostDeploy sha' (deployment_mode cfg) m bd
        (pd_checks (evaluate (st_policy cfg) v m bd l))" "acceptable (st_policy cfg) v m bd l"
    by blast
  moreover have "rows = a @ q1 # b @ q2 # d @ q3 # e @ r # f" by (simp add: x y z a)
  moreover have "\<forall>q \<in> {q1, q2, q3}. rw_case_id q = rw_case_id r \<and> rw_reset_scope q = rw_reset_scope r"
    using q1 q2 q3 by simp
  ultimately show ?thesis
    unfolding milestones_def
    by - (rule exI [of _ a], rule exI [of _ q1], rule exI [of _ b], rule exI [of _ q2], rule exI
        [of _ d], rule exI [of _ q3], rule exI [of _ e], rule exI [of _ f], rule exI [of _ pr],
        rule exI [of _ sha], rule exI [of _ sha'], rule exI [of _ v], rule exI [of _ m], rule
        exI [of _ bd], rule exI [of _ l],
        intro conjI)
qed

end
