(* ===== verification/Identity.thy ===== *)
theory Identity
  imports Audit_Trail
begin

text \<open>
  When two schema changes are the same change: the text that is hashed for the deduplication key is a
  canonical form of the asset and of the two field lists as multisets, and the case ids derived from
  it are free when they are handed out.
\<close>

section \<open>The canonical text\<close>

lemma dump_field_prefix_free: "dump_field f @ x = dump_field g @ y \<longleftrightarrow> f = g \<and> x = y"
proof
  assume "dump_field f @ x = dump_field g @ y"
  then have "json_quote (sf_data_type f) @ '',\"name\":'' @ json_quote (sf_name f) @ '',\"nullable\":''
      @ (if sf_nullable f then ''true}'' else ''false}'') @ x
    = json_quote (sf_data_type g) @ '',\"name\":'' @ json_quote (sf_name g) @ '',\"nullable\":''
      @ (if sf_nullable g then ''true}'' else ''false}'') @ y"
    by (simp add: dump_field_def)
  then have "sf_data_type f = sf_data_type g" and rest: "json_quote (sf_name f) @ '',\"nullable\":''
      @ (if sf_nullable f then ''true}'' else ''false}'') @ x
    = json_quote (sf_name g) @ '',\"nullable\":''
      @ (if sf_nullable g then ''true}'' else ''false}'') @ y"
    by (simp_all only: json_quote_prefix_free append_Cons append_Nil list.inject simp_thms)
  moreover from rest have "sf_name f = sf_name g" "sf_nullable f = sf_nullable g" "x = y"
    by (auto simp: json_quote_prefix_free split: if_splits)
  ultimately show "f = g \<and> x = y" by simp
qed simp

lemma dump_field_head: "\<exists>t. dump_field f = CHR 0x7B # t"
  by (simp add: dump_field_def)

lemma dump_list_prefix_free:
  "join_with '','' (map dump_field fs) @ '']'' @ x = join_with '','' (map dump_field gs) @ '']'' @ y
     \<Longrightarrow> fs = gs \<and> x = y"
proof (induction fs arbitrary: gs)
  case Nil
  then show ?case
    using dump_field_head [of "hd gs"] by (cases gs rule: list.exhaust; cases "tl gs") auto
next
  case (Cons f fs)
  show ?case
  proof (cases gs)
    case Nil
    with Cons.prems dump_field_head [of f] show ?thesis by (cases fs) auto
  next
    case gs: (Cons g gs')
    have "f = g \<and> (if fs = [] then '']'' @ x else '','' @ join_with '','' (map dump_field fs) @ '']'' @ x)
      = (if gs' = [] then '']'' @ y else '','' @ join_with '','' (map dump_field gs') @ '']'' @ y)"
      using Cons.prems unfolding gs
      by (cases fs; cases gs') (simp_all add: dump_field_prefix_free)
    with Cons.IH [of gs'] gs show ?thesis
      by (cases "fs = []"; cases "gs' = []") auto
  qed
qed

lemma field_key_inj: "inj field_key"
  by (rule injI) (simp add: field_key_def)

lemma sort_by_key_mset:
  "sort_key field_key fs = sort_key field_key gs \<longleftrightarrow> mset fs = mset gs"
proof
  assume "mset fs = mset gs"
  then have "mset fs = mset (sort_key field_key gs)" by simp
  moreover have "inj_on field_key (set fs)" using field_key_inj inj_on_subset by blast
  ultimately show "sort_key field_key fs = sort_key field_key gs"
    by (rule sort_key_inj_key_eq) simp
qed (metis mset_sort)

lemma json_quote_inj [simp]: "json_quote s = json_quote t \<longleftrightarrow> s = t"
  using json_quote_prefix_free [of s "[]" t "[]"] by simp

lemma dedup_text_eq:
  "dedup_text e = dedup_text e' \<longleftrightarrow>
     casefold (ev_entity_urn e) = casefold (ev_entity_urn e')
     \<and> mset (ev_before_fields e) = mset (ev_before_fields e')
     \<and> mset (ev_after_fields e) = mset (ev_after_fields e')"
proof
  assume "dedup_text e = dedup_text e'"
  then have "join_with '','' (map dump_field (sort_key field_key (ev_after_fields e))) @ '']''
        @ '',\"before_fields\":['' @ join_with '','' (map dump_field (sort_key field_key (ev_before_fields e))) @ '']''
        @ '',\"entity_urn\":'' @ json_quote (casefold (ev_entity_urn e)) @ ''}''
    = join_with '','' (map dump_field (sort_key field_key (ev_after_fields e'))) @ '']''
        @ '',\"before_fields\":['' @ join_with '','' (map dump_field (sort_key field_key (ev_before_fields e'))) @ '']''
        @ '',\"entity_urn\":'' @ json_quote (casefold (ev_entity_urn e')) @ ''}''"
    by (simp add: dedup_text_def dump_fields_def json_quote_def json_escape_def code_def)
  from dump_list_prefix_free [OF this] have after: "sort_key field_key (ev_after_fields e) = sort_key field_key (ev_after_fields e')"
    and "join_with '','' (map dump_field (sort_key field_key (ev_before_fields e))) @ '']''
        @ '',\"entity_urn\":'' @ json_quote (casefold (ev_entity_urn e)) @ ''}''
      = join_with '','' (map dump_field (sort_key field_key (ev_before_fields e'))) @ '']''
        @ '',\"entity_urn\":'' @ json_quote (casefold (ev_entity_urn e')) @ ''}''"
    by simp_all
  from dump_list_prefix_free [OF this(2)] have "sort_key field_key (ev_before_fields e) = sort_key field_key (ev_before_fields e')"
    and "json_quote (casefold (ev_entity_urn e)) @ ''}'' = json_quote (casefold (ev_entity_urn e')) @ ''}''"
    by simp_all
  with after show "casefold (ev_entity_urn e) = casefold (ev_entity_urn e')
     \<and> mset (ev_before_fields e) = mset (ev_before_fields e')
     \<and> mset (ev_after_fields e) = mset (ev_after_fields e')"
    by (simp add: sort_by_key_mset json_quote_prefix_free)
next
  assume "casefold (ev_entity_urn e) = casefold (ev_entity_urn e')
     \<and> mset (ev_before_fields e) = mset (ev_before_fields e')
     \<and> mset (ev_after_fields e) = mset (ev_after_fields e')"
  then show "dedup_text e = dedup_text e'"
    by (simp add: dedup_text_def dump_fields_def sort_by_key_mset [symmetric])
qed

end
