(* ===== verification/Mcl_Watcher.thy ===== *)
theory Mcl_Watcher
  imports Identity
begin

text \<open>
  The metadata change watcher of \<^verbatim>\<open>packages/datahub/actions.py\<close>: from a change log entry of DataHub to a
  schema change, its delivery to a sink (the workflow itself or its HTTP API), and the outcomes.

  The sink is a program over a world of its own; HTTP, the JSON parser, pydantic's coercion to
  \<^verbatim>\<open>bool | None\<close> and the present time are parameters.
\<close>

section \<open>The model\<close>

datatype mcl_status = ENQUEUED | SKIPPED | MCL_FAILED

record mcl_result =
  mr_status :: mcl_status
  mr_reason :: string
  mr_case_id :: "string option"
  mr_deduplicated :: "bool option"

text \<open>What the watcher reads of a sink's answer: the id of its case and its flag.\<close>

record sink_response =
  sk_case_id :: json
  sk_deduplicated :: json

record mcl_library =
  ml_json :: json_lib
  ml_loads_error :: "string \<Rightarrow> string"
  ml_optional_bool :: "json \<Rightarrow> exn + bool option"
  ml_now :: int

type_synonym 'w sink = "schema_change_event \<Rightarrow> ('w, exn, sink_response) prog"

definition mcl_reply :: "mcl_status \<Rightarrow> string \<Rightarrow> mcl_result" where
  "mcl_reply status reason =
     \<lparr>mr_status = status, mr_reason = reason, mr_case_id = None, mr_deduplicated = None\<rparr>"

definition json_loads :: "mcl_library \<Rightarrow> string \<Rightarrow> exn + json" where
  "json_loads lib s =
     (case lib_loads (ml_json lib) s of
        Some v \<Rightarrow> Inr v
      | None \<Rightarrow> Inl (JSONDecodeError (ml_loads_error lib s)))"

section \<open>Aspect values\<close>

fun hashable :: "json \<Rightarrow> bool" where
  "hashable (JList _) = False"
| "hashable (JDict _) = False"
| "hashable _ = True"

definition unwrap :: "mcl_library \<Rightarrow> json \<Rightarrow> exn + json" where
  "unwrap lib v =
     (case v of
        JDict d \<Rightarrow>
          if \<not> has_key d ''value'' then Inr v
          else if \<not> hashable (jget d ''contentType'') then Inl (TypeErr ''unhashable type'')
          else if jget d ''contentType'' \<notin> {JNull, JStr ''application/json''}
          then Inl (ValueError (''Unsupported aspect content type: ''
            @ py_str (ml_json lib) (jget d ''contentType'')))
          else Inr (jget d ''value'')
      | _ \<Rightarrow> Inr v)"

definition aspect_object :: "mcl_library \<Rightarrow> json \<Rightarrow> exn + jdict" where
  "aspect_object lib v =
     bind_res (unwrap lib v) (\<lambda>v.
     bind_res (case v of JStr s \<Rightarrow> json_loads lib s | _ \<Rightarrow> Inr v) (\<lambda>v.
       case v of JDict d \<Rightarrow> Inr d | _ \<Rightarrow> Inl (ValueError ''Aspect value is not an object'')))"

definition nested_type :: "json \<Rightarrow> json" where
  "nested_type v =
     (case v of
        JStr _ \<Rightarrow> v
      | JDict d \<Rightarrow> (case jget d ''type'' of JStr s \<Rightarrow> JStr s | _ \<Rightarrow> JNull)
      | _ \<Rightarrow> JNull)"

definition schema_field_of :: "mcl_library \<Rightarrow> json \<Rightarrow> exn + schema_field" where
  "schema_field_of lib raw =
     (case raw of
        JDict d \<Rightarrow>
          (case or_else (jget d ''fieldPath'') (jget d ''name'') of
             JStr name \<Rightarrow>
               if name = [] then Inl (ValueError ''schemaMetadata field has no fieldPath'')
               else
                 let native = or_else (or_else (jget d ''nativeDataType'') (nested_type (jget d ''type'')))
                                (JStr ''unknown'');
                     nullable = (case map_of d ''nullable'' of Some v \<Rightarrow> truthy v | None \<Rightarrow> True)
                 in make_schema_field name (py_str (ml_json lib) native) nullable
           | _ \<Rightarrow> Inl (ValueError ''schemaMetadata field has no fieldPath''))
      | _ \<Rightarrow> Inl (ValueError ''schemaMetadata field is not an object''))"

definition schema_fields_of :: "mcl_library \<Rightarrow> jdict \<Rightarrow> exn + schema_field list" where
  "schema_fields_of lib aspect =
     (case jget aspect ''fields'' of
        JList raws \<Rightarrow> map_res (schema_field_of lib) raws
      | _ \<Rightarrow> Inl (ValueError ''schemaMetadata has no fields array''))"

text \<open>Two sorted lists of field tuples are compared.\<close>

definition same_schema :: "schema_field list \<Rightarrow> schema_field list \<Rightarrow> bool" where
  "same_schema before_fields after = (sort (map field_key before_fields) = sort (map field_key after))"

section \<open>Identity and time of a change\<close>

definition mcl_event_id :: "mcl_library \<Rightarrow> jdict \<Rightarrow> string" where
  "mcl_event_id lib payload =
     (case or_else (jget payload ''eventId'') (jget payload ''id'') of
        JStr s \<Rightarrow> if s \<noteq> [] then s else ''mcl-'' @ sha256_hex (lib_dumps (ml_json lib) (JDict payload))
      | _ \<Rightarrow> ''mcl-'' @ sha256_hex (lib_dumps (ml_json lib) (JDict payload)))"

text \<open>
  \<^verbatim>\<open>datetime.fromtimestamp(x, tz=UTC)\<close> in microseconds since the epoch: the whole seconds, and the
  fraction rounded to the nearest microsecond. None where it raises, outside of the years 1 to 9999.
\<close>

definition from_timestamp :: "pyfloat \<Rightarrow> int option" where
  "from_timestamp x =
     (case finite_value x of
        None \<Rightarrow> None
      | Some q \<Rightarrow>
          let seconds = (if q < 0 then - \<lfloor>- q\<rfloor> else \<lfloor>q\<rfloor>);
              fraction = fmul (Fin (q - of_int seconds)) (Fin 1000000);
              us = 1000000 * seconds + (case finite_value fraction of Some f \<Rightarrow> rne f | None \<Rightarrow> 0)
          in if - 62135596800000000 \<le> us \<and> us < 253402300800000000 then Some us else None)"

definition from_millis :: "json \<Rightarrow> int option" where
  "from_millis v =
     (case v of
        JInt i \<Rightarrow> from_timestamp (int_truediv i 1000)
      | JBool b \<Rightarrow> from_timestamp (int_truediv (if b then 1 else 0) 1000)
      | JFloat f \<Rightarrow> from_timestamp (fdiv f (Fin 1000))
      | _ \<Rightarrow> None)"

definition millis_of :: "json \<Rightarrow> string \<Rightarrow> int option" where
  "millis_of v key = (case v of JDict d \<Rightarrow> from_millis (jget d key) | _ \<Rightarrow> None)"

definition observed_at :: "mcl_library \<Rightarrow> jdict \<Rightarrow> int" where
  "observed_at lib payload =
     (case millis_of (jget payload ''created'') ''time'' of
        Some t \<Rightarrow> t
      | None \<Rightarrow>
          (case millis_of (jget payload ''systemMetadata'') ''lastObserved'' of
             Some t \<Rightarrow> t
           | None \<Rightarrow> ml_now lib))"

section \<open>The watcher\<close>

text \<open>The entries that are skipped unread: None where the entry has to be read.\<close>

definition out_of_scope :: "mcl_library \<Rightarrow> jdict \<Rightarrow> string option" where
  "out_of_scope lib payload =
     (let event_type = or_else (jget payload ''event_type'') (jget payload ''eventType'')
      in if truthy event_type \<and> event_type \<noteq> JStr ''MetadataChangeLogEvent_v1''
         then Some (''Unsupported event type: '' @ py_str (ml_json lib) event_type)
         else if jget payload ''entityType'' \<noteq> JStr ''dataset''
         then Some ''Only dataset events are in scope''
         else if jget payload ''aspectName'' \<noteq> JStr ''schemaMetadata''
         then Some ''Only schemaMetadata changes are in scope''
         else if jget payload ''previousAspectValue'' = JNull
         then Some ''Initial ingestion has no previous schema and is not drift''
         else None)"

definition mcl_event :: "mcl_library \<Rightarrow> jdict \<Rightarrow> exn + schema_change_event" where
  "mcl_event lib payload =
     bind_res (aspect_object lib (jget payload ''previousAspectValue'')) (\<lambda>previous.
     bind_res (aspect_object lib (or_else (jget payload ''aspect'') (jget payload ''aspectValue'')))
       (\<lambda>current.
     bind_res (subscript (JDict payload) ''entityUrn'') (\<lambda>urn.
     bind_res (schema_fields_of lib previous) (\<lambda>before_fields.
     bind_res (schema_fields_of lib current) (\<lambda>after.
       make_schema_change_event (Some (mcl_event_id lib payload)) (py_str (ml_json lib) urn)
         before_fields after (observed_at lib payload) ''DATAHUB_MCL'')))))"

definition unchanged :: mcl_result where
  "unchanged = mcl_reply SKIPPED ''schemaMetadata event contains no field-level change''"

text \<open>The exceptions of the \<^verbatim>\<open>try\<close> block that become a result.\<close>

definition mcl_failure :: "exn \<Rightarrow> mcl_result option" where
  "mcl_failure e =
     (if is_permission_error e
      then Some (mcl_reply SKIPPED ''Asset is outside the remediation allowlist'')
      else case e of
        HTTPStatusError status _ \<Rightarrow>
          Some (mcl_reply MCL_FAILED
            (''DataRescue API rejected the schema event with HTTP '' @ decimal status))
      | RequestError name _ \<Rightarrow>
          Some (mcl_reply MCL_FAILED (''DataRescue API delivery failed: '' @ name))
      | _ \<Rightarrow>
          if is_key_error e \<or> is_type_error e \<or> is_value_error e
          then Some (mcl_reply MCL_FAILED (''Invalid schemaMetadata MCL: '' @ exn_text e))
          else None)"

definition accepted :: "mcl_library \<Rightarrow> sink_response \<Rightarrow> exn + mcl_result" where
  "accepted lib response =
     bind_res (ml_optional_bool lib (sk_deduplicated response)) (\<lambda>deduplicated.
       Inr \<lparr>mr_status = ENQUEUED,
            mr_reason = ''Schema transition accepted by the idempotent workflow'',
            mr_case_id = (if sk_case_id response = JNull then None
                          else Some (py_str (ml_json lib) (sk_case_id response))),
            mr_deduplicated = deduplicated\<rparr>)"

text \<open>The \<^verbatim>\<open>try\<close> block: \<open>Inl\<close> a result, \<open>Inr\<close> the sink's answer.\<close>

definition deliver :: "mcl_library \<Rightarrow> 'w sink \<Rightarrow> jdict \<Rightarrow> ('w, exn, mcl_result + sink_response) prog" where
  "deliver lib sink payload =
     catch_p
       (bind_p (result_p (mcl_event lib payload)) (\<lambda>event.
          if same_schema (ev_before_fields event) (ev_after_fields event)
          then return_p (Inl unchanged)
          else bind_p (sink event) (\<lambda>response. return_p (Inr response))))
       (\<lambda>e. case mcl_failure e of Some r \<Rightarrow> return_p (Inl r) | None \<Rightarrow> raise_p e)"

definition handle :: "mcl_library \<Rightarrow> 'w sink \<Rightarrow> json \<Rightarrow> ('w, exn, mcl_result) prog" where
  "handle lib sink payload =
     (case payload of
        JDict p \<Rightarrow>
          (case out_of_scope lib p of
             Some reason \<Rightarrow> return_p (mcl_reply SKIPPED reason)
           | None \<Rightarrow>
               bind_p (deliver lib sink p) (\<lambda>outcome.
                 case outcome of
                   Inl r \<Rightarrow> return_p r
                 | Inr response \<Rightarrow> result_p (accepted lib response)))
      | _ \<Rightarrow> return_p (mcl_reply MCL_FAILED ''MCL payload is not a JSON object''))"

section \<open>The HTTP sink\<close>

record http_response =
  hr_status :: int
  hr_headers :: "string \<Rightarrow> string option"
  hr_body :: "exn + json"

definition rstrip_slash :: "string \<Rightarrow> string" where
  "rstrip_slash s = rstrip_by (\<lambda>c. c = CHR ''/'') s"

definition sink_url :: "string \<Rightarrow> string" where
  "sink_url api_url = rstrip_slash api_url @ ''/api/v1/events/schema-change''"

definition raise_for_status :: "http_response \<Rightarrow> exn + unit" where
  "raise_for_status r =
     (if 200 \<le> hr_status r \<and> hr_status r < 300 then Inr ()
      else Inl (HTTPStatusError (hr_status r) ''HTTP error''))"

definition is_api_allowlist_rejection :: "http_response \<Rightarrow> exn + bool" where
  "is_api_allowlist_rejection r =
     (if hr_status r \<noteq> 403 \<or> hr_headers r ''x-datarescue-error'' \<noteq> Some ''ASSET_OUTSIDE_ALLOWLIST''
      then Inr False
      else case hr_body r of
        Inl (JSONDecodeError _) \<Rightarrow> Inr False
      | Inl e \<Rightarrow> Inl e
      | Inr body \<Rightarrow>
          (case body of
             JDict d \<Rightarrow>
               (case jget d ''detail'' of
                  JStr s \<Rightarrow> Inr (prefix ''Asset is outside the configured remediation allowlist'' s)
                | _ \<Rightarrow> Inr False)
           | _ \<Rightarrow> Inr False))"

definition http_workflow_response :: "json \<Rightarrow> exn + sink_response" where
  "http_workflow_response body =
     (case body of
        JDict d \<Rightarrow>
          (case map_of d ''case'' of
             None \<Rightarrow> Inr \<lparr>sk_case_id = JNull, sk_deduplicated = jget d ''deduplicated''\<rparr>
           | Some (JDict c) \<Rightarrow> Inr \<lparr>sk_case_id = jget c ''id'', sk_deduplicated = jget d ''deduplicated''\<rparr>
           | Some _ \<Rightarrow> Inl (AttributeErr ''case has no attribute get''))
      | _ \<Rightarrow> Inl (AttributeErr ''body has no attribute get''))"

definition http_sink ::
  "(string \<Rightarrow> schema_change_event \<Rightarrow> ('w, exn, http_response) prog) \<Rightarrow> string \<Rightarrow> 'w sink" where
  "http_sink post api_url event =
     bind_p (post (sink_url api_url) event) (\<lambda>response.
     bind_p (result_p (is_api_allowlist_rejection response)) (\<lambda>rejected.
       if rejected
       then raise_p (HTTPAssetOutOfScopeError ''DataRescue API rejected an asset outside its allowlist'')
       else bind_p (result_p (raise_for_status response)) (\<lambda>_.
            bind_p (result_p (hr_body response)) (\<lambda>body.
              result_p (http_workflow_response body)))))"

section \<open>The action of the DataHub runtime\<close>

definition action_timeout :: "json \<Rightarrow> exn + pyfloat" where
  "action_timeout v =
     bind_res
       (case v of
          JInt i \<Rightarrow>
            if float_of_int i \<in> {Inf, NegInf}
            then Inl (Other ''OverflowError'' ''int too large to convert to float'')
            else Inr (float_of_int i)
        | JBool b \<Rightarrow> Inr (Fin (if b then 1 else 0))
        | JFloat f \<Rightarrow> Inr f
        | _ \<Rightarrow> Inr NaN)
       (\<lambda>t. if fle (Fin 1) t \<and> flt t (Fin 300) then Inr t
            else Inl (ValueError
              ''request_timeout_seconds must be numeric, >= 1 and below the Kafka poll interval''))"

definition action_create :: "jdict \<Rightarrow> exn + string \<times> pyfloat" where
  "action_create config =
     (case jget config ''api_url'' of
        JStr api_url \<Rightarrow>
          if api_url = []
          then Inl (ValueError ''DataRescueSchemaAction requires a non-empty api_url'')
          else bind_res
            (action_timeout (case map_of config ''request_timeout_seconds'' of
                               Some v \<Rightarrow> v | None \<Rightarrow> JInt 240))
            (\<lambda>t. Inr (api_url, t))
      | _ \<Rightarrow> Inl (ValueError ''DataRescueSchemaAction requires a non-empty api_url''))"

text \<open>
  An envelope holds a mapping, or an object with up to two serialising methods: what each of them, if it
  is callable, raises or returns.
\<close>

datatype converted = C_Mapping jdict | C_Bytes string | C_Text string | C_Other

datatype envelope = E_Mapping jdict | E_Object "(exn + converted) option" "(exn + converted) option"

definition mapping_text :: "mcl_library \<Rightarrow> string \<Rightarrow> exn + jdict option" where
  "mapping_text lib s =
     bind_res (json_loads lib s) (\<lambda>v. Inr (case v of JDict d \<Rightarrow> Some d | _ \<Rightarrow> None))"

definition try_conversion :: "mcl_library \<Rightarrow> (exn + converted) option \<Rightarrow> exn + jdict option" where
  "try_conversion lib method =
     (case method of
        None \<Rightarrow> Inr None
      | Some answer \<Rightarrow>
          bind_res answer (\<lambda>c.
            case c of
              C_Mapping d \<Rightarrow> Inr (Some d)
            | C_Bytes b \<Rightarrow> bind_res (decode_utf8 b ''invalid utf-8'') (mapping_text lib)
            | C_Text s \<Rightarrow> mapping_text lib s
            | C_Other \<Rightarrow> Inr None))"

definition event_payload :: "mcl_library \<Rightarrow> envelope \<Rightarrow> exn + jdict" where
  "event_payload lib e =
     (case e of
        E_Mapping d \<Rightarrow> Inr d
      | E_Object to_obj as_json \<Rightarrow>
          bind_res (try_conversion lib to_obj) (\<lambda>found.
            case found of
              Some d \<Rightarrow> Inr d
            | None \<Rightarrow>
                bind_res (try_conversion lib as_json) (\<lambda>found.
                  case found of
                    Some d \<Rightarrow> Inr d
                  | None \<Rightarrow> Inl (ValueError ''Action event cannot be normalized to a mapping''))))"

definition act :: "mcl_library \<Rightarrow> 'w sink \<Rightarrow> envelope \<Rightarrow> ('w, exn, bool) prog" where
  "act lib sink envelope =
     bind_p (result_p (event_payload lib envelope)) (\<lambda>payload.
     bind_p (handle lib sink (JDict payload)) (\<lambda>result.
       if mr_status result = MCL_FAILED then raise_p (ValueError (mr_reason result))
       else return_p True))"

section \<open>The line-based entry point\<close>

definition handle_line :: "mcl_library \<Rightarrow> 'w sink \<Rightarrow> string \<Rightarrow> ('w, exn, mcl_result) prog" where
  "handle_line lib sink line =
     catch_p (bind_p (result_p (json_loads lib line)) (handle lib sink))
       (\<lambda>e. case e of
          JSONDecodeError m \<Rightarrow> return_p (mcl_reply MCL_FAILED (''Invalid JSON: '' @ m))
        | _ \<Rightarrow> raise_p e)"

text \<open>The results printed, oldest first, and the exit code.\<close>

fun handle_lines :: "mcl_library \<Rightarrow> 'w sink \<Rightarrow> string list \<Rightarrow> ('w, exn, mcl_result list) prog" where
  "handle_lines lib sink [] = return_p []"
| "handle_lines lib sink (line # rest) =
     (if strip line = [] then handle_lines lib sink rest
      else bind_p (handle_line lib sink line) (\<lambda>result.
           bind_p (handle_lines lib sink rest) (\<lambda>results. return_p (result # results))))"

definition mcl_main :: "mcl_library \<Rightarrow> 'w sink \<Rightarrow> string list \<Rightarrow> ('w, exn, int \<times> mcl_result list) prog" where
  "mcl_main lib sink stdin =
     bind_p (handle_lines lib sink stdin) (\<lambda>results.
       return_p (if \<exists>r \<in> set results. mr_status r = MCL_FAILED then 1 else 0, results))"

section \<open>Only field-level drift is delivered\<close>

lemma same_schema_mset: "same_schema before_fields after \<longleftrightarrow> mset before_fields = mset after"
proof -
  have "sort xs = sort ys \<longleftrightarrow> mset xs = mset ys" for xs ys :: "(string \<times> string \<times> bool) list"
    by (metis mset_sort properties_for_sort sorted_sort)
  moreover have "mset (map field_key before_fields) = mset (map field_key after)
      \<longleftrightarrow> mset before_fields = mset after"
    by (simp add: inj_eq [OF multiset.inj_map [OF field_key_inj]])
  ultimately show ?thesis by (simp add: same_schema_def)
qed

lemma deliver_cases:
  assumes "deliver lib sink p s = (r, t)"
  obtains (decoding) e where "mcl_event lib p = Inl e" "t = s"
      "r = (case mcl_failure e of Some x \<Rightarrow> Inr (Inl x) | None \<Rightarrow> Inl e)"
  | (unchanged) event where "mcl_event lib p = Inr event"
      "mset (ev_before_fields event) = mset (ev_after_fields event)" "t = s" "r = Inr (Inl unchanged)"
  | (refused) event e where "mcl_event lib p = Inr event"
      "mset (ev_before_fields event) \<noteq> mset (ev_after_fields event)" "sink event s = (Inl e, t)"
      "r = (case mcl_failure e of Some x \<Rightarrow> Inr (Inl x) | None \<Rightarrow> Inl e)"
  | (delivered) event response where "mcl_event lib p = Inr event"
      "mset (ev_before_fields event) \<noteq> mset (ev_after_fields event)"
      "sink event s = (Inr response, t)" "r = Inr (Inr response)"
proof (cases "mcl_event lib p")
  case (Inl e)
  with assms that(1) show thesis
    by (auto simp: deliver_def catch_p_def bind_p_def split: option.splits)
next
  case (Inr event)
  show thesis
  proof (cases "same_schema (ev_before_fields event) (ev_after_fields event)")
    case True
    with Inr assms that(2) show thesis
      by (auto simp: deliver_def catch_p_def bind_p_def same_schema_mset)
  next
    case False
    obtain x u where x: "sink event s = (x, u)" by fastforce
    with False Inr assms that(3,4) show thesis
      by (cases x) (auto simp: deliver_def catch_p_def bind_p_def same_schema_mset split: option.splits)
  qed
qed

section \<open>Which exceptions leave the watcher\<close>

text \<open>Reading an entry raises only what the watcher turns into a failed result.\<close>

definition reading_error :: "exn \<Rightarrow> bool" where
  "reading_error e \<longleftrightarrow> is_key_error e \<or> is_type_error e \<or> is_value_error e"

lemma json_loads_errs: "errs reading_error (json_loads lib s)"
  unfolding json_loads_def by (intro errs_intros) (simp add: reading_error_def)

lemma unwrap_errs: "errs reading_error (unwrap lib v)"
  unfolding unwrap_def by (cases v) (auto simp: errs_def reading_error_def)

lemma aspect_object_errs: "errs reading_error (aspect_object lib v)"
proof -
  have "errs reading_error (case v of JStr s \<Rightarrow> json_loads lib s | _ \<Rightarrow> Inr v)" for v
    using json_loads_errs by (cases v) (auto intro: errs_intros)
  moreover have "errs reading_error (case v of JDict d \<Rightarrow> Inr d | _ \<Rightarrow> Inl (ValueError m))" for v m
    by (cases v) (auto simp: errs_def reading_error_def)
  ultimately show ?thesis unfolding aspect_object_def by (intro errs_bind unwrap_errs)
qed

lemma make_schema_field_errs: "errs reading_error (make_schema_field name data_type nullable)"
  by (simp add: make_schema_field_def errs_def reading_error_def)

lemma make_schema_change_event_errs: "errs reading_error (make_schema_change_event i urn b a t src)"
  by (simp add: make_schema_change_event_def errs_def reading_error_def)

lemma schema_field_of_errs: "errs reading_error (schema_field_of lib raw)"
  unfolding schema_field_of_def Let_def
  by (auto split: json.split intro!: make_schema_field_errs simp: errs_Inl reading_error_def)

lemma errs_map_res [errs_intros]: "(\<And>x. errs P (f x)) \<Longrightarrow> errs P (map_res f xs)"
  by (induction xs) (auto intro!: errs_intros)

lemma schema_fields_of_errs: "errs reading_error (schema_fields_of lib aspect)"
  unfolding schema_fields_of_def
  by (auto split: json.split intro!: errs_map_res schema_field_of_errs simp: errs_Inl reading_error_def)

lemma subscript_errs: "errs reading_error (subscript v k)"
  by (auto simp: subscript_def errs_def reading_error_def split: json.splits option.splits)

lemma mcl_event_errs: "errs reading_error (mcl_event lib p)"
  unfolding mcl_event_def
  by (intro errs_bind aspect_object_errs subscript_errs schema_fields_of_errs make_schema_change_event_errs)

lemma reading_error_failure: "reading_error e \<Longrightarrow> \<exists>m. mcl_failure e = Some (mcl_reply MCL_FAILED m)"
  by (cases e) (auto simp: reading_error_def mcl_failure_def)

lemma mcl_failure_status: "mcl_failure e = Some r \<Longrightarrow> mr_status r \<noteq> ENQUEUED"
  by (cases e) (auto simp: mcl_failure_def mcl_reply_def split: if_splits)

text \<open>What a call of the watcher does: nothing, or one delivery of a change of the fields.\<close>

definition delivered_event :: "mcl_library \<Rightarrow> json \<Rightarrow> schema_change_event \<Rightarrow> bool" where
  "delivered_event lib payload event \<longleftrightarrow>
     (\<exists>p. payload = JDict p \<and> out_of_scope lib p = None \<and> mcl_event lib p = Inr event
        \<and> mset (ev_before_fields event) \<noteq> mset (ev_after_fields event))"

lemma handle_cases:
  assumes "handle lib sink payload s = (r, t)"
  obtains (kept) x where "r = Inr x" "mr_status x \<noteq> ENQUEUED" "t = s"
  | (refused) event e where "delivered_event lib payload event" "sink event s = (Inl e, t)"
      "r = (case mcl_failure e of Some x \<Rightarrow> Inr x | None \<Rightarrow> Inl e)"
  | (delivered) event response where "delivered_event lib payload event"
      "sink event s = (Inr response, t)" "r = accepted lib response"
proof (cases "\<exists>p. payload = JDict p \<and> out_of_scope lib p = None")
  case False
  then show thesis
    using assms that(1)
    by (auto simp: handle_def mcl_reply_def split: json.splits option.splits)
next
  case True
  then obtain p where p: "payload = JDict p" "out_of_scope lib p = None" by blast
  obtain o1 u where d: "deliver lib sink p s = (o1, u)" by fastforce
  with p assms have r: "(r, t) = (case o1 of Inl e \<Rightarrow> (Inl e, u)
      | Inr (Inl x) \<Rightarrow> (Inr x, u) | Inr (Inr response) \<Rightarrow> (accepted lib response, u))"
    by (auto simp: handle_def bind_p_def split: sum.splits)
  from d show thesis
  proof (cases rule: deliver_cases)
    case (decoding e)
    then obtain m where "mcl_failure e = Some (mcl_reply MCL_FAILED m)"
      using reading_error_failure errsD [OF mcl_event_errs] by blast
    then show thesis
      using decoding r by (intro that(1) [of "mcl_reply MCL_FAILED m"]) (simp_all add: mcl_reply_def)
  next
    case (unchanged event)
    then show thesis using r by (intro that(1) [of Mcl_Watcher.unchanged]) (simp_all add: unchanged_def mcl_reply_def)
  next
    case (refused event e)
    then show thesis
      using r p by (intro that(2) [of event e]) (auto simp: delivered_event_def split: option.splits)
  next
    case (delivered event response)
    then show thesis
      using r p by (intro that(3) [of event response]) (auto simp: delivered_event_def)
  qed
qed

end
