(* ===== verification/Service_Api.thy ===== *)
theory Service_Api
  imports Mcl_Watcher Audit_Trail
begin

text \<open>
  What the service shows to the outside: the HTTP routes of \<^verbatim>\<open>apps/api/main.py\<close>, with the exceptions each
  of them turns into a status code, its stream of case events, and the guard command of
  \<^verbatim>\<open>apps/api/cli.py\<close>.

  A route is a program over the state of the workflow: \<open>Inr (Inr x)\<close> is a reply, \<open>Inr (Inl e)\<close> an
  \<^verbatim>\<open>HTTPException\<close>, and \<open>Inl e\<close> an exception the route does not handle (the server answers 500).
\<close>

section \<open>Errors of the routes\<close>

record http_error =
  he_status :: nat
  he_detail :: string
  he_headers :: "(string \<times> string) list"

type_synonym ('w, 'a) route = "('w wf_state, exn, http_error + 'a) prog"

definition http_error :: "nat \<Rightarrow> string \<Rightarrow> http_error" where
  "http_error status detail = \<lparr>he_status = status, he_detail = detail, he_headers = []\<rparr>"

text \<open>Running an operation, with the exceptions the route maps.\<close>

definition mapping_errors ::
  "(exn \<Rightarrow> http_error option) \<Rightarrow> ('w wf_state, exn, 'a) prog \<Rightarrow> ('w, 'a) route" where
  "mapping_errors errors operation =
     catch_p (bind_p operation (\<lambda>x. return_p (Inr x)))
       (\<lambda>e. case errors e of Some h \<Rightarrow> return_p (Inl h) | None \<Rightarrow> raise_p e)"

definition conflict_error :: "exn \<Rightarrow> http_error option" where
  "conflict_error e = (case e of EventConflictError _ _ \<Rightarrow> Some (http_error 409 (exn_text e)) | _ \<Rightarrow> None)"

definition not_found_error :: "exn \<Rightarrow> http_error option" where
  "not_found_error e = (case e of CaseNotFoundError _ \<Rightarrow> Some (http_error 404 ''Case not found'') | _ \<Rightarrow> None)"

definition schema_change_error :: "exn \<Rightarrow> http_error option" where
  "schema_change_error e =
     (case e of
        AssetNotAllowedError m \<Rightarrow>
          Some \<lparr>he_status = 403, he_detail = m,
                he_headers = [(''X-DataRescue-Error'', ''ASSET_OUTSIDE_ALLOWLIST'')]\<rparr>
      | _ \<Rightarrow> conflict_error e)"

definition verify_error :: "exn \<Rightarrow> http_error option" where
  "verify_error e =
     (case not_found_error e of
        Some h \<Rightarrow> Some h
      | None \<Rightarrow> if is_value_error e then Some (http_error 409 (exn_text e)) else None)"

section \<open>The routes\<close>

definition schema_change_route ::
  "settings \<Rightarrow> 'w services \<Rightarrow> schema_change_event \<Rightarrow> ('w, schema_change_response) route" where
  "schema_change_route cfg sv event = mapping_errors schema_change_error (ingest cfg sv event)"

text \<open>The workflow as the watcher's sink.\<close>

definition workflow_sink :: "settings \<Rightarrow> 'w services \<Rightarrow> 'w wf_state sink" where
  "workflow_sink cfg sv event =
     bind_p (ingest cfg sv event) (\<lambda>response.
       return_p \<lparr>sk_case_id = JStr (cs_id (sr_case response)),
                 sk_deduplicated = JBool (sr_deduplicated response)\<rparr>)"

definition datahub_mcl_route ::
  "settings \<Rightarrow> 'w services \<Rightarrow> mcl_library \<Rightarrow> jdict \<Rightarrow> ('w, mcl_result) route" where
  "datahub_mcl_route cfg sv lib payload =
     bind_p (mapping_errors conflict_error (handle lib (workflow_sink cfg sv) (JDict payload))) (\<lambda>answer.
       case answer of
         Inl h \<Rightarrow> return_p (Inl h)
       | Inr result \<Rightarrow>
           return_p (if mr_status result = MCL_FAILED then Inl (http_error 422 (mr_reason result))
                     else Inr result))"

definition cases_route :: "'w services \<Rightarrow> ('w, case_snapshot list) route" where
  "cases_route sv = mapping_errors (\<lambda>_. None) (read_p sv list_cases)"

definition case_route :: "'w services \<Rightarrow> string \<Rightarrow> ('w, case_snapshot) route" where
  "case_route sv case_id = mapping_errors not_found_error (case_p sv case_id)"

definition verify_route ::
  "settings \<Rightarrow> 'w services \<Rightarrow> string \<Rightarrow> verify_request \<Rightarrow> ('w, case_snapshot) route" where
  "verify_route cfg sv case_id request = mapping_errors verify_error (verify_deployment cfg sv case_id request)"

definition policy_route :: "settings \<Rightarrow> ('w, policy_config) route" where
  "policy_route cfg = return_p (Inr (st_policy cfg))"

definition canonical_asset_urn :: string where
  "canonical_asset_urn =
     ''urn:li:dataset:(urn:li:dataPlatform:postgres,datarescue.raw.payments_raw,PROD)''"

definition demo_field :: "string \<Rightarrow> string \<Rightarrow> schema_field" where
  "demo_field name data_type = \<lparr>sf_name = name, sf_data_type = data_type, sf_nullable = False\<rparr>"

definition demo_event :: "int \<Rightarrow> bool \<Rightarrow> schema_change_event" where
  "demo_event now safe_repair =
     \<lparr>ev_event_id = None, ev_entity_urn = canonical_asset_urn,
      ev_before_fields = [demo_field ''payment_id'' ''bigint'', demo_field ''amount'' ''numeric''],
      ev_after_fields =
        [demo_field ''payment_id'' ''bigint'', demo_field ''gross_amount'' ''numeric'',
         demo_field (if safe_repair then ''net_amount'' else ''settlement_amount'') ''numeric''],
      ev_observed_at = now,
      ev_source = ''RECORDED_REPLAY:'' @ (if safe_repair then ''safe-repair'' else ''fail-closed'')\<rparr>"

definition demo_drift_route ::
  "settings \<Rightarrow> 'w services \<Rightarrow> int \<Rightarrow> bool \<Rightarrow> ('w, schema_change_response) route" where
  "demo_drift_route cfg sv now safe_repair =
     mapping_errors (\<lambda>_. None) (ingest cfg sv (demo_event now safe_repair))"

definition demo_reset_route :: "'w services \<Rightarrow> ('w, nat \<times> string) route" where
  "demo_reset_route sv =
     mapping_errors (\<lambda>_. None)
       (bind_p (reset_workflow sv ''Demo reset requested'') (\<lambda>sequence.
          return_p (sequence, ''Demo reset appended; historical evidence was not deleted'')))"

section \<open>The cursor of the event stream\<close>

definition sqlite_max_integer :: int where
  "sqlite_max_integer = 2 ^ 63 - 1"

text \<open>\<^verbatim>\<open>int(s, 10)\<close> of a stripped string: an optional sign, then digits in groups that single
  underscores separate, at most 4300 of them.\<close>

definition unsigned_int :: "string \<Rightarrow> int option" where
  "unsigned_int s =
     (let groups = split_on CHR ''_'' s; digits = concat groups
      in if list_all (\<lambda>g. g \<noteq> [] \<and> list_all is_digit g) groups \<and> length digits \<le> 4300
         then Some (int (digits_value digits)) else None)"

definition parse_int :: "string \<Rightarrow> int option" where
  "parse_int s =
     (if prefix ''-'' s then map_option uminus (unsigned_int (drop 1 s))
      else if prefix ''+'' s then unsigned_int (drop 1 s)
      else unsigned_int s)"

definition sse_cursor :: "int \<Rightarrow> string option \<Rightarrow> http_error + int" where
  "sse_cursor after header_cursor =
     (if sqlite_max_integer < after then Inl (http_error 400 ''SSE cursor exceeds SQLite integer range'')
      else if after \<noteq> 0 then Inr after
      else case header_cursor of
        None \<Rightarrow> Inr 0
      | Some header \<Rightarrow>
          if strip header = [] then Inr 0
          else case parse_int (strip header) of
            None \<Rightarrow> Inl (http_error 400 ''Invalid Last-Event-ID cursor'')
          | Some cursor \<Rightarrow>
              if 0 \<le> cursor \<and> cursor \<le> sqlite_max_integer then Inr cursor
              else Inl (http_error 400 ''Invalid Last-Event-ID cursor''))"

section \<open>The event stream\<close>

datatype chunk = Sse case_event | Keep_Alive

definition max_follow_ticks :: nat where
  "max_follow_ticks = 4800"

definition next_cursor :: "nat \<Rightarrow> case_event list \<Rightarrow> nat" where
  "next_cursor cursor events = (if events = [] then cursor else ce_sequence (last events))"

text \<open>
  The generator of \<^verbatim>\<open>case_events\<close>: \<open>tables n\<close> is the table its read number \<open>n\<close> finds, \<open>gone n\<close> whether
  the client had left after it. The reads are counted by \<^verbatim>\<open>idle_ticks\<close>.
\<close>

function stream ::
  "(nat \<Rightarrow> table) \<Rightarrow> (nat \<Rightarrow> bool) \<Rightarrow> string \<Rightarrow> bool \<Rightarrow> nat \<Rightarrow> nat \<Rightarrow> chunk list" where
  "stream tables gone case_id follow idle_ticks cursor =
     (let events = events_for_case (tables idle_ticks) case_id cursor
      in map Sse events
         @ (if \<not> follow \<or> gone idle_ticks \<or> max_follow_ticks \<le> Suc idle_ticks then []
            else (if 20 dvd Suc idle_ticks then [Keep_Alive] else [])
                 @ stream tables gone case_id follow (Suc idle_ticks) (next_cursor cursor events)))"
  by pat_completeness auto
termination
  by (relation "measure (\<lambda>(_, _, _, _, idle_ticks, _). max_follow_ticks - idle_ticks)") auto

declare stream.simps [simp del]

definition case_events_route ::
  "'w services \<Rightarrow> string \<Rightarrow> int \<Rightarrow> string option \<Rightarrow> ('w, int) route" where
  "case_events_route sv case_id after header_cursor =
     bind_p (mapping_errors not_found_error (case_p sv case_id)) (\<lambda>found.
       case found of
         Inl h \<Rightarrow> return_p (Inl h)
       | Inr _ \<Rightarrow> return_p (sse_cursor after header_cursor))"

fun event_type_value :: "event_type \<Rightarrow> string" where
  "event_type_value SCHEMA_CHANGE_DETECTED = ''SCHEMA_CHANGE_DETECTED''"
| "event_type_value INCIDENT_RAISED = ''INCIDENT_RAISED''"
| "event_type_value E_CONTEXT_GATHERED = ''CONTEXT_GATHERED''"
| "event_type_value E_CANDIDATES_READY = ''CANDIDATES_READY''"
| "event_type_value VALIDATION_STARTED = ''VALIDATION_STARTED''"
| "event_type_value CANDIDATE_ASSESSED = ''CANDIDATE_ASSESSED''"
| "event_type_value E_PATCH_READY = ''PATCH_READY''"
| "event_type_value EVIDENCE_WRITTEN = ''EVIDENCE_WRITTEN''"
| "event_type_value PR_ATTEMPTED = ''PR_ATTEMPTED''"
| "event_type_value PR_OPENED = ''PR_OPENED''"
| "event_type_value DEPLOYMENT_RECORDED = ''DEPLOYMENT_RECORDED''"
| "event_type_value E_POST_DEPLOY_VERIFIED = ''POST_DEPLOY_VERIFIED''"
| "event_type_value INCIDENT_RESOLVED = ''INCIDENT_RESOLVED''"
| "event_type_value E_CONTAINED = ''CONTAINED''"
| "event_type_value E_FAILED = ''FAILED''"
| "event_type_value SYSTEM_RESET = ''SYSTEM_RESET''"

definition sse_text :: "(case_event \<Rightarrow> string) \<Rightarrow> case_event \<Rightarrow> string" where
  "sse_text dump event =
     ''id: '' @ decimal (int (ce_sequence event)) @ newline
     @ ''event: '' @ event_type_value (ce_event_type event) @ newline
     @ ''data: '' @ dump event @ newline @ newline"

fun chunk_text :: "(case_event \<Rightarrow> string) \<Rightarrow> chunk \<Rightarrow> string" where
  "chunk_text dump (Sse event) = sse_text dump event"
| "chunk_text dump Keep_Alive = '': keep-alive'' @ newline @ newline"

section \<open>The guard\<close>

definition contained_exit_code :: int where
  "contained_exit_code = 75"

definition guard ::
  "(string list \<Rightarrow> ('w, exn, int) prog) \<Rightarrow> table \<Rightarrow> string \<Rightarrow> string list \<Rightarrow> ('w, exn, int) prog" where
  "guard run rows asset arguments =
     bind_p (result_p (blocked_asset rows asset)) (\<lambda>blocked.
       if blocked \<noteq> None then return_p contained_exit_code
       else
         let command = (if arguments \<noteq> [] \<and> hd arguments = ''--'' then tl arguments else arguments)
         in if command = [] then return_p 2
            else catch_p (run command) (\<lambda>e. if is_os_error e then return_p 127 else raise_p e))"

section \<open>The stream delivers every event once\<close>

fun chunk_events :: "chunk list \<Rightarrow> case_event list" where
  "chunk_events [] = []"
| "chunk_events (Sse e # cs) = e # chunk_events cs"
| "chunk_events (Keep_Alive # cs) = chunk_events cs"

lemma chunk_events_append [simp]: "chunk_events (a @ b) = chunk_events a @ chunk_events b"
  by (induction a rule: chunk_events.induct) auto

lemma chunk_events_Sse [simp]: "chunk_events (map Sse es) = es"
  by (induction es) auto

text \<open>The key of a row of a well-formed log is its position.\<close>

lemma row_positions: "store_ok rows \<Longrightarrow> map rw_sequence rows = [1..<Suc (length rows)]"
  by (induction rule: store_ok.induct) (auto simp: row_ok_def)

lemma row_sequence_le: "store_ok rows \<Longrightarrow> r \<in> set rows \<Longrightarrow> rw_sequence r \<le> length rows"
proof -
  assume "store_ok rows" "r \<in> set rows"
  then have "rw_sequence r \<in> set [1..<Suc (length rows)]"
    by (metis imageI image_set row_positions)
  then show ?thesis by auto
qed

lemma later_row_sequence:
  assumes "store_ok (rows @ later)" "r \<in> set later"
  shows "length rows < rw_sequence r"
proof -
  have "map rw_sequence later = drop (length rows) (map rw_sequence (rows @ later))" by simp
  also have "\<dots> = drop (length rows) [1..<Suc (length (rows @ later))]"
    by (simp only: row_positions [OF assms(1)])
  finally have "map rw_sequence later = drop (length rows) [1..<Suc (length (rows @ later))]" .
  then have "rw_sequence r \<in> set [Suc (length rows)..<Suc (length (rows @ later))]"
    using assms(2) by (metis drop_upt image_eqI list.set_map plus_1_eq_Suc)
  then show ?thesis by auto
qed

lemma events_sorted:
  assumes "store_ok rows"
  shows "sorted_wrt (<) (map ce_sequence (events_for_case rows c cursor))"
proof -
  have "sorted_wrt (<) (map rw_sequence rows)"
    by (simp add: row_positions [OF assms] del: upt_Suc)
  then have "sorted_wrt (<) (map rw_sequence (filter P rows))" for P
    by (induction rows) auto
  then show ?thesis by (simp add: events_for_case_def row_to_event_def comp_def)
qed

lemma sorted_last: "sorted_wrt (<) xs \<Longrightarrow> x \<in> set xs \<Longrightarrow> x \<le> last xs" for xs :: "nat list"
  by (induction xs) (auto simp: less_imp_le)

lemma event_of_row:
  "e \<in> set (events_for_case rows c cursor) \<Longrightarrow>
     \<exists>r \<in> set rows. rw_sequence r = ce_sequence e \<and> cursor < ce_sequence e \<and> ce_case_id e = c"
  by (auto simp: events_for_case_def row_to_event_def)

lemma next_cursor_bounds:
  assumes "store_ok rows"
  shows "\<forall>e \<in> set (events_for_case rows c cursor). ce_sequence e \<le> next_cursor cursor (events_for_case rows c cursor)"
    and "events_for_case rows c cursor \<noteq> [] \<Longrightarrow>
      cursor < next_cursor cursor (events_for_case rows c cursor)
      \<and> next_cursor cursor (events_for_case rows c cursor) \<le> length rows"
proof -
  let ?es = "events_for_case rows c cursor"
  show "\<forall>e \<in> set ?es. ce_sequence e \<le> next_cursor cursor ?es"
  proof
    fix e
    assume e: "e \<in> set ?es"
    then have "ce_sequence e \<le> last (map ce_sequence ?es)"
      by (intro sorted_last [OF events_sorted [OF assms]]) simp
    with e show "ce_sequence e \<le> next_cursor cursor ?es" by (auto simp: next_cursor_def last_map)
  qed
  assume "?es \<noteq> []"
  then have "last ?es \<in> set ?es" by simp
  from event_of_row [OF this] obtain r where
    "r \<in> set rows" "rw_sequence r = ce_sequence (last ?es)" "cursor < ce_sequence (last ?es)"
    by blast
  then show "cursor < next_cursor cursor ?es \<and> next_cursor cursor ?es \<le> length rows"
    using row_sequence_le [OF assms, of r] \<open>?es \<noteq> []\<close> by (simp add: next_cursor_def)
qed

text \<open>Reading a longer log in two steps reads it once.\<close>

lemma read_again:
  assumes "store_ok (rows @ later)" "store_ok rows" "current_scope (rows @ later) = current_scope rows"
  shows "events_for_case rows c cursor
      @ events_for_case (rows @ later) c (next_cursor cursor (events_for_case rows c cursor))
    = events_for_case (rows @ later) c cursor"
proof -
  let ?es = "events_for_case rows c cursor"
  let ?n = "next_cursor cursor ?es"
  have old: "filter (\<lambda>r. rw_case_id r = c \<and> current_scope rows < rw_sequence r \<and> ?n < rw_sequence r) rows = []"
  proof -
    have False if "r \<in> set rows" "rw_case_id r = c" "current_scope rows < rw_sequence r" "?n < rw_sequence r" for r
    proof -
      have "cursor \<le> ?n"
        using next_cursor_bounds(2) [OF assms(2), of c cursor] by (cases "?es = []") (auto simp: next_cursor_def)
      with that have "row_to_event r \<in> set ?es" by (auto simp: events_for_case_def)
      with next_cursor_bounds(1) [OF assms(2), of c cursor] that(4) show False
        by (force simp: row_to_event_def)
    qed
    then show ?thesis by (auto simp: filter_empty_conv)
  qed
  have new: "filter (\<lambda>r. rw_case_id r = c \<and> current_scope rows < rw_sequence r \<and> ?n < rw_sequence r) later
    = filter (\<lambda>r. rw_case_id r = c \<and> current_scope rows < rw_sequence r \<and> cursor < rw_sequence r) later"
  proof (rule filter_cong [OF refl])
    fix r
    assume "r \<in> set later"
    then have "length rows < rw_sequence r" using later_row_sequence [OF assms(1)] by blast
    then have "?n < rw_sequence r \<longleftrightarrow> cursor < rw_sequence r"
      using next_cursor_bounds(2) [OF assms(2), of c cursor] by (cases "?es = []") (auto simp: next_cursor_def)
    then show "(rw_case_id r = c \<and> current_scope rows < rw_sequence r \<and> ?n < rw_sequence r)
      = (rw_case_id r = c \<and> current_scope rows < rw_sequence r \<and> cursor < rw_sequence r)" by simp
  qed
  show ?thesis
    using old new by (simp add: events_for_case_def assms(3))
qed

lemma tables_prefix:
  assumes "\<And>n. prefix (tables n) (tables (Suc n))" "i \<le> n"
  shows "prefix (tables i) (tables n)"
  using assms(2) by (induction rule: dec_induct) (auto intro: assms(1) prefix_order.trans)

lemma stream_events:
  fixes tables :: "nat \<Rightarrow> table"
  assumes grows: "\<And>n. prefix (tables n) (tables (Suc n))" and ok: "\<And>n. store_ok (tables n)"
    and scope: "\<And>n. current_scope (tables n) = sc"
  shows "\<exists>n \<ge> i. (n < max_follow_ticks \<or> n = i)
    \<and> chunk_events (stream tables gone c follow i cursor) = events_for_case (tables n) c cursor"
proof (induction "max_follow_ticks - i" arbitrary: i cursor rule: less_induct)
  case less
  let ?es = "events_for_case (tables i) c cursor"
  show ?case
  proof (cases "\<not> follow \<or> gone i \<or> max_follow_ticks \<le> Suc i")
    case True
    then show ?thesis
      by (intro exI [of _ i]) (simp add: stream.simps [of tables gone c _ i cursor] Let_def)
  next
    case False
    then have "max_follow_ticks - Suc i < max_follow_ticks - i" by linarith
    from less [OF this, of "next_cursor cursor ?es"] obtain n where n: "Suc i \<le> n"
      "n < max_follow_ticks \<or> n = Suc i"
      "chunk_events (stream tables gone c follow (Suc i) (next_cursor cursor ?es))
        = events_for_case (tables n) c (next_cursor cursor ?es)"
      by blast
    obtain later where later: "tables n = tables i @ later"
      using tables_prefix [of tables i n] grows n(1) by (auto simp: prefix_def)
    have "?es @ events_for_case (tables n) c (next_cursor cursor ?es) = events_for_case (tables n) c cursor"
      using read_again [of "tables i" later c cursor] ok [of n] ok [of i] scope later by metis
    then have "chunk_events (stream tables gone c follow i cursor) = events_for_case (tables n) c cursor"
      using False n(3) by (simp add: stream.simps [of tables gone c _ i cursor] Let_def)
    moreover have "n < max_follow_ticks" using n(2) False by auto
    ultimately show ?thesis using n(1) by (intro exI [of _ n]) auto
  qed
qed

section \<open>The guard sees every case\<close>

lemma case_events_active:
  assumes "c \<noteq> ''__system__''"
  shows "filter (\<lambda>e. ce_case_id e = c) (all_active_events rows) = events_for_case rows c 0"
  using assms unfolding all_active_events_def events_for_case_def filter_map
  by (intro arg_cong [of _ _ "map row_to_event"]) (auto simp: row_to_event_def intro!: filter_cong)

lemma list_cases_complete:
  assumes "list_cases rows = Inr snaps" "get_case rows c = Inr snap" "c \<noteq> ''__system__''"
  shows "snap \<in> set snaps"
proof -
  let ?active = "all_active_events rows"
  have events: "events_for_case rows c 0 \<noteq> []" "project_case (events_for_case rows c 0) = Inr snap"
    using assms(2) by (auto simp: get_case_def Let_def split: if_splits)
  have "c \<in> set (active_case_ids rows)"
    using events(1) unfolding case_events_active [OF assms(3), of rows, symmetric]
    by (auto simp: active_case_ids_def filter_empty_conv)
  moreover obtain xs where xs: "map_res (\<lambda>c. project_case (filter (\<lambda>e. ce_case_id e = c) ?active))
      (active_case_ids rows) = Inr xs" "set xs = set snaps"
    using assms(1) by (auto simp: list_cases_def bind_res_Inr_iff)
  ultimately show ?thesis
    using map_res_member [OF xs(1), of c] events(2) case_events_active [OF assms(3), of rows] xs(2) by auto
qed

lemma guard_blocks:
  assumes "get_case rows c = Inr snap" "c \<noteq> ''__system__''" "cs_asset_urn snap = asset"
    "cs_state snap \<noteq> RESOLVED"
  shows "guard run rows asset arguments w = (Inr contained_exit_code, w)
    \<or> (\<exists>e. list_cases rows = Inl e \<and> guard run rows asset arguments w = (Inl e, w))"
proof (cases "list_cases rows")
  case (Inl e)
  then show ?thesis by (simp add: guard_def blocked_asset_def bind_p_def)
next
  case (Inr snaps)
  from list_cases_complete [OF Inr assms(1,2)] assms(3,4)
  have "find (\<lambda>c. cs_asset_urn c = asset \<and> cs_state c \<noteq> RESOLVED) snaps \<noteq> None"
    by (auto simp: find_None_iff)
  then show ?thesis using Inr by (simp add: guard_def blocked_asset_def bind_p_def)
qed

section \<open>Cursors and digits\<close>

lemma sse_cursor_range:
  "0 \<le> after \<Longrightarrow> (case sse_cursor after header of
     Inl h \<Rightarrow> he_status h = 400
   | Inr cursor \<Rightarrow> 0 \<le> cursor \<and> cursor \<le> sqlite_max_integer)"
  by (auto simp: sse_cursor_def http_error_def sqlite_max_integer_def split: option.splits)

text \<open>A cursor of the server comes back through the header of a reconnecting client.\<close>

lemma decimal_nat_length: "n < 10 ^ k \<Longrightarrow> 0 < k \<Longrightarrow> length (decimal_nat n) \<le> k"
proof (induction n arbitrary: k rule: decimal_nat.induct)
  case (1 n)
  show ?case
  proof (cases "n < 10")
    case True
    then show ?thesis using 1 by (subst decimal_nat.simps) simp
  next
    case False
    obtain j where k: "k = Suc j" using 1(3) by (cases k) auto
    with False 1(2) have j: "k = Suc j" "0 < j" by (cases j; simp)+
    with 1(2) have "n div 10 < 10 ^ j" by (simp add: less_mult_imp_div_less mult.commute)
    with 1(1) [OF False, of j] j False show ?thesis by (subst decimal_nat.simps) simp
  qed
qed

lemma split_on_absent: "d \<notin> set s \<Longrightarrow> split_on d s = [s]"
  by (induction s) auto

lemma digit_chars: "is_digit c \<Longrightarrow> c \<noteq> CHR ''_'' \<and> c \<noteq> CHR ''-'' \<and> c \<noteq> CHR ''+'' \<and> \<not> is_space c"
  by (auto simp: is_digit_def is_space_def code_def)

lemma strip_by_id: "\<not> p (hd xs) \<Longrightarrow> \<not> p (last xs) \<Longrightarrow> strip_by p xs = xs"
  unfolding strip_by_def by (metis dropWhile_eq_self_iff hd_rev rev_rev_ident)

lemma parse_int_decimal:
  assumes "n < 10 ^ 4300"
  shows "parse_int (decimal_nat n) = Some (int n)" "strip (decimal_nat n) = decimal_nat n"
proof -
  have digits: "list_all is_digit (decimal_nat n)" "digits_value (decimal_nat n) = n"
    using decimal_nat_digits [of n] by auto
  moreover obtain c t where ct: "decimal_nat n = c # t" using decimal_nat_ne [of n] by (cases "decimal_nat n") auto
  ultimately have "\<not> prefix ''-'' (decimal_nat n)" "\<not> prefix ''+'' (decimal_nat n)"
    using digit_chars [of c] by auto
  moreover have "CHR ''_'' \<notin> set (decimal_nat n)"
    using digits(1) digit_chars by (auto simp: list_all_iff)
  ultimately show "parse_int (decimal_nat n) = Some (int n)"
    using digits decimal_nat_length [OF assms]
    by (simp add: parse_int_def unsigned_int_def split_on_absent Let_def)
  have "\<not> is_space (hd (decimal_nat n))" "\<not> is_space (last (decimal_nat n))"
    using digits(1) digit_chars decimal_nat_ne [of n] by (auto simp: list_all_iff hd_in_set last_in_set)
  then show "strip (decimal_nat n) = decimal_nat n"
    by (simp add: strip_def strip_by_id)
qed

lemma sse_cursor_resumes:
  assumes "int n \<le> sqlite_max_integer"
  shows "sse_cursor 0 (Some (decimal (int n))) = Inr (int n)"
proof -
  have "n < 10 ^ 4300"
  proof -
    have "n < 2 ^ 63" using assms by (simp add: sqlite_max_integer_def)
    also have "(2 :: nat) ^ 63 \<le> 2 ^ 4300" by (rule power_increasing) simp_all
    also have "(2 :: nat) ^ 4300 \<le> 10 ^ 4300" by (rule power_mono) simp_all
    finally show ?thesis .
  qed
  from parse_int_decimal [OF this] assms show ?thesis
    by (simp add: sse_cursor_def decimal_def sqlite_max_integer_def)
qed

section \<open>Refusals over HTTP\<close>

text \<open>A response with the status, the headers and the detail of an \<^verbatim>\<open>HTTPException\<close>.\<close>

definition carries :: "http_response \<Rightarrow> http_error \<Rightarrow> bool" where
  "carries response h \<longleftrightarrow>
     hr_status response = int (he_status h)
     \<and> (\<forall>(k, v) \<in> set (he_headers h). hr_headers response (casefold k) = Some v)
     \<and> hr_body response = Inr (JDict [(''detail'', JStr (he_detail h))])"

definition outside_allowlist :: mcl_result where
  "outside_allowlist = mcl_reply SKIPPED ''Asset is outside the remediation allowlist''"

lemma allowlist_rejection:
  assumes "carries response
    \<lparr>he_status = 403, he_detail = ''Asset is outside the configured remediation allowlist'' @ t,
     he_headers = [(''X-DataRescue-Error'', ''ASSET_OUTSIDE_ALLOWLIST'')]\<rparr>"
  shows "is_api_allowlist_rejection response = Inr True"
proof -
  have "casefold ''X-DataRescue-Error'' = ''x-datarescue-error''" by code_simp
  with assms show ?thesis by (simp add: carries_def is_api_allowlist_rejection_def jget_def)
qed

lemma handle_refused:
  assumes "delivered_event lib payload event" "sink event w = (Inl e, w')" "mcl_failure e = Some result"
  shows "handle lib sink payload w = (Inr result, w')"
  using assms
  by (auto simp: delivered_event_def handle_def deliver_def same_schema_mset bind_p_def catch_p_def)

end
