(* ===== verification/Draft_Pr.thy ===== *)
theory Draft_Pr
  imports Checkout Text_Lines Read_Back
begin

text \<open>
  The draft pull request of a validated patch: \<^verbatim>\<open>GitHubDraftPRAdapter\<close> of
  \<^verbatim>\<open>packages/remediation/github.py\<close>.

  The world is what was asked of it so far: every subprocess, every look at the file system and every
  change of it is an action, and the answer to an action is any function of the actions up to it. What
  git and GitHub do is therefore unconstrained.
\<close>

section \<open>Asking the world\<close>

datatype gh_action =
    Command string "string list" nat
  | Which string
  | Exists string
  | ResolvePath string
  | MakeDirs string
  | WriteText string string
  | RemoveTree string

record gh_world =
  gw_run :: "gh_action list \<Rightarrow> exn + int \<times> string"
  gw_flag :: "gh_action list \<Rightarrow> exn + bool"
  gw_path :: "gh_action list \<Rightarrow> exn + string"
  gw_unit :: "gh_action list \<Rightarrow> exn + unit"
  gw_json :: json_lib
  gw_bracketed_host :: "string \<Rightarrow> bool"

record draft_adapter =
  da_enabled :: bool
  da_repository :: string
  da_repo_root :: string
  da_base_branch :: string
  da_patch_path :: string
  da_runtime_dir :: string

type_synonym 'a gh = "(gh_action list, exn, 'a) prog"

definition observe :: "gh_action \<Rightarrow> (gh_action list \<Rightarrow> exn + 'a) \<Rightarrow> 'a gh" where
  "observe a answer trace = (answer (trace @ [a]), trace @ [a])"

definition is_subprocess_error :: "exn \<Rightarrow> bool" where
  "is_subprocess_error e \<longleftrightarrow> (case e of SubprocessError _ _ \<Rightarrow> True | _ \<Rightarrow> False)"

definition system_error :: "exn \<Rightarrow> bool" where
  "system_error e \<longleftrightarrow> is_os_error e \<or> is_subprocess_error e"

text \<open>\<^verbatim>\<open>contextlib.suppress(OSError, subprocess.SubprocessError)\<close>\<close>

definition suppressed :: "unit gh \<Rightarrow> unit gh" where
  "suppressed m = catch_p m (\<lambda>e. if system_error e then return_p () else raise_p e)"

definition called_process_error :: exn where
  "called_process_error = SubprocessError ''CalledProcessError'' ''returned non-zero exit status''"

text \<open>\<^verbatim>\<open>_run\<close>, in a directory.\<close>

definition run_in :: "gh_world \<Rightarrow> string \<Rightarrow> string list \<Rightarrow> string gh" where
  "run_in gw cwd args =
     bind_p (observe (Command cwd args 120) (gw_run gw)) (\<lambda>(returncode, out).
       if returncode \<noteq> 0 then raise_p called_process_error else return_p out)"

definition run_unchecked :: "gh_world \<Rightarrow> string \<Rightarrow> string list \<Rightarrow> (int \<times> string) gh" where
  "run_unchecked gw cwd args = observe (Command cwd args 30) (gw_run gw)"

definition best_effort_run :: "gh_world \<Rightarrow> string \<Rightarrow> string list \<Rightarrow> unit gh" where
  "best_effort_run gw cwd args = suppressed (then_p (run_unchecked gw cwd args) (return_p ()))"

section \<open>Names\<close>

definition slug_char :: "char \<Rightarrow> bool" where
  "slug_char c \<longleftrightarrow> is_lower c \<or> is_digit c \<or> c = CHR ''-''"

definition slug :: "string \<Rightarrow> string" where
  "slug value =
     take 64 (strip_by (\<lambda>c. c = CHR ''-'') (collapse_runs slug_char CHR ''-'' (casefold value)))"

text \<open>\<^verbatim>\<open>base / a / b\<close>: empty parts add nothing.\<close>

definition path_below :: "string \<Rightarrow> string list \<Rightarrow> string" where
  "path_below base parts = join_with ''/'' (base # filter (\<lambda>p. p \<noteq> []) parts)"

definition branch_of :: "string \<Rightarrow> string" where
  "branch_of case_id = ''datarescue/'' @ slug case_id"

definition worktree_of :: "draft_adapter \<Rightarrow> string \<Rightarrow> string" where
  "worktree_of da case_id = path_below (da_runtime_dir da) [''worktrees'', slug case_id]"

definition branch_ref :: "string \<Rightarrow> string" where
  "branch_ref branch = ''refs/heads/'' @ branch"

definition commit_id :: "string \<Rightarrow> bool" where
  "commit_id c \<longleftrightarrow> 40 \<le> length c \<and> length c \<le> 64 \<and> list_all is_hex c"

definition commit_subject :: "string \<Rightarrow> string" where
  "commit_subject case_id = ''fix(data): recover schema drift for '' @ case_id"

definition case_trailer :: string where "case_trailer = ''DataRescue-Case: ''"
definition patch_trailer :: string where "patch_trailer = ''DataRescue-Patch-SHA256: ''"
definition base_trailer :: string where "base_trailer = ''DataRescue-Base-Commit: ''"

definition commit_message :: "string \<Rightarrow> string \<Rightarrow> string \<Rightarrow> string" where
  "commit_message case_id patch_sha256 base_commit =
     commit_subject case_id @ newline @ newline
     @ case_trailer @ case_id @ newline
     @ patch_trailer @ patch_sha256 @ newline
     @ base_trailer @ base_commit"

definition pr_body :: "string \<Rightarrow> string \<Rightarrow> string" where
  "pr_body case_id patch_sha256 =
     ''## DataRescue evidence-gated repair'' @ newline @ newline
     @ ''- Case: `'' @ case_id @ ''`'' @ newline
     @ ''- Patch SHA-256: `'' @ patch_sha256 @ ''`'' @ newline
     @ ''- Deterministic policy: passed'' @ newline
     @ ''- Human merge: required'' @ newline
     @ ''- Incident: remains active until post-deploy verification'' @ newline @ newline
     @ ''This PR was opened only after isolated execution, reconciliation, and dbt checks.''"

section \<open>The bundle\<close>

definition manifest_field :: "string \<Rightarrow> string \<Rightarrow> string" where
  "manifest_field key value = ''  '' @ json_quote key @ '': '' @ json_quote value"

definition bundle_manifest :: "draft_adapter \<Rightarrow> string \<Rightarrow> string \<Rightarrow> patch_artifact \<Rightarrow> string" where
  "bundle_manifest da case_id branch patch =
     ''{'' @ newline
     @ join_with ('','' @ newline)
         [manifest_field ''base'' (da_base_branch da),
          manifest_field ''branch'' branch,
          manifest_field ''case_id'' case_id,
          manifest_field ''patch_sha256'' (pa_sha256 patch),
          manifest_field ''reason'' ''external GitHub writes are disabled or unavailable'',
          manifest_field ''repository'' (da_repository da),
          manifest_field ''status'' ''NOT_RUN'',
          manifest_field ''target_path'' (da_patch_path da)]
     @ newline @ ''}'' @ newline"

definition bundle_dir :: "draft_adapter \<Rightarrow> string \<Rightarrow> string" where
  "bundle_dir da case_id = path_below (da_runtime_dir da) [''pr-bundles'', slug case_id]"

definition write_bundle ::
  "gh_world \<Rightarrow> draft_adapter \<Rightarrow> string \<Rightarrow> string \<Rightarrow> patch_artifact \<Rightarrow> string gh" where
  "write_bundle gw da case_id branch patch =
     (let dir = bundle_dir da case_id; manifest = path_below dir [''manifest.json'']
      in then_p (observe (MakeDirs dir) (gw_unit gw))
        (then_p (observe (WriteText (path_below dir [''payments_fct.sql'']) (pa_content patch)) (gw_unit gw))
        (then_p (observe (WriteText manifest (bundle_manifest da case_id branch patch)) (gw_unit gw))
          (return_p manifest))))"

section \<open>Looking at the remote\<close>

definition fetch_remote_commit :: "gh_world \<Rightarrow> draft_adapter \<Rightarrow> string \<Rightarrow> unit gh" where
  "fetch_remote_commit gw da commit =
     (if \<not> commit_id commit then raise_p (ValueError ''GitHub returned an invalid commit id'')
      else then_p (run_in gw (da_repo_root da) [''git'', ''fetch'', ''--no-tags'', ''origin'', commit])
             (return_p ()))"

definition remote_row :: "string \<Rightarrow> string list list \<Rightarrow> exn + string" where
  "remote_row branch rows =
     (case rows of
        [[sha, ref]] \<Rightarrow>
          if ref \<noteq> branch_ref branch
          then Inl (ValueError (''Unexpected remote branch lookup result for '' @ py_repr branch))
          else if \<not> commit_id sha
          then Inl (ValueError ''Remote branch lookup returned an invalid commit id'')
          else Inr sha
      | _ \<Rightarrow> Inl (ValueError (''Unexpected remote branch lookup result for '' @ py_repr branch)))"

definition remote_branch_sha :: "gh_world \<Rightarrow> draft_adapter \<Rightarrow> string \<Rightarrow> string option gh" where
  "remote_branch_sha gw da branch =
     bind_p (run_in gw (da_repo_root da)
               [''git'', ''ls-remote'', ''--heads'', ''origin'', branch_ref branch]) (\<lambda>out.
       let rows = map words (filter (\<lambda>row. strip row \<noteq> []) (splitlines out))
       in if rows = [] then return_p None
          else bind_p (result_p (remote_row branch rows)) (\<lambda>sha.
               then_p (fetch_remote_commit gw da sha) (return_p (Some sha))))"

text \<open>Whether a commit was made by this adapter, for this case and this patch.\<close>

definition trailers :: "string \<Rightarrow> string list \<Rightarrow> string list" where
  "trailers key lines = map (remove_prefix key) (filter (prefix key) lines)"

definition recorded_base :: "string \<Rightarrow> patch_artifact \<Rightarrow> string list \<Rightarrow> string \<Rightarrow> string option" where
  "recorded_base case_id patch message_lines parent =
     (if \<exists>line \<in> set (tl message_lines). prefix ''DataRescue-'' line
      then if trailers case_trailer message_lines \<noteq> [case_id]
              \<or> trailers patch_trailer message_lines \<noteq> [pa_sha256 patch]
              \<or> trailers base_trailer message_lines \<noteq> [parent]
           then None else Some (hd (trailers base_trailer message_lines))
      else Some parent)"

text \<open>The sole commit on top of its base changes one path, to the validated content.\<close>

definition tree_is_patch ::
  "gh_world \<Rightarrow> draft_adapter \<Rightarrow> string \<Rightarrow> patch_artifact \<Rightarrow> string \<Rightarrow> string \<Rightarrow> bool gh" where
  "tree_is_patch gw da commit patch target base =
     (let root = da_repo_root da in
      bind_p (run_in gw root [''git'', ''rev-list'', ''--reverse'', base @ ''..'' @ commit]) (\<lambda>commit_range.
        if splitlines commit_range \<noteq> [commit] then return_p False
        else bind_p (run_in gw root
               [''git'', ''diff'', ''--no-ext-diff'', ''--no-renames'', ''--name-only'', base, commit]) (\<lambda>changed.
          if splitlines changed \<noteq> [as_posix target] then return_p False
          else bind_p (run_in gw root [''git'', ''show'', commit @ '':'' @ as_posix target]) (\<lambda>content.
            return_p (content = pa_content patch)))))"

definition descends ::
  "gh_world \<Rightarrow> draft_adapter \<Rightarrow> string \<Rightarrow> string \<Rightarrow> bool gh" where
  "descends gw da base current_base_commit =
     catch_p
       (then_p (run_in gw (da_repo_root da)
                 [''git'', ''merge-base'', ''--is-ancestor'', base, current_base_commit])
          (return_p True))
       (\<lambda>e. if e = called_process_error then return_p False else raise_p e)"

definition commit_is_owned ::
  "gh_world \<Rightarrow> draft_adapter \<Rightarrow> string \<Rightarrow> string \<Rightarrow> patch_artifact \<Rightarrow> string \<Rightarrow> string \<Rightarrow> bool gh" where
  "commit_is_owned gw da commit case_id patch target current_base_commit =
     (let root = da_repo_root da in
      bind_p (run_in gw root [''git'', ''show'', ''-s'', ''--format=%B'', commit]) (\<lambda>message.
        let message_lines = splitlines message
        in if message_lines = [] \<or> hd message_lines \<noteq> commit_subject case_id then return_p False
           else bind_p (run_in gw root [''git'', ''rev-list'', ''--parents'', ''-n'', ''1'', commit]) (\<lambda>out.
             let parents = words out
             in if length parents \<noteq> 2 then return_p False
                else case recorded_base case_id patch message_lines (parents ! 1) of
                  None \<Rightarrow> return_p False
                | Some base \<Rightarrow>
                    bind_p (descends gw da base current_base_commit) (\<lambda>ok.
                      if \<not> ok then return_p False
                      else tree_is_patch gw da commit patch target base))))"

section \<open>Finding the pull request\<close>

definition validate_pr_url :: "gh_world \<Rightarrow> draft_adapter \<Rightarrow> string \<Rightarrow> exn + unit" where
  "validate_pr_url gw da url =
     (if url = [] then Inl (ValueError ''GitHub PR creation returned no URL'')
      else case urlsplit (gw_bracketed_host gw) url of
        None \<Rightarrow> Inl (ValueError ''Invalid IPv6 URL'')
      | Some parsed \<Rightarrow>
          let parts = filter (\<lambda>p. p \<noteq> []) (split_on CHR ''/'' (us_path parsed));
              (owner, found, name) = partition CHR ''/'' (da_repository da)
          in if us_scheme parsed \<noteq> ''https'' \<or> casefold (us_netloc parsed) \<noteq> ''github.com''
                \<or> length parts \<noteq> 4 \<or> \<not> found
                \<or> casefold (parts ! 0) \<noteq> casefold owner \<or> casefold (parts ! 1) \<noteq> casefold name
                \<or> parts ! 2 \<noteq> ''pull'' \<or> \<not> list_all is_digit (parts ! 3)
             then Inl (ValueError ''GitHub PR URL does not match the allowed repository'')
             else Inr ())"

definition nested_name :: "json \<Rightarrow> string \<Rightarrow> string option" where
  "nested_name v key =
     (case v of JDict d \<Rightarrow> (case jget d key of JStr s \<Rightarrow> Some s | _ \<Rightarrow> None) | _ \<Rightarrow> None)"

definition expected_head :: "draft_adapter \<Rightarrow> string \<Rightarrow> jdict \<Rightarrow> bool" where
  "expected_head da branch candidate \<longleftrightarrow>
     jget candidate ''headRefName'' = JStr branch
     \<and> jget candidate ''baseRefName'' = JStr (da_base_branch da)
     \<and> map_option casefold (nested_name (jget candidate ''headRepositoryOwner'') ''login'')
         = Some (casefold (fst (partition CHR ''/'' (da_repository da))))
     \<and> map_option casefold (nested_name (jget candidate ''headRepository'') ''nameWithOwner'')
         = Some (casefold (da_repository da))
     \<and> jget candidate ''isCrossRepository'' = JBool False
     \<and> jget candidate ''isDraft'' = JBool True"

text \<open>The URL and the head commit of an entry, when it is the one that was asked for.\<close>

definition candidate_entry ::
  "gh_world \<Rightarrow> draft_adapter \<Rightarrow> string \<Rightarrow> string \<Rightarrow> json \<Rightarrow> exn + string \<times> string" where
  "candidate_entry gw da branch remote_head candidate =
     (case candidate of
        JDict d \<Rightarrow>
          if \<not> expected_head da branch d
          then Inl (ValueError ''GitHub PR lookup returned an unexpected repository/head'')
          else (case (jget d ''url'', jget d ''headRefOid'') of
             (JStr url, JStr head_oid) \<Rightarrow>
               if casefold head_oid \<noteq> casefold remote_head
               then Inl (ValueError ''GitHub PR head does not match the allowed origin branch'')
               else bind_res (validate_pr_url gw da url) (\<lambda>_. Inr (url, head_oid))
           | _ \<Rightarrow> Inl (ValueError ''GitHub PR lookup omitted its URL or head commit''))
      | _ \<Rightarrow> Inl (ValueError ''GitHub PR lookup returned an invalid entry''))"

fun owned_urls ::
  "gh_world \<Rightarrow> draft_adapter \<Rightarrow> string \<Rightarrow> string \<Rightarrow> patch_artifact \<Rightarrow> string \<Rightarrow> string \<Rightarrow> json list
    \<Rightarrow> string list gh" where
  "owned_urls gw da case_id branch patch base remote_head [] = return_p []"
| "owned_urls gw da case_id branch patch base remote_head (candidate # rest) =
     bind_p (result_p (candidate_entry gw da branch remote_head candidate)) (\<lambda>(url, head_oid).
     bind_p (fetch_remote_commit gw da head_oid) (\<lambda>_.
     bind_p (commit_is_owned gw da head_oid case_id patch (da_patch_path da) base) (\<lambda>owned.
       if \<not> owned
       then raise_p (ValueError ''Existing GitHub PR head is not owned by this DataRescue case'')
       else bind_p (owned_urls gw da case_id branch patch base remote_head rest)
              (\<lambda>urls. return_p (url # urls)))))"

definition pr_list_command :: "draft_adapter \<Rightarrow> string \<Rightarrow> string list" where
  "pr_list_command da branch =
     [''gh'', ''pr'', ''list'', ''--repo'', da_repository da, ''--state'', ''open'', ''--head'', branch,
      ''--json'', ''url,headRefName,headRefOid,baseRefName,headRepositoryOwner,headRepository,isCrossRepository,isDraft'',
      ''--limit'', ''100'']"

definition listed_candidates :: "gh_world \<Rightarrow> string \<Rightarrow> exn + json list" where
  "listed_candidates gw raw =
     (case lib_loads (gw_json gw) (if raw = [] then ''[]'' else raw) of
        None \<Rightarrow> Inl (ValueError ''GitHub PR lookup returned invalid JSON'')
      | Some (JList candidates) \<Rightarrow> Inr candidates
      | Some _ \<Rightarrow> Inl (ValueError ''GitHub PR lookup returned an invalid payload''))"

definition find_existing_pr ::
  "gh_world \<Rightarrow> draft_adapter \<Rightarrow> string \<Rightarrow> string \<Rightarrow> patch_artifact \<Rightarrow> string \<Rightarrow> string option gh" where
  "find_existing_pr gw da case_id branch patch base =
     bind_p (run_in gw (da_repo_root da) (pr_list_command da branch)) (\<lambda>raw.
     bind_p (result_p (listed_candidates gw raw)) (\<lambda>candidates.
     bind_p (remote_branch_sha gw da branch) (\<lambda>remote_head.
       case remote_head of
         None \<Rightarrow>
           if candidates \<noteq> []
           then raise_p (ValueError ''GitHub PR head branch is missing from the allowed repository'')
           else return_p None
       | Some head \<Rightarrow>
           bind_p (owned_urls gw da case_id branch patch base head candidates) (\<lambda>urls.
             case urls of
               [] \<Rightarrow> return_p None
             | [url] \<Rightarrow> return_p (Some url)
             | _ \<Rightarrow> raise_p (ValueError ''Multiple open PRs exist for the same DataRescue branch'')))))"

section \<open>Creating the pull request\<close>

definition pr_create_command :: "draft_adapter \<Rightarrow> string \<Rightarrow> string \<Rightarrow> patch_artifact \<Rightarrow> string list" where
  "pr_create_command da case_id branch patch =
     [''gh'', ''pr'', ''create'', ''--repo'', da_repository da, ''--draft'', ''--base'', da_base_branch da,
      ''--head'', branch, ''--title'', ''DataRescue: evidence-gated recovery for '' @ case_id,
      ''--body'', pr_body case_id (pa_sha256 patch)]"

text \<open>The \<^verbatim>\<open>try\<close> block: the output, or the system error to look behind.\<close>

definition try_create ::
  "gh_world \<Rightarrow> draft_adapter \<Rightarrow> string \<Rightarrow> string \<Rightarrow> patch_artifact \<Rightarrow> (exn + string) gh" where
  "try_create gw da case_id branch patch =
     attempted system_error
       (bind_p (run_in gw (da_repo_root da) (pr_create_command da case_id branch patch))
          (\<lambda>out. return_p (strip out)))"

definition create_or_reconcile_pr ::
  "gh_world \<Rightarrow> draft_adapter \<Rightarrow> string \<Rightarrow> string \<Rightarrow> patch_artifact \<Rightarrow> string \<Rightarrow> string gh" where
  "create_or_reconcile_pr gw da case_id branch patch base =
     bind_p (try_create gw da case_id branch patch) (\<lambda>answer.
       case answer of
         Inl e \<Rightarrow>
           bind_p (find_existing_pr gw da case_id branch patch base) (\<lambda>existing.
             case existing of Some url \<Rightarrow> return_p url | None \<Rightarrow> raise_p e)
       | Inr output \<Rightarrow>
           bind_p (result_p (validate_pr_url gw da output)) (\<lambda>_.
           bind_p (find_existing_pr gw da case_id branch patch base) (\<lambda>existing.
             if existing = Some output then return_p output
             else raise_p (ValueError ''Created GitHub PR could not be safely reconciled''))))"

section \<open>The worktree\<close>

definition local_branch_sha :: "gh_world \<Rightarrow> draft_adapter \<Rightarrow> string \<Rightarrow> string option gh" where
  "local_branch_sha gw da branch =
     bind_p (run_unchecked gw (da_repo_root da) [''git'', ''rev-parse'', ''--verify'', branch_ref branch])
       (\<lambda>(returncode, out).
          if returncode \<noteq> 0 then return_p None
          else if \<not> commit_id (strip out)
          then raise_p (ValueError ''Local branch lookup returned an invalid commit id'')
          else return_p (Some (strip out)))"

definition assert_local_slot_available ::
  "gh_world \<Rightarrow> draft_adapter \<Rightarrow> string \<Rightarrow> string \<Rightarrow> unit gh" where
  "assert_local_slot_available gw da branch worktree =
     bind_p (local_branch_sha gw da branch) (\<lambda>sha.
     bind_p (if sha \<noteq> None then return_p True else observe (Exists worktree) (gw_flag gw)) (\<lambda>taken.
       if taken
       then raise_p (ValueError (''Local branch/worktree '' @ py_repr branch
         @ '' already exists; refusing to delete unknown state''))
       else return_p ()))"

definition remove_leftover :: "gh_world \<Rightarrow> string \<Rightarrow> unit gh" where
  "remove_leftover gw worktree =
     catch_p
       (bind_p (observe (Exists worktree) (gw_flag gw)) (\<lambda>found.
          if found then observe (RemoveTree worktree) (gw_unit gw) else return_p ()))
       (\<lambda>e. if is_os_error e then return_p () else raise_p e)"

definition cleanup_own_worktree :: "gh_world \<Rightarrow> draft_adapter \<Rightarrow> string \<Rightarrow> string \<Rightarrow> unit gh" where
  "cleanup_own_worktree gw da worktree branch =
     then_p (best_effort_run gw (da_repo_root da) [''git'', ''worktree'', ''remove'', ''--force'', worktree])
       (then_p (best_effort_run gw (da_repo_root da) [''git'', ''branch'', ''-D'', branch])
         (remove_leftover gw worktree))"

text \<open>\<^verbatim>\<open>git worktree list --porcelain -z\<close>: fields that end in NUL, an empty field after each record.\<close>

type_synonym worktree_record = "(string \<times> string) list"

definition record_set :: "worktree_record \<Rightarrow> string \<Rightarrow> string \<Rightarrow> worktree_record" where
  "record_set r key value = (key, value) # filter (\<lambda>kv. fst kv \<noteq> key) r"

fun records_from :: "worktree_record \<Rightarrow> string list \<Rightarrow> worktree_record list" where
  "records_from current [] = (if current \<noteq> [] then [current] else [])"
| "records_from current (field # later) =
     (if field = []
      then (if current \<noteq> [] then [current] else []) @ records_from [] later
      else let (key, found, value) = partition CHR '' '' field
           in records_from (record_set current key (if found then value else [])) later)"

definition worktree_records :: "string \<Rightarrow> worktree_record list" where
  "worktree_records payload = records_from [] (split_on CHR 0x00 payload)"

text \<open>The test of one record; its path is only resolved when it has one.\<close>

definition own_record ::
  "gh_world \<Rightarrow> string \<Rightarrow> string \<Rightarrow> string \<Rightarrow> worktree_record \<Rightarrow> bool gh" where
  "own_record gw expected_path branch base_commit r =
     (case map_of r ''worktree'' of
        None \<Rightarrow> return_p False
      | Some path \<Rightarrow>
          bind_p (observe (ResolvePath path) (gw_path gw)) (\<lambda>resolved.
            return_p (path_parts resolved = path_parts expected_path
              \<and> map_of r ''branch'' = Some (branch_ref branch)
              \<and> casefold (case map_of r ''HEAD'' of Some h \<Rightarrow> h | None \<Rightarrow> []) = casefold base_commit)))"

fun any_p :: "('a \<Rightarrow> bool gh) \<Rightarrow> 'a list \<Rightarrow> bool gh" where
  "any_p f [] = return_p False"
| "any_p f (x # xs) = bind_p (f x) (\<lambda>found. if found then return_p True else any_p f xs)"

definition cleanup_incomplete_worktree ::
  "gh_world \<Rightarrow> draft_adapter \<Rightarrow> string \<Rightarrow> string \<Rightarrow> string \<Rightarrow> unit gh" where
  "cleanup_incomplete_worktree gw da worktree branch base_commit =
     bind_p (observe (ResolvePath worktree) (gw_path gw)) (\<lambda>expected_path.
     bind_p (run_in gw (da_repo_root da) [''git'', ''worktree'', ''list'', ''--porcelain'', ''-z'']) (\<lambda>out.
     bind_p (any_p (own_record gw expected_path branch base_commit) (worktree_records out)) (\<lambda>owned.
       if \<not> owned then return_p ()
       else bind_p (local_branch_sha gw da branch) (\<lambda>sha.
         if sha \<noteq> Some base_commit then return_p ()
         else cleanup_own_worktree gw da worktree branch))))"

section \<open>Preconditions\<close>

definition check_request ::
  "gh_world \<Rightarrow> draft_adapter \<Rightarrow> string \<Rightarrow> patch_artifact \<Rightarrow> unit gh" where
  "check_request gw da case_id patch =
     bind_p (observe (Exists (path_below (da_repo_root da) [''.git''])) (gw_flag gw)) (\<lambda>repository.
       if \<not> repository then raise_p (ValueError (''Not a git repository: '' @ da_repo_root da))
       else bind_p (observe (Which ''gh'') (gw_flag gw)) (\<lambda>gh.
         bind_p (if gh then observe (Which ''git'') (gw_flag gw) else return_p False) (\<lambda>tools.
           if \<not> tools then raise_p (ValueError ''git and gh are required for real draft PR creation'')
           else if is_absolute (da_patch_path da) \<or> ''..'' \<in> set (path_parts (da_patch_path da))
           then raise_p (ValueError ''GitHub patch path must be a safe repository-relative path'')
           else if slug case_id = []
           then raise_p (ValueError ''Case id must contain at least one safe branch character'')
           else if sha256_hex (pa_content patch) \<noteq> pa_sha256 patch
           then raise_p (ValueError ''Patch SHA-256 does not match its content'')
           else return_p ())))"

definition check_urls :: "gh_world \<Rightarrow> draft_adapter \<Rightarrow> string \<Rightarrow> string list \<Rightarrow> exn + unit" where
  "check_urls gw da operation urls =
     (if urls = [] then Inl (ValueError (''Git origin has no '' @ operation @ '' URL''))
      else bind_res
        (map_res (\<lambda>url.
           bind_res (github_repository_from_remote_url (gw_bracketed_host gw) (strip url)) (\<lambda>resolved.
             if map_option casefold resolved \<noteq> Some (casefold (da_repository da))
             then Inl (ValueError (''Git origin '' @ operation
               @ '' URL does not match the allowed repository''))
             else Inr ())) urls)
        (\<lambda>_. Inr ()))"

definition validate_origin_urls :: "gh_world \<Rightarrow> draft_adapter \<Rightarrow> unit gh" where
  "validate_origin_urls gw da =
     bind_p (run_in gw (da_repo_root da) [''git'', ''remote'', ''get-url'', ''--all'', ''origin'']) (\<lambda>fetch.
     bind_p (run_in gw (da_repo_root da) [''git'', ''remote'', ''get-url'', ''--push'', ''--all'', ''origin'']) (\<lambda>push.
     then_p (result_p (check_urls gw da ''fetch'' (splitlines fetch)))
       (result_p (check_urls gw da ''push'' (splitlines push)))))"

definition fetch_remote_base :: "gh_world \<Rightarrow> draft_adapter \<Rightarrow> string gh" where
  "fetch_remote_base gw da =
     (let root = da_repo_root da in
      bind_p (run_in gw root [''git'', ''check-ref-format'', ''--branch'', da_base_branch da]) (\<lambda>_.
      bind_p (run_in gw root [''git'', ''fetch'', ''--no-tags'', ''origin'', branch_ref (da_base_branch da)]) (\<lambda>_.
      bind_p (run_in gw root [''git'', ''rev-parse'', ''--verify'', ''FETCH_HEAD^{commit}'']) (\<lambda>out.
        if \<not> commit_id (strip out)
        then raise_p (ValueError ''Origin base branch returned an invalid commit id'')
        else return_p (strip out)))))"

text \<open>Everything that has to hold before any branch or worktree is looked at: the base commit.\<close>

definition authorize :: "gh_world \<Rightarrow> draft_adapter \<Rightarrow> string \<Rightarrow> patch_artifact \<Rightarrow> string gh" where
  "authorize gw da case_id patch =
     then_p (check_request gw da case_id patch)
     (then_p (observe (MakeDirs (path_below (da_runtime_dir da) [''worktrees''])) (gw_unit gw))
     (then_p (run_in gw (da_repo_root da) [''gh'', ''auth'', ''status''])
     (bind_p (run_in gw (da_repo_root da)
               [''gh'', ''repo'', ''view'', ''--json'', ''nameWithOwner'', ''--jq'', ''.nameWithOwner'']) (\<lambda>remote_name.
        if casefold (strip remote_name) \<noteq> casefold (da_repository da)
        then raise_p (ValueError (''GitHub allowlist mismatch: '' @ py_repr (strip remote_name)))
        else then_p (validate_origin_urls gw da) (fetch_remote_base gw da)))))"

section \<open>Publishing a branch\<close>

definition write_target :: "gh_world \<Rightarrow> string \<Rightarrow> string \<Rightarrow> string \<Rightarrow> unit gh" where
  "write_target gw worktree target_relative content =
     bind_p (observe (ResolvePath (path_below worktree [as_posix target_relative])) (gw_path gw)) (\<lambda>target.
     bind_p (observe (ResolvePath worktree) (gw_path gw)) (\<lambda>root.
       if \<not> strict_prefix (path_parts root) (path_parts target)
       then raise_p (ValueError ''Resolved patch path escaped the worktree'')
       else then_p (observe (MakeDirs (absolute_path (butlast (path_parts target)))) (gw_unit gw))
              (observe (WriteText target content) (gw_unit gw))))"

definition publish_branch ::
  "gh_world \<Rightarrow> draft_adapter \<Rightarrow> string \<Rightarrow> string \<Rightarrow> patch_artifact \<Rightarrow> string \<Rightarrow> string \<Rightarrow> string gh" where
  "publish_branch gw da case_id branch patch base_commit worktree =
     then_p (write_target gw worktree (da_patch_path da) (pa_content patch))
     (then_p (run_in gw worktree [''git'', ''add'', ''--'', as_posix (da_patch_path da)])
     (then_p (run_in gw worktree
               [''git'', ''commit'', ''-m'', commit_message case_id (pa_sha256 patch) base_commit])
     (then_p (run_in gw worktree [''git'', ''push'', ''--set-upstream'', ''origin'', branch])
       (create_or_reconcile_pr gw da case_id branch patch base_commit))))"

definition in_own_worktree ::
  "gh_world \<Rightarrow> draft_adapter \<Rightarrow> string \<Rightarrow> string \<Rightarrow> string \<Rightarrow> string gh \<Rightarrow> string gh" where
  "in_own_worktree gw da branch base_commit worktree work =
     then_p
       (catch_p
          (run_in gw (da_repo_root da) [''git'', ''worktree'', ''add'', ''-b'', branch, worktree, base_commit])
          (\<lambda>e. then_p (suppressed (cleanup_incomplete_worktree gw da worktree branch base_commit)) (raise_p e)))
       (finally_p work (suppressed (cleanup_own_worktree gw da worktree branch)))"

definition new_branch ::
  "gh_world \<Rightarrow> draft_adapter \<Rightarrow> string \<Rightarrow> string \<Rightarrow> patch_artifact \<Rightarrow> string \<Rightarrow> string gh" where
  "new_branch gw da case_id branch patch base_commit =
     (let worktree = worktree_of da case_id in
      then_p (assert_local_slot_available gw da branch worktree)
        (in_own_worktree gw da branch base_commit worktree
          (publish_branch gw da case_id branch patch base_commit worktree)))"

text \<open>What is on the remote already decides: the open pull request, the branch without one, or nothing.\<close>

definition reconcile_or_publish ::
  "gh_world \<Rightarrow> draft_adapter \<Rightarrow> string \<Rightarrow> string \<Rightarrow> patch_artifact \<Rightarrow> string \<Rightarrow> string gh" where
  "reconcile_or_publish gw da case_id branch patch base_commit =
     bind_p (find_existing_pr gw da case_id branch patch base_commit) (\<lambda>existing.
       case existing of
         Some url \<Rightarrow> return_p url
       | None \<Rightarrow>
           bind_p (remote_branch_sha gw da branch) (\<lambda>remote_sha.
             case remote_sha of
               None \<Rightarrow> new_branch gw da case_id branch patch base_commit
             | Some sha \<Rightarrow>
                 bind_p (commit_is_owned gw da sha case_id patch (da_patch_path da) base_commit) (\<lambda>owned.
                   if \<not> owned
                   then raise_p (ValueError (''Remote branch '' @ py_repr branch
                     @ '' exists but is not owned by this DataRescue case''))
                   else create_or_reconcile_pr gw da case_id branch patch base_commit)))"

definition create_real_draft ::
  "gh_world \<Rightarrow> draft_adapter \<Rightarrow> string \<Rightarrow> string \<Rightarrow> patch_artifact \<Rightarrow> string gh" where
  "create_real_draft gw da case_id branch patch =
     bind_p (authorize gw da case_id patch) (reconcile_or_publish gw da case_id branch patch)"

section \<open>The adapter\<close>

definition draft_result ::
  "draft_adapter \<Rightarrow> integration_status \<Rightarrow> string \<Rightarrow> string option \<Rightarrow> string list \<Rightarrow> integration_result" where
  "draft_result da status message resource refs =
     \<lparr>ir_status = status, ir_operation = ''github_create_draft_pr'', ir_message = message,
      ir_resource_id = resource, ir_evidence_refs = refs,
      ir_details = [(''repository'', JStr (da_repository da)), (''requires_human_merge'', JBool True)]\<rparr>"

definition bundled ::
  "gh_world \<Rightarrow> draft_adapter \<Rightarrow> string \<Rightarrow> string \<Rightarrow> patch_artifact \<Rightarrow> integration_status \<Rightarrow> string
    \<Rightarrow> pull_request_artifact gh" where
  "bundled gw da case_id branch patch status message =
     bind_p (write_bundle gw da case_id branch patch) (\<lambda>bundle.
       return_p \<lparr>pr_integration = draft_result da status message None [bundle], pr_branch = Some branch,
                 pr_url = None, pr_bundle_path = Some bundle\<rparr>)"

definition create_draft ::
  "gh_world \<Rightarrow> draft_adapter \<Rightarrow> string \<Rightarrow> patch_artifact \<Rightarrow> pull_request_artifact gh" where
  "create_draft gw da case_id patch =
     (let branch = branch_of case_id in
      if \<not> da_enabled da
      then bundled gw da case_id branch patch NOT_RUN
        ''GitHub write access is disabled; a reviewable local PR bundle was written''
      else catch_p
        (bind_p (create_real_draft gw da case_id branch patch) (\<lambda>url.
           return_p \<lparr>pr_integration = draft_result da SUCCEEDED
                       ''Real draft PR created; incident remains active pending human merge'' (Some url) [url],
                     pr_branch = Some branch, pr_url = Some url, pr_bundle_path = None\<rparr>))
        (\<lambda>e. if system_error e \<or> is_value_error e
             then bundled gw da case_id branch patch I_FAILED
               (''Draft PR creation failed; local bundle retained ('' @ type_name e @ '')'')
             else raise_p e))"

end
