(* ===== verification/Draft_Safety.thy ===== *)
theory Draft_Safety
  imports Draft_Pr
begin

text \<open>
  What the draft pull request adapter may do to the repository and to GitHub, when it does it, and what
  a success it reports stands for.
\<close>

section \<open>Reads and writes\<close>

definition is_read :: "string list \<Rightarrow> bool" where
  "is_read args \<longleftrightarrow> take 2 args \<in>
     {[''gh'', ''auth''], [''gh'', ''repo''], [''git'', ''remote''], [''git'', ''check-ref-format''],
      [''git'', ''fetch''], [''git'', ''rev-parse''], [''git'', ''ls-remote''], [''git'', ''show''],
      [''git'', ''rev-list''], [''git'', ''merge-base''], [''git'', ''diff'']}
     \<or> take 3 args \<in> {[''gh'', ''pr'', ''list''], [''git'', ''worktree'', ''list'']}"

text \<open>Fetching is a read: it moves no branch of the repository.\<close>

fun reads_only :: "gh_action \<Rightarrow> bool" where
  "reads_only (Command cwd args timeout) = is_read args"
| "reads_only (Which name) = True"
| "reads_only (Exists path) = True"
| "reads_only (ResolvePath path) = True"
| "reads_only (MakeDirs path) = True"
| "reads_only (WriteText path content) = False"
| "reads_only (RemoveTree path) = False"

lemma reads_commands [simp]:
  "is_read [''gh'', ''auth'', ''status'']"
  "is_read [''gh'', ''repo'', ''view'', ''--json'', ''nameWithOwner'', ''--jq'', ''.nameWithOwner'']"
  "is_read (''git'' # ''remote'' # rest)" "is_read (''git'' # ''check-ref-format'' # rest)"
  "is_read (''git'' # ''fetch'' # rest)" "is_read (''git'' # ''rev-parse'' # rest)"
  "is_read (''git'' # ''ls-remote'' # rest)" "is_read (''git'' # ''show'' # rest)"
  "is_read (''git'' # ''rev-list'' # rest)" "is_read (''git'' # ''merge-base'' # rest)"
  "is_read (''git'' # ''diff'' # rest)" "is_read (''git'' # ''worktree'' # ''list'' # rest)"
  "is_read (pr_list_command da branch)"
  by (simp_all add: is_read_def pr_list_command_def)

section \<open>Programs over the record of actions\<close>

lemma observe_run: "observe a answer tr = (r, t) \<longleftrightarrow> t = tr @ [a] \<and> r = answer t"
  by (auto simp: observe_def)

lemma acts_step: "ok a \<Longrightarrow> acts ok start tr \<Longrightarrow> acts ok start (tr @ [a])"
  by (auto simp: acts_def)

lemma keeps_observe [keeps_intros]: "ok a \<Longrightarrow> keeps (acts ok start) (observe a answer)"
  by (simp add: keeps_def observe_def acts_step)

lemma keeps_bind_observe:
  assumes "ok a" and "\<And>tr x. answer (tr @ [a]) = Inr x \<Longrightarrow> keeps (acts ok start) (f x)"
  shows "keeps (acts ok start) (bind_p (observe a answer) f)"
  using assms acts_step [of ok a start]
  by (auto simp: keeps_def bind_p_def observe_def split: sum.split)

lemma keeps_case_prod [keeps_intros]: "(\<And>x y. keeps I (f x y)) \<Longrightarrow> keeps I (case p of (x, y) \<Rightarrow> f x y)"
  by (cases p) simp

lemma run_in_acts [keeps_intros]:
  "ok (Command cwd args 120) \<Longrightarrow> keeps (acts ok start) (run_in gw cwd args)"
  unfolding run_in_def by (intro keeps_intros)

lemma run_unchecked_acts [keeps_intros]:
  "ok (Command cwd args 30) \<Longrightarrow> keeps (acts ok start) (run_unchecked gw cwd args)"
  unfolding run_unchecked_def by (intro keeps_intros)

lemma suppressed_keeps [keeps_intros]: "keeps I m \<Longrightarrow> keeps I (suppressed m)"
  unfolding suppressed_def by (intro keeps_intros)

lemma any_p_keeps [keeps_intros]: "(\<And>x. keeps I (f x)) \<Longrightarrow> keeps I (any_p f xs)"
  by (induction xs) (auto intro!: keeps_intros)

lemma acts_weaken: "acts ok start t \<Longrightarrow> (\<And>a. ok a \<Longrightarrow> ok' a) \<Longrightarrow> acts ok' start t"
  by (auto simp: acts_def list_all_iff)

section \<open>The reading operations\<close>

lemma fetch_remote_commit_reads [keeps_intros]:
  "keeps (acts reads_only start) (fetch_remote_commit gw da commit)"
  unfolding fetch_remote_commit_def by (intro keeps_intros) simp

lemma remote_branch_sha_reads [keeps_intros]:
  "keeps (acts reads_only start) (remote_branch_sha gw da branch)"
  unfolding remote_branch_sha_def Let_def by (intro keeps_intros) simp

lemma tree_is_patch_reads [keeps_intros]:
  "keeps (acts reads_only start) (tree_is_patch gw da commit patch target base)"
  unfolding tree_is_patch_def Let_def by (intro keeps_intros) simp_all

lemma descends_reads [keeps_intros]: "keeps (acts reads_only start) (descends gw da base current)"
  unfolding descends_def by (intro keeps_intros) simp

lemma commit_is_owned_reads [keeps_intros]:
  "keeps (acts reads_only start) (commit_is_owned gw da commit case_id patch target current)"
  unfolding commit_is_owned_def Let_def by (intro keeps_intros) simp_all

lemma owned_urls_reads [keeps_intros]:
  "keeps (acts reads_only start) (owned_urls gw da case_id branch patch base head candidates)"
proof (induction candidates)
  case (Cons candidate rest)
  then show ?case unfolding owned_urls.simps by (intro keeps_intros)
qed (simp only: owned_urls.simps keeps_return)

lemma find_existing_pr_reads [keeps_intros]:
  "keeps (acts reads_only start) (find_existing_pr gw da case_id branch patch base)"
  unfolding find_existing_pr_def by (intro keeps_intros) simp

lemma local_branch_sha_reads [keeps_intros]: "keeps (acts reads_only start) (local_branch_sha gw da branch)"
  unfolding local_branch_sha_def by (intro keeps_intros) simp

lemma slot_reads [keeps_intros]:
  "keeps (acts reads_only start) (assert_local_slot_available gw da branch worktree)"
  unfolding assert_local_slot_available_def by (intro keeps_intros) simp

lemma authorize_reads [keeps_intros]: "keeps (acts reads_only start) (authorize gw da case_id patch)"
  unfolding authorize_def check_request_def validate_origin_urls_def fetch_remote_base_def Let_def
  by (intro keeps_intros) simp_all

text \<open>A program that only reads does only what is allowed, whatever is allowed besides reading.\<close>

lemma reading_acts:
  assumes "\<And>s. keeps (acts reads_only s) m" "\<And>a. reads_only a \<Longrightarrow> ok a"
  shows "keeps (acts ok start) m"
proof (rule keepsI)
  fix s
  assume s: "acts ok start s"
  have "acts reads_only s (snd (m s))"
    using assms(1) [of s] by (simp add: keeps_def)
  then have "acts ok s (snd (m s))" using acts_weaken assms(2) by blast
  with s show "acts ok start (snd (m s))" by (auto simp: acts_def)
qed

section \<open>Everything the adapter does\<close>

text \<open>
  Its own actions: reads; its own worktree, made from a base commit and removed again; a commit of the
  one patched path, a plain push of its own branch; a draft pull request for it; and files with the
  patch inside of the worktree or in the bundle.
\<close>

fun own_git :: "gh_world \<Rightarrow> draft_adapter \<Rightarrow> string \<Rightarrow> patch_artifact \<Rightarrow> gh_action \<Rightarrow> bool" where
  "own_git gw da case_id patch (Command cwd args timeout) =
     (let branch = branch_of case_id; worktree = worktree_of da case_id
      in is_read args
         \<or> cwd = da_repo_root da
           \<and> (args \<in> {[''git'', ''worktree'', ''remove'', ''--force'', worktree], [''git'', ''branch'', ''-D'', branch],
                     pr_create_command da case_id branch patch}
              \<or> (\<exists>base. args = [''git'', ''worktree'', ''add'', ''-b'', branch, worktree, base]))
         \<or> cwd = worktree
           \<and> (args \<in> {[''git'', ''add'', ''--'', as_posix (da_patch_path da)],
                     [''git'', ''push'', ''--set-upstream'', ''origin'', branch]}
              \<or> (\<exists>base. args = [''git'', ''commit'', ''-m'', commit_message case_id (pa_sha256 patch) base])))"
| "own_git gw da case_id patch (WriteText path content) =
     (path = path_below (bundle_dir da case_id) [''manifest.json'']
      \<or> content = pa_content patch
        \<and> (path = path_below (bundle_dir da case_id) [''payments_fct.sql'']
           \<or> (\<exists>before root. gw_path gw (before @ [ResolvePath (worktree_of da case_id)]) = Inr root
                \<and> strict_prefix (path_parts root) (path_parts path))))"
| "own_git gw da case_id patch (RemoveTree path) = (path = worktree_of da case_id)"
| "own_git gw da case_id patch a = True"

lemma reads_are_own: "reads_only a \<Longrightarrow> own_git gw da case_id patch a"
  by (cases a) (simp_all add: Let_def)

text \<open>Walking through the writing operations once, for any set of allowed actions.\<close>

lemma create_or_reconcile_acts:
  assumes reads: "\<And>a. reads_only a \<Longrightarrow> ok a"
    and create: "ok (Command (da_repo_root da) (pr_create_command da case_id branch patch) 120)"
  shows "keeps (acts ok start) (create_or_reconcile_pr gw da case_id branch patch base)"
  unfolding create_or_reconcile_pr_def try_create_def
  by (intro keeps_intros reading_acts [OF find_existing_pr_reads] reads create)

lemma write_target_acts:
  assumes reads: "\<And>a. reads_only a \<Longrightarrow> ok a"
    and writing: "\<And>before root path. gw_path gw (before @ [ResolvePath worktree]) = Inr root \<Longrightarrow>
      strict_prefix (path_parts root) (path_parts path) \<Longrightarrow> ok (WriteText path content)"
  shows "keeps (acts ok start) (write_target gw worktree target content)"
  unfolding write_target_def
  by (intro keeps_bind_observe keeps_if keeps_raise keeps_then keeps_observe)
    (auto simp: reads intro: writing)

lemma cleanup_own_acts:
  assumes "\<And>a. reads_only a \<Longrightarrow> ok a"
    and "ok (Command (da_repo_root da) [''git'', ''worktree'', ''remove'', ''--force'', worktree] 30)"
    and "ok (Command (da_repo_root da) [''git'', ''branch'', ''-D'', branch] 30)" and "ok (RemoveTree worktree)"
  shows "keeps (acts ok start) (cleanup_own_worktree gw da worktree branch)"
  unfolding cleanup_own_worktree_def best_effort_run_def remove_leftover_def
  by (intro keeps_intros assms) simp

lemma own_record_reads [keeps_intros]: "keeps (acts reads_only start) (own_record gw path branch base r)"
  unfolding own_record_def by (intro keeps_intros) simp

lemma cleanup_incomplete_acts:
  assumes "\<And>a. reads_only a \<Longrightarrow> ok a"
    and "ok (Command (da_repo_root da) [''git'', ''worktree'', ''remove'', ''--force'', worktree] 30)"
    and "ok (Command (da_repo_root da) [''git'', ''branch'', ''-D'', branch] 30)" and "ok (RemoveTree worktree)"
  shows "keeps (acts ok start) (cleanup_incomplete_worktree gw da worktree branch base)"
  unfolding cleanup_incomplete_worktree_def
  by (intro keeps_intros cleanup_own_acts assms reading_acts [OF own_record_reads]
      reading_acts [OF local_branch_sha_reads]) (simp_all add: assms)

lemma own_create:
  "keeps (acts (own_git gw da case_id patch) start)
     (create_or_reconcile_pr gw da case_id (branch_of case_id) patch base)"
  by (rule create_or_reconcile_acts) (simp_all add: reads_are_own Let_def)

lemma new_branch_own:
  "keeps (acts (own_git gw da case_id patch) start) (new_branch gw da case_id (branch_of case_id) patch base)"
  unfolding new_branch_def in_own_worktree_def publish_branch_def Let_def
  by (intro keeps_intros reading_acts [OF slot_reads] cleanup_incomplete_acts cleanup_own_acts
      write_target_acts own_create) (auto simp: reads_are_own Let_def)

lemma reconcile_or_publish_own:
  "keeps (acts (own_git gw da case_id patch) start)
     (reconcile_or_publish gw da case_id (branch_of case_id) patch base)"
  unfolding reconcile_or_publish_def
  by (intro keeps_intros new_branch_own own_create reading_acts [OF find_existing_pr_reads]
      reading_acts [OF remote_branch_sha_reads] reading_acts [OF commit_is_owned_reads] reads_are_own)

lemma create_real_draft_own:
  "keeps (acts (own_git gw da case_id patch) start) (create_real_draft gw da case_id (branch_of case_id) patch)"
  unfolding create_real_draft_def
  by (intro keeps_bind reconcile_or_publish_own reading_acts [OF authorize_reads] reads_are_own)

lemma write_bundle_own:
  "keeps (acts (own_git gw da case_id patch) start) (write_bundle gw da case_id branch patch)"
  unfolding write_bundle_def Let_def by (intro keeps_intros) simp_all

lemma create_draft_own: "keeps (acts (own_git gw da case_id patch) start) (create_draft gw da case_id patch)"
  unfolding create_draft_def bundled_def Let_def
  by (intro keeps_intros create_real_draft_own write_bundle_own)

section \<open>When it changes something\<close>

fun changes :: "gh_action \<Rightarrow> bool" where
  "changes (Command cwd args timeout) = (\<not> is_read args)"
| "changes (RemoveTree path) = True"
| "changes a = False"

fun deletes :: "gh_action \<Rightarrow> bool" where
  "deletes (Command cwd args timeout) =
     (take 3 args = [''git'', ''worktree'', ''remove''] \<or> take 2 args = [''git'', ''branch''])"
| "deletes (RemoveTree path) = True"
| "deletes a = False"

text \<open>Every action of the kind \<open>P\<close> comes after a record with the property \<open>A\<close>.\<close>

definition gated :: "('a \<Rightarrow> bool) \<Rightarrow> ('a list \<Rightarrow> bool) \<Rightarrow> 'a list \<Rightarrow> bool" where
  "gated P A t \<longleftrightarrow> (\<forall>before a after. t = before @ a # after \<longrightarrow> P a \<longrightarrow> A before)"

lemma gatedD: "gated P A t \<Longrightarrow> t = earlier @ a # later \<Longrightarrow> P a \<Longrightarrow> A earlier"
  by (simp add: gated_def)

lemma gated_step: "gated P A t \<Longrightarrow> (P a \<Longrightarrow> A t) \<Longrightarrow> gated P A (t @ [a])"
  unfolding gated_def by (auto simp: append_eq_append_conv2 append_eq_Cons_conv Cons_eq_append_conv)

lemma gated_idle: "gated P A t \<Longrightarrow> list_all (\<lambda>a. \<not> P a) new \<Longrightarrow> gated P A (t @ new)"
proof (induction new rule: rev_induct)
  case (snoc a new)
  then show ?case using gated_step [of P A "t @ new" a] by simp
qed simp

lemma gated_open:
  assumes "gated P A t" "A t" and stays: "\<And>t a. A t \<Longrightarrow> A (t @ [a])"
  shows "gated P A (t @ new)"
proof -
  have "gated P A (t @ new) \<and> A (t @ new)"
  proof (induction new rule: rev_induct)
    case (snoc a new)
    then show ?case using gated_step [of P A "t @ new" a] stays [of "t @ new" a] by simp
  qed (use assms in simp)
  then show ?thesis ..
qed

lemma keeps_gated:
  assumes "\<And>start. keeps (acts ok start) m" "\<And>a. ok a \<Longrightarrow> \<not> P a"
  shows "keeps (gated P A) m"
proof (rule keepsI)
  fix s
  assume s: "gated P A s"
  have "acts ok s (snd (m s))" using assms(1) [of s] by (simp add: keeps_def)
  then obtain new where new: "snd (m s) = s @ new" "list_all ok new" by (auto simp: acts_def)
  then have "list_all (\<lambda>a. \<not> P a) new" using assms(2) by (simp add: list_all_iff)
  then show "gated P A (snd (m s))" using gated_idle [OF s] new(1) by simp
qed

definition authorized :: "gh_world \<Rightarrow> draft_adapter \<Rightarrow> string \<Rightarrow> patch_artifact \<Rightarrow> gh_action list \<Rightarrow> bool" where
  "authorized gw da case_id patch t \<longleftrightarrow>
     (\<exists>t0. prefix t0 t \<and> (\<exists>base. authorize gw da case_id patch [] = (Inr base, t0)))"

definition slot_checked :: "gh_world \<Rightarrow> draft_adapter \<Rightarrow> string \<Rightarrow> gh_action list \<Rightarrow> bool" where
  "slot_checked gw da case_id t \<longleftrightarrow>
     (\<exists>t2. prefix t2 t \<and> (\<exists>t1. assert_local_slot_available gw da (branch_of case_id) (worktree_of da case_id) t1
        = (Inr (), t2)))"

lemma authorized_stays: "authorized gw da case_id patch t \<Longrightarrow> authorized gw da case_id patch (t @ [a])"
  unfolding authorized_def using prefix_prefix by blast

lemma slot_stays: "slot_checked gw da case_id t \<Longrightarrow> slot_checked gw da case_id (t @ [a])"
  unfolding slot_checked_def using prefix_prefix by blast

lemma no_changes: "reads_only a \<Longrightarrow> \<not> changes a" "reads_only a \<Longrightarrow> \<not> deletes a"
proof -
  show "reads_only a \<Longrightarrow> \<not> changes a" by (cases a) simp_all
  show "reads_only a \<Longrightarrow> \<not> deletes a"
  proof (cases a)
    case (Command cwd args timeout)
    then show "reads_only a \<Longrightarrow> \<not> deletes a"
      by (cases args rule: list.exhaust; cases "tl args"; cases "tl (tl args)") (auto simp: is_read_def)
  qed simp_all
qed

lemma create_real_draft_authorized:
  assumes "create_real_draft gw da case_id (branch_of case_id) patch [] = (r, t)"
  shows "gated changes (authorized gw da case_id patch) t"
proof -
  have start: "gated changes (authorized gw da case_id patch) []" by (simp add: gated_def)
  have reads: "keeps (gated changes (authorized gw da case_id patch)) (authorize gw da case_id patch)"
    by (rule keeps_gated [OF authorize_reads no_changes(1)])
  show ?thesis
    using assms unfolding create_real_draft_def
  proof (cases rule: bind_p_cases)
    case (err e)
    then show ?thesis using keepsD [OF reads start] by blast
  next
    case (ok base t0)
    have "authorized gw da case_id patch t0" using ok(1) by (auto simp: authorized_def)
    moreover have "acts (own_git gw da case_id patch) t0 t"
      using keepsD [OF reconcile_or_publish_own acts_refl ok(2)] .
    ultimately show ?thesis
      using gated_open [OF keepsD [OF reads start ok(1)], OF _ authorized_stays] by (auto simp: acts_def)
  qed
qed

lemma write_bundle_no_change:
  "keeps (acts (\<lambda>a. \<not> changes a \<and> \<not> deletes a) start) (write_bundle gw da case_id branch patch)"
  unfolding write_bundle_def Let_def by (intro keeps_intros) simp_all

lemma create_draft_authorized:
  assumes "create_draft gw da case_id patch [] = (r, t)"
  shows "gated changes (authorized gw da case_id patch) t"
proof -
  let ?G = "gated changes (authorized gw da case_id patch)"
  have start: "?G []" by (simp add: gated_def)
  have bundles: "keeps ?G (bundled gw da case_id (branch_of case_id) patch v m)" for v m
    unfolding bundled_def by (intro keeps_bind keeps_return keeps_gated [OF write_bundle_no_change]) simp
  show ?thesis
  proof (cases "da_enabled da")
    case False
    then show ?thesis using keepsD [OF bundles start] assms by (simp add: create_draft_def Let_def)
  next
    case True
    obtain x s where real: "create_real_draft gw da case_id (branch_of case_id) patch [] = (x, s)" by fastforce
    note s = create_real_draft_authorized [OF this]
    show ?thesis
    proof (cases x)
      case (Inl e)
      with True assms real show ?thesis
        using keepsD [OF bundles s] s
        by (auto simp: create_draft_def Let_def catch_p_def bind_p_def split: if_splits)
    next
      case (Inr url)
      with True assms real s show ?thesis
        by (auto simp: create_draft_def Let_def catch_p_def bind_p_def)
    qed
  qed
qed

text \<open>Deletions come after a check that found neither a branch nor a directory of that name.\<close>

lemma new_branch_slot:
  "keeps (gated deletes (slot_checked gw da case_id)) (new_branch gw da case_id (branch_of case_id) patch base)"
proof (rule keepsI)
  fix s
  let ?G = "gated deletes (slot_checked gw da case_id)" and ?branch = "branch_of case_id"
    and ?worktree = "worktree_of da case_id"
  assume s: "?G s"
  obtain r t where run: "new_branch gw da case_id ?branch patch base s = (r, t)" by fastforce
  have reads: "keeps ?G (assert_local_slot_available gw da ?branch ?worktree)"
    by (rule keeps_gated [OF slot_reads no_changes(2)])
  have own: "keeps (acts (own_git gw da case_id patch) s')
      (in_own_worktree gw da ?branch base ?worktree (publish_branch gw da case_id ?branch patch base ?worktree))" for s'
    unfolding in_own_worktree_def publish_branch_def
    by (intro keeps_intros cleanup_incomplete_acts cleanup_own_acts write_target_acts own_create)
      (auto simp: reads_are_own Let_def)
  have "?G t"
    using run unfolding new_branch_def Let_def then_p_def
  proof (cases rule: bind_p_cases)
    case (err e)
    then show ?thesis using keepsD [OF reads s] by blast
  next
    case (ok u s2)
    have "slot_checked gw da case_id s2" using ok(1) by (auto simp: slot_checked_def)
    moreover have "acts (own_git gw da case_id patch) s2 t"
      using keepsD [OF own acts_refl ok(2)] .
    ultimately show ?thesis
      using gated_open [OF keepsD [OF reads s ok(1)], OF _ slot_stays] by (auto simp: acts_def)
  qed
  with run show "?G (snd (new_branch gw da case_id ?branch patch base s))" by simp
qed

lemma create_draft_slot:
  "keeps (gated deletes (slot_checked gw da case_id)) (create_draft gw da case_id patch)"
proof -
  have create: "keeps (acts (\<lambda>a. \<not> deletes a) start)
      (create_or_reconcile_pr gw da case_id (branch_of case_id) patch base)" for base start
    by (rule create_or_reconcile_acts) (simp_all add: no_changes(2) pr_create_command_def)
  show ?thesis
    unfolding create_draft_def bundled_def create_real_draft_def reconcile_or_publish_def Let_def
    by (intro keeps_intros new_branch_slot keeps_gated [OF create] keeps_gated [OF write_bundle_no_change]
        keeps_gated [OF authorize_reads] keeps_gated [OF find_existing_pr_reads]
        keeps_gated [OF remote_branch_sha_reads] keeps_gated [OF commit_is_owned_reads])
      (simp_all add: no_changes(2))
qed

section \<open>What was answered\<close>

definition answered :: "gh_world \<Rightarrow> gh_action list \<Rightarrow> gh_action \<Rightarrow> string \<Rightarrow> bool" where
  "answered gw t command out \<longleftrightarrow>
     (\<exists>before. prefix (before @ [command]) t \<and> gw_run gw (before @ [command]) = Inr (0, out))"

lemma answered_prefix: "answered gw t command out \<Longrightarrow> prefix t t' \<Longrightarrow> answered gw t' command out"
  unfolding answered_def using prefix_order.trans by blast

lemma run_in_Inr:
  assumes "run_in gw cwd args tr = (Inr out, t)"
  shows "t = tr @ [Command cwd args 120] \<and> gw_run gw t = Inr (0, out)"
  using assms by (auto simp: run_in_def bind_p_def observe_def split: sum.splits if_splits)

lemma run_in_answered: "run_in gw cwd args tr = (Inr out, t) \<Longrightarrow> answered gw t (Command cwd args 120) out"
  unfolding answered_def using run_in_Inr [of gw cwd args tr out t] by auto

lemma prefix_of_reads: "keeps (acts ok tr) m \<Longrightarrow> m tr = (r, t) \<Longrightarrow> prefix tr t"
  using keepsD [of "acts ok tr" m tr r t] by (simp add: acts_prefix)

text \<open>A commit is owned only when its tree has, at the patched path, the validated content.\<close>

definition show_command :: "draft_adapter \<Rightarrow> string \<Rightarrow> string \<Rightarrow> gh_action" where
  "show_command da commit target =
     Command (da_repo_root da) [''git'', ''show'', commit @ '':'' @ as_posix target] 120"

lemma tree_is_patch_shows:
  assumes "tree_is_patch gw da commit patch target base tr = (Inr True, t)"
  shows "answered gw t (show_command da commit target) (pa_content patch)"
  using assms unfolding tree_is_patch_def Let_def show_command_def
  by (auto elim!: bind_p_cases dest!: run_in_answered split: if_splits)

lemma commit_is_owned_shows:
  assumes "commit_is_owned gw da commit case_id patch target current tr = (Inr True, t)"
  shows "answered gw t (show_command da commit target) (pa_content patch)"
  using assms unfolding commit_is_owned_def Let_def
  by (auto elim!: bind_p_cases dest!: tree_is_patch_shows split: if_splits option.splits)

text \<open>The evidence for a pull request: its entry in the listing, and the content of its head commit.\<close>

definition listed :: "gh_world \<Rightarrow> draft_adapter \<Rightarrow> string \<Rightarrow> gh_action list \<Rightarrow> jdict \<Rightarrow> bool" where
  "listed gw da branch t candidate \<longleftrightarrow>
     (\<exists>raw candidates. answered gw t (Command (da_repo_root da) (pr_list_command da branch) 120) raw
        \<and> listed_candidates gw raw = Inr candidates \<and> JDict candidate \<in> set candidates)"

definition verified_entry ::
  "gh_world \<Rightarrow> draft_adapter \<Rightarrow> string \<Rightarrow> patch_artifact \<Rightarrow> gh_action list \<Rightarrow> string \<Rightarrow> jdict \<Rightarrow> bool" where
  "verified_entry gw da branch patch t url candidate \<longleftrightarrow>
     expected_head da branch candidate \<and> jget candidate ''url'' = JStr url
     \<and> validate_pr_url gw da url = Inr ()
     \<and> (\<exists>head_oid. jget candidate ''headRefOid'' = JStr head_oid
          \<and> answered gw t (show_command da head_oid (da_patch_path da)) (pa_content patch))"

definition found_pr ::
  "gh_world \<Rightarrow> draft_adapter \<Rightarrow> string \<Rightarrow> patch_artifact \<Rightarrow> gh_action list \<Rightarrow> string \<Rightarrow> bool" where
  "found_pr gw da branch patch t url \<longleftrightarrow>
     (\<exists>candidate. listed gw da branch t candidate \<and> verified_entry gw da branch patch t url candidate)"

lemma verified_prefix:
  "verified_entry gw da branch patch t url candidate \<Longrightarrow> prefix t t' \<Longrightarrow>
     verified_entry gw da branch patch t' url candidate"
  unfolding verified_entry_def using answered_prefix by blast

lemma found_prefix: "found_pr gw da branch patch t url \<Longrightarrow> prefix t t' \<Longrightarrow> found_pr gw da branch patch t' url"
  unfolding found_pr_def listed_def using answered_prefix verified_prefix by blast

lemma candidate_entry_Inr:
  assumes "candidate_entry gw da branch remote_head candidate = Inr (url, head_oid)"
  shows "\<exists>d. candidate = JDict d \<and> expected_head da branch d \<and> jget d ''url'' = JStr url
    \<and> jget d ''headRefOid'' = JStr head_oid \<and> validate_pr_url gw da url = Inr ()"
  using assms by (auto simp: candidate_entry_def elim!: bind_res_InrE split: json.split_asm if_split_asm)

lemma owned_urls_verified:
  assumes "owned_urls gw da case_id branch patch base head candidates tr = (Inr urls, t)" "url \<in> set urls"
  shows "\<exists>d. JDict d \<in> set candidates \<and> verified_entry gw da branch patch t url d"
  using assms
proof (induction candidates arbitrary: tr urls t)
  case (Cons candidate rest)
  from Cons.prems(1) obtain u oid where entry: "candidate_entry gw da branch head candidate = Inr (u, oid)"
    and later: "bind_p (fetch_remote_commit gw da oid) (\<lambda>_.
      bind_p (commit_is_owned gw da oid case_id patch (da_patch_path da) base) (\<lambda>owned.
       if \<not> owned
       then raise_p (ValueError ''Existing GitHub PR head is not owned by this DataRescue case'')
       else bind_p (owned_urls gw da case_id branch patch base head rest)
              (\<lambda>urls. return_p (u # urls)))) tr = (Inr urls, t)"
    by (auto elim: bind_p_cases)
  from later obtain t1 t2 vs where owned: "commit_is_owned gw da oid case_id patch (da_patch_path da) base t1 = (Inr True, t2)"
    and rest: "owned_urls gw da case_id branch patch base head rest t2 = (Inr vs, t)" and urls: "urls = u # vs"
    by (auto elim!: bind_p_cases split: if_splits)
  from candidate_entry_Inr [OF entry] commit_is_owned_shows [OF owned]
    prefix_of_reads [OF owned_urls_reads rest] obtain d where
    d: "candidate = JDict d" "verified_entry gw da branch patch t u d"
    unfolding verified_entry_def using answered_prefix by blast
  show ?case
  proof (cases "url = u")
    case True
    with d show ?thesis by auto
  next
    case False
    with Cons.prems(2) urls Cons.IH [OF rest] show ?thesis by auto
  qed
qed simp

lemma find_existing_pr_found:
  assumes "find_existing_pr gw da case_id branch patch base tr = (Inr (Some url), t)"
  shows "found_pr gw da branch patch t url"
proof -
  from assms obtain raw t1 candidates head t2 urls where
    raw: "run_in gw (da_repo_root da) (pr_list_command da branch) tr = (Inr raw, t1)"
    and candidates: "listed_candidates gw raw = Inr candidates"
    and head: "remote_branch_sha gw da branch t1 = (Inr (Some head), t2)"
    and urls: "owned_urls gw da case_id branch patch base head candidates t2 = (Inr [url], t)"
    unfolding find_existing_pr_def
    by (auto elim!: bind_p_cases split: option.splits if_splits list.splits)
  have "prefix t1 t"
    using prefix_of_reads [OF remote_branch_sha_reads head] prefix_of_reads [OF owned_urls_reads urls]
      prefix_order.trans by blast
  with run_in_answered [OF raw] candidates owned_urls_verified [OF urls] show ?thesis
    unfolding found_pr_def listed_def using answered_prefix by (metis list.set_intros(1))
qed

lemma create_or_reconcile_found:
  assumes "create_or_reconcile_pr gw da case_id branch patch base tr = (Inr url, t)"
  shows "found_pr gw da branch patch t url"
  using assms unfolding create_or_reconcile_pr_def
  by (auto elim!: bind_p_cases dest!: find_existing_pr_found split: sum.splits option.splits if_splits)

lemma new_branch_found:
  assumes "new_branch gw da case_id (branch_of case_id) patch base tr = (Inr url, t)"
  shows "found_pr gw da (branch_of case_id) patch t url"
proof -
  let ?branch = "branch_of case_id" and ?worktree = "worktree_of da case_id"
  from assms obtain s1 s2 s3 where work: "publish_branch gw da case_id ?branch patch base ?worktree s1 = (Inr url, s2)"
    and cleaned: "suppressed (cleanup_own_worktree gw da ?worktree ?branch) s2 = (Inr (), t)"
    unfolding new_branch_def in_own_worktree_def Let_def then_p_def
    by (auto elim!: bind_p_cases finally_p_cases)
  from work have "\<exists>s. create_or_reconcile_pr gw da case_id ?branch patch base s = (Inr url, s2)"
    unfolding publish_branch_def then_p_def by (auto elim!: bind_p_cases)
  then have "found_pr gw da ?branch patch s2 url" using create_or_reconcile_found by blast
  moreover have "keeps (acts (own_git gw da case_id patch) s2) (suppressed (cleanup_own_worktree gw da ?worktree ?branch))"
    by (intro keeps_intros cleanup_own_acts) (simp_all add: reads_are_own Let_def)
  then have "prefix s2 t"
    using cleaned by (rule prefix_of_reads)
  ultimately show ?thesis by (rule found_prefix)
qed

lemma create_real_draft_found:
  assumes "create_real_draft gw da case_id (branch_of case_id) patch tr = (Inr url, t)"
  shows "found_pr gw da (branch_of case_id) patch t url"
  using assms unfolding create_real_draft_def reconcile_or_publish_def
  by (auto elim!: bind_p_cases dest!: find_existing_pr_found new_branch_found create_or_reconcile_found
      split: option.splits if_splits)

section \<open>What the gates stand for\<close>

definition repo_view_command :: "draft_adapter \<Rightarrow> gh_action" where
  "repo_view_command da = Command (da_repo_root da)
     [''gh'', ''repo'', ''view'', ''--json'', ''nameWithOwner'', ''--jq'', ''.nameWithOwner''] 120"

definition remote_url_command :: "draft_adapter \<Rightarrow> bool \<Rightarrow> gh_action" where
  "remote_url_command da push = Command (da_repo_root da)
     ([''git'', ''remote'', ''get-url''] @ (if push then [''--push''] else []) @ [''--all'', ''origin'']) 120"

text \<open>Every line of the answer names the configured repository on GitHub.\<close>

definition names_repository :: "gh_world \<Rightarrow> draft_adapter \<Rightarrow> string \<Rightarrow> bool" where
  "names_repository gw da out \<longleftrightarrow> splitlines out \<noteq> [] \<and>
     (\<forall>url \<in> set (splitlines out).
        \<exists>r. github_repository_from_remote_url (gw_bracketed_host gw) (strip url) = Inr (Some r)
          \<and> casefold r = casefold (da_repository da))"

definition allowlisted :: "gh_world \<Rightarrow> draft_adapter \<Rightarrow> gh_action list \<Rightarrow> bool" where
  "allowlisted gw da t \<longleftrightarrow>
     (\<exists>name. answered gw t (repo_view_command da) name \<and> casefold (strip name) = casefold (da_repository da))
     \<and> (\<forall>push. \<exists>out. answered gw t (remote_url_command da push) out \<and> names_repository gw da out)"

lemma allowlisted_prefix: "allowlisted gw da t \<Longrightarrow> prefix t t' \<Longrightarrow> allowlisted gw da t'"
  unfolding allowlisted_def using answered_prefix by meson

definition request_sealed :: "draft_adapter \<Rightarrow> string \<Rightarrow> patch_artifact \<Rightarrow> bool" where
  "request_sealed da case_id patch \<longleftrightarrow>
     sha256_hex (pa_content patch) = pa_sha256 patch \<and> slug case_id \<noteq> []
     \<and> \<not> is_absolute (da_patch_path da) \<and> ''..'' \<notin> set (path_parts (da_patch_path da))"

lemma check_urls_names: "check_urls gw da operation (splitlines out) = Inr () \<Longrightarrow> names_repository gw da out"
proof -
  assume ok: "check_urls gw da operation (splitlines out) = Inr ()"
  then have ne: "splitlines out \<noteq> []" by (auto simp: check_urls_def)
  with ok obtain us where "map_res (\<lambda>url.
           bind_res (github_repository_from_remote_url (gw_bracketed_host gw) (strip url)) (\<lambda>resolved.
             if map_option casefold resolved \<noteq> Some (casefold (da_repository da))
             then Inl (ValueError (''Git origin '' @ operation
               @ '' URL does not match the allowed repository''))
             else Inr ())) (splitlines out) = Inr us"
    by (auto simp: check_urls_def elim: bind_res_InrE)
  from map_res_member [OF this] ne show ?thesis
    unfolding names_repository_def
    by (fastforce elim!: bind_res_InrE split: if_splits)
qed

lemma check_request_sealed:
  "check_request gw da case_id patch tr = (Inr (), t) \<Longrightarrow> request_sealed da case_id patch"
  unfolding check_request_def request_sealed_def by (auto elim!: bind_p_cases split: if_splits)

lemma validate_origin_urls_names:
  assumes "validate_origin_urls gw da tr = (Inr (), t)"
  shows "\<exists>out. answered gw t (remote_url_command da push) out \<and> names_repository gw da out"
proof -
  from assms obtain fetch t1 out where
    fetch: "run_in gw (da_repo_root da) [''git'', ''remote'', ''get-url'', ''--all'', ''origin''] tr = (Inr fetch, t1)"
    and push: "run_in gw (da_repo_root da) [''git'', ''remote'', ''get-url'', ''--push'', ''--all'', ''origin''] t1 = (Inr out, t)"
    and ok: "check_urls gw da ''fetch'' (splitlines fetch) = Inr ()" "check_urls gw da ''push'' (splitlines out) = Inr ()"
    unfolding validate_origin_urls_def then_p_def by (auto elim!: bind_p_cases)
  have "prefix t1 t" using run_in_Inr [OF push] by simp
  then have "answered gw t (remote_url_command da False) fetch" "answered gw t (remote_url_command da True) out"
    using run_in_answered [OF fetch] run_in_answered [OF push] answered_prefix
    by (auto simp: remote_url_command_def)
  then show ?thesis using check_urls_names [OF ok(1)] check_urls_names [OF ok(2)] by (cases push) auto
qed

lemma fetch_remote_base_reads [keeps_intros]: "keeps (acts reads_only start) (fetch_remote_base gw da)"
  unfolding fetch_remote_base_def Let_def by (intro keeps_intros) simp_all

lemma fetch_remote_base_id: "fetch_remote_base gw da tr = (Inr base, t) \<Longrightarrow> commit_id base"
  unfolding fetch_remote_base_def Let_def by (auto elim!: bind_p_cases split: if_splits)

lemma authorize_checked:
  assumes "authorize gw da case_id patch tr = (Inr base, t)"
  shows "request_sealed da case_id patch \<and> allowlisted gw da t \<and> commit_id base"
proof -
  from assms obtain t1 t2 t3 t4 t5 name where
    request: "check_request gw da case_id patch tr = (Inr (), t1)"
    and view: "run_in gw (da_repo_root da)
      [''gh'', ''repo'', ''view'', ''--json'', ''nameWithOwner'', ''--jq'', ''.nameWithOwner''] t3 = (Inr name, t4)"
    and same: "casefold (strip name) = casefold (da_repository da)"
    and origin: "validate_origin_urls gw da t4 = (Inr (), t5)"
    and base: "fetch_remote_base gw da t5 = (Inr base, t)"
    unfolding authorize_def then_p_def by (auto elim!: bind_p_cases split: if_splits)
  have "keeps (acts reads_only t4) (validate_origin_urls gw da)"
    unfolding validate_origin_urls_def by (intro keeps_intros) simp_all
  from prefix_of_reads [OF this origin] prefix_of_reads [OF fetch_remote_base_reads base]
  have pre: "prefix t4 t" "prefix t5 t" using prefix_order.trans by blast+
  have "answered gw t (repo_view_command da) name"
    using answered_prefix [OF run_in_answered [OF view] pre(1)] by (simp add: repo_view_command_def)
  moreover have "\<exists>out. answered gw t (remote_url_command da push) out \<and> names_repository gw da out" for push
    using validate_origin_urls_names [OF origin, of push] answered_prefix pre(2) by blast
  ultimately have "allowlisted gw da t" using same unfolding allowlisted_def by blast
  with check_request_sealed [OF request] fetch_remote_base_id [OF base] show ?thesis by blast
qed

lemma authorized_means: "authorized gw da case_id patch t \<Longrightarrow> request_sealed da case_id patch \<and> allowlisted gw da t"
  unfolding authorized_def using authorize_checked allowlisted_prefix by blast

text \<open>Neither the branch nor the directory of the case was there.\<close>

definition slot_was_free :: "gh_world \<Rightarrow> draft_adapter \<Rightarrow> string \<Rightarrow> gh_action list \<Rightarrow> bool" where
  "slot_was_free gw da case_id t \<longleftrightarrow>
     (\<exists>before returncode out.
        prefix (before @ [Command (da_repo_root da)
          [''git'', ''rev-parse'', ''--verify'', branch_ref (branch_of case_id)] 30,
          Exists (worktree_of da case_id)]) t
        \<and> gw_run gw (before @ [Command (da_repo_root da)
          [''git'', ''rev-parse'', ''--verify'', branch_ref (branch_of case_id)] 30]) = Inr (returncode, out)
        \<and> returncode \<noteq> 0
        \<and> gw_flag gw (before @ [Command (da_repo_root da)
          [''git'', ''rev-parse'', ''--verify'', branch_ref (branch_of case_id)] 30,
          Exists (worktree_of da case_id)]) = Inr False)"

lemma slot_checked_means:
  assumes "slot_checked gw da case_id t"
  shows "slot_was_free gw da case_id t"
proof -
  from assms obtain t1 t2 where slot: "prefix t2 t"
    "assert_local_slot_available gw da (branch_of case_id) (worktree_of da case_id) t1 = (Inr (), t2)"
    by (auto simp: slot_checked_def)
  from slot(2) obtain s where sha: "local_branch_sha gw da (branch_of case_id) t1 = (Inr None, s)"
    and free: "observe (Exists (worktree_of da case_id)) (gw_flag gw) s = (Inr False, t2)"
    unfolding assert_local_slot_available_def by (auto elim!: bind_p_cases split: if_splits)
  from sha obtain returncode out where
    "s = t1 @ [Command (da_repo_root da) [''git'', ''rev-parse'', ''--verify'', branch_ref (branch_of case_id)] 30]"
    "gw_run gw s = Inr (returncode, out)" "returncode \<noteq> 0"
    unfolding local_branch_sha_def run_unchecked_def
    by (auto elim!: bind_p_cases simp: observe_def split: if_splits)
  with free slot(1) show ?thesis
    unfolding slot_was_free_def by (auto simp: observe_def intro!: exI [of _ t1])
qed

section \<open>Recognising one's own commit\<close>

definition one_line :: "string \<Rightarrow> bool" where
  "one_line s \<longleftrightarrow> list_all (\<lambda>c. \<not> line_break c) s"

lemma commit_message_lines:
  assumes "one_line case_id" "one_line sha" "one_line base"
  shows "splitlines (commit_message case_id sha base)
    = [commit_subject case_id, [], case_trailer @ case_id, patch_trailer @ sha, base_trailer @ base]"
proof -
  have plain: "list_all (\<lambda>c. \<not> line_break c) (commit_subject case_id)"
    "list_all (\<lambda>c. \<not> line_break c) (case_trailer @ case_id)" "list_all (\<lambda>c. \<not> line_break c) (patch_trailer @ sha)"
    "list_all (\<lambda>c. \<not> line_break c) (base_trailer @ base)"
    using assms by (simp_all add: one_line_def commit_subject_def case_trailer_def patch_trailer_def
        base_trailer_def line_break_def code_def)
  have "commit_message case_id sha base = concat (map (\<lambda>w. w @ newline)
      [commit_subject case_id, [], case_trailer @ case_id, patch_trailer @ sha]) @ base_trailer @ base"
    by (simp add: commit_message_def)
  then have "splitlines (commit_message case_id sha base)
    = [commit_subject case_id, [], case_trailer @ case_id, patch_trailer @ sha] @ line_pieces [] (base_trailer @ base)"
    using plain splitlines_lines [of "[commit_subject case_id, [], case_trailer @ case_id, patch_trailer @ sha]"]
    by (simp only: list.pred_inject simp_thms)
  also have "line_pieces [] (base_trailer @ base) = [base_trailer @ base]"
    using line_pieces_last [of "base_trailer @ base" "[]"] plain(4) by (simp add: base_trailer_def)
  finally show ?thesis by simp
qed

lemma own_commit_recognised:
  assumes "one_line case_id" "one_line (pa_sha256 patch)" "one_line base"
  shows "let lines = splitlines (commit_message case_id (pa_sha256 patch) base)
    in lines \<noteq> [] \<and> hd lines = commit_subject case_id \<and> recorded_base case_id patch lines base = Some base
      \<and> (\<forall>parent. parent \<noteq> base \<longrightarrow> recorded_base case_id patch lines parent = None)"
  unfolding commit_message_lines [OF assms]
  by (simp add: recorded_base_def trailers_def commit_subject_def case_trailer_def patch_trailer_def
      base_trailer_def remove_prefix_def)

section \<open>The adapter as a whole\<close>

lemma create_draft_owns:
  "create_draft gw da case_id patch [] = (r, t) \<Longrightarrow> list_all (own_git gw da case_id patch) t"
  using keepsD [OF create_draft_own acts_refl, of gw da case_id patch "[]" r t] by (auto simp: acts_def)

lemma create_draft_slots:
  "create_draft gw da case_id patch [] = (r, t) \<Longrightarrow> gated deletes (slot_checked gw da case_id) t"
  using keepsD [OF create_draft_slot, of gw da case_id "[]" patch r t] by (simp add: gated_def)

lemma create_draft_enabled:
  assumes "create_draft gw da case_id patch [] = (r, t)"
  shows "\<forall>earlier a later. t = earlier @ a # later \<longrightarrow> changes a \<longrightarrow> da_enabled da"
proof (cases "da_enabled da")
  case False
  have "keeps (acts (\<lambda>a. \<not> changes a \<and> \<not> deletes a) []) (bundled gw da case_id branch patch v m)" for branch v m
    unfolding bundled_def by (intro keeps_bind keeps_return write_bundle_no_change)
  from keepsD [OF this acts_refl] False assms have "list_all (\<lambda>a. \<not> changes a \<and> \<not> deletes a) t"
    by (fastforce simp: create_draft_def Let_def acts_def)
  then show ?thesis by (auto simp: list_all_iff)
qed simp

lemma create_draft_succeeded:
  assumes "create_draft gw da case_id patch [] = (Inr pr, t)" "ir_status (pr_integration pr) = SUCCEEDED"
  shows "\<exists>url. pr_url pr = Some url
    \<and> create_real_draft gw da case_id (branch_of case_id) patch [] = (Inr url, t)"
  using assms
  by (auto simp: create_draft_def bundled_def draft_result_def Let_def
      elim!: bind_p_cases catch_p_cases split: if_splits)

lemma create_real_draft_checked:
  assumes "create_real_draft gw da case_id (branch_of case_id) patch [] = (Inr url, t)"
  shows "request_sealed da case_id patch \<and> allowlisted gw da t"
proof -
  from assms obtain base t0 where auth: "authorize gw da case_id patch [] = (Inr base, t0)"
    and rest: "reconcile_or_publish gw da case_id (branch_of case_id) patch base t0 = (Inr url, t)"
    unfolding create_real_draft_def by (auto elim!: bind_p_cases)
  show ?thesis
    using authorize_checked [OF auth] allowlisted_prefix prefix_of_reads [OF reconcile_or_publish_own rest] by blast
qed

lemma sha256_one_line: "one_line (sha256_hex s)"
proof -
  have "\<not> line_break c" if "c \<in> set (sha256_hex s)" for c
    using sha256_hex_digits [of s] that
    by (auto simp: list_all_iff is_lower_hex_def is_digit_def line_break_def)
  then show ?thesis by (simp add: one_line_def list_all_iff)
qed

end
