(* ===== verification/Incident_Graphql.thy ===== *)
theory Incident_Graphql
  imports Mcl_Watcher Read_Back
begin

text \<open>
  The incident adapter of \<^verbatim>\<open>packages/datahub/graphql.py\<close>: GraphQL mutations whose success is only
  reported after the incident has been read back from DataHub.

  An HTTP exchange is a program over a world of its own that raises or returns a response; waiting
  between two reads is one too.
\<close>

section \<open>The model\<close>

record 'w graphql_adapter =
  ga_gms_url :: "string option"
  ga_token :: "string option"
  ga_attempts :: int
  ga_delay :: pyfloat
  ga_json :: json_lib
  ga_post :: "string \<Rightarrow> (string \<times> string) list \<Rightarrow> json \<Rightarrow> ('w, exn, http_response) prog"
  ga_get :: "string \<Rightarrow> (string \<times> string) list \<Rightarrow> ('w, exn, http_response) prog"
  ga_sleep :: "pyfloat \<Rightarrow> ('w, exn, unit) prog"

definition graphql_error :: "string \<Rightarrow> exn" where
  "graphql_error m = Other ''DataHubGraphQLError'' m"

definition is_graphql_error :: "exn \<Rightarrow> bool" where
  "is_graphql_error e \<longleftrightarrow> (case e of Other n _ \<Rightarrow> n = ''DataHubGraphQLError'' | _ \<Rightarrow> False)"

text \<open>The exceptions that become a failed integration result.\<close>

definition adapter_failure :: "exn \<Rightarrow> bool" where
  "adapter_failure e \<longleftrightarrow> is_http_error e \<or> is_graphql_error e \<or> is_value_error e"

text \<open>\<^verbatim>\<open>__init__\<close>: the checks on the two numbers, and the URL without trailing slashes.\<close>

definition new_adapter :: "'w graphql_adapter \<Rightarrow> exn + 'w graphql_adapter" where
  "new_adapter a =
     (if ga_attempts a < 1 then Inl (ValueError ''Incident read-back attempts must be at least one'')
      else if flt (ga_delay a) (Fin 0) then Inl (ValueError ''Incident read-back delay cannot be negative'')
      else Inr (a\<lparr>ga_gms_url := (case ga_gms_url a of
                     None \<Rightarrow> None | Some u \<Rightarrow> if u = [] then None else Some (rstrip_slash u))\<rparr>))"

definition gms_url :: "'w graphql_adapter \<Rightarrow> string option" where
  "gms_url a = (case ga_gms_url a of Some u \<Rightarrow> if u = [] then None else Some u | None \<Rightarrow> None)"

definition authorization :: "'w graphql_adapter \<Rightarrow> (string \<times> string) list" where
  "authorization a =
     (case ga_token a of
        Some t \<Rightarrow> if t = [] then [] else [(''Authorization'', ''Bearer '' @ t)]
      | None \<Rightarrow> [])"

text \<open>\<^verbatim>\<open>urllib.parse.quote(s, safe='')\<close>\<close>

definition unreserved :: "char \<Rightarrow> bool" where
  "unreserved c \<longleftrightarrow> is_alpha c \<or> is_digit c \<or> c \<in> set ''_.-~''"

definition upper_hex :: "nat \<Rightarrow> char" where
  "upper_hex n = upper_char (hex_digit n)"

definition quote_all :: "string \<Rightarrow> string" where
  "quote_all s = concat (map (\<lambda>c. if unreserved c then [c]
     else [CHR ''%'', upper_hex (code c div 16), upper_hex (code c mod 16)]) s)"

section \<open>Finding a URN in an answer\<close>

definition urn_text :: "json \<Rightarrow> string option" where
  "urn_text v = (case v of JStr s \<Rightarrow> if prefix ''urn:'' s then Some s else None | _ \<Rightarrow> None)"

lemma size_items:
  "size_list size (map snd d) \<le> size_list (size_prod f size) d" for f :: "string \<Rightarrow> nat" and d :: jdict
  by (induction d) auto

function (sequential) find_urn :: "json \<Rightarrow> string option"
  and find_urns :: "json list \<Rightarrow> string option" where
  "find_urn (JStr s) = urn_text (JStr s)"
| "find_urn (JDict d) =
     (case first_some (\<lambda>key. urn_text (jget d key)) [''urn'', ''incidentUrn'', ''id''] of
        Some u \<Rightarrow> Some u
      | None \<Rightarrow> find_urns (map snd d))"
| "find_urn (JList xs) = find_urns xs"
| "find_urn _ = None"
| "find_urns [] = None"
| "find_urns (x # xs) = (case find_urn x of Some u \<Rightarrow> Some u | None \<Rightarrow> find_urns xs)"
  by pat_completeness auto
termination
proof (relation "measure (case_sum size (size_list size))")
  fix d :: "(string \<times> json) list"
  have "size_list size (map snd d) \<le> size_list (size_prod (\<lambda>_. 0) size) d"
    by (rule size_items)
  then show "(Inr (map snd d), Inl (JDict d)) \<in> measure (case_sum size (size_list size))"
    by simp
qed auto

section \<open>The incident aspect\<close>

text \<open>\<^verbatim>\<open>_validate_incident_info\<close>: the persisted state, when it is the expected one.\<close>

definition validate_incident_info ::
  "jdict \<Rightarrow> string option \<Rightarrow> string option \<Rightarrow> string option \<Rightarrow> exn + string" where
  "validate_incident_info info expected_state expected_asset_urn expected_title =
     (case jget info ''status'' of
        JDict status \<Rightarrow>
          (case jget status ''state'' of
             JStr state \<Rightarrow>
               if expected_state \<noteq> None \<and> expected_state \<noteq> Some state
               then Inl (graphql_error (''incidentInfo state '' @ py_repr state @ '' does not match ''
                 @ py_repr (the expected_state)))
               else if expected_title \<noteq> None \<and> jget info ''title'' \<noteq> JStr (the expected_title)
               then Inl (graphql_error ''incidentInfo title does not match the requested incident'')
               else if expected_asset_urn \<noteq> None
                 \<and> (case jget info ''entities'' of
                      JList es \<Rightarrow> JStr (the expected_asset_urn) \<notin> set es | _ \<Rightarrow> True)
               then Inl (graphql_error ''incidentInfo is not linked to the requested DataHub asset'')
               else Inr state
           | _ \<Rightarrow> Inl (graphql_error ''incidentInfo has no persisted status state''))
      | _ \<Rightarrow> Inl (graphql_error ''incidentInfo has no persisted status state''))"

definition incident_info ::
  "http_response \<Rightarrow> string option \<Rightarrow> string option \<Rightarrow> string option \<Rightarrow> exn + jdict" where
  "incident_info response expected_state expected_asset_urn expected_title =
     bind_res (raise_for_status response) (\<lambda>_.
     bind_res (hr_body response) (\<lambda>body.
       case body of
         JDict d \<Rightarrow>
           (case jget d ''value'' of
              JDict info \<Rightarrow>
                bind_res (validate_incident_info info expected_state expected_asset_urn expected_title)
                  (\<lambda>_. Inr info)
            | _ \<Rightarrow> Inl (graphql_error ''incidentInfo read-back returned no value object''))
       | _ \<Rightarrow> Inl (graphql_error ''incidentInfo read-back returned no value object'')))"

definition incident_endpoint :: "string \<Rightarrow> string \<Rightarrow> string" where
  "incident_endpoint url incident_urn =
     url @ ''/openapi/v3/entity/incident/'' @ quote_all incident_urn @ ''/incidentInfo''"

text \<open>One read; \<open>Inl\<close> an exception to remember.\<close>

definition read_once ::
  "'w graphql_adapter \<Rightarrow> string \<Rightarrow> string option \<Rightarrow> string option \<Rightarrow> string option
    \<Rightarrow> ('w, exn, exn + jdict) prog" where
  "read_once a endpoint expected_state expected_asset_urn expected_title =
     attempted adapter_failure
       (bind_p (ga_get a endpoint (authorization a)) (\<lambda>response.
          result_p (incident_info response expected_state expected_asset_urn expected_title)))"

definition pause :: "'w graphql_adapter \<Rightarrow> ('w, exn, unit) prog" where
  "pause a = (if feq (ga_delay a) (Fin 0) then return_p () else ga_sleep a (ga_delay a))"

text \<open>The reads: \<open>k\<close> more are allowed after this one.\<close>

definition read_back ::
  "nat \<Rightarrow> 'w graphql_adapter \<Rightarrow> string \<Rightarrow> string option \<Rightarrow> string option \<Rightarrow> string option
    \<Rightarrow> ('w, exn, jdict) prog" where
  "read_back k a endpoint expected_state expected_asset_urn expected_title =
     retrying k (read_once a endpoint expected_state expected_asset_urn expected_title) (pause a)
       (\<lambda>e. graphql_error
          (''incident mutation was not confirmed by DataHub incidentInfo read-back after ''
           @ decimal (ga_attempts a) @ '' attempt(s): '' @ exn_text e))"

definition read_incident_info ::
  "'w graphql_adapter \<Rightarrow> string \<Rightarrow> string option \<Rightarrow> string option \<Rightarrow> string option
    \<Rightarrow> ('w, exn, jdict) prog" where
  "read_incident_info a incident_urn expected_state expected_asset_urn expected_title =
     (case gms_url a of
        None \<Rightarrow> raise_p (graphql_error ''DataHub GMS is not configured'')
      | Some url \<Rightarrow>
          if \<not> prefix ''urn:li:incident:'' incident_urn
          then raise_p (graphql_error ''Incident read-back requires an incident URN'')
          else read_back (nat (ga_attempts a) - 1) a (incident_endpoint url incident_urn)
                 expected_state expected_asset_urn expected_title)"

definition read_incident_state :: "'w graphql_adapter \<Rightarrow> string \<Rightarrow> ('w, exn, string) prog" where
  "read_incident_state a incident_urn =
     bind_p (read_incident_info a incident_urn None None None) (\<lambda>info.
       result_p (validate_incident_info info None None None))"

section \<open>GraphQL\<close>

definition graphql_message :: "json_lib \<Rightarrow> json \<Rightarrow> string" where
  "graphql_message lib item =
     (case item of
        JDict d \<Rightarrow> py_str lib (case map_of d ''message'' of Some m \<Rightarrow> m | None \<Rightarrow> item)
      | _ \<Rightarrow> py_str lib item)"

definition graphql_data :: "json_lib \<Rightarrow> json \<Rightarrow> exn + jdict" where
  "graphql_data lib body =
     (case body of
        JDict d \<Rightarrow>
          if truthy (jget d ''errors'')
          then bind_res (iterate (jget d ''errors'')) (\<lambda>items.
            Inl (graphql_error (join_with ''; '' (map (graphql_message lib) items))))
          else (case jget d ''data'' of
                  JDict data \<Rightarrow> Inr data
                | _ \<Rightarrow> Inl (graphql_error ''GraphQL response has no data object''))
      | _ \<Rightarrow> Inl (AttributeErr ''body has no attribute get''))"

definition execute_graphql :: "'w graphql_adapter \<Rightarrow> string \<Rightarrow> json \<Rightarrow> ('w, exn, jdict) prog" where
  "execute_graphql a query variables =
     (case gms_url a of
        None \<Rightarrow> raise_p (graphql_error ''DataHub GMS is not configured'')
      | Some url \<Rightarrow>
          bind_p (ga_post a (url @ ''/api/graphql'')
                    ((''Content-Type'', ''application/json'') # authorization a)
                    (JDict [(''query'', JStr query), (''variables'', variables)])) (\<lambda>response.
          bind_p (result_p (raise_for_status response)) (\<lambda>_.
          bind_p (result_p (hr_body response)) (\<lambda>body.
            result_p (graphql_data (ga_json a) body)))))"

section \<open>Raising and resolving an incident\<close>

definition raise_mutation :: string where
  "raise_mutation =
     newline @ ''        mutation RaiseIncident($input: RaiseIncidentInput!) {'' @ newline
     @ ''          raiseIncident(input: $input)'' @ newline @ ''        }'' @ newline @ ''        ''"

definition resolve_mutation :: string where
  "resolve_mutation =
     newline @ ''        mutation ResolveIncident($urn: String!, $input: IncidentStatusInput!) {'' @ newline
     @ ''          updateIncidentStatus(urn: $urn, input: $input)'' @ newline @ ''        }'' @ newline
     @ ''        ''"

definition integration ::
  "integration_status \<Rightarrow> string \<Rightarrow> string \<Rightarrow> string option \<Rightarrow> string list \<Rightarrow> jdict \<Rightarrow> integration_result" where
  "integration status operation message resource refs details =
     \<lparr>ir_status = status, ir_operation = operation, ir_message = message, ir_resource_id = resource,
      ir_evidence_refs = refs, ir_details = details\<rparr>"

definition not_configured :: "string \<Rightarrow> integration_result" where
  "not_configured operation =
     integration NOT_CONFIGURED operation
       ''DATARESCUE_DATAHUB_GMS_URL is not configured; no remote write was claimed'' None [] []"

definition readback_details :: "string \<Rightarrow> jdict" where
  "readback_details state = [(''readback_verified'', JBool True), (''remote_state'', JStr state)]"

definition incident_title :: "string \<Rightarrow> string" where
  "incident_title case_id = ''DataRescue schema drift '' @ case_id"

definition create_incident ::
  "'w graphql_adapter \<Rightarrow> string \<Rightarrow> string \<Rightarrow> string \<Rightarrow> ('w, exn, string) prog" where
  "create_incident a asset_urn case_id description =
     bind_p (execute_graphql a raise_mutation
       (JDict [(''input'', JDict
          [(''resourceUrn'', JStr asset_urn), (''type'', JStr ''DATA_SCHEMA''),
           (''title'', JStr (incident_title case_id)), (''description'', JStr description)])])) (\<lambda>data.
       case find_urn (jget data ''raiseIncident'') of
         None \<Rightarrow> raise_p (graphql_error ''raiseIncident returned no valid incident URN'')
       | Some resource_id \<Rightarrow>
           if \<not> prefix ''urn:li:incident:'' resource_id
           then raise_p (graphql_error ''raiseIncident returned no valid incident URN'')
           else then_p
             (read_incident_info a resource_id (Some ''ACTIVE'') (Some asset_urn)
                (Some (incident_title case_id)))
             (return_p resource_id))"

definition raise_incident ::
  "'w graphql_adapter \<Rightarrow> string \<Rightarrow> string \<Rightarrow> string \<Rightarrow> ('w, exn, integration_result) prog" where
  "raise_incident a asset_urn case_id description =
     (if gms_url a = None then return_p (not_configured ''raise_incident'')
      else catch_p
        (bind_p (create_incident a asset_urn case_id description) (\<lambda>resource_id.
           return_p (integration SUCCEEDED ''raise_incident'' ''DataHub incident raised and left active''
             (Some resource_id) [resource_id] (readback_details ''ACTIVE''))))
        (\<lambda>e. if adapter_failure e
             then return_p (integration I_FAILED ''raise_incident''
               (''DataHub incident creation failed: '' @ exn_text e) None []
               [(''asset_urn'', JStr asset_urn)])
             else raise_p e))"

text \<open>\<^verbatim>\<open>value in {False, None}\<close>: a value that cannot be hashed raises, and zero equals False.\<close>

definition unconfirmed :: "json \<Rightarrow> exn + bool" where
  "unconfirmed v =
     (if \<not> hashable v then Inl (TypeErr ''unhashable type'')
      else Inr (v = JNull \<or> v = JBool False \<or> v = JInt 0
                \<or> (case v of JFloat f \<Rightarrow> feq f (Fin 0) | _ \<Rightarrow> False)))"

definition close_incident :: "'w graphql_adapter \<Rightarrow> string \<Rightarrow> ('w, exn, unit) prog" where
  "close_incident a incident_urn =
     (if \<not> prefix ''urn:li:incident:'' incident_urn
      then raise_p (graphql_error ''Incident resolution requires an incident URN'')
      else
        bind_p (execute_graphql a resolve_mutation
          (JDict [(''urn'', JStr incident_urn),
             (''input'', JDict
                [(''state'', JStr ''RESOLVED''),
                 (''message'', JStr ''DataRescue post-deploy evidence gates passed.'')])])) (\<lambda>data.
        bind_p (result_p (unconfirmed (jget data ''updateIncidentStatus''))) (\<lambda>refused.
          if refused
          then raise_p (graphql_error ''updateIncidentStatus did not confirm success'')
          else then_p (read_incident_info a incident_urn (Some ''RESOLVED'') None None) (return_p ()))))"

definition resolve_incident :: "'w graphql_adapter \<Rightarrow> string \<Rightarrow> ('w, exn, integration_result) prog" where
  "resolve_incident a incident_urn =
     (if gms_url a = None then return_p (not_configured ''resolve_incident'')
      else catch_p
        (bind_p (close_incident a incident_urn) (\<lambda>_.
           return_p (integration SUCCEEDED ''resolve_incident''
             ''DataHub incident resolved after post-deploy verification'' (Some incident_urn)
             [incident_urn] (readback_details ''RESOLVED''))))
        (\<lambda>e. if adapter_failure e
             then return_p (integration I_FAILED ''resolve_incident''
               (''DataHub incident resolution failed: '' @ exn_text e) (Some incident_urn) [] [])
             else raise_p e))"

section \<open>What an answer says\<close>

lemma validated_info:
  assumes "validate_incident_info info (Some state) asset title = Inr s"
  shows "s = state"
    and "\<exists>status. jget info ''status'' = JDict status \<and> jget status ''state'' = JStr state"
    and "title = Some t \<Longrightarrow> jget info ''title'' = JStr t"
    and "asset = Some u \<Longrightarrow> \<exists>es. jget info ''entities'' = JList es \<and> JStr u \<in> set es"
  using assms by (auto simp: validate_incident_info_def split: json.splits if_splits)

lemma incident_info_valid:
  assumes "incident_info response state asset title = Inr info"
  shows "\<exists>s. validate_incident_info info state asset title = Inr s"
  using assms unfolding incident_info_def
  by (elim bind_res_InrE) (auto elim!: bind_res_InrE split: json.split_asm)

text \<open>A read that succeeds ends with the GET whose answer it returns.\<close>

lemma read_back_ok:
  assumes "read_back k a ep state asset title w = (Inr info, w')"
  shows "\<exists>v response. ga_get a ep (authorization a) v = (Inr response, w')
    \<and> incident_info response state asset title = Inr info"
proof -
  obtain v where "read_once a ep state asset title v = (Inr (Inr info), w')"
    using retrying_Inr [OF assms [unfolded read_back_def]] by blast
  from attempted_Inr [OF this [unfolded read_once_def]] show ?thesis
    by (rule bind_p_cases) (simp, unfold result_p_run prod.inject, blast)
qed

lemma read_incident_info_ok:
  assumes "read_incident_info a urn state asset title w = (Inr info, w')"
  shows "\<exists>url v response. gms_url a = Some url \<and> prefix ''urn:li:incident:'' urn
    \<and> ga_get a (incident_endpoint url urn) (authorization a) v = (Inr response, w')
    \<and> incident_info response state asset title = Inr info"
  using assms read_back_ok
  by (fastforce simp: read_incident_info_def split: option.splits if_splits)

text \<open>What a successful call stands for: the last exchange was a read of the incident.\<close>

definition confirmed ::
  "'w graphql_adapter \<Rightarrow> string \<Rightarrow> string \<Rightarrow> string option \<Rightarrow> string option \<Rightarrow> 'w \<Rightarrow> bool" where
  "confirmed a urn state asset title w' \<longleftrightarrow>
     prefix ''urn:li:incident:'' urn
     \<and> (\<exists>url v response info status.
          gms_url a = Some url
          \<and> ga_get a (incident_endpoint url urn) (authorization a) v = (Inr response, w')
          \<and> incident_info response (Some state) asset title = Inr info
          \<and> jget info ''status'' = JDict status \<and> jget status ''state'' = JStr state)"

lemma read_incident_info_confirmed:
  assumes "read_incident_info a urn (Some state) asset title w = (Inr info, w')"
  shows "confirmed a urn state asset title w'"
proof -
  obtain url v response where *: "gms_url a = Some url" "prefix ''urn:li:incident:'' urn"
    "ga_get a (incident_endpoint url urn) (authorization a) v = (Inr response, w')"
    "incident_info response (Some state) asset title = Inr info"
    using read_incident_info_ok [OF assms] by blast
  obtain s where "validate_incident_info info (Some state) asset title = Inr s"
    using incident_info_valid [OF *(4)] by blast
  from validated_info(2) [OF this] * show ?thesis
    unfolding confirmed_def by blast
qed

lemma create_incident_confirmed:
  assumes "create_incident a asset case_id description w = (Inr urn, w')"
  shows "confirmed a urn ''ACTIVE'' (Some asset) (Some (incident_title case_id)) w'"
  using assms read_incident_info_confirmed
  by (fastforce simp: create_incident_def bind_p_def then_p_def
      split: prod.splits sum.splits option.splits if_splits)

lemma close_incident_confirmed:
  assumes "close_incident a urn w = (Inr (), w')"
  shows "confirmed a urn ''RESOLVED'' None None w'"
  using assms read_incident_info_confirmed
  by (fastforce simp: close_incident_def bind_p_def then_p_def
      split: prod.splits sum.splits option.splits if_splits)

text \<open>A world that counts its reads: a GET adds at most one, everything else none.\<close>

definition counts_reads :: "('w \<Rightarrow> nat) \<Rightarrow> 'w graphql_adapter \<Rightarrow> bool" where
  "counts_reads n a \<longleftrightarrow>
     (\<forall>u h. adds n 1 (ga_get a u h)) \<and> (\<forall>u h b. adds n 0 (ga_post a u h b))
     \<and> (\<forall>d. adds n 0 (ga_sleep a d))"

lemma read_back_adds:
  assumes "counts_reads n a"
  shows "adds n (Suc k) (read_back k a ep state asset title)"
proof -
  have get: "adds n (1 + 0) (bind_p (ga_get a ep (authorization a)) (\<lambda>response.
      result_p (incident_info response state asset title)))"
    by (rule adds_bind) (use assms in \<open>auto simp: counts_reads_def adds_result\<close>)
  have "adds n 1 (read_once a ep state asset title)"
    unfolding read_once_def using adds_attempted [OF get] by simp
  moreover have "adds n 0 (pause a)"
    using assms by (auto simp: pause_def counts_reads_def adds_return)
  ultimately show ?thesis
    unfolding read_back_def using adds_retrying [of n 1 _ _ k] by simp
qed

lemma read_incident_info_adds:
  assumes "counts_reads n a" and "1 \<le> ga_attempts a"
  shows "adds n (nat (ga_attempts a)) (read_incident_info a urn state asset title)"
proof -
  have "Suc (nat (ga_attempts a) - 1) = nat (ga_attempts a)"
    using assms(2) by simp
  then have "adds n (nat (ga_attempts a)) (read_back (nat (ga_attempts a) - 1) a ep state asset title)" for ep
    using read_back_adds [OF assms(1), of "nat (ga_attempts a) - 1"] by simp
  then show ?thesis
    by (auto simp: read_incident_info_def adds_raise split: option.split)
qed

lemma raise_incident_outcomes:
  "case raise_incident a asset case_id description w of
     (Inl e, _) \<Rightarrow> \<not> adapter_failure e
   | (Inr result, w') \<Rightarrow>
       ir_status result = SUCCEEDED \<longrightarrow>
         (\<exists>urn. ir_resource_id result = Some urn
            \<and> confirmed a urn ''ACTIVE'' (Some asset) (Some (incident_title case_id)) w')"
  using create_incident_confirmed [of a asset case_id description w]
  by (auto simp: raise_incident_def not_configured_def integration_def catch_p_def bind_p_def
      split: prod.splits sum.splits)

lemma resolve_incident_outcomes:
  "case resolve_incident a urn w of
     (Inl e, _) \<Rightarrow> \<not> adapter_failure e
   | (Inr result, w') \<Rightarrow>
       ir_status result = SUCCEEDED \<longrightarrow> confirmed a urn ''RESOLVED'' None None w'"
  using close_incident_confirmed [of a urn w]
  by (auto simp: resolve_incident_def not_configured_def integration_def catch_p_def bind_p_def
      split: prod.splits sum.splits)

end
