(* ===== verification/Examples.thy ===== *)
theory Examples
  imports Service_Api Draft_Safety Incident_Graphql
begin

text \<open>
  Concrete inputs: a replay installation that is alone with its store and a schema change that replaces
  the revenue column, a log that resolves a case, and a Postgres installation whose dbt run passes. The
  theorems that have hypotheses are applied to them.
\<close>

section \<open>Concrete inputs\<close>

definition example_ok :: "string \<Rightarrow> integration_result" where
  "example_ok operation =
     \<lparr>ir_status = SUCCEEDED, ir_operation = operation, ir_message = [], ir_resource_id = None,
      ir_evidence_refs = [], ir_details = []\<rparr>"

definition example_settings :: settings where
  "example_settings =
     \<lparr>st_allowed_assets = ''urn:payments'', st_replay_mode = True, st_execution_mode = ''replay'',
      st_runtime_dir = ''/tmp'', st_github_repository = ''acme/shop'', st_github_repo_root = ''/repo'',
      st_github_base_branch = ''main'', st_github_patch_path = ''models/stg.sql'',
      st_policy = default_policy_config\<rparr>"

definition example_field :: "string \<Rightarrow> schema_field" where
  "example_field n = \<lparr>sf_name = n, sf_data_type = ''numeric'', sf_nullable = False\<rparr>"

definition example_event :: schema_change_event where
  "example_event =
     \<lparr>ev_event_id = Some ''e1'', ev_entity_urn = ''urn:payments'',
      ev_before_fields = [example_field ''amount''],
      ev_after_fields = [example_field ''net_amount'', example_field ''gross_amount''],
      ev_observed_at = 0, ev_source = ''test''\<rparr>"

definition example_not_configured :: integration_result where
  "example_not_configured = (example_ok ''context'')\<lparr>ir_status := NOT_CONFIGURED\<rparr>"

definition example_services :: "unit services" where
  "example_services =
     \<lparr>sv_uuid = (\<lambda>n. ''uuid-'' @ decimal (int n)), sv_now = int, sv_others = (\<lambda>_. []),
      sv_raise_incident = (\<lambda>_ _. return_p (example_ok ''raise'')),
      sv_resolve_incident = (\<lambda>_. return_p (example_ok ''resolve'')),
      sv_fetch_context =
        (\<lambda>_. return_p \<lparr>mc_context = [], mc_integration = example_not_configured\<rparr>),
      sv_write_report = (\<lambda>_ _ _ _. return_p (example_ok ''write'')),
      sv_propose = (\<lambda>event cx. return_p
        \<lparr>gr_candidates = deterministic_candidates event cx,
         gr_integration = (example_ok ''propose'')\<lparr>ir_status := RECORDED_REPLAY\<rparr>\<rparr>),
      sv_executor = Executor False (\<lambda>_ p cx. return_p (replay_execute p cx)) None,
      sv_create_draft = (\<lambda>_ _. return_p
        \<lparr>pr_integration = example_ok ''draft'', pr_branch = None, pr_url = None, pr_bundle_path = None\<rparr>),
      sv_read_patch_file = return_p (revenue_default ''amount''),
      sv_git = (\<lambda>_ _. return_p (0, [])), sv_make_temp_dir = (\<lambda>_. return_p ''/tmp/x''),
      sv_remove_temp_dir = (\<lambda>_. return_p ()), sv_bracketed_host = (\<lambda>_. False)\<rparr>"

definition example_state :: "unit wf_state" where
  "example_state = \<lparr>wf_rows = [], wf_world = (), wf_tick = 0, wf_active = {}, wf_settled = {}\<rparr>"

lemma example_alone: "honest_others example_settings example_services"
  by (simp add: honest_others_def example_services_def)

definition example_pull_request :: pull_request_artifact where
  "example_pull_request =
     \<lparr>pr_integration = example_ok ''draft'', pr_branch = None, pr_url = None, pr_bundle_path = None\<rparr>"

definition example_metrics :: reconciliation_metrics where
  "example_metrics =
     \<lparr>rm_total_variance_pct = Fin 0, rm_row_count_variance_pct = Fin 0,
      rm_primary_key_overlap_pct = Fin 100, rm_null_rate_delta_pp = Fin 0,
      rm_current_row_count = Some 10, rm_baseline_row_count = Some 10, rm_evidence_refs = []\<rparr>"

definition example_build :: build_result where
  "example_build =
     \<lparr>br_passed = True, br_passed_checks = 8, br_total_checks = 8, br_command = ''dbt build'',
      br_evidence_refs = [], br_summary = []\<rparr>"

definition example_row :: "nat \<Rightarrow> string \<Rightarrow> event_type \<Rightarrow> case_state \<Rightarrow> payload \<Rightarrow> row" where
  "example_row n i e s p = append_row i 0 ''DR-1'' e s p None 0 n"

definition example_resolved :: table where
  "example_resolved =
     [example_row 1 ''e1'' SCHEMA_CHANGE_DETECTED DETECTED (P_Detection example_event ''urn:incident''),
      example_row 2 ''e2'' E_CONTEXT_GATHERED CONTEXT_GATHERED (P_Context (replay_context ''urn:payments'' example_not_configured)),
      example_row 3 ''e3'' E_CANDIDATES_READY CANDIDATES_READY
        (P_Candidates [\<lparr>cp_id = ''c'', cp_source_field = ''net_amount'', cp_target_alias = ''revenue'',
           cp_rationale = [], cp_semantic_evidence = []\<rparr>] (example_ok ''propose'')),
      example_row 4 ''e4'' VALIDATION_STARTED VALIDATING (P_ValidationStarted 1 ''replay''),
      example_row 5 ''e5'' EVIDENCE_WRITTEN PATCH_READY (P_Integration (example_ok ''write'')),
      example_row 6 ''e6'' PR_OPENED PR_OPEN (P_PullRequest example_pull_request),
      example_row 7 ''e7'' DEPLOYMENT_RECORDED DEPLOYED (P_Deployment ''abc'' ''RECORDED_REPLAY_INPUT''),
      example_row 8 ''e8'' E_POST_DEPLOY_VERIFIED POST_DEPLOY_VERIFIED
        (P_PostDeploy ''abc'' ''RECORDED_REPLAY_INPUT'' example_metrics example_build
          (pd_checks (evaluate default_policy_config MATCH example_metrics example_build True))),
      example_row 9 ''e9'' INCIDENT_RESOLVED RESOLVED (P_Integration (example_ok ''resolve''))]"

lemma example_resolved_ok: "store_ok example_resolved"
proof -
  have "log_check [] example_resolved"
    by (simp add: example_resolved_def example_row_def append_row_def row_ok_def violates_index_def
        current_scope_def max_sequence_def current_state_def)
  from log_check_ok [OF store_ok.empty this] show ?thesis by simp
qed

lemma example_accepted: "acceptable default_policy_config MATCH example_metrics example_build True"
  unfolding acceptable_default default_thresholds
  by (simp add: example_metrics_def example_build_def)

lemma example_replay_mode: "\<not> live_mode example_settings"
proof -
  have "casefold (strip ''replay'') \<noteq> ''postgres''" by code_simp
  then show ?thesis by (simp add: live_mode_def example_settings_def)
qed

lemma example_allowed: "allowed_asset_urns example_settings = [''urn:payments'']"
  by code_simp

lemma example_policy: "st_policy example_settings = default_policy_config" "st_replay_mode example_settings"
  by (simp_all add: example_settings_def)

lemma example_resolved_written: "list_all (written example_settings) example_resolved"
  using example_accepted example_allowed example_policy
  by (auto simp: example_resolved_def example_row_def append_row_def written_def deployment_mode_def
      example_replay_mode context_complete_def replay_context_def example_event_def example_ok_def
      example_pull_request_def)

lemma example_first_reachable: "reachable_table [example_row 1 ''e1'' INCIDENT_RAISED DETECTED (P_Integration (example_ok ''x''))]"
proof -
  have "run_op (Append ''u'' 0 ''DR-1'' INCIDENT_RAISED DETECTED (P_Integration (example_ok ''x'')) None (Some ''e1'')) []
      = (Inr (), [example_row 1 ''e1'' INCIDENT_RAISED DETECTED (P_Integration (example_ok ''x''))])"
    by (simp add: append_event_def current_scope_def row_by_id_def current_state_def Let_def
        sql_insert_def violates_index_def append_row_def next_sequence_def example_row_def validate_transition_def)
  then show ?thesis
    unfolding reachable_table_def by (meson r_into_rtranclp store_step.operation)
qed

section \<open>A dbt run that passes\<close>

definition example_node :: "string \<Rightarrow> json" where
  "example_node i = JDict [(''unique_id'', JStr i), (''status'', JStr ''pass'')]"

definition example_report :: json where
  "example_report =
     JDict [(''args'', JDict [(''which'', JStr ''build'')]),
       (''results'', JList (map example_node
          ([''model.stg_payments'', ''model.fct_revenue'']
           @ map (\<lambda>n. ''test.t'' @ decimal n) [1..8])))]"

definition example_json :: json_lib where
  "example_json = \<lparr>lib_loads = (\<lambda>_. Some example_report), lib_dumps = (\<lambda>_. []), lib_str = (\<lambda>_. [])\<rparr>"

definition example_aggregates :: aggregate_row where
  "example_aggregates = \<lparr>ag_count = 10, ag_total = Fin 100, ag_null_rate = Fin 0\<rparr>"

definition example_outside :: outside where
  "example_outside =
     \<lparr>os_environ = (\<lambda>_. None), os_json = example_json, os_loads_error = (\<lambda>_. []),
      os_dump_metrics = (\<lambda>_. []), os_bracketed_host = (\<lambda>_. False), os_perform = (\<lambda>_. Inr ()),
      os_temp_dir = (\<lambda>_. ''/tmp/t''), os_exit_code = (\<lambda>_. 0),
      os_results_file = (\<lambda>_ _. File (Inr ''{}'')), os_aggregates = (\<lambda>_. Some example_aggregates),
      os_overlap = (\<lambda>_. Some 10)\<rparr>"

definition example_connection :: postgres_connection where
  "example_connection =
     \<lparr>pg_host = ''db'', pg_port = 5432, pg_dbname = ''shop'', pg_user = ''u'', pg_password = ''p'',
      pg_sslmode = ''disable''\<rparr>"

definition example_executor :: executor_config where
  "example_executor =
     \<lparr>xc_postgres_dsn = render_dsn example_connection, xc_dbt_project_dir = ''/repo/dbt'',
      xc_dbt_profiles_dir = ''/repo/dbt'', xc_dbt_target = ''dev'', xc_evidence_dir = None,
      xc_source_relation = ''raw.payments_raw'', xc_baseline_relation = ''audit.last_good''\<rparr>"
definition example_proposal :: candidate_proposal where
  "example_proposal =
     \<lparr>cp_id = ''c'', cp_source_field = ''net_amount'', cp_target_alias = ''revenue'',
      cp_rationale = [], cp_semantic_evidence = []\<rparr>"

definition example_context :: context_bundle where
  "example_context = replay_context ''urn:payments'' (example_ok ''context'')"

lemma example_identifier: "is_identifier ''net_amount''"
  by code_simp

lemma example_relation: "require_relation ''raw.payments_raw'' = Inr ''raw.payments_raw''"
  by code_simp

lemma example_schema: "candidate_schema ''DR-1'' ''net_amount'' = Inr ''candidate_dr_1_net_amount''"
proof -
  have a: "schema_part ''DR-1'' = ''dr_1''" "schema_part ''net_amount'' = ''net_amount''" by code_simp+
  show ?thesis unfolding candidate_schema_value a by simp
qed
lemma example_dsn: "parse_postgres_dsn ip (render_dsn example_connection) = Inr example_connection"
  by (rule parse_render_dsn) code_simp+

lemma example_inspect: "inspect_results example_json example_report =
  Inr \<lparr>be_passed_checks = 8, be_total_checks = 8, be_passed_nodes = 10, be_total_nodes = 10, be_error = None\<rparr>"
  by code_simp

lemma example_reconciled: "reconciled example_aggregates example_aggregates 10 =
  \<lparr>rm_total_variance_pct = Fin 0, rm_row_count_variance_pct = Fin 0, rm_primary_key_overlap_pct = Fin 100,
   rm_null_rate_delta_pp = Fin 0, rm_current_row_count = Some 10, rm_baseline_row_count = Some 10, rm_evidence_refs = []\<rparr>"
  by code_simp

lemma example_column: "require_identifier ''net_amount'' ''source field'' = Inr ''net_amount''"
  by code_simp
lemma example_baseline: "baseline_parts example_executor = Inr (''audit'', ''last_good'')"
proof -
  have "map_res (\<lambda>part. require_identifier part ''baseline relation'') (split_on CHR ''.'' ''audit.last_good'')
    = Inr [''audit'', ''last_good'']"
    by code_simp
  then show ?thesis by (simp add: baseline_parts_def example_executor_def)
qed
lemma example_verdict: "semantic_verdict_of ''net_amount'' example_context = MATCH"
  by code_simp
lemma example_query: "\<exists>sql. render_candidate_sql example_proposal ''raw.payments_raw'' = Inr sql"
  by (simp add: render_candidate_sql_Inr example_proposal_def example_identifier example_relation)

lemmas example_answers = example_schema example_dsn example_inspect example_reconciled example_column
  example_baseline example_verdict

lemma example_field: "cp_source_field example_proposal = ''net_amount''" "cp_semantic_evidence example_proposal = []"
  by (simp_all add: example_proposal_def)


lemma example_outside_simps:
  "os_environ example_outside = (\<lambda>_. None)" "os_json example_outside = example_json"
  "os_bracketed_host example_outside = (\<lambda>_. False)" "os_temp_dir example_outside tr = ''/tmp/t''"
  "os_exit_code example_outside tr = 0" "os_results_file example_outside tr path = File (Inr ''{}'')"
  "os_aggregates example_outside tr = Some example_aggregates" "os_overlap example_outside tr = Some 10"
  "lib_loads example_json content = Some example_report"
  "perform example_outside a tr = (Inr (), tr @ [a])"
  by (simp_all add: example_outside_def example_json_def perform_def)

lemma example_executor_simps:
  "xc_postgres_dsn example_executor = render_dsn example_connection"
  "xc_evidence_dir example_executor = None" "xc_source_relation example_executor = ''raw.payments_raw''"
  by (simp_all add: example_executor_def)

lemmas run_defs = asks_def then_p_def bind_p_def finally_p_def catch_p_def fetch_def
  write_evidence_def connect_def drop_candidate_schema_def

lemma example_dbt:
  "\<exists>b t. run_dbt example_outside example_executor s ''net_amount'' tr = (Inr b, t) \<and> br_passed b"
  by (simp add: run_dbt_def dbt_build_def run_process_def examine_results_def keep_results_def
      build_passed_def Let_def run_defs example_outside_simps example_executor_simps example_dsn example_inspect
      example_column)

lemma example_reconcile:
  "\<exists>t. reconcile example_outside example_executor s tr =
     (Inr ((reconciled example_aggregates example_aggregates 10)
        \<lparr>rm_evidence_refs := or_ref None (postgres_ref s ''reconciliation'')\<rparr>), t)"
  by (simp add: reconcile_def example_baseline Let_def run_defs example_outside_simps example_executor_simps
      example_dsn)

lemma example_run:
  "\<exists>x tr. live_execute example_outside example_executor ''DR-1'' example_proposal example_context [] = (Inr x, tr)
     \<and> br_passed (cx_build x) \<and> tr \<noteq> []
     \<and> pd_accepted (evaluate default_policy_config (cx_semantic_verdict x) (cx_reconciliation x) (cx_build x) True)"
proof -
  let ?s = "''candidate_dr_1_net_amount''"
  obtain sql where sql: "render_candidate_sql example_proposal ''raw.payments_raw'' = Inr sql"
    using example_query by blast
  obtain b t where b: "run_dbt example_outside example_executor ?s ''net_amount'' [] = (Inr b, t)" "br_passed b"
    using example_dbt by blast
  obtain t' where m: "reconcile example_outside example_executor ?s t =
     (Inr ((reconciled example_aggregates example_aggregates 10)
        \<lparr>rm_evidence_refs := or_ref None (postgres_ref ?s ''reconciliation'')\<rparr>), t')"
    using example_reconcile by blast
  have "acceptable default_policy_config MATCH ((reconciled example_aggregates example_aggregates 10)
      \<lparr>rm_evidence_refs := or_ref None (postgres_ref ?s ''reconciliation'')\<rparr>) b True"
    unfolding acceptable_default default_thresholds example_reconciled using b(2) by simp
  then show ?thesis
    unfolding live_execute_def gather_evidence_def example_field example_schema bind_result_Inr
    by (simp add: example_executor_simps sql bind_result_Inr run_defs b m example_outside_simps example_dsn
        example_verdict evaluate_accepted)
qed

section \<open>Metadata changes, streams and incidents\<close>

definition example_library :: mcl_library where
  "example_library =
     \<lparr>ml_json = example_json, ml_loads_error = (\<lambda>_. ''no JSON''),
      ml_optional_bool = (\<lambda>v. case v of JBool b \<Rightarrow> Inr (Some b) | JNull \<Rightarrow> Inr None
                              | _ \<Rightarrow> Inl (ValidationError ''bool'')),
      ml_now = 0\<rparr>"

definition example_aspect :: "string \<Rightarrow> json" where
  "example_aspect name = JDict [(''fields'', JList [JDict [(''fieldPath'', JStr name)]])]"

definition example_mcl :: jdict where
  "example_mcl =
     [(''entityType'', JStr ''dataset''), (''aspectName'', JStr ''schemaMetadata''),
      (''entityUrn'', JStr ''urn:other''), (''eventId'', JStr ''e1''),
      (''previousAspectValue'', example_aspect ''amount''), (''aspect'', example_aspect ''net_amount'')]"

definition example_mcl_event :: schema_change_event where
  "example_mcl_event =
     \<lparr>ev_event_id = Some ''e1'', ev_entity_urn = ''urn:other'',
      ev_before_fields = [\<lparr>sf_name = ''amount'', sf_data_type = ''unknown'', sf_nullable = True\<rparr>],
      ev_after_fields = [\<lparr>sf_name = ''net_amount'', sf_data_type = ''unknown'', sf_nullable = True\<rparr>],
      ev_observed_at = 0, ev_source = ''DATAHUB_MCL''\<rparr>"

lemma example_mcl_delivered: "delivered_event example_library (JDict example_mcl) example_mcl_event"
proof -
  have "out_of_scope example_library example_mcl = None" by code_simp
  moreover have "mcl_event example_library example_mcl = Inr example_mcl_event" by code_simp
  moreover have "mset (ev_before_fields example_mcl_event) \<noteq> mset (ev_after_fields example_mcl_event)"
    by (simp add: example_mcl_event_def)
  ultimately show ?thesis by (simp add: delivered_event_def)
qed

text \<open>An adapter for which every mutation succeeds and is read back.\<close>

definition example_urn :: string where
  "example_urn = ''urn:li:incident:1''"

definition example_answer :: "json \<Rightarrow> http_response" where
  "example_answer body = \<lparr>hr_status = 200, hr_headers = (\<lambda>_. None), hr_body = Inr body\<rparr>"

definition example_incident :: "string \<Rightarrow> json" where
  "example_incident state = JDict [(''value'', JDict
     [(''status'', JDict [(''state'', JStr state)]), (''title'', JStr (incident_title ''DR-1'')),
      (''entities'', JList [JStr ''urn:payments''])])]"

definition example_adapter :: "string \<Rightarrow> nat graphql_adapter" where
  "example_adapter state =
     \<lparr>ga_gms_url = Some ''http://gms'', ga_token = None, ga_attempts = 5, ga_delay = Fin (1/5),
      ga_json = example_json,
      ga_post = (\<lambda>_ _ _. return_p (example_answer (JDict [(''data'', JDict
        [(''raiseIncident'', JStr example_urn), (''updateIncidentStatus'', JBool True)])]))),
      ga_get = (\<lambda>_ _ n. (Inr (example_answer (example_incident state)), Suc n)),
      ga_sleep = (\<lambda>_. return_p ())\<rparr>"

lemmas incident_defs = raise_incident_def resolve_incident_def create_incident_def close_incident_def
  execute_graphql_def read_incident_info_def read_once_def incident_info_def validate_incident_info_def
  graphql_data_def gms_url_def raise_for_status_def example_adapter_def example_answer_def
  example_incident_def example_urn_def urn_text_def unconfirmed_def integration_def

lemma example_raised:
  "\<exists>result. raise_incident (example_adapter ''ACTIVE'') ''urn:payments'' ''DR-1'' d 0 = (Inr result, 1)
     \<and> ir_status result = SUCCEEDED \<and> ir_resource_id result = Some example_urn"
  by (simp add: incident_defs read_back_def retrying.simps attempted_def pause_def bind_p_def then_p_def catch_p_def jget_def incident_title_def)

lemma example_closed:
  "\<exists>result. resolve_incident (example_adapter ''RESOLVED'') example_urn 0 = (Inr result, 1)
     \<and> ir_status result = SUCCEEDED"
  by (simp add: incident_defs read_back_def retrying.simps attempted_def pause_def bind_p_def then_p_def catch_p_def jget_def)

text \<open>A refusal over HTTP, a file system, and a log with an open case.\<close>

definition example_refusal :: http_response where
  "example_refusal =
     \<lparr>hr_status = 403,
      hr_headers = (\<lambda>k. if k = ''x-datarescue-error'' then Some ''ASSET_OUTSIDE_ALLOWLIST'' else None),
      hr_body = Inr (JDict [(''detail'',
        JStr ''Asset is outside the configured remediation allowlist: urn:other'')])\<rparr>"

lemma example_refusal_carries:
  assumes "schema_change_route example_settings sv example_mcl_event st = (Inr (Inl h), st')"
  shows "carries example_refusal h"
proof -
  have "casefold ''X-DataRescue-Error'' = ''x-datarescue-error''" by code_simp
  with assms show ?thesis
    by (auto simp: schema_change_route_def mapping_errors_def schema_change_error_def catch_p_def
        bind_p_def ingest_def example_allowed example_mcl_event_def carries_def example_refusal_def)
qed

definition example_files :: file_system where
  "example_files = \<lparr>fs_resolve = (\<lambda>p. p), fs_is_dir = (\<lambda>_. True)\<rparr>"

definition example_live :: executor_config where
  "example_live =
     \<lparr>xc_postgres_dsn = ''postgres'', xc_dbt_project_dir = ''/repo/dbt'', xc_dbt_profiles_dir = ''/repo/dbt'',
      xc_dbt_target = ''dev'', xc_evidence_dir = None, xc_source_relation = ''raw.payments_raw'',
      xc_baseline_relation = ''audit.last_good''\<rparr>"

lemma example_bound:
  "bind_to_checkout example_files example_live ''/tmp/wt'' ''/repo'' =
     Inr (example_live\<lparr>xc_dbt_project_dir := ''/tmp/wt/dbt'', xc_dbt_profiles_dir := ''/tmp/wt/dbt''\<rparr>)"
  by code_simp

definition example_open :: table where
  "example_open =
     [example_row 1 ''e1'' SCHEMA_CHANGE_DETECTED DETECTED (P_Detection example_event ''urn:incident'')]"

lemma example_open_case:
  "\<exists>snap. get_case example_open ''DR-1'' = Inr snap \<and> cs_asset_urn snap = ''urn:payments''
     \<and> cs_state snap = DETECTED"
  by (simp add: example_open_def get_case_def events_for_case_def project_case_def current_scope_def
      example_row_def append_row_def row_to_event_def example_event_def max_sequence_def
      record_event_def initial_snapshot_def Let_def)

lemma example_open_ok: "store_ok example_open"
proof -
  have "log_check [] example_open"
    by (simp add: example_open_def example_row_def append_row_def row_ok_def violates_index_def
        current_scope_def max_sequence_def current_state_def)
  from log_check_ok [OF store_ok.empty this] show ?thesis by simp
qed

section \<open>A pull request that is already there\<close>

definition example_gh_adapter :: draft_adapter where
  "example_gh_adapter =
     \<lparr>da_enabled = True, da_repository = ''acme/shop'', da_repo_root = ''/repo'', da_base_branch = ''main'',
      da_patch_path = ''models/stg.sql'', da_runtime_dir = ''/tmp''\<rparr>"

definition example_patch :: patch_artifact where
  "example_patch =
     \<lparr>pa_path = ''models/stg.sql'', pa_content = ''select 1'', pa_sha256 = sha256_hex ''select 1''\<rparr>"

definition example_commit :: "char \<Rightarrow> string" where
  "example_commit c = replicate 40 c"

definition example_pr_url :: string where
  "example_pr_url = ''https://github.com/acme/shop/pull/7''"

definition example_listing :: json where
  "example_listing = JList [JDict
     [(''url'', JStr example_pr_url), (''headRefName'', JStr ''datarescue/dr-1''),
      (''headRefOid'', JStr (example_commit CHR ''a'')), (''baseRefName'', JStr ''main''),
      (''headRepositoryOwner'', JDict [(''login'', JStr ''acme'')]),
      (''headRepository'', JDict [(''nameWithOwner'', JStr ''acme/shop'')]),
      (''isCrossRepository'', JBool False), (''isDraft'', JBool True)]]"

definition example_gh_output :: "string list \<Rightarrow> string" where
  "example_gh_output args =
     (if take 2 args = [''gh'', ''repo''] then ''acme/shop''
      else if take 2 args = [''git'', ''remote''] then ''git@github.com:acme/shop.git''
      else if take 2 args = [''git'', ''rev-parse''] then example_commit CHR ''b''
      else if take 2 args = [''git'', ''ls-remote'']
      then example_commit CHR ''a'' @ '' refs/heads/datarescue/dr-1''
      else if take 3 args = [''git'', ''show'', ''-s''] then ''fix(data): recover schema drift for DR-1''
      else if take 3 args = [''git'', ''rev-list'', ''--parents'']
      then example_commit CHR ''a'' @ CHR '' '' # example_commit CHR ''b''
      else if take 3 args = [''git'', ''rev-list'', ''--reverse''] then example_commit CHR ''a''
      else if take 2 args = [''git'', ''diff''] then ''models/stg.sql''
      else if take 2 args = [''git'', ''show''] then ''select 1''
      else [])"

definition example_gh :: gh_world where
  "example_gh =
     \<lparr>gw_run = (\<lambda>tr. Inr (0, case last tr of Command cwd args timeout \<Rightarrow> example_gh_output args | _ \<Rightarrow> [])),
      gw_flag = (\<lambda>_. Inr True), gw_path = (\<lambda>_. Inr ''/tmp/x''), gw_unit = (\<lambda>_. Inr ()),
      gw_json = \<lparr>lib_loads = (\<lambda>_. Some example_listing), lib_dumps = (\<lambda>_. []), lib_str = (\<lambda>_. [])\<rparr>,
      gw_bracketed_host = (\<lambda>_. False)\<rparr>"

lemma example_gh_run:
  "run_in example_gh cwd args tr = (Inr (example_gh_output args), tr @ [Command cwd args 120])"
  by (simp add: run_in_def example_gh_def observe_def bind_p_def)

lemma example_gh_flag: "observe a (gw_flag example_gh) tr = (Inr True, tr @ [a])"
  "observe a (gw_unit example_gh) tr = (Inr (), tr @ [a])"
  by (simp_all add: example_gh_def observe_def)

lemma example_gh_text:
  "slug ''DR-1'' = ''dr-1''" "branch_of ''DR-1'' = ''datarescue/dr-1''"
  "casefold (strip ''acme/shop'') = ''acme/shop''"
  "splitlines ''git@github.com:acme/shop.git'' = [''git@github.com:acme/shop.git'']"
  "strip ''git@github.com:acme/shop.git'' = ''git@github.com:acme/shop.git''"
  "github_repository_from_remote_url (\<lambda>_. False) ''git@github.com:acme/shop.git'' = Inr (Some ''acme/shop'')"
  "casefold ''acme/shop'' = ''acme/shop''" "casefold ''acme'' = ''acme''"
  "strip (example_commit CHR ''b'') = example_commit CHR ''b''"
  "commit_id (example_commit CHR ''a'')" "commit_id (example_commit CHR ''b'')"
  "map words (filter (\<lambda>row. strip row \<noteq> []) (splitlines
     (example_commit CHR ''a'' @ '' refs/heads/datarescue/dr-1'')))
     = [[example_commit CHR ''a'', ''refs/heads/datarescue/dr-1'']]"
  "filter (\<lambda>row. strip row \<noteq> []) (splitlines
     (example_commit CHR ''a'' @ '' refs/heads/datarescue/dr-1'')) \<noteq> []"
  "splitlines ''fix(data): recover schema drift for DR-1'' = [''fix(data): recover schema drift for DR-1'']"
  "words (example_commit CHR ''a'' @ CHR '' '' # example_commit CHR ''b'')
     = [example_commit CHR ''a'', example_commit CHR ''b'']"
  "splitlines (example_commit CHR ''a'') = [example_commit CHR ''a'']"
  "splitlines ''models/stg.sql'' = [''models/stg.sql'']"
  "as_posix ''models/stg.sql'' = ''models/stg.sql''"
  "path_parts ''models/stg.sql'' = [''models'', ''stg.sql'']"
  "partition CHR ''/'' ''acme/shop'' = (''acme'', True, ''shop'')"
  "validate_pr_url \<lparr>gw_run = f, gw_flag = g, gw_path = h, gw_unit = u, gw_json = j,
     gw_bracketed_host = (\<lambda>_. False)\<rparr> example_gh_adapter example_pr_url = Inr ()"
  by code_simp+

lemma example_gh_fields:
  "da_enabled example_gh_adapter" "da_repository example_gh_adapter = ''acme/shop''"
  "da_repo_root example_gh_adapter = ''/repo''" "da_base_branch example_gh_adapter = ''main''"
  "da_patch_path example_gh_adapter = ''models/stg.sql''" "da_runtime_dir example_gh_adapter = ''/tmp''"
  by (simp_all add: example_gh_adapter_def)

lemma example_gh_authorize:
  "\<exists>t. authorize example_gh example_gh_adapter ''DR-1'' example_patch tr = (Inr (example_commit CHR ''b''), t)"
proof -
  have urls: "check_urls example_gh example_gh_adapter operation [''git@github.com:acme/shop.git''] = Inr ()" for operation
    by (simp add: check_urls_def example_gh_text example_gh_def example_gh_fields)
  show ?thesis
    by (simp add: authorize_def check_request_def validate_origin_urls_def fetch_remote_base_def then_p_def
        bind_p_def Let_def example_gh_run example_gh_flag example_gh_output_def example_gh_text urls
        example_gh_fields example_patch_def is_absolute_def)
qed

lemma example_gh_owned:
  "\<exists>t. commit_is_owned example_gh example_gh_adapter (example_commit CHR ''a'') ''DR-1'' example_patch
     ''models/stg.sql'' base tr = (Inr True, t)"
  by (simp add: commit_is_owned_def tree_is_patch_def descends_def recorded_base_def commit_subject_def
      then_p_def bind_p_def catch_p_def Let_def example_gh_run example_gh_output_def example_gh_text
      example_patch_def)

lemma example_gh_entry:
  "candidate_entry example_gh example_gh_adapter ''datarescue/dr-1'' (example_commit CHR ''a'')
     (JDict [(''url'', JStr example_pr_url), (''headRefName'', JStr ''datarescue/dr-1''),
      (''headRefOid'', JStr (example_commit CHR ''a'')), (''baseRefName'', JStr ''main''),
      (''headRepositoryOwner'', JDict [(''login'', JStr ''acme'')]),
      (''headRepository'', JDict [(''nameWithOwner'', JStr ''acme/shop'')]),
      (''isCrossRepository'', JBool False), (''isDraft'', JBool True)])
   = Inr (example_pr_url, example_commit CHR ''a'')"
proof -
  have "validate_pr_url example_gh example_gh_adapter example_pr_url = Inr ()"
    unfolding example_gh_def by (rule example_gh_text)
  then show ?thesis
    by (simp add: candidate_entry_def expected_head_def nested_name_def jget_def example_gh_fields
        example_gh_text)
qed

lemma example_gh_found:
  "\<exists>t. find_existing_pr example_gh example_gh_adapter ''DR-1'' ''datarescue/dr-1'' example_patch base tr
     = (Inr (Some example_pr_url), t)"
proof -
  have fetch: "fetch_remote_commit example_gh example_gh_adapter (example_commit CHR ''a'') s
      = (Inr (), s @ [Command ''/repo'' [''git'', ''fetch'', ''--no-tags'', ''origin'', example_commit CHR ''a''] 120])" for s
    by (simp add: fetch_remote_commit_def then_p_def bind_p_def example_gh_run example_gh_text example_gh_fields)
  have listing: "listed_candidates example_gh raw = Inr (case example_listing of JList cs \<Rightarrow> cs)" for raw
    by (simp add: listed_candidates_def example_gh_def example_listing_def)
  have remote: "\<exists>t. remote_branch_sha example_gh example_gh_adapter ''datarescue/dr-1'' s
      = (Inr (Some (example_commit CHR ''a'')), t)" for s
    by (simp add: remote_branch_sha_def then_p_def bind_p_def Let_def example_gh_run example_gh_output_def
        example_gh_text remote_row_def branch_ref_def fetch example_gh_fields)
  obtain t1 where t1: "remote_branch_sha example_gh example_gh_adapter ''datarescue/dr-1''
      (tr @ [Command ''/repo'' (pr_list_command example_gh_adapter ''datarescue/dr-1'') 120])
      = (Inr (Some (example_commit CHR ''a'')), t1)"
    using remote by blast
  obtain t2 where t2: "commit_is_owned example_gh example_gh_adapter (example_commit CHR ''a'') ''DR-1'' example_patch
     ''models/stg.sql'' base (t1 @ [Command ''/repo'' [''git'', ''fetch'', ''--no-tags'', ''origin'', example_commit CHR ''a''] 120])
     = (Inr True, t2)"
    using example_gh_owned by blast
  show ?thesis
    by (simp add: find_existing_pr_def bind_p_def example_gh_run listing t1 example_listing_def example_gh_entry fetch t2
        example_gh_fields)
qed

lemma example_gh_draft:
  "\<exists>pr t. create_draft example_gh example_gh_adapter ''DR-1'' example_patch [] = (Inr pr, t)
     \<and> ir_status (pr_integration pr) = SUCCEEDED \<and> pr_url pr = Some example_pr_url"
proof -
  obtain t1 where t1: "authorize example_gh example_gh_adapter ''DR-1'' example_patch []
      = (Inr (example_commit CHR ''b''), t1)"
    using example_gh_authorize by blast
  obtain t2 where t2: "find_existing_pr example_gh example_gh_adapter ''DR-1'' ''datarescue/dr-1'' example_patch
      (example_commit CHR ''b'') t1 = (Inr (Some example_pr_url), t2)"
    using example_gh_found by blast
  show ?thesis
    using t1 t2 by (simp add: create_draft_def create_real_draft_def reconcile_or_publish_def Let_def catch_p_def
        bind_p_def example_gh_text example_gh_fields draft_result_def)
qed

end
