(* ===== verification/Mcp_Protocol.thy ===== *)
theory Mcp_Protocol
  imports Incident_Graphql Text_Lines
begin

text \<open>
  The JSON-RPC exchange of \<^verbatim>\<open>packages/datahub/mcp.py\<close> with a DataHub MCP server: reading a response that is
  JSON or a stream of server-sent events, the handshake, a sequence of tool calls, and the structured
  object of a tool's answer.

  The HTTP client is a parameter: a POST raises or returns a response with its text.
\<close>

section \<open>The adapter\<close>

record rpc_response =
  rp_http :: http_response
  rp_text :: string

record 'w mcp_adapter =
  ma_endpoint :: "string option"
  ma_token :: "string option"
  ma_legacy_context_tool :: string
  ma_write_tool :: string
  ma_gms_url :: "string option"
  ma_gms_token :: "string option"
  ma_attempts :: int
  ma_delay :: pyfloat
  ma_json :: json_lib
  ma_loads_error :: "string \<Rightarrow> string"
  ma_post :: "string \<Rightarrow> (string \<times> string) list \<Rightarrow> json \<Rightarrow> ('w, exn, rpc_response) prog"
  ma_get :: "string \<Rightarrow> (string \<times> string) list \<Rightarrow> ('w, exn, http_response) prog"
  ma_sleep :: "pyfloat \<Rightarrow> ('w, exn, unit) prog"

section \<open>Values\<close>

text \<open>Python's \<open>v == n\<close> for an integer \<open>n\<close>: a bool is an integer, and a float compares by value.\<close>

definition equals_int :: "json \<Rightarrow> int \<Rightarrow> bool" where
  "equals_int v n =
     (case v of
        JInt i \<Rightarrow> i = n
      | JBool b \<Rightarrow> (if b then 1 else 0) = n
      | JFloat f \<Rightarrow> finite_value f = Some (of_int n)
      | _ \<Rightarrow> False)"

definition json_repr :: "json_lib \<Rightarrow> json \<Rightarrow> string" where
  "json_repr lib v = (case v of JStr s \<Rightarrow> py_repr s | _ \<Rightarrow> lib_str lib v)"

definition plain_int :: "json \<Rightarrow> bool" where
  "plain_int v = (case v of JInt i \<Rightarrow> 0 \<le> i | _ \<Rightarrow> False)"

text \<open>\<^verbatim>\<open>list(dict.fromkeys(value for value in values if value))\<close>\<close>

definition unique_strings :: "string list \<Rightarrow> string list" where
  "unique_strings values = first_occurrences (filter (\<lambda>v. v \<noteq> []) values)"

lemma set_unique_strings [simp]: "set (unique_strings vs) = {v \<in> set vs. v \<noteq> []}"
  by (simp add: unique_strings_def)

lemma distinct_unique_strings [simp]: "distinct (unique_strings vs)"
  by (simp add: unique_strings_def)

lemma first_occurrences_filter: "first_occurrences (filter P xs) = filter P (first_occurrences xs)"
proof (induction xs rule: first_occurrences.induct)
  case (2 x xs)
  have "filter (\<lambda>y. y \<noteq> x \<and> P y) xs = filter P xs" if "\<not> P x"
    using that by (auto intro: filter_cong)
  with 2 show ?case by (auto simp: conj_commute)
qed simp

lemma unique_strings_Cons:
  "v \<noteq> [] \<Longrightarrow> unique_strings (v # vs) = v # filter (\<lambda>u. u \<noteq> v) (unique_strings vs)"
  by (simp add: unique_strings_def flip: first_occurrences_filter)

section \<open>Server-sent events\<close>

text \<open>The value of a data line; None for a comment or another field.\<close>

definition data_value :: "string \<Rightarrow> string option" where
  "data_value raw_line =
     (if prefix '':'' raw_line \<or> \<not> prefix ''data:'' raw_line then None
      else let value = drop 5 raw_line
           in Some (if prefix '' '' value then tl value else value))"

definition flush :: "string list \<Rightarrow> string list \<Rightarrow> string list" where
  "flush frames data_lines =
     (if data_lines = [] then frames else frames @ [join_with newline data_lines])"

fun collect_frames :: "string list \<Rightarrow> string list \<Rightarrow> string list \<Rightarrow> string list" where
  "collect_frames frames data_lines [] = flush frames data_lines"
| "collect_frames frames data_lines (raw_line # rest) =
     (if raw_line = [] then collect_frames (flush frames data_lines) [] rest
      else case data_value raw_line of
             None \<Rightarrow> collect_frames frames data_lines rest
           | Some value \<Rightarrow> collect_frames frames (data_lines @ [value]) rest)"

definition sse_data_frames :: "string \<Rightarrow> string list" where
  "sse_data_frames payload = collect_frames [] [] (splitlines payload)"

text \<open>
  A stream as a server writes it: an event is a block of lines that ends with an empty one; a data line
  carries one line of the payload, every other line (a comment, an event name, an id) is skipped.
\<close>

datatype sse_line = Data string | Skipped string

fun line_text :: "sse_line \<Rightarrow> string" where
  "line_text (Data value) = ''data: '' @ value"
| "line_text (Skipped l) = l"

fun line_value :: "sse_line \<Rightarrow> string option" where
  "line_value (Data value) = Some value"
| "line_value (Skipped _) = None"

definition line_ok :: "sse_line \<Rightarrow> bool" where
  "line_ok l \<longleftrightarrow> list_all (\<lambda>c. \<not> line_break c) (line_text l)
     \<and> (case l of Data _ \<Rightarrow> True | Skipped t \<Rightarrow> t \<noteq> [] \<and> \<not> prefix ''data:'' t)"

definition event_text :: "sse_line list \<Rightarrow> string" where
  "event_text ls = concat (map (\<lambda>l. line_text l @ newline) ls) @ newline"

definition event_frames :: "sse_line list \<Rightarrow> string list" where
  "event_frames ls = flush [] (List.map_filter line_value ls)"

lemma data_value_line: "line_ok l \<Longrightarrow> data_value (line_text l) = line_value l"
  by (cases l) (auto simp: data_value_def line_ok_def)

lemma line_text_ne: "line_ok l \<Longrightarrow> line_text l \<noteq> []"
  by (cases l) (auto simp: line_ok_def)

lemma flush_append: "flush frames ds = frames @ flush [] ds"
  by (simp add: flush_def)

lemma collect_lines:
  "list_all line_ok ls \<Longrightarrow>
     collect_frames frames ds (map line_text ls @ rest)
       = collect_frames frames (ds @ List.map_filter line_value ls) rest"
  by (induction ls arbitrary: ds)
    (auto simp: data_value_line line_text_ne List.map_filter_simps split: option.split)

lemma collect_events:
  "list_all (list_all line_ok) events \<Longrightarrow>
     collect_frames frames [] (concat (map (\<lambda>ls. map line_text ls @ [[]]) events))
       = frames @ concat (map event_frames events)"
proof (induction events arbitrary: frames)
  case Nil
  then show ?case by (simp add: flush_def)
next
  case (Cons ls events)
  then show ?case
    using collect_lines [of ls frames "[]"] flush_append [of frames]
    by (simp add: event_frames_def)
qed

lemma splitlines_events:
  assumes "list_all (list_all line_ok) events"
  shows "splitlines (concat (map event_text events))
    = concat (map (\<lambda>ls. map line_text ls @ [[]]) events)"
proof -
  have "concat (map event_text events)
      = concat (map (\<lambda>w. w @ newline) (concat (map (\<lambda>ls. map line_text ls @ [[]]) events)))"
    by (induction events) (simp_all add: event_text_def comp_def)
  moreover have "list_all (list_all (\<lambda>c. \<not> line_break c)) (concat (map (\<lambda>ls. map line_text ls @ [[]]) events))"
    using assms by (fastforce simp: list_all_iff line_ok_def)
  ultimately show ?thesis
    using splitlines_lines [of _ "[]"] by simp
qed

lemma sse_frames_events:
  "list_all (list_all line_ok) events \<Longrightarrow>
     sse_data_frames (concat (map event_text events)) = concat (map event_frames events)"
  using collect_events [of events "[]"] by (simp add: sse_data_frames_def splitlines_events)

section \<open>A response of the server\<close>

definition validated_rpc_response :: "json_lib \<Rightarrow> jdict \<Rightarrow> int \<Rightarrow> exn + jdict" where
  "validated_rpc_response lib body request_id =
     (if jget body ''jsonrpc'' \<noteq> JStr ''2.0''
      then Inl (ValueError ''MCP response has an invalid JSON-RPC version'')
      else if \<not> equals_int (jget body ''id'') request_id
      then Inl (ValueError (''MCP response id '' @ json_repr lib (jget body ''id'')
        @ '' does not match request id '' @ decimal request_id))
      else if \<not> has_key body ''result'' \<and> \<not> has_key body ''error''
      then Inl (ValueError ''MCP JSON-RPC response has neither result nor error'')
      else Inr body)"

fun first_answer :: "'w mcp_adapter \<Rightarrow> int \<Rightarrow> string list \<Rightarrow> exn + jdict" where
  "first_answer a request_id [] =
     Inl (ValueError (''MCP event stream contained no response for request id '' @ decimal request_id))"
| "first_answer a request_id (event_data # rest) =
     (case lib_loads (ma_json a) event_data of
        None \<Rightarrow> Inl (JSONDecodeError (ma_loads_error a event_data))
      | Some (JDict parsed) \<Rightarrow>
          if \<not> equals_int (jget parsed ''id'') request_id then first_answer a request_id rest
          else validated_rpc_response (ma_json a) parsed request_id
      | Some _ \<Rightarrow> first_answer a request_id rest)"

definition rpc_body :: "'w mcp_adapter \<Rightarrow> rpc_response \<Rightarrow> int \<Rightarrow> exn + jdict" where
  "rpc_body a response request_id =
     (let content_type = casefold (case hr_headers (rp_http response) ''content-type'' of
                                     Some t \<Rightarrow> t | None \<Rightarrow> [])
      in if \<not> contains ''text/event-stream'' content_type
         then bind_res (hr_body (rp_http response)) (\<lambda>body.
                case body of
                  JDict d \<Rightarrow> validated_rpc_response (ma_json a) d request_id
                | _ \<Rightarrow> Inl (ValueError ''MCP response is not an object''))
         else first_answer a request_id (sse_data_frames (rp_text response)))"

definition protocol_version :: string where
  "protocol_version = ''2025-06-18''"

definition validated_initialize_result :: "json_lib \<Rightarrow> json \<Rightarrow> exn + string" where
  "validated_initialize_result lib result =
     (case result of
        JDict r \<Rightarrow>
          if jget r ''protocolVersion'' \<noteq> JStr protocol_version
          then Inl (ValueError (''MCP negotiated unsupported protocol version ''
            @ json_repr lib (jget r ''protocolVersion'') @ ''; expected '' @ protocol_version))
          else (case jget r ''capabilities'' of
             JDict _ \<Rightarrow>
               (case jget r ''serverInfo'' of
                  JDict server_info \<Rightarrow>
                    (case jget server_info ''name'' of
                       JStr name \<Rightarrow>
                         if strip name = []
                         then Inl (ValueError ''MCP initialize returned invalid serverInfo.name'')
                         else Inr protocol_version
                     | _ \<Rightarrow> Inl (ValueError ''MCP initialize returned invalid serverInfo.name''))
                | _ \<Rightarrow> Inl (ValueError ''MCP initialize returned no serverInfo object''))
           | _ \<Rightarrow> Inl (ValueError ''MCP initialize returned no capabilities object''))
      | _ \<Rightarrow> Inl (ValueError ''MCP initialize returned no result object''))"

section \<open>The answer of a tool\<close>

text \<open>The first content item whose text is the JSON of an object.\<close>

definition content_object :: "json_lib \<Rightarrow> json \<Rightarrow> jdict option" where
  "content_object lib item =
     (case item of
        JDict d \<Rightarrow>
          if jget d ''type'' \<noteq> JStr ''text'' then None
          else (case jget d ''text'' of
                  JStr t \<Rightarrow> (case lib_loads lib t of Some (JDict parsed) \<Rightarrow> Some parsed | _ \<Rightarrow> None)
                | _ \<Rightarrow> None)
      | _ \<Rightarrow> None)"

definition wrap_result :: "jdict \<Rightarrow> bool" where
  "wrap_result result =
     (case jget result ''_meta'' of
        JDict meta \<Rightarrow>
          (case jget meta ''fastmcp'' of
             JDict fastmcp \<Rightarrow> jget fastmcp ''wrap_result'' = JBool True
           | _ \<Rightarrow> False)
      | _ \<Rightarrow> False)"

definition structured_payload :: "jdict \<Rightarrow> jdict \<Rightarrow> exn + jdict" where
  "structured_payload result structured =
     (if wrap_result result \<or> set (map fst structured) = {''result''}
      then (case jget structured ''result'' of
              JDict unwrapped \<Rightarrow> Inr unwrapped
            | _ \<Rightarrow> Inl (ValueError ''MCP structured result is not an object''))
      else Inr structured)"

definition content_payload :: "json_lib \<Rightarrow> jdict \<Rightarrow> exn + jdict" where
  "content_payload lib result =
     bind_res (iterate (case map_of result ''content'' of Some v \<Rightarrow> v | None \<Rightarrow> JList [])) (\<lambda>items.
       case first_some (content_object lib) items of
         Some parsed \<Rightarrow> Inr parsed
       | None \<Rightarrow> Inl (ValueError ''MCP tool returned no structured object''))"

definition tool_payload :: "json_lib \<Rightarrow> json \<Rightarrow> exn + jdict" where
  "tool_payload lib result =
     (case result of
        JDict r \<Rightarrow>
          if truthy (jget r ''isError'') then Inl (ValueError ''MCP tool reported an error'')
          else (case jget r ''structuredContent'' of
                  JDict structured \<Rightarrow> structured_payload r structured
                | _ \<Rightarrow> content_payload lib r)
      | _ \<Rightarrow> Inl (ValueError ''MCP tool result is not an object''))"

section \<open>Calling tools\<close>

type_synonym tool_call = "string \<times> json"

definition rpc_request :: "int \<Rightarrow> string \<Rightarrow> json \<Rightarrow> json" where
  "rpc_request request_id rpc_method params =
     JDict [(''jsonrpc'', JStr ''2.0''), (''id'', JInt request_id), (''method'', JStr rpc_method),
            (''params'', params)]"

definition initialize_request :: json where
  "initialize_request =
     rpc_request 1 ''initialize''
       (JDict [(''protocolVersion'', JStr ''2025-06-18''), (''capabilities'', JDict []),
               (''clientInfo'', JDict [(''name'', JStr ''datarescue''), (''version'', JStr ''0.1.0'')])])"

definition initialized_notification :: json where
  "initialized_notification =
     JDict [(''jsonrpc'', JStr ''2.0''), (''method'', JStr ''notifications/initialized'')]"

definition call_request :: "int \<Rightarrow> tool_call \<Rightarrow> json" where
  "call_request call_id call =
     rpc_request call_id ''tools/call''
       (JDict [(''name'', JStr (fst call)), (''arguments'', snd call)])"

definition base_headers :: "'w mcp_adapter \<Rightarrow> (string \<times> string) list" where
  "base_headers a =
     [(''Accept'', ''application/json, text/event-stream''), (''Content-Type'', ''application/json'')]
     @ (case ma_token a of
          Some t \<Rightarrow> if t = [] then [] else [(''Authorization'', ''Bearer '' @ t)]
        | None \<Rightarrow> [])"

text \<open>The POST of a request whose answer must be a result.\<close>

definition refuse_error :: "json_lib \<Rightarrow> jdict \<Rightarrow> exn + unit" where
  "refuse_error lib body =
     (if truthy (jget body ''error'') then Inl (ValueError (py_str lib (jget body ''error'')))
      else Inr ())"

definition handshake ::
  "'w mcp_adapter \<Rightarrow> string \<Rightarrow> ('w, exn, (string \<times> string) list) prog" where
  "handshake a endpoint =
     bind_p (ma_post a endpoint (base_headers a) initialize_request) (\<lambda>initialize.
     bind_p (result_p (raise_for_status (rp_http initialize))) (\<lambda>_.
     bind_p (result_p (rpc_body a initialize 1)) (\<lambda>initialized.
     bind_p (result_p (refuse_error (ma_json a) initialized)) (\<lambda>_.
     bind_p (result_p (validated_initialize_result (ma_json a) (jget initialized ''result''))) (\<lambda>negotiated.
       let headers = base_headers a @ [(''MCP-Protocol-Version'', negotiated)]
             @ (case hr_headers (rp_http initialize) ''mcp-session-id'' of
                  Some session \<Rightarrow> if session = [] then [] else [(''MCP-Session-Id'', session)]
                | None \<Rightarrow> [])
       in bind_p (ma_post a endpoint headers initialized_notification) (\<lambda>notification.
          bind_p (result_p (raise_for_status (rp_http notification))) (\<lambda>_.
            return_p headers)))))))"

definition call_result :: "'w mcp_adapter \<Rightarrow> int \<Rightarrow> rpc_response \<Rightarrow> exn + json" where
  "call_result a call_id response =
     bind_res (raise_for_status (rp_http response)) (\<lambda>_.
     bind_res (rpc_body a response call_id) (\<lambda>body.
     bind_res (refuse_error (ma_json a) body) (\<lambda>_.
       case map_of body ''result'' of
         Some result \<Rightarrow> Inr result
       | None \<Rightarrow> Inl (ValueError ''MCP JSON-RPC response returned no result''))))"

fun call_each ::
  "'w mcp_adapter \<Rightarrow> string \<Rightarrow> (string \<times> string) list \<Rightarrow> int \<Rightarrow> tool_call list
    \<Rightarrow> ('w, exn, json list) prog" where
  "call_each a endpoint headers call_id [] = return_p []"
| "call_each a endpoint headers call_id (call # rest) =
     bind_p (ma_post a endpoint headers (call_request call_id call)) (\<lambda>response.
     bind_p (result_p (call_result a call_id response)) (\<lambda>result.
     bind_p (call_each a endpoint headers (call_id + 1) rest) (\<lambda>results.
       return_p (result # results))))"

definition call_tools :: "'w mcp_adapter \<Rightarrow> tool_call list \<Rightarrow> ('w, exn, json list) prog" where
  "call_tools a calls =
     (case ma_endpoint a of
        None \<Rightarrow> raise_p (ValueError ''DataHub MCP endpoint is not configured'')
      | Some endpoint \<Rightarrow>
          if endpoint = [] then raise_p (ValueError ''DataHub MCP endpoint is not configured'')
          else if calls = [] then return_p []
          else bind_p (handshake a endpoint) (\<lambda>headers. call_each a endpoint headers 2 calls))"

end
