(* ===== verification/Mcp_Context.thy ===== *)
theory Mcp_Context
  imports Mcp_Protocol
begin

text \<open>
  The validators of \<^verbatim>\<open>packages/datahub/mcp.py\<close>: what the adapter requires of the entity, its schema, its
  lineage and its documents, and the context made of them.
\<close>

section \<open>The canonical contract\<close>

definition contract_asset_urn :: string where
  "contract_asset_urn =
     ''urn:li:dataset:(urn:li:dataPlatform:postgres,datarescue.raw.payments_raw,PROD)''"

definition canonical_document_urn :: string where
  "canonical_document_urn = ''urn:li:document:datarescue-net-revenue-contract''"

definition canonical_document_title :: string where
  "canonical_document_title = ''DataRescue Net Revenue Contract''"

definition canonical_owner_urn :: string where
  "canonical_owner_urn = ''urn:li:corpuser:finance-data''"

definition canonical_owner_name :: string where
  "canonical_owner_name = ''Finance Data''"

definition canonical_term_urn :: string where
  "canonical_term_urn = ''urn:li:glossaryTerm:NetRevenue''"

definition dbt_source_urn :: string where
  "dbt_source_urn = ''urn:li:dataset:(urn:li:dataPlatform:dbt,datarescue.raw.payments_raw,PROD)''"

definition dbt_staging_urn :: string where
  "dbt_staging_urn = ''urn:li:dataset:(urn:li:dataPlatform:dbt,datarescue.analytics.stg_payments,PROD)''"

definition physical_staging_urn :: string where
  "physical_staging_urn =
     ''urn:li:dataset:(urn:li:dataPlatform:postgres,datarescue.analytics.stg_payments,PROD)''"

definition dbt_mart_urn :: string where
  "dbt_mart_urn = ''urn:li:dataset:(urn:li:dataPlatform:dbt,datarescue.analytics.fct_revenue,PROD)''"

definition required_lineage_urns :: "string list" where
  "required_lineage_urns =
     [contract_asset_urn, dbt_source_urn, dbt_staging_urn, physical_staging_urn, dbt_mart_urn]"

definition direct_lineage_edges :: "(string \<times> string) list" where
  "direct_lineage_edges =
     [(contract_asset_urn, dbt_source_urn), (dbt_source_urn, dbt_staging_urn),
      (dbt_staging_urn, physical_staging_urn), (physical_staging_urn, dbt_mart_urn)]"

definition parallel_lineage_edges :: "(string \<times> string) list" where
  "parallel_lineage_edges = [(contract_asset_urn, physical_staging_urn)]"

section \<open>Schema\<close>

definition valid_field :: "json \<Rightarrow> bool" where
  "valid_field field =
     (case field of
        JDict d \<Rightarrow> (case jget d ''fieldPath'' of JStr path \<Rightarrow> strip path \<noteq> [] | _ \<Rightarrow> False)
      | _ \<Rightarrow> False)"

definition consistent_pages :: "json \<Rightarrow> json \<Rightarrow> json \<Rightarrow> nat \<Rightarrow> bool" where
  "consistent_pages returned total_fields remaining n \<longleftrightarrow>
     plain_int returned \<and> plain_int total_fields \<and> plain_int remaining
     \<and> (case (returned, total_fields, remaining) of
          (JInt r, JInt t, JInt m) \<Rightarrow> r = int n \<and> r \<le> t \<and> m = t - r
        | _ \<Rightarrow> False)"

definition validated_schema_fields :: "string \<Rightarrow> jdict \<Rightarrow> exn + json list" where
  "validated_schema_fields asset_urn payload =
     (if jget payload ''urn'' \<noteq> JStr asset_urn
      then Inl (ValueError ''list_schema_fields returned a different or missing asset URN'')
      else case jget payload ''fields'' of
        JList found_fields \<Rightarrow>
          if found_fields = [] then Inl (ValueError ''list_schema_fields returned no schema fields'')
          else if \<not> list_all valid_field found_fields
          then Inl (ValueError ''list_schema_fields returned an invalid field'')
          else if \<not> consistent_pages (jget payload ''returned'') (jget payload ''totalFields'')
                       (jget payload ''remainingCount'') (length found_fields)
          then Inl (ValueError ''list_schema_fields returned inconsistent pagination metadata'')
          else if jget payload ''remainingCount'' \<noteq> JInt 0
          then Inl (ValueError ''list_schema_fields returned a partial schema'')
          else Inr found_fields
      | _ \<Rightarrow> Inl (ValueError ''list_schema_fields returned no fields array''))"

section \<open>Lineage\<close>

definition lineage_result :: "json \<Rightarrow> exn + string \<times> int" where
  "lineage_result result =
     (case result of
        JDict d \<Rightarrow>
          (case jget d ''entity'' of
             JDict entity \<Rightarrow>
               (case jget entity ''urn'' of
                  JStr urn \<Rightarrow>
                    if \<not> prefix ''urn:li:'' urn
                    then Inl (ValueError ''get_lineage search result has no valid entity URN'')
                    else (case jget d ''degree'' of
                            JInt degree \<Rightarrow>
                              if degree < 1
                              then Inl (ValueError ''get_lineage search result has no valid positive degree'')
                              else Inr (urn, degree)
                          | _ \<Rightarrow> Inl (ValueError ''get_lineage search result has no valid positive degree''))
                | _ \<Rightarrow> Inl (ValueError ''get_lineage search result has no valid entity URN''))
           | _ \<Rightarrow> Inl (ValueError ''get_lineage search result has no entity''))
      | _ \<Rightarrow> Inl (ValueError ''get_lineage returned an invalid search result''))"

definition validated_lineage_results :: "jdict \<Rightarrow> exn + (string \<times> int) list" where
  "validated_lineage_results payload =
     (case jget payload ''downstreams'' of
        JDict downstreams \<Rightarrow>
          (case jget downstreams ''searchResults'' of
             JList results \<Rightarrow>
               if results = [] then Inl (ValueError ''get_lineage returned no downstream lineage'')
               else if jget downstreams ''hasMore'' = JBool True
                 \<or> jget downstreams ''truncatedDueToTokenBudget'' = JBool True
               then Inl (ValueError ''get_lineage returned a partial lineage graph'')
               else if \<not> plain_int (jget downstreams ''total'') \<or> \<not> plain_int (jget downstreams ''returned'')
                 \<or> jget downstreams ''total'' \<noteq> JInt (int (length results))
                 \<or> jget downstreams ''returned'' \<noteq> JInt (int (length results))
               then Inl (ValueError ''get_lineage returned incomplete or invalid result metadata'')
               else map_res lineage_result results
           | _ \<Rightarrow> Inl (ValueError ''get_lineage returned no downstream searchResults array''))
      | _ \<Rightarrow> Inl (ValueError ''get_lineage returned no downstream lineage object''))"

definition validated_lineage_urns :: "string \<Rightarrow> jdict \<Rightarrow> exn + string list" where
  "validated_lineage_urns asset_urn payload =
     bind_res (validated_lineage_results payload) (\<lambda>results.
       Inr (unique_strings (asset_urn # map fst results)))"

text \<open>One edge of the bridge: the target at degree one, and no other canonical node but a parallel one.\<close>

definition edge_current :: "string \<Rightarrow> string \<Rightarrow> (string \<times> int) list \<Rightarrow> bool" where
  "edge_current source_urn target_urn results \<longleftrightarrow>
     (let canonical_results = filter (\<lambda>(urn, _). urn \<in> set required_lineage_urns) results;
          allowed_targets =
            target_urn # map snd (filter (\<lambda>(source, _). source = source_urn) parallel_lineage_edges)
      in (target_urn, 1) \<in> set canonical_results
         \<and> list_all (\<lambda>(urn, degree). degree = 1 \<and> urn \<in> set allowed_targets) canonical_results)"

fun edges_current :: "(string \<times> jdict) list \<Rightarrow> (string \<times> string) list \<Rightarrow> exn + bool" where
  "edges_current direct_lineages [] = Inr True"
| "edges_current direct_lineages ((source_urn, target_urn) # rest) =
     bind_res (case map_of direct_lineages source_urn of
                 Some payload \<Rightarrow> validated_lineage_results payload
               | None \<Rightarrow> Inl (KeyErr source_urn)) (\<lambda>results.
       if edge_current source_urn target_urn results then edges_current direct_lineages rest
       else Inr False)"

definition canonical_topology_current :: "(string \<times> jdict) list option \<Rightarrow> exn + bool" where
  "canonical_topology_current direct_lineages =
     (case direct_lineages of
        None \<Rightarrow> Inr False
      | Some direct \<Rightarrow>
          if set (map fst direct) \<noteq> set (map fst direct_lineage_edges) then Inr False
          else edges_current direct direct_lineage_edges)"

section \<open>Glossary, owner and documents\<close>

fun nested :: "json \<Rightarrow> string list \<Rightarrow> json option" where
  "nested current [] = Some current"
| "nested current (key # path) =
     (case current of JDict d \<Rightarrow> nested (jget d key) path | _ \<Rightarrow> None)"

definition nested_string :: "jdict \<Rightarrow> string list \<Rightarrow> string option" where
  "nested_string value path =
     (case nested (JDict value) path of
        Some (JStr s) \<Rightarrow> if strip s = [] then None else Some (strip s)
      | _ \<Rightarrow> None)"

definition glossary_description :: "jdict \<Rightarrow> exn + string option" where
  "glossary_description term_object =
     (case jget term_object ''properties'' of
        JNull \<Rightarrow> Inr None
      | JDict properties \<Rightarrow>
          (case jget properties ''description'' of
             JStr s \<Rightarrow> Inr (if strip s = [] then None else Some (strip s))
           | _ \<Rightarrow> Inr None)
      | _ \<Rightarrow> Inl (ValueError ''get_entities returned invalid glossary term properties''))"

definition glossary_term :: "json \<Rightarrow> exn + string \<times> string option" where
  "glossary_term association =
     (case association of
        JDict d \<Rightarrow>
          (case jget d ''term'' of
             JDict t \<Rightarrow>
               (case jget t ''urn'' of
                  JStr urn \<Rightarrow>
                    if \<not> prefix ''urn:li:glossaryTerm:'' urn
                    then Inl (ValueError ''get_entities returned an invalid glossary term URN'')
                    else bind_res (glossary_description t) (\<lambda>description. Inr (urn, description))
                | _ \<Rightarrow> Inl (ValueError ''get_entities returned an invalid glossary term URN''))
           | _ \<Rightarrow> Inl (ValueError ''get_entities returned an invalid glossary association''))
      | _ \<Rightarrow> Inl (ValueError ''get_entities returned an invalid glossary association''))"

definition glossary_context :: "jdict \<Rightarrow> exn + string option \<times> string list" where
  "glossary_context entity =
     (case jget entity ''glossaryTerms'' of
        JNull \<Rightarrow> Inr (None, [])
      | JDict glossary \<Rightarrow>
          (case jget glossary ''terms'' of
             JList terms \<Rightarrow>
               bind_res (map_res glossary_term terms) (\<lambda>found.
                 let definitions = join_with (newline @ newline)
                       (unique_strings (List.map_filter snd found))
                 in Inr (if definitions = [] then None else Some definitions,
                         unique_strings (map fst found)))
           | _ \<Rightarrow> Inl (ValueError ''get_entities returned invalid glossary terms''))
      | _ \<Rightarrow> Inl (ValueError ''get_entities returned invalid glossary terms''))"

definition canonical_description :: "json \<Rightarrow> string option" where
  "canonical_description association =
     (case association of
        JDict d \<Rightarrow>
          (case jget d ''term'' of
             JDict t \<Rightarrow>
               if jget t ''urn'' \<noteq> JStr canonical_term_urn then None
               else nested_string t [''properties'', ''description'']
           | _ \<Rightarrow> None)
      | _ \<Rightarrow> None)"

definition canonical_glossary_definition :: "jdict \<Rightarrow> string option" where
  "canonical_glossary_definition entity =
     (case jget entity ''glossaryTerms'' of
        JDict glossary \<Rightarrow>
          (case jget glossary ''terms'' of
             JList terms \<Rightarrow> first_some canonical_description terms
           | _ \<Rightarrow> None)
      | _ \<Rightarrow> None)"

definition display_name_paths :: "string list list" where
  "display_name_paths =
     [[''editableProperties'', ''displayName''], [''properties'', ''displayName''],
      [''info'', ''displayName'']]"

definition owner_name :: "jdict \<Rightarrow> string option" where
  "owner_name owner =
     (case first_some (nested_string owner) (display_name_paths @ [[''properties'', ''email'']]) of
        Some value \<Rightarrow> Some value
      | None \<Rightarrow> first_some (\<lambda>key. nested_string owner [key]) [''name'', ''urn''])"

fun owner_in :: "json list \<Rightarrow> exn + string option" where
  "owner_in [] = Inr None"
| "owner_in (association # rest) =
     (case association of
        JDict d \<Rightarrow>
          (case jget d ''owner'' of
             JDict owner \<Rightarrow>
               (case owner_name owner of Some value \<Rightarrow> Inr (Some value) | None \<Rightarrow> owner_in rest)
           | _ \<Rightarrow> Inl (ValueError ''get_entities returned an invalid owner association''))
      | _ \<Rightarrow> Inl (ValueError ''get_entities returned an invalid owner association''))"

definition owner_context :: "jdict \<Rightarrow> exn + string option" where
  "owner_context entity =
     (case jget entity ''ownership'' of
        JNull \<Rightarrow> Inr None
      | JDict ownership \<Rightarrow>
          (case jget ownership ''owners'' of
             JList owners \<Rightarrow> owner_in owners
           | _ \<Rightarrow> Inl (ValueError ''get_entities returned invalid ownership''))
      | _ \<Rightarrow> Inl (ValueError ''get_entities returned invalid ownership''))"

definition canonical_owner :: "json \<Rightarrow> bool" where
  "canonical_owner association =
     (case association of
        JDict d \<Rightarrow>
          (case jget d ''owner'' of
             JDict owner \<Rightarrow>
               jget owner ''urn'' = JStr canonical_owner_urn
               \<and> first_some (nested_string owner) display_name_paths = Some canonical_owner_name
           | _ \<Rightarrow> False)
      | _ \<Rightarrow> False)"

definition canonical_owner_verified :: "jdict \<Rightarrow> bool" where
  "canonical_owner_verified entity =
     (case jget entity ''ownership'' of
        JDict ownership \<Rightarrow>
          (case jget ownership ''owners'' of
             JList owners \<Rightarrow> list_ex canonical_owner owners
           | _ \<Rightarrow> False)
      | _ \<Rightarrow> False)"

definition document_urn_of :: "json \<Rightarrow> exn + string" where
  "document_urn_of document =
     (case document of
        JDict d \<Rightarrow>
          (case jget d ''urn'' of
             JStr urn \<Rightarrow>
               if prefix ''urn:li:document:'' urn then Inr urn
               else Inl (ValueError ''get_entities returned an invalid document URN'')
           | _ \<Rightarrow> Inl (ValueError ''get_entities returned an invalid document URN''))
      | _ \<Rightarrow> Inl (ValueError ''get_entities returned an invalid related document''))"

definition document_context :: "jdict \<Rightarrow> exn + string list" where
  "document_context entity =
     (case jget entity ''relatedDocuments'' of
        JNull \<Rightarrow> Inr []
      | JDict related \<Rightarrow>
          (case jget related ''documents'' of
             JList documents \<Rightarrow>
               bind_res (map_res document_urn_of documents) (\<lambda>urns. Inr (unique_strings urns))
           | _ \<Rightarrow> Inl (ValueError ''get_entities returned invalid related documents''))
      | _ \<Rightarrow> Inl (ValueError ''get_entities returned invalid related documents''))"

section \<open>Documents\<close>

definition validated_document_result :: "jdict \<Rightarrow> exn + string" where
  "validated_document_result payload =
     (if jget payload ''success'' \<noteq> JBool True
      then Inl (ValueError (''save_document did not confirm success'' @
        (case jget payload ''message'' of
           JStr message \<Rightarrow> if message = [] then [] else '': '' @ message
         | _ \<Rightarrow> [])))
      else case jget payload ''urn'' of
        JStr urn \<Rightarrow>
          if prefix ''urn:li:document:'' urn then Inr urn
          else Inl (ValueError ''save_document did not return a valid document URN'')
      | _ \<Rightarrow> Inl (ValueError ''save_document did not return a valid document URN''))"

definition linked_assets :: "json list \<Rightarrow> string list" where
  "linked_assets related_assets =
     List.map_filter (\<lambda>association. case association of
         JDict d \<Rightarrow> (case jget d ''asset'' of JStr linked \<Rightarrow> Some linked | _ \<Rightarrow> None)
       | _ \<Rightarrow> None) related_assets"

definition validate_gms_document_info ::
  "jdict \<Rightarrow> string \<Rightarrow> string \<Rightarrow> string option \<Rightarrow> exn + unit" where
  "validate_gms_document_info info title asset_urn content =
     (if jget info ''title'' \<noteq> JStr title
      then Inl (ValueError ''saved document title does not match the requested evidence'')
      else if content \<noteq> None
        \<and> (case jget info ''contents'' of
             JDict contents \<Rightarrow> jget contents ''text'' \<noteq> JStr (the content) | _ \<Rightarrow> True)
      then Inl (ValueError ''saved document content does not match the requested evidence'')
      else case jget info ''relatedAssets'' of
        JList related_assets \<Rightarrow>
          if asset_urn \<in> set (linked_assets related_assets) then Inr ()
          else Inl (ValueError ''saved document is not linked to the requested DataHub asset'')
      | _ \<Rightarrow> Inl (ValueError ''saved document has no relatedAssets array''))"

definition content_match :: "jdict \<Rightarrow> string \<Rightarrow> exn + unit" where
  "content_match result content =
     (if \<not> equals_int (jget result ''total_matches'') 1
      then Inl (ValueError ''saved document content match count is not exact'')
      else case jget result ''matches'' of
        JList [match] \<Rightarrow>
          (case match of
             JDict m \<Rightarrow>
               if \<not> equals_int (jget m ''position'') 0 \<or> jget m ''excerpt'' \<noteq> JStr content
               then Inl (ValueError ''saved document content does not match the requested evidence'')
               else Inr ()
           | _ \<Rightarrow> Inl (ValueError ''saved document content does not match the requested evidence''))
      | _ \<Rightarrow> Inl (ValueError ''saved document has no exact content match''))"

definition validate_content_search :: "jdict \<Rightarrow> string \<Rightarrow> string \<Rightarrow> string \<Rightarrow> exn + unit" where
  "validate_content_search content_search document_urn title content =
     (if \<not> equals_int (jget content_search ''documents_with_matches'') 1
      then Inl (ValueError ''grep_documents did not find the exact saved document content'')
      else if \<not> equals_int (jget content_search ''total_matches'') 1
      then Inl (ValueError ''grep_documents returned an ambiguous document content match'')
      else case jget content_search ''results'' of
        JList [result] \<Rightarrow>
          (case result of
             JDict r \<Rightarrow>
               if jget r ''urn'' \<noteq> JStr document_urn
               then Inl (ValueError ''grep_documents returned a different or missing document URN'')
               else if jget r ''title'' \<noteq> JStr title
               then Inl (ValueError ''saved document title does not match the requested evidence'')
               else content_match r content
           | _ \<Rightarrow> Inl (ValueError ''grep_documents returned a different or missing document URN''))
      | _ \<Rightarrow> Inl (ValueError ''grep_documents returned an invalid result set''))"

definition validate_document_readback ::
  "jdict \<Rightarrow> jdict \<Rightarrow> string \<Rightarrow> string \<Rightarrow> string \<Rightarrow> string \<Rightarrow> exn + unit" where
  "validate_document_readback content_search asset_entity document_urn title content asset_urn =
     bind_res (validate_content_search content_search document_urn title content) (\<lambda>_.
       if jget asset_entity ''urn'' \<noteq> JStr asset_urn
       then Inl (ValueError ''get_entities returned a different or missing asset URN'')
       else bind_res (document_context asset_entity) (\<lambda>documents.
              if document_urn \<in> set documents then Inr ()
              else Inl (ValueError ''saved document is not linked to the requested DataHub asset'')))"

section \<open>The context\<close>

record live_context =
  lc_asset_urn :: string
  lc_schema_fields :: "json list"
  lc_glossary_definition :: "string option"
  lc_owner :: "string option"
  lc_lineage_urns :: "string list"
  lc_documents :: "string list"
  lc_lineage_current :: bool

text \<open>The exact contract of the canonical asset: the definition and the documents it leaves.\<close>

definition canonical_contract ::
  "jdict \<Rightarrow> jdict option \<Rightarrow> string list \<Rightarrow> exn + string \<times> string list" where
  "canonical_contract entity document_info document_urns =
     bind_res (case document_info of
                 None \<Rightarrow> Inr document_urns
               | Some info \<Rightarrow>
                   bind_res (validate_gms_document_info info canonical_document_title contract_asset_urn None)
                     (\<lambda>_. Inr (unique_strings (document_urns @ [canonical_document_urn])))) (\<lambda>documents.
       if \<not> canonical_owner_verified entity
       then Inl (ValueError ''canonical DataRescue asset owner does not match the exact contract'')
       else case canonical_glossary_definition entity of
         None \<Rightarrow> Inl (ValueError ''canonical DataRescue NetRevenue glossary contract is unavailable'')
       | Some description \<Rightarrow>
           if canonical_document_urn \<notin> set documents
           then Inl (ValueError ''canonical DataRescue context document is unavailable'')
           else Inr (description, documents))"

definition normalize_context ::
  "string \<Rightarrow> jdict \<Rightarrow> jdict \<Rightarrow> jdict \<Rightarrow> (string \<times> jdict) list option \<Rightarrow> jdict option
    \<Rightarrow> exn + live_context" where
  "normalize_context asset_urn entity schema lineage direct_lineages document_info =
     (if truthy (jget entity ''error'')
      then Inl (ValueError (''get_entities failed for '' @ asset_urn))
      else if jget entity ''urn'' \<noteq> JStr asset_urn
      then Inl (ValueError ''get_entities returned a different or missing asset URN'')
      else
        bind_res (validated_schema_fields asset_urn schema) (\<lambda>schema_fields.
        bind_res (validated_lineage_urns asset_urn lineage) (\<lambda>lineage_urns.
        bind_res (glossary_context entity) (\<lambda>(glossary_definition, glossary_urns).
        bind_res (owner_context entity) (\<lambda>owner.
        bind_res (document_context entity) (\<lambda>document_urns.
          if asset_urn = contract_asset_urn
          then bind_res (canonical_contract entity document_info document_urns) (\<lambda>(description, documents).
               bind_res (canonical_topology_current direct_lineages) (\<lambda>topology_current.
                 Inr \<lparr>lc_asset_urn = asset_urn, lc_schema_fields = schema_fields,
                      lc_glossary_definition = Some description, lc_owner = Some canonical_owner_name,
                      lc_lineage_urns = lineage_urns,
                      lc_documents = unique_strings (glossary_urns @ documents),
                      lc_lineage_current =
                        set required_lineage_urns \<subseteq> set lineage_urns \<and> topology_current\<rparr>))
          else Inr \<lparr>lc_asset_urn = asset_urn, lc_schema_fields = schema_fields,
                    lc_glossary_definition = glossary_definition, lc_owner = owner,
                    lc_lineage_urns = lineage_urns,
                    lc_documents = unique_strings (glossary_urns @ document_urns),
                    lc_lineage_current = True\<rparr>))))))"

definition optional_string :: "string option \<Rightarrow> json" where
  "optional_string v = (case v of Some s \<Rightarrow> JStr s | None \<Rightarrow> JNull)"

definition context_items :: "live_context \<Rightarrow> jdict" where
  "context_items lc =
     [(''asset_urn'', JStr (lc_asset_urn lc)),
      (''schema_fields'', JList (lc_schema_fields lc)),
      (''glossary_definition'', optional_string (lc_glossary_definition lc)),
      (''owner'', optional_string (lc_owner lc)),
      (''lineage_urns'', JList (map JStr (lc_lineage_urns lc))),
      (''context_documents'', JList (map JStr (lc_documents lc))),
      (''lineage_current'', JBool (lc_lineage_current lc))]"

section \<open>What a validated answer says\<close>

lemma schema_fields_valid:
  "validated_schema_fields urn payload = Inr found_fields \<Longrightarrow> found_fields \<noteq> [] \<and> list_all valid_field found_fields"
  by (auto simp: validated_schema_fields_def split: json.splits if_splits)

lemma lineage_result_valid:
  "lineage_result r = Inr (urn, degree) \<Longrightarrow> prefix ''urn:li:'' urn \<and> 1 \<le> degree"
  by (auto simp: lineage_result_def split: json.splits if_splits)

lemma lineage_results_valid:
  assumes "validated_lineage_results payload = Inr results" "(urn, degree) \<in> set results"
  shows "prefix ''urn:li:'' urn \<and> 1 \<le> degree"
proof -
  from assms(1) obtain found where "map_res lineage_result found = Inr results"
    by (auto simp: validated_lineage_results_def split: json.splits if_splits)
  then have "list_all2 (\<lambda>r x. lineage_result r = Inr x) found results"
    by (simp add: map_res_Inr_iff)
  with assms(2) show ?thesis
    using lineage_result_valid by (auto simp: list_all2_conv_all_nth in_set_conv_nth)
qed

lemma lineage_urns_valid:
  assumes "validated_lineage_urns asset_urn payload = Inr urns"
  shows "distinct urns" and "\<forall>urn \<in> set urns. urn = asset_urn \<or> prefix ''urn:li:'' urn"
    and "asset_urn \<noteq> [] \<Longrightarrow> hd urns = asset_urn"
  using assms lineage_results_valid
  by (fastforce simp: validated_lineage_urns_def bind_res_Inr_iff unique_strings_Cons)+

lemma map_res_all:
  "map_res f xs = Inr ys \<Longrightarrow> (\<And>x y. f x = Inr y \<Longrightarrow> P y) \<Longrightarrow> \<forall>y \<in> set ys. P y"
  by (induction xs arbitrary: ys) (auto simp: bind_res_Inr_iff)

lemma glossary_urns_valid:
  assumes "glossary_context entity = Inr (glossary, urns)"
  shows "\<forall>urn \<in> set urns. prefix ''urn:li:glossaryTerm:'' urn" and "glossary \<noteq> Some []"
proof -
  have each: "prefix ''urn:li:glossaryTerm:'' (fst y)" if "glossary_term x = Inr y" for x y
    using that by (auto simp: glossary_term_def bind_res_Inr_iff split: json.splits if_splits)
  show "\<forall>urn \<in> set urns. prefix ''urn:li:glossaryTerm:'' urn"
    using assms map_res_all [where f = glossary_term, OF _ each]
    by (fastforce simp: glossary_context_def bind_res_Inr_iff Let_def split: json.splits)
  show "glossary \<noteq> Some []"
    using assms by (auto simp: glossary_context_def bind_res_Inr_iff Let_def split: json.splits if_splits)
qed

lemma document_urns_valid:
  assumes "document_context entity = Inr urns"
  shows "\<forall>urn \<in> set urns. prefix ''urn:li:document:'' urn"
proof -
  have each: "prefix ''urn:li:document:'' y" if "document_urn_of x = Inr y" for x y
    using that by (auto simp: document_urn_of_def split: json.splits if_splits)
  show ?thesis
    using assms map_res_all [where f = document_urn_of, OF _ each]
    by (fastforce simp: document_context_def bind_res_Inr_iff split: json.splits)
qed

lemma nested_string_ne: "nested_string d path \<noteq> Some []"
  by (auto simp: nested_string_def split: option.splits json.splits)

lemma first_nested_ne: "first_some (\<lambda>x. nested_string (f x) (g x)) xs \<noteq> Some []"
  using first_some_Some [of "\<lambda>x. nested_string (f x) (g x)" xs "[]"] nested_string_ne by blast

lemma owner_valid:
  assumes "owner_context entity = Inr owner"
  shows "owner \<noteq> Some []"
proof -
  have "owner_name d \<noteq> Some []" for d
    using first_nested_ne [of "\<lambda>_. d" "\<lambda>x. x"] nested_string_ne [of d]
    by (auto simp: owner_name_def split: option.splits)
  then have "owner_in xs \<noteq> Inr (Some [])" for xs
    by (induction xs) (auto split: json.splits option.splits)
  with assms show ?thesis by (auto simp: owner_context_def split: json.splits)
qed

lemma canonical_glossary_ne: "canonical_glossary_definition entity \<noteq> Some []"
proof -
  have "canonical_description x \<noteq> Some []" for x
    using nested_string_ne by (auto simp: canonical_description_def split: json.splits)
  then show ?thesis
    using first_some_Some [of canonical_description _ "[]"]
    by (auto simp: canonical_glossary_definition_def split: json.splits)
qed

lemma gms_info_valid:
  assumes "validate_gms_document_info info title asset_urn content = Inr u"
  shows "jget info ''title'' = JStr title"
    and "\<exists>related. jget info ''relatedAssets'' = JList related \<and> asset_urn \<in> set (linked_assets related)"
    and "content = Some c \<Longrightarrow> \<exists>cs. jget info ''contents'' = JDict cs \<and> jget cs ''text'' = JStr c"
  using assms by (auto simp: validate_gms_document_info_def split: json.splits if_splits)

section \<open>A well-typed context\<close>

definition well_typed_context :: "live_context \<Rightarrow> bool" where
  "well_typed_context lc \<longleftrightarrow>
     lc_schema_fields lc \<noteq> [] \<and> list_all valid_field (lc_schema_fields lc)
     \<and> lc_glossary_definition lc \<noteq> Some [] \<and> lc_owner lc \<noteq> Some []
     \<and> distinct (lc_lineage_urns lc)
     \<and> (\<forall>urn \<in> set (lc_lineage_urns lc). urn = lc_asset_urn lc \<or> prefix ''urn:li:'' urn)
     \<and> (lc_asset_urn lc \<noteq> [] \<longrightarrow> hd (lc_lineage_urns lc) = lc_asset_urn lc)
     \<and> distinct (lc_documents lc)
     \<and> (\<forall>urn \<in> set (lc_documents lc).
           prefix ''urn:li:glossaryTerm:'' urn \<or> prefix ''urn:li:document:'' urn)"

lemma normalize_cases:
  assumes "normalize_context urn entity schema lineage direct info = Inr lc"
  obtains found_fields urns glossary glossary_urns owner documents where
    "validated_schema_fields urn schema = Inr found_fields" "validated_lineage_urns urn lineage = Inr urns"
    "glossary_context entity = Inr (glossary, glossary_urns)" "owner_context entity = Inr owner"
    "document_context entity = Inr documents"
    "if urn = contract_asset_urn
     then \<exists>description documents' topology. canonical_contract entity info documents = Inr (description, documents')
       \<and> canonical_topology_current direct = Inr topology
       \<and> lc = \<lparr>lc_asset_urn = urn, lc_schema_fields = found_fields, lc_glossary_definition = Some description,
            lc_owner = Some canonical_owner_name, lc_lineage_urns = urns,
            lc_documents = unique_strings (glossary_urns @ documents'),
            lc_lineage_current = set required_lineage_urns \<subseteq> set urns \<and> topology\<rparr>
     else lc = \<lparr>lc_asset_urn = urn, lc_schema_fields = found_fields, lc_glossary_definition = glossary,
            lc_owner = owner, lc_lineage_urns = urns,
            lc_documents = unique_strings (glossary_urns @ documents), lc_lineage_current = True\<rparr>"
proof -
  from assms obtain found_fields urns gg owner documents where parts:
      "validated_schema_fields urn schema = Inr found_fields" "validated_lineage_urns urn lineage = Inr urns"
      "glossary_context entity = Inr gg" "owner_context entity = Inr owner"
      "document_context entity = Inr documents"
    unfolding normalize_context_def by (auto elim!: bind_res_InrE split: if_split_asm)
  obtain glossary glossary_urns where gg: "gg = (glossary, glossary_urns)" by fastforce
  from assms parts gg show ?thesis
    by (intro that [of found_fields urns glossary glossary_urns owner documents])
      (auto simp: normalize_context_def elim!: bind_res_InrE split: if_split_asm)
qed

lemma canonical_contract_valid:
  assumes "canonical_contract entity info documents = Inr (description, documents')"
  shows "canonical_owner_verified entity" and "canonical_glossary_definition entity = Some description"
    and "canonical_document_urn \<in> set documents'"
    and "set documents' \<subseteq> insert canonical_document_urn (set documents)"
    and "info = Some d \<Longrightarrow> validate_gms_document_info d canonical_document_title contract_asset_urn None = Inr ()"
  using assms
  by (auto simp: canonical_contract_def elim!: bind_res_InrE split: option.split_asm if_split_asm)

lemma normalized_well_typed:
  assumes "normalize_context urn entity schema lineage direct info = Inr lc"
  shows "well_typed_context lc \<and> lc_asset_urn lc = urn"
  using assms
proof (cases rule: normalize_cases)
  case (1 found_fields urns glossary glossary_urns owner documents)
  note facts = schema_fields_valid [OF 1(1)] lineage_urns_valid [OF 1(2)] glossary_urns_valid [OF 1(3)]
    owner_valid [OF 1(4)] document_urns_valid [OF 1(5)]
  show ?thesis
  proof (cases "urn = contract_asset_urn")
    case True
    with 1(6) obtain description documents' topology where
        contract: "canonical_contract entity info documents = Inr (description, documents')" and
        lc: "lc = \<lparr>lc_asset_urn = urn, lc_schema_fields = found_fields, lc_glossary_definition = Some description,
            lc_owner = Some canonical_owner_name, lc_lineage_urns = urns,
            lc_documents = unique_strings (glossary_urns @ documents'),
            lc_lineage_current = set required_lineage_urns \<subseteq> set urns \<and> topology\<rparr>"
      by auto
    have "description \<noteq> []"
      using canonical_contract_valid(2) [OF contract] canonical_glossary_ne by auto
    moreover have "\<forall>u \<in> set documents'. prefix ''urn:li:document:'' u"
      using canonical_contract_valid(4) [OF contract] document_urns_valid [OF 1(5)]
      by (auto simp: canonical_document_urn_def)
    ultimately show ?thesis
      using facts lc by (auto simp: well_typed_context_def canonical_owner_name_def)
  next
    case False
    with 1(6) facts show ?thesis by (auto simp: well_typed_context_def)
  qed
qed

section \<open>What the workflow reads from it\<close>

lemma string_list_strings [simp]: "string_list (JList (map JStr xs)) = xs"
  by (induction xs) (simp_all add: string_list_def string_value_def List.map_filter_simps)

lemma optional_string_read [simp]:
  "string_value (optional_string v) = v" "owner_value (optional_string v) = v"
  by (simp_all add: optional_string_def string_value_def owner_value_def split: option.split)

lemma context_items_read:
  "string_value (jget (context_items lc) ''glossary_definition'') = lc_glossary_definition lc"
  "owner_value (jget (context_items lc) ''owner'') = lc_owner lc"
  "string_list (jget (context_items lc) ''lineage_urns'') = lc_lineage_urns lc"
  "string_list (jget (context_items lc) ''context_documents'') = lc_documents lc"
  "truthy (jget (context_items lc) ''lineage_current'') = lc_lineage_current lc"
  by (simp_all add: jget_def context_items_def)

lemma context_of_items:
  assumes "ir_status i = SUCCEEDED"
  shows "context_of cfg urn \<lparr>mc_context = context_items lc, mc_integration = i\<rparr> =
    \<lparr>cb_asset_urn = urn, cb_glossary_definition = lc_glossary_definition lc, cb_owner = lc_owner lc,
     cb_lineage_urns = lc_lineage_urns lc, cb_context_documents = lc_documents lc,
     cb_lineage_current = lc_lineage_current lc, cb_source = ''DATAHUB_MCP'', cb_integration = i\<rparr>"
  using assms by (simp add: context_of_def context_items_read Let_def)

section \<open>The canonical topology\<close>

text \<open>What an edge has to look like in an answer about its source.\<close>

definition exact_edge :: "(string \<times> jdict) list \<Rightarrow> string \<times> string \<Rightarrow> bool" where
  "exact_edge direct edge \<longleftrightarrow>
     (\<exists>payload results. map_of direct (fst edge) = Some payload
        \<and> validated_lineage_results payload = Inr results
        \<and> (snd edge, 1) \<in> set results
        \<and> (\<forall>(urn, degree) \<in> set results. urn \<in> set required_lineage_urns \<longrightarrow>
              degree = 1 \<and> (urn = snd edge \<or> (fst edge, urn) \<in> set parallel_lineage_edges)))"

lemma edge_current_exact:
  assumes "target \<in> set required_lineage_urns"
  shows "edge_current source target results \<longleftrightarrow>
    (target, 1) \<in> set results
    \<and> (\<forall>(urn, degree) \<in> set results. urn \<in> set required_lineage_urns \<longrightarrow>
          degree = 1 \<and> (urn = target \<or> (source, urn) \<in> set parallel_lineage_edges))"
proof -
  have "set (map snd (filter (\<lambda>(s, _). s = source) xs)) = {t. (source, t) \<in> set xs}"
    for xs :: "(string \<times> string) list"
    by force
  then show ?thesis
    using assms unfolding edge_current_def Let_def list_all_iff by (simp add: split_def Ball_def) blast
qed

lemma edges_current_exact:
  assumes "edges_current direct edges = Inr current" "\<forall>e \<in> set edges. snd e \<in> set required_lineage_urns"
  shows "current \<longleftrightarrow> (\<forall>e \<in> set edges. exact_edge direct e)"
  using assms
proof (induction edges arbitrary: current)
  case (Cons edge edges)
  obtain source target where edge: "edge = (source, target)" by fastforce
  with Cons.prems(1) obtain payload results where
      found: "map_of direct source = Some payload" "validated_lineage_results payload = Inr results"
    by (auto elim!: bind_res_InrE split: option.split_asm)
  have "exact_edge direct edge \<longleftrightarrow> edge_current source target results"
    using edge_current_exact [of target source results] Cons.prems(2) found edge
    by (auto simp: exact_edge_def)
  with Cons edge found show ?case by (auto split: if_split_asm)
qed simp

lemma direct_edges_required: "\<forall>e \<in> set direct_lineage_edges. snd e \<in> set required_lineage_urns"
  by (simp add: direct_lineage_edges_def required_lineage_urns_def)

lemma topology_exact:
  assumes "canonical_topology_current (Some direct) = Inr current"
    "set (map fst direct) = set (map fst direct_lineage_edges)"
  shows "current \<longleftrightarrow> (\<forall>e \<in> set direct_lineage_edges. exact_edge direct e)"
  using assms by (intro edges_current_exact [OF _ direct_edges_required])
    (simp add: canonical_topology_current_def)

end
