(* ===== verification/Mcp_Adapter.thy ===== *)
theory Mcp_Adapter
  imports Mcp_Context
begin

text \<open>
  The two operations of the adapter of \<^verbatim>\<open>packages/datahub/mcp.py\<close>: fetching the context of an asset, and
  writing an evidence report that has to be read back, over the tool calls of Mcp_Protocol and the
  validators of Mcp_Context. The DataHub GMS is read by GET, an exchange of its own.
\<close>

section \<open>Construction\<close>

text \<open>
  \<^verbatim>\<open>ipaddress.ip_address(h).is_loopback\<close>: 127.0.0.0/8 for four decimal octets without leading zeros;
  whether the text is an IPv6 loopback is decided by the argument \<open>ipv6_loopback\<close>.
\<close>

definition is_octet :: "string \<Rightarrow> bool" where
  "is_octet part \<longleftrightarrow> part \<noteq> [] \<and> list_all is_digit part \<and> length part \<le> 3
     \<and> (part = ''0'' \<or> hd part \<noteq> CHR ''0'') \<and> digits_value part \<le> 255"

definition is_loopback_host :: "(string \<Rightarrow> bool) \<Rightarrow> string \<Rightarrow> bool" where
  "is_loopback_host ipv6_loopback host =
     (if casefold host = ''localhost'' then True
      else let parts = split_on CHR ''.'' host
           in if length parts = 4 \<and> list_all is_octet parts then digits_value (hd parts) = 127
              else ipv6_loopback host)"

definition validated_endpoint ::
  "(string \<Rightarrow> bool) \<Rightarrow> (string \<Rightarrow> bool) \<Rightarrow> string option \<Rightarrow> exn + string option" where
  "validated_endpoint ip ipv6_loopback endpoint =
     (case endpoint of
        None \<Rightarrow> Inr None
      | Some e \<Rightarrow>
          let normalized = strip e
          in if normalized = [] then Inr None
             else case urlsplit ip normalized of
               None \<Rightarrow> Inl (ValueError ''Invalid IPv6 URL'')
             | Some parsed \<Rightarrow>
                 if userinfo (us_netloc parsed) \<noteq> (None, None)
                 then Inl (ValueError ''DataHub MCP endpoint must not embed credentials'')
                 else if us_scheme parsed \<notin> {''http'', ''https''} \<or> hostname (us_netloc parsed) = []
                 then Inl (ValueError ''DataHub MCP endpoint must be an absolute HTTP(S) URL'')
                 else if us_scheme parsed = ''http''
                   \<and> \<not> is_loopback_host ipv6_loopback (hostname (us_netloc parsed))
                 then Inl (ValueError ''non-loopback DataHub MCP endpoints must use HTTPS'')
                 else Inr (Some normalized))"

definition present :: "string option \<Rightarrow> string option" where
  "present v = (case v of Some s \<Rightarrow> if s = [] then None else Some s | None \<Rightarrow> None)"

definition document_tool :: string where
  "document_tool = ''save_document''"

text \<open>\<^verbatim>\<open>__init__\<close> applied to the arguments, which the fields of the record hold.\<close>

definition new_mcp_adapter ::
  "(string \<Rightarrow> bool) \<Rightarrow> (string \<Rightarrow> bool) \<Rightarrow> 'w mcp_adapter \<Rightarrow> exn + 'w mcp_adapter" where
  "new_mcp_adapter ip ipv6_loopback a =
     bind_res (validated_endpoint ip ipv6_loopback (ma_endpoint a)) (\<lambda>endpoint.
       if ma_attempts a < 1
       then Inl (ValueError ''MCP document read-back attempts must be at least one'')
       else if flt (ma_delay a) (Fin 0)
       then Inl (ValueError ''MCP document read-back delay cannot be negative'')
       else Inr (a\<lparr>ma_endpoint := endpoint,
                   ma_write_tool :=
                     (if ma_write_tool a = ''write_document'' then document_tool else ma_write_tool a),
                   ma_gms_url := map_option rstrip_slash (present (ma_gms_url a))\<rparr>))"

section \<open>Reading a document back\<close>

definition mcp_failure :: "exn \<Rightarrow> bool" where
  "mcp_failure e \<longleftrightarrow> is_http_error e \<or> is_value_error e \<or> is_key_error e"

definition gms_failure :: "exn \<Rightarrow> bool" where
  "gms_failure e \<longleftrightarrow> is_http_error e \<or> is_value_error e"

definition mcp_pause :: "'w mcp_adapter \<Rightarrow> ('w, exn, unit) prog" where
  "mcp_pause a = (if feq (ma_delay a) (Fin 0) then return_p () else ma_sleep a (ma_delay a))"

definition gms_headers :: "'w mcp_adapter \<Rightarrow> (string \<times> string) list" where
  "gms_headers a =
     (case present (ma_gms_token a) of Some t \<Rightarrow> [(''Authorization'', ''Bearer '' @ t)] | None \<Rightarrow> [])"

definition document_endpoint :: "string \<Rightarrow> string \<Rightarrow> string" where
  "document_endpoint url document_urn =
     url @ ''/openapi/v3/entity/document/'' @ quote_all document_urn @ ''/documentInfo''"

definition document_info ::
  "http_response \<Rightarrow> string \<Rightarrow> string \<Rightarrow> string option \<Rightarrow> exn + jdict" where
  "document_info response title asset_urn content =
     bind_res (raise_for_status response) (\<lambda>_.
     bind_res (hr_body response) (\<lambda>body.
       case body of
         JDict d \<Rightarrow>
           (case jget d ''value'' of
              JDict info \<Rightarrow>
                bind_res (validate_gms_document_info info title asset_urn content) (\<lambda>_. Inr info)
            | _ \<Rightarrow> Inl (ValueError ''documentInfo read-back returned no value object''))
       | _ \<Rightarrow> Inl (ValueError ''documentInfo read-back returned no value object'')))"

definition read_document_once ::
  "'w mcp_adapter \<Rightarrow> string \<Rightarrow> string \<Rightarrow> string \<Rightarrow> string option \<Rightarrow> ('w, exn, jdict) prog" where
  "read_document_once a endpoint title asset_urn content =
     bind_p (ma_get a endpoint (gms_headers a)) (\<lambda>response.
       result_p (document_info response title asset_urn content))"

definition read_gms_document_info ::
  "'w mcp_adapter \<Rightarrow> string \<Rightarrow> string \<Rightarrow> string \<Rightarrow> string option \<Rightarrow> ('w, exn, jdict) prog" where
  "read_gms_document_info a document_urn title asset_urn content =
     (case present (ma_gms_url a) of
        None \<Rightarrow> raise_p (ValueError ''DataHub GMS is not configured for document read-back'')
      | Some url \<Rightarrow>
          if \<not> prefix ''urn:li:document:'' document_urn
          then raise_p (ValueError ''Document read-back requires a document URN'')
          else retrying (nat (ma_attempts a) - 1)
                 (attempted gms_failure
                    (read_document_once a (document_endpoint url document_urn) title asset_urn content))
                 (mcp_pause a)
                 (\<lambda>e. ValueError
                    (''documentInfo was not confirmed by direct DataHub read-back after ''
                     @ decimal (ma_attempts a) @ '' attempt(s): '' @ exn_text e)))"

text \<open>\<^verbatim>\<open>re.escape\<close>\<close>

definition re_escape :: "string \<Rightarrow> string" where
  "re_escape s = concat (map (\<lambda>c.
     if c \<in> set ''()[]{}?*+-|^$.&~# '' \<or> code c = 92 \<or> (9 \<le> code c \<and> code c \<le> 13)
     then [CHR 0x5C, c] else [c]) s)"

definition entity_call :: "string \<Rightarrow> tool_call" where
  "entity_call asset_urn = (''get_entities'', JDict [(''urns'', JStr asset_urn)])"

definition content_call :: "string \<Rightarrow> string \<Rightarrow> tool_call" where
  "content_call document_urn content =
     (''grep_documents'', JDict
        [(''urns'', JList [JStr document_urn]),
         (''pattern'', JStr (''^'' @ re_escape content @ ''$'')),
         (''context_chars'', JInt 0), (''max_matches_per_doc'', JInt 1), (''start_offset'', JInt 0)])"

definition readback_answer ::
  "'w mcp_adapter \<Rightarrow> json list \<Rightarrow> string \<Rightarrow> string \<Rightarrow> string \<Rightarrow> string \<Rightarrow> exn + unit" where
  "readback_answer a results document_urn title content asset_urn =
     (case results of
        [content_result, asset_result] \<Rightarrow>
          bind_res (tool_payload (ma_json a) content_result) (\<lambda>content_search.
          bind_res (tool_payload (ma_json a) asset_result) (\<lambda>asset_entity.
            validate_document_readback content_search asset_entity document_urn title content asset_urn))
      | _ \<Rightarrow> Inl (ValueError ''wrong number of values to unpack''))"

definition search_document_once ::
  "'w mcp_adapter \<Rightarrow> string \<Rightarrow> string \<Rightarrow> string \<Rightarrow> string \<Rightarrow> ('w, exn, unit) prog" where
  "search_document_once a document_urn title content asset_urn =
     bind_p (call_tools a [content_call document_urn content, entity_call asset_urn]) (\<lambda>results.
       result_p (readback_answer a results document_urn title content asset_urn))"

definition verify_document_readback ::
  "'w mcp_adapter \<Rightarrow> string \<Rightarrow> string \<Rightarrow> string \<Rightarrow> string \<Rightarrow> ('w, exn, unit) prog" where
  "verify_document_readback a document_urn title content asset_urn =
     (if present (ma_gms_url a) \<noteq> None
      then then_p (read_gms_document_info a document_urn title asset_urn (Some content)) (return_p ())
      else retrying (nat (ma_attempts a) - 1)
             (attempted mcp_failure (search_document_once a document_urn title content asset_urn))
             (mcp_pause a)
             (\<lambda>e. ValueError
                (''save_document was not confirmed by an exact DataHub read-back after ''
                 @ decimal (ma_attempts a) @ '' attempt(s): '' @ exn_text e)))"

section \<open>Writing an evidence report\<close>

definition mcp_not_configured :: "string \<Rightarrow> integration_result" where
  "mcp_not_configured operation =
     integration NOT_CONFIGURED operation
       ''DATARESCUE_DATAHUB_MCP_URL is not configured; no remote operation was claimed'' None [] []"

definition report_title :: "string \<Rightarrow> string" where
  "report_title case_id = ''DataRescue evidence report '' @ case_id"

definition save_call :: "'w mcp_adapter \<Rightarrow> string \<Rightarrow> string \<Rightarrow> string \<Rightarrow> bool \<Rightarrow> tool_call" where
  "save_call a asset_urn title content degraded =
     (ma_write_tool a, JDict
        [(''document_type'', JStr ''Analysis''), (''title'', JStr title), (''content'', JStr content),
         (''topics'', JList [JStr ''datarescue'',
            JStr (if degraded then ''degraded'' else ''patch-validated'')]),
         (''related_assets'', JList [JStr asset_urn])])"

definition saved_document :: "'w mcp_adapter \<Rightarrow> json list \<Rightarrow> exn + string" where
  "saved_document a results =
     (case results of
        result # _ \<Rightarrow> bind_res (tool_payload (ma_json a) result) validated_document_result
      | [] \<Rightarrow> Inl (Other ''IndexError'' ''list index out of range''))"

definition save_and_verify ::
  "'w mcp_adapter \<Rightarrow> string \<Rightarrow> string \<Rightarrow> string \<Rightarrow> bool \<Rightarrow> ('w, exn, string) prog" where
  "save_and_verify a asset_urn title content degraded =
     bind_p (call_tools a [save_call a asset_urn title content degraded]) (\<lambda>results.
     bind_p (result_p (saved_document a results)) (\<lambda>document_urn.
     then_p (verify_document_readback a document_urn title content asset_urn)
       (return_p document_urn)))"

definition write_evidence_report ::
  "'w mcp_adapter \<Rightarrow> string \<Rightarrow> string \<Rightarrow> jdict \<Rightarrow> bool \<Rightarrow> ('w, exn, integration_result) prog" where
  "write_evidence_report a asset_urn case_id report degraded =
     (if present (ma_endpoint a) = None then return_p (mcp_not_configured ''mcp_write_evidence'')
      else catch_p
        (bind_p (save_and_verify a asset_urn (report_title case_id)
                   (lib_dumps (ma_json a) (JDict report)) degraded) (\<lambda>document_urn.
           return_p (integration SUCCEEDED ''mcp_write_evidence''
             (if degraded then ''Evidence report and degraded marker written to DataHub''
              else ''Validated-patch evidence report written to DataHub'')
             (Some document_urn) [document_urn, asset_urn]
             [(''tool'', JStr (ma_write_tool a)), (''degraded'', JBool degraded),
              (''readback_verified'', JBool True)])))
        (\<lambda>e. if mcp_failure e
             then return_p (integration I_FAILED ''mcp_write_evidence''
               (''DataHub MCP evidence write failed: '' @ exn_text e) None []
               [(''asset_urn'', JStr asset_urn), (''tool'', JStr (ma_write_tool a))])
             else raise_p e))"

section \<open>Fetching the context\<close>

definition lineage_arguments :: "string \<Rightarrow> int \<Rightarrow> json" where
  "lineage_arguments asset_urn max_hops =
     JDict [(''urn'', JStr asset_urn), (''upstream'', JBool False), (''max_hops'', JInt max_hops),
            (''max_results'', JInt 100), (''offset'', JInt 0)]"

definition context_calls :: "string \<Rightarrow> tool_call list" where
  "context_calls asset_urn =
     [entity_call asset_urn,
      (''list_schema_fields'', JDict
         [(''urn'', JStr asset_urn), (''limit'', JInt 100), (''offset'', JInt 0)]),
      (''get_lineage'', lineage_arguments asset_urn 4)]
     @ (if asset_urn = contract_asset_urn
        then map (\<lambda>(source_urn, _). (''get_lineage'', lineage_arguments source_urn 1))
               direct_lineage_edges
        else [])"

text \<open>The dictionary comprehension over \<^verbatim>\<open>zip(..., strict=True)\<close>.\<close>

definition direct_payloads :: "json_lib \<Rightarrow> json list \<Rightarrow> exn + (string \<times> jdict) list" where
  "direct_payloads lib results =
     bind_res (map_res (\<lambda>((source_urn, _), result).
         bind_res (tool_payload lib result) (\<lambda>payload. Inr (source_urn, payload)))
       (zip direct_lineage_edges results)) (\<lambda>direct.
       if length results \<noteq> length direct_lineage_edges
       then Inl (ValueError ''zip() arguments differ in length'')
       else Inr direct)"

definition context_payloads ::
  "json_lib \<Rightarrow> string \<Rightarrow> json list \<Rightarrow> exn + jdict \<times> jdict \<times> jdict \<times> (string \<times> jdict) list option" where
  "context_payloads lib asset_urn results =
     (case results of
        entity_result # schema_result # hops_result # rest \<Rightarrow>
          bind_res (tool_payload lib entity_result) (\<lambda>entity.
          bind_res (tool_payload lib schema_result) (\<lambda>schema.
          bind_res (tool_payload lib hops_result) (\<lambda>lineage.
            if asset_urn = contract_asset_urn
            then bind_res (direct_payloads lib rest) (\<lambda>direct. Inr (entity, schema, lineage, Some direct))
            else Inr (entity, schema, lineage, None))))
      | _ \<Rightarrow> Inl (Other ''IndexError'' ''list index out of range''))"

definition canonical_document ::
  "'w mcp_adapter \<Rightarrow> string \<Rightarrow> ('w, exn, jdict option) prog" where
  "canonical_document a asset_urn =
     (if asset_urn = contract_asset_urn \<and> present (ma_gms_url a) \<noteq> None
      then bind_p (read_gms_document_info a canonical_document_urn canonical_document_title asset_urn None)
             (\<lambda>info. return_p (Some info))
      else return_p None)"

definition gather_context :: "'w mcp_adapter \<Rightarrow> string \<Rightarrow> ('w, exn, live_context) prog" where
  "gather_context a asset_urn =
     bind_p (call_tools a (context_calls asset_urn)) (\<lambda>results.
     bind_p (result_p (context_payloads (ma_json a) asset_urn results)) (\<lambda>(entity, schema, lineage, direct).
     bind_p (canonical_document a asset_urn) (\<lambda>info.
       result_p (normalize_context asset_urn entity schema lineage direct info))))"

definition context_tools :: json where
  "context_tools = JList [JStr ''get_entities'', JStr ''list_schema_fields'', JStr ''get_lineage'']"

definition context_result :: "string \<Rightarrow> live_context \<Rightarrow> mcp_context" where
  "context_result asset_urn lc =
     \<lparr>mc_context = context_items lc,
      mc_integration = integration SUCCEEDED ''mcp_fetch_context''
        ''Schema, lineage, glossary and ownership context retrieved from DataHub MCP''
        (Some asset_urn) (unique_strings (asset_urn # lc_lineage_urns lc @ lc_documents lc))
        [(''tools'', context_tools),
         (''schema_field_count'', JInt (int (length (lc_schema_fields lc)))),
         (''lineage_entity_count'', JInt (int (length (lc_lineage_urns lc))))]\<rparr>"

definition mcp_fetch_context :: "'w mcp_adapter \<Rightarrow> string \<Rightarrow> ('w, exn, mcp_context) prog" where
  "mcp_fetch_context a asset_urn =
     (if present (ma_endpoint a) = None
      then return_p \<lparr>mc_context = [], mc_integration = mcp_not_configured ''mcp_fetch_context''\<rparr>
      else catch_p
        (bind_p (gather_context a asset_urn) (\<lambda>lc. return_p (context_result asset_urn lc)))
        (\<lambda>e. if mcp_failure e
             then return_p \<lparr>mc_context = [],
               mc_integration = integration I_FAILED ''mcp_fetch_context''
                 (''DataHub MCP context retrieval failed: '' @ exn_text e) None []
                 [(''asset_urn'', JStr asset_urn), (''tools'', context_tools)]\<rparr>
             else raise_p e))"

end
