(* ===== verification/Mcp_Safety.thy ===== *)
theory Mcp_Safety
  imports Mcp_Adapter
begin

text \<open>
  What the DataHub MCP adapter guarantees: how many requests an operation makes and where they go, which
  exceptions it lets out, and what a success of it stands for.
\<close>

section \<open>Requests\<close>

text \<open>A world that counts requests: a POST or a GET adds at most one, waiting none.\<close>

definition counts_requests :: "('w \<Rightarrow> nat) \<Rightarrow> 'w mcp_adapter \<Rightarrow> bool" where
  "counts_requests n a \<longleftrightarrow>
     (\<forall>u h j. adds n 1 (ma_post a u h j)) \<and> (\<forall>u h. adds n 1 (ma_get a u h))
     \<and> (\<forall>d. adds n 0 (ma_sleep a d))"

lemma adds_bind_result: "(\<And>x. adds n k (f x)) \<Longrightarrow> adds n k (bind_p (result_p r) f)"
  by (simp add: adds_def bind_p_def split: sum.split)

lemma adds_case_option:
  "adds n k m \<Longrightarrow> (\<And>x. adds n k (f x)) \<Longrightarrow> adds n k (case v of None \<Rightarrow> m | Some x \<Rightarrow> f x)"
  by (cases v) auto

lemma adds_if: "adds n k m \<Longrightarrow> adds n k p \<Longrightarrow> adds n k (if b then m else p)"
  by simp

lemma adds_idle: "adds n k (return_p x)" "adds n k (raise_p e)"
  by (simp_all add: adds_def)

lemma post_adds: "counts_requests n a \<Longrightarrow> adds n 1 (ma_post a u h j)"
  and get_adds: "counts_requests n a \<Longrightarrow> adds n 1 (ma_get a u h)"
  and pause_adds: "counts_requests n a \<Longrightarrow> adds n 0 (mcp_pause a)"
  by (auto simp: counts_requests_def mcp_pause_def adds_return)

lemma handshake_adds:
  assumes "counts_requests n a"
  shows "adds n 2 (handshake a endpoint)"
proof -
  note post = post_adds [OF assms]
  have "adds n (1 + (1 + 0)) (handshake a endpoint)"
    unfolding handshake_def Let_def
    by (intro adds_bind [OF post] adds_bind_result adds_return)
  then show ?thesis by (simp add: numeral_2_eq_2)
qed

lemma call_each_adds:
  assumes "counts_requests n a"
  shows "adds n (length calls) (call_each a endpoint headers call_id calls)"
proof (induction calls arbitrary: call_id)
  case Nil
  then show ?case by (simp add: adds_return del: return_p_run)
next
  case (Cons call rest)
  note post = post_adds [OF assms]
  have "adds n (1 + (length rest + 0)) (call_each a endpoint headers call_id (call # rest))"
    by (simp only: call_each.simps)
      (intro adds_bind [OF post] adds_bind_result adds_bind [OF Cons.IH] adds_return)
  then show ?case by simp
qed

lemma call_tools_adds:
  assumes "counts_requests n a"
  shows "adds n (2 + length calls) (call_tools a calls)"
proof -
  have "adds n (2 + length calls) (bind_p (handshake a e) (\<lambda>h. call_each a e h 2 calls))" for e
    by (intro adds_bind handshake_adds call_each_adds assms)
  then show ?thesis
    unfolding call_tools_def by (intro adds_case_option adds_if adds_idle)
qed

lemma retrying_adds:
  assumes "counts_requests n a" "adds n j m" "1 \<le> ma_attempts a"
  shows "adds n (nat (ma_attempts a) * j)
    (retrying (nat (ma_attempts a) - 1) (attempted caught m) (mcp_pause a) final)"
proof -
  have "Suc (nat (ma_attempts a) - 1) = nat (ma_attempts a)"
    using assms(3) by simp
  with adds_retrying [OF adds_attempted [OF assms(2)] pause_adds [OF assms(1)],
      where k = "nat (ma_attempts a) - 1"]
  show ?thesis by simp
qed

lemma read_gms_adds:
  assumes "counts_requests n a" "1 \<le> ma_attempts a"
  shows "adds n (nat (ma_attempts a)) (read_gms_document_info a urn title asset content)"
proof -
  have "adds n (1 + 0) (read_document_once a ep title asset content)" for ep
    unfolding read_document_once_def by (intro adds_bind get_adds adds_result assms)
  then have "adds n 1 (read_document_once a ep title asset content)" for ep by simp
  from retrying_adds [OF assms(1) this assms(2)]
  have "adds n (nat (ma_attempts a)) (retrying (nat (ma_attempts a) - 1)
      (attempted caught (read_document_once a ep title asset content)) (mcp_pause a) final)"
    for caught ep final
    by (simp only: mult_1_right)
  then show ?thesis
    unfolding read_gms_document_info_def by (intro adds_case_option adds_if adds_idle)
qed

lemma verify_adds:
  assumes "counts_requests n a" "1 \<le> ma_attempts a"
  shows "adds n (4 * nat (ma_attempts a)) (verify_document_readback a urn title content asset)"
proof -
  have "adds n (2 + length [content_call urn content, entity_call asset] + 0)
      (search_document_once a urn title content asset)"
    unfolding search_document_once_def by (intro adds_bind call_tools_adds adds_result assms)
  from retrying_adds [OF assms(1) this assms(2)]
  have "adds n (4 * nat (ma_attempts a)) (retrying (nat (ma_attempts a) - 1)
      (attempted caught (search_document_once a urn title content asset)) (mcp_pause a) final)"
    for caught final
    by (simp add: mult.commute)
  moreover have "adds n (nat (ma_attempts a) + 0)
      (then_p (read_gms_document_info a urn title asset (Some content)) (return_p ()))"
    by (intro adds_then read_gms_adds assms adds_return)
  then have "adds n (4 * nat (ma_attempts a))
      (then_p (read_gms_document_info a urn title asset (Some content)) (return_p ()))"
    by (rule adds_mono) simp
  ultimately show ?thesis
    unfolding verify_document_readback_def by (intro adds_if)
qed

text \<open>An operation whose program is followed by a result, and whose failures become one.\<close>

lemma operation_adds:
  assumes "adds n k m" "\<And>x. adds n 0 (f x)" "\<And>e. adds n 0 (h e)"
  shows "adds n k (if b then return_p r else catch_p (bind_p m f) h)"
proof -
  have "adds n (k + 0) (bind_p m f)"
    by (intro adds_bind assms)
  with assms(3) have "adds n k (catch_p (bind_p m f) h)"
    by (intro adds_catch) simp_all
  then show ?thesis by (intro adds_if adds_idle)
qed

lemma write_adds:
  assumes "counts_requests n a" "1 \<le> ma_attempts a"
  shows "adds n (3 + 4 * nat (ma_attempts a)) (write_evidence_report a asset case_id report degraded)"
proof -
  have "adds n ((2 + length [save_call a asset title content degraded]) + (4 * nat (ma_attempts a) + 0))
      (save_and_verify a asset title content degraded)" for title content
    unfolding save_and_verify_def
    by (intro adds_bind adds_bind_result adds_then call_tools_adds verify_adds assms adds_return)
  then have "adds n (3 + 4 * nat (ma_attempts a)) (save_and_verify a asset title content degraded)"
    for title content
    by simp
  then show ?thesis
    unfolding write_evidence_report_def
    by (rule operation_adds) (intro adds_if adds_idle)+
qed

lemma fetch_adds:
  assumes "counts_requests n a" "1 \<le> ma_attempts a"
  shows "adds n (9 + nat (ma_attempts a)) (mcp_fetch_context a asset)"
proof -
  have "2 + length (context_calls asset) \<le> 9"
    by (simp add: context_calls_def direct_lineage_edges_def)
  then have calls: "adds n 9 (call_tools a (context_calls asset))"
    by (rule adds_mono [OF call_tools_adds [OF assms(1)]])
  have "adds n (nat (ma_attempts a) + 0)
      (bind_p (read_gms_document_info a urn title asset None) (\<lambda>info. return_p (Some info)))" for urn title
    by (intro adds_bind read_gms_adds assms adds_return)
  then have document: "adds n (nat (ma_attempts a)) (canonical_document a asset)"
    unfolding canonical_document_def add_0_right by (intro adds_if adds_idle)
  have "adds n (9 + (nat (ma_attempts a) + 0)) (gather_context a asset)"
    unfolding gather_context_def split_def
    by (intro adds_bind [OF calls] adds_bind_result adds_bind [OF document] adds_result)
  then have "adds n (9 + nat (ma_attempts a)) (gather_context a asset)" by simp
  then show ?thesis
    unfolding mcp_fetch_context_def
    by (rule operation_adds) (intro adds_if adds_idle)+
qed

section \<open>Where requests go\<close>

text \<open>
  Any property of the world that POSTs to the endpoint, GETs below the GMS URL and waiting keep is kept
  by the two operations: they do nothing else to the world.
\<close>

definition keeps_own :: "('w \<Rightarrow> bool) \<Rightarrow> 'w mcp_adapter \<Rightarrow> bool" where
  "keeps_own I a \<longleftrightarrow>
     (\<forall>endpoint headers body. ma_endpoint a = Some endpoint \<and> set (base_headers a) \<subseteq> set headers
        \<longrightarrow> keeps I (ma_post a endpoint headers body))
     \<and> (\<forall>url path. ma_gms_url a = Some url \<longrightarrow> keeps I (ma_get a (url @ path) (gms_headers a)))
     \<and> (\<forall>d. keeps I (ma_sleep a d))"

lemma post_keeps:
  "keeps_own I a \<Longrightarrow> ma_endpoint a = Some endpoint \<Longrightarrow> set (base_headers a) \<subseteq> set headers
    \<Longrightarrow> keeps I (ma_post a endpoint headers body)"
  by (simp add: keeps_own_def)

lemma mcp_pause_keeps: "keeps_own I a \<Longrightarrow> keeps I (mcp_pause a)"
  by (simp add: mcp_pause_def keeps_own_def keeps_return)

lemma handshake_yields:
  assumes "keeps_own I a" "ma_endpoint a = Some endpoint"
  shows "yields I (handshake a endpoint) (\<lambda>headers. set (base_headers a) \<subseteq> set headers)"
  unfolding handshake_def Let_def
  by (intro yields_bind_keeps yields_return keeps_intros post_keeps assms) auto

lemma call_each_keeps:
  "keeps_own I a \<Longrightarrow> ma_endpoint a = Some endpoint \<Longrightarrow> set (base_headers a) \<subseteq> set headers
    \<Longrightarrow> keeps I (call_each a endpoint headers call_id calls)"
  by (induction calls arbitrary: call_id) (auto intro!: keeps_intros post_keeps)

lemma call_tools_keeps:
  assumes "keeps_own I a"
  shows "keeps I (call_tools a calls)"
  unfolding call_tools_def
proof (rule keeps_case_option)
  fix endpoint assume endpoint: "ma_endpoint a = Some endpoint"
  have "keeps I (bind_p (handshake a endpoint) (\<lambda>headers. call_each a endpoint headers 2 calls))"
    by (rule keeps_bind_yields [OF handshake_yields [OF assms endpoint]])
      (rule call_each_keeps [OF assms endpoint])
  then show "keeps I (if endpoint = [] then raise_p (ValueError ''DataHub MCP endpoint is not configured'')
      else if calls = [] then return_p []
      else bind_p (handshake a endpoint) (\<lambda>headers. call_each a endpoint headers 2 calls))"
    by (intro keeps_if keeps_raise keeps_return)
qed (rule keeps_raise)

lemma present_Some: "present v = Some s \<Longrightarrow> v = Some s"
  by (auto simp: present_def split: option.splits if_splits)

lemma read_gms_keeps:
  assumes "keeps_own I a"
  shows "keeps I (read_gms_document_info a urn title asset content)"
proof -
  have "keeps I (read_document_once a (document_endpoint url urn) title asset content)"
    if "present (ma_gms_url a) = Some url" for url
    using assms present_Some [OF that]
    by (auto simp: read_document_once_def document_endpoint_def keeps_own_def intro!: keeps_bind keeps_result)
  then show ?thesis
    unfolding read_gms_document_info_def by (intro keeps_intros mcp_pause_keeps [OF assms]) auto
qed

lemma mcp_verify_keeps: "keeps_own I a \<Longrightarrow> keeps I (verify_document_readback a urn title content asset)"
  unfolding verify_document_readback_def search_document_once_def
  by (intro keeps_intros mcp_pause_keeps read_gms_keeps call_tools_keeps)

lemma write_keeps: "keeps_own I a \<Longrightarrow> keeps I (write_evidence_report a asset case_id report degraded)"
  unfolding write_evidence_report_def save_and_verify_def
  by (intro keeps_intros mcp_verify_keeps call_tools_keeps)

lemma fetch_keeps:
  assumes "keeps_own I a"
  shows "keeps I (mcp_fetch_context a asset)"
proof -
  have "keeps I (gather_context a asset)"
    unfolding gather_context_def canonical_document_def split_def
    by (intro keeps_intros call_tools_keeps read_gms_keeps assms)
  then show ?thesis
    unfolding mcp_fetch_context_def by (intro keeps_intros)
qed

text \<open>An endpoint the adapter accepts: absolute, without credentials, and over https unless it is
  this machine.\<close>

definition private_endpoint :: "(string \<Rightarrow> bool) \<Rightarrow> (string \<Rightarrow> bool) \<Rightarrow> string \<Rightarrow> bool" where
  "private_endpoint ip ipv6_loopback url \<longleftrightarrow>
     (\<exists>parsed. urlsplit ip url = Some parsed \<and> userinfo (us_netloc parsed) = (None, None)
        \<and> hostname (us_netloc parsed) \<noteq> []
        \<and> (us_scheme parsed = ''https''
           \<or> us_scheme parsed = ''http'' \<and> is_loopback_host ipv6_loopback (hostname (us_netloc parsed))))"

lemma validated_endpoint_private:
  "validated_endpoint ip v6 e = Inr (Some url) \<Longrightarrow> private_endpoint ip v6 url"
  by (auto simp: validated_endpoint_def private_endpoint_def Let_def split: option.splits if_splits)

lemma new_adapter_parts:
  assumes "new_mcp_adapter ip v6 a0 = Inr a"
  shows "validated_endpoint ip v6 (ma_endpoint a0) = Inr (ma_endpoint a)" and "1 \<le> ma_attempts a"
    and "ma_post a = ma_post a0" and "ma_get a = ma_get a0" and "ma_sleep a = ma_sleep a0"
    and "ma_token a = ma_token a0"
  using assms by (auto simp: new_mcp_adapter_def elim!: bind_res_InrE split: if_split_asm)

section \<open>What escapes\<close>

text \<open>The client raises only HTTP errors, and a body that is not JSON is a ValueError.\<close>

definition proper_client :: "'w mcp_adapter \<Rightarrow> bool" where
  "proper_client a \<longleftrightarrow>
     (\<forall>u h j w. case ma_post a u h j w of
         (Inl e, _) \<Rightarrow> is_http_error e | (Inr r, _) \<Rightarrow> errs is_value_error (hr_body (rp_http r)))
     \<and> (\<forall>u h w. case ma_get a u h w of
         (Inl e, _) \<Rightarrow> is_http_error e | (Inr r, _) \<Rightarrow> errs is_value_error (hr_body r))
     \<and> (\<forall>d w. \<exists>t. ma_sleep a d w = (Inr (), t))"

text \<open>What the code of the adapter can raise, caught or not.\<close>

definition adapter_error :: "exn \<Rightarrow> bool" where
  "adapter_error e \<longleftrightarrow> mcp_failure e \<or> e = TypeErr ''object is not iterable''"

lemma adapter_error_simps [simp]:
  "adapter_error (ValueError m)" "adapter_error (JSONDecodeError m)" "adapter_error (KeyErr k)"
  "adapter_error (HTTPStatusError c m)" "adapter_error (TypeErr ''object is not iterable'')"
  by (simp_all add: adapter_error_def mcp_failure_def)

lemma errs_json:
  assumes "\<And>d. errs P (f d)" "errs P r"
  shows "errs P (case v of JDict d \<Rightarrow> f d | _ \<Rightarrow> r)"
  using assms by (cases v) auto

lemma iterate_errs: "errs adapter_error (iterate v)"
  by (cases v) (auto simp: iterate_def errs_def)

lemma tool_payload_errs: "errs adapter_error (tool_payload lib r)"
proof -
  have "errs adapter_error (content_payload lib d)" for d
    unfolding content_payload_def by (intro errs_intros iterate_errs) simp
  moreover have "errs adapter_error (structured_payload d s)" for d s
    by (auto simp: structured_payload_def errs_def split: json.split)
  ultimately show ?thesis
    unfolding tool_payload_def by (intro errs_json errs_if errs_Inl) simp_all
qed

lemma validated_rpc_errs: "errs adapter_error (validated_rpc_response lib d i)"
  by (simp add: validated_rpc_response_def errs_def)

lemma first_answer_errs: "errs adapter_error (first_answer a i frames)"
  by (induction frames)
    (auto intro: validated_rpc_errs errs_Inl split: option.split json.split)

lemma rpc_body_errs:
  assumes "errs is_value_error (hr_body (rp_http r))"
  shows "errs adapter_error (rpc_body a r i)"
proof -
  have "errs adapter_error (hr_body (rp_http r))"
    using assms by (auto simp: errs_def adapter_error_def mcp_failure_def)
  then show ?thesis
    unfolding rpc_body_def Let_def
    by (intro errs_if errs_bind first_answer_errs errs_json validated_rpc_errs errs_Inl) simp_all
qed

lemma raise_for_status_errs: "errs adapter_error (raise_for_status r)"
  by (simp add: raise_for_status_def errs_def)

lemma refuse_error_errs: "errs adapter_error (refuse_error lib d)"
  by (simp add: refuse_error_def errs_def)

lemma initialize_errs: "errs adapter_error (validated_initialize_result lib r)"
  by (auto simp: validated_initialize_result_def errs_def split: json.split)

lemma post_raises: "proper_client a \<Longrightarrow> raises adapter_error (ma_post a u h j)"
  unfolding proper_client_def
  by (intro raisesI) (fastforce simp: adapter_error_def mcp_failure_def split: prod.splits)

lemma get_raises: "proper_client a \<Longrightarrow> raises adapter_error (ma_get a u h)"
  unfolding proper_client_def
  by (intro raisesI) (fastforce simp: adapter_error_def mcp_failure_def split: prod.splits)

lemma post_body: "proper_client a \<Longrightarrow> ma_post a u h j s = (Inr r, t) \<Longrightarrow> errs is_value_error (hr_body (rp_http r))"
  unfolding proper_client_def by (fastforce split: prod.splits)

lemma get_body: "proper_client a \<Longrightarrow> ma_get a u h s = (Inr r, t) \<Longrightarrow> errs is_value_error (hr_body r)"
  unfolding proper_client_def by (fastforce split: prod.splits)

lemma mcp_pause_raises: "proper_client a \<Longrightarrow> raises P (mcp_pause a)"
  unfolding mcp_pause_def
  by (intro raises_if raises_return raisesI) (auto simp: proper_client_def, metis Inl_Inr_False prod.inject)

lemma handshake_raises:
  assumes "proper_client a"
  shows "raises adapter_error (handshake a endpoint)"
proof -
  note post = post_raises [OF assms] and body = post_body [OF assms]
  show ?thesis
    unfolding handshake_def Let_def
    by (rule raises_bind_value [OF post])
      (intro raises_bind [OF post] raises_bind raises_result raises_return raise_for_status_errs
        refuse_error_errs initialize_errs rpc_body_errs, erule body)
qed

lemma call_each_raises:
  assumes "proper_client a"
  shows "raises adapter_error (call_each a endpoint headers i calls)"
proof (induction calls arbitrary: i)
  case (Cons call rest)
  note post = post_raises [OF assms] and body = post_body [OF assms]
  have "errs adapter_error (call_result a i r)" if "errs is_value_error (hr_body (rp_http r))" for r
    unfolding call_result_def
    by (intro errs_bind raise_for_status_errs rpc_body_errs refuse_error_errs that)
      (auto intro: errs_intros split: option.split)
  then show ?case
    unfolding call_each.simps
    by (intro raises_bind_value [OF post] raises_bind raises_result raises_return Cons.IH) (auto dest: body)
qed (simp add: raises_return del: return_p_run)

lemma call_each_length:
  "call_each a endpoint headers i calls s = (Inr results, t) \<Longrightarrow> length results = length calls"
  by (induction calls arbitrary: i s results t) (auto elim!: bind_p_cases)

lemma call_tools_length:
  "call_tools a calls s = (Inr results, t) \<Longrightarrow> length results = length calls"
  by (auto simp: call_tools_def elim!: bind_p_cases dest: call_each_length split: option.split_asm if_split_asm)

lemma call_tools_raises: "proper_client a \<Longrightarrow> raises adapter_error (call_tools a calls)"
  unfolding call_tools_def
  by (cases "ma_endpoint a")
    (auto simp del: raise_p_run return_p_run
      intro!: raises_bind handshake_raises call_each_raises raises_raise raises_return)

lemma gms_info_errs: "errs adapter_error (validate_gms_document_info info title asset content)"
  by (auto simp: validate_gms_document_info_def errs_def split: json.split)

lemma read_gms_raises:
  assumes "proper_client a"
  shows "raises adapter_error (read_gms_document_info a urn title asset content)"
proof -
  note get = get_raises [OF assms] and body = get_body [OF assms]
  have "errs adapter_error (document_info r title asset content)" if "errs is_value_error (hr_body r)" for r
  proof -
    have "errs adapter_error (hr_body r)"
      using that by (auto simp: errs_def adapter_error_def mcp_failure_def)
    then show ?thesis
      unfolding document_info_def
      by (intro errs_bind raise_for_status_errs errs_json gms_info_errs errs_intros) simp_all
  qed
  then have "raises adapter_error (read_document_once a ep title asset content)" for ep
    unfolding read_document_once_def
    by (intro raises_bind_value [OF get] raises_result) (auto dest: body)
  then show ?thesis
    unfolding read_gms_document_info_def
    by (auto simp del: raise_p_run split: option.split
        intro!: raises_raise raises_retrying raises_attempted mcp_pause_raises [OF assms])
qed

lemma document_context_errs: "errs adapter_error (document_context entity)"
proof -
  have "errs adapter_error (document_urn_of x)" for x
    by (auto simp: document_urn_of_def errs_def split: json.split)
  then have "errs adapter_error (bind_res (map_res document_urn_of xs) (\<lambda>urns. Inr (unique_strings urns)))" for xs
    by (intro errs_bind errs_map_res errs_Inr)
  then show ?thesis
    unfolding document_context_def
    by (auto simp del: adapter_error_simps split: json.split intro!: errs_Inr errs_Inl) simp_all
qed

lemma content_search_errs: "errs adapter_error (validate_content_search d urn title content)"
proof -
  have "errs adapter_error (content_match r content)" for r
    by (auto simp: content_match_def errs_def split: json.split list.split)
  then show ?thesis
    by (auto simp: validate_content_search_def split: json.split list.split intro!: errs_Inl)
qed

lemma verify_raises:
  assumes "proper_client a"
  shows "raises adapter_error (verify_document_readback a urn title content asset)"
proof -
  have "errs adapter_error (readback_answer a results urn title content asset)" for results
    unfolding readback_answer_def validate_document_readback_def
    by (auto split: list.split
        intro!: errs_bind tool_payload_errs content_search_errs document_context_errs errs_Inr errs_Inl)
  then have "raises adapter_error (search_document_once a urn title content asset)"
    unfolding search_document_once_def by (intro raises_bind call_tools_raises assms raises_result)
  then show ?thesis
    unfolding verify_document_readback_def
    by (intro raises_if raises_then raises_return read_gms_raises raises_retrying raises_attempted
        mcp_pause_raises assms) simp_all
qed

lemma save_raises:
  assumes "proper_client a"
  shows "raises adapter_error (save_and_verify a asset title content degraded)"
proof -
  have "errs adapter_error (saved_document a results)" if "length results = 1" for results
    using that tool_payload_errs
    by (cases results)
      (auto simp: saved_document_def validated_document_result_def
        intro!: errs_bind tool_payload_errs errs_Inl errs_Inr split: json.split)
  then show ?thesis
    unfolding save_and_verify_def
    by (intro raises_bind_value [OF call_tools_raises [OF assms]] raises_bind raises_result raises_then
        raises_return verify_raises [OF assms]) (auto dest: call_tools_length)
qed

lemma lineage_results_errs: "errs adapter_error (validated_lineage_results payload)"
proof -
  have "errs adapter_error (lineage_result r)" for r
    by (auto simp: lineage_result_def errs_def split: json.split)
  then have "errs adapter_error (map_res lineage_result rs)" for rs
    by (rule errs_map_res)
  then show ?thesis
    by (auto simp: validated_lineage_results_def split: json.split intro!: errs_Inl)
qed

lemma topology_errs: "errs adapter_error (canonical_topology_current direct)"
proof -
  have "errs adapter_error (edges_current d edges)" for d edges
    by (induction d edges rule: edges_current.induct)
      (auto intro!: errs_bind lineage_results_errs errs_Inl errs_Inr split: option.split)
  then show ?thesis
    unfolding canonical_topology_current_def by (auto intro: errs_Inr split: option.split)
qed

lemma glossary_errs: "errs adapter_error (glossary_context entity)"
proof -
  have "errs adapter_error (glossary_description t)" for t
    by (auto simp: glossary_description_def errs_def split: json.split)
  then have "errs adapter_error (glossary_term x)" for x
    by (auto simp: glossary_term_def intro!: errs_bind errs_Inl errs_Inr split: json.split)
  then show ?thesis
    by (auto simp: glossary_context_def Let_def intro!: errs_bind errs_map_res errs_Inl errs_Inr split: json.split)
qed

lemma owner_errs: "errs adapter_error (owner_context entity)"
proof -
  have "errs adapter_error (owner_in xs)" for xs
    by (induction xs) (auto intro: errs_Inl errs_Inr split: json.split option.split)
  then show ?thesis
    by (auto simp: owner_context_def intro: errs_Inl errs_Inr split: json.split)
qed

lemma contract_errs: "errs adapter_error (canonical_contract entity info documents)"
  unfolding canonical_contract_def
  by (auto intro!: errs_bind gms_info_errs errs_Inl errs_Inr split: option.split)

lemma normalize_errs: "errs adapter_error (normalize_context urn entity schema lineage direct info)"
proof -
  have "errs adapter_error (validated_schema_fields urn schema)"
    by (auto simp: validated_schema_fields_def errs_def split: json.split)
  moreover have "errs adapter_error (validated_lineage_urns urn lineage)"
    unfolding validated_lineage_urns_def by (intro errs_bind lineage_results_errs errs_Inr)
  ultimately show ?thesis
    unfolding normalize_context_def
    by (auto intro!: errs_if errs_bind glossary_errs owner_errs document_context_errs contract_errs
        topology_errs errs_Inl errs_Inr)
qed

lemma context_payloads_errs:
  assumes "length results = length (context_calls urn)"
  shows "errs adapter_error (context_payloads lib urn results)"
proof -
  have "errs adapter_error (direct_payloads lib rs)" for rs
    unfolding direct_payloads_def split_def
    by (auto intro!: errs_bind errs_map_res tool_payload_errs errs_if errs_Inl errs_Inr)
  moreover obtain e s l rest where "results = e # s # l # rest"
    using assms by (auto simp: context_calls_def length_Suc_conv)
  ultimately show ?thesis
    unfolding context_payloads_def
    by (auto intro!: errs_bind tool_payload_errs errs_Inr)
qed

lemma gather_raises:
  assumes "proper_client a"
  shows "raises adapter_error (gather_context a urn)"
proof -
  have "raises adapter_error (canonical_document a urn)"
    unfolding canonical_document_def
    by (intro raises_if raises_bind read_gms_raises assms raises_return)
  then show ?thesis
    unfolding gather_context_def split_def
    by (intro raises_bind_value [OF call_tools_raises [OF assms]] raises_bind raises_result
        normalize_errs context_payloads_errs) (auto dest: call_tools_length)
qed

text \<open>Of these the two operations let out only what they do not catch.\<close>

lemma fetch_raises:
  "proper_client a \<Longrightarrow> raises (\<lambda>e. e = TypeErr ''object is not iterable'') (mcp_fetch_context a urn)"
  unfolding mcp_fetch_context_def
  by (intro raises_if raises_return raises_catch [where Q = adapter_error] raises_bind gather_raises
      raises_raise) (auto simp: adapter_error_def)

lemma write_raises:
  "proper_client a \<Longrightarrow>
     raises (\<lambda>e. e = TypeErr ''object is not iterable'') (write_evidence_report a urn case_id report degraded)"
  unfolding write_evidence_report_def
  by (intro raises_if raises_return raises_catch [where Q = adapter_error] raises_bind save_raises
      raises_raise) (auto simp: adapter_error_def)

section \<open>What a success stands for\<close>

text \<open>The last exchange read the document: through the GMS when it is configured, by two tools otherwise.\<close>

definition document_read_back ::
  "'w mcp_adapter \<Rightarrow> string \<Rightarrow> string \<Rightarrow> string \<Rightarrow> string \<Rightarrow> 'w \<Rightarrow> bool" where
  "document_read_back a document_urn title content asset_urn w' \<longleftrightarrow>
     (case present (ma_gms_url a) of
        Some url \<Rightarrow>
          \<exists>v response info contents related.
            ma_get a (document_endpoint url document_urn) (gms_headers a) v = (Inr response, w')
            \<and> document_info response title asset_urn (Some content) = Inr info
            \<and> jget info ''title'' = JStr title
            \<and> jget info ''contents'' = JDict contents \<and> jget contents ''text'' = JStr content
            \<and> jget info ''relatedAssets'' = JList related \<and> asset_urn \<in> set (linked_assets related)
      | None \<Rightarrow>
          \<exists>v content_result asset_result content_search asset_entity documents.
            call_tools a [content_call document_urn content, entity_call asset_urn] v
              = (Inr [content_result, asset_result], w')
            \<and> tool_payload (ma_json a) content_result = Inr content_search
            \<and> tool_payload (ma_json a) asset_result = Inr asset_entity
            \<and> validate_content_search content_search document_urn title content = Inr ()
            \<and> jget asset_entity ''urn'' = JStr asset_urn
            \<and> document_context asset_entity = Inr documents \<and> document_urn \<in> set documents)"

lemma document_info_valid:
  assumes "document_info response title asset content = Inr info"
  shows "validate_gms_document_info info title asset content = Inr ()"
  using assms unfolding document_info_def
  by (elim bind_res_InrE) (auto elim!: bind_res_InrE split: json.split_asm)

lemma read_gms_ok:
  assumes "read_gms_document_info a urn title asset content w = (Inr info, w')"
  shows "\<exists>url v response. present (ma_gms_url a) = Some url
    \<and> ma_get a (document_endpoint url urn) (gms_headers a) v = (Inr response, w')
    \<and> document_info response title asset content = Inr info"
proof -
  from assms obtain url where url: "present (ma_gms_url a) = Some url"
    and "retrying (nat (ma_attempts a) - 1) (attempted gms_failure
          (read_document_once a (document_endpoint url urn) title asset content)) (mcp_pause a)
          (\<lambda>e. ValueError (''documentInfo was not confirmed by direct DataHub read-back after ''
             @ decimal (ma_attempts a) @ '' attempt(s): '' @ exn_text e)) w = (Inr info, w')"
    by (auto simp: read_gms_document_info_def split: option.split_asm if_split_asm)
  from retrying_Inr [OF this(2)] obtain v where
    "attempted gms_failure (read_document_once a (document_endpoint url urn) title asset content) v
      = (Inr (Inr info), w')" by blast
  from attempted_Inr [OF this] show ?thesis
    unfolding read_document_once_def by (elim bind_p_cases) (auto simp: url)
qed

lemma verify_ok:
  assumes "verify_document_readback a urn title content asset w = (Inr (), w')"
  shows "document_read_back a urn title content asset w'"
proof (cases "present (ma_gms_url a)")
  case (Some url)
  with assms obtain info where "read_gms_document_info a urn title asset (Some content) w = (Inr info, w')"
    by (auto simp: verify_document_readback_def then_p_def elim!: bind_p_cases)
  from read_gms_ok [OF this] obtain v response where get:
      "ma_get a (document_endpoint url urn) (gms_headers a) v = (Inr response, w')"
      "document_info response title asset (Some content) = Inr info"
    using Some by auto
  note valid = gms_info_valid [OF document_info_valid [OF get(2)]]
  show ?thesis
    using get valid(1,2) valid(3) [OF refl] Some unfolding document_read_back_def by simp blast
next
  case None
  with assms obtain final where
    "retrying (nat (ma_attempts a) - 1) (attempted mcp_failure (search_document_once a urn title content asset))
       (mcp_pause a) final w = (Inr (), w')"
    by (auto simp: verify_document_readback_def)
  from retrying_Inr [OF this] obtain v where
    "attempted mcp_failure (search_document_once a urn title content asset) v = (Inr (Inr ()), w')" by blast
  from attempted_Inr [OF this] obtain results where
      calls: "call_tools a [content_call urn content, entity_call asset] v = (Inr results, w')" and
      answer: "readback_answer a results urn title content asset = Inr ()"
    unfolding search_document_once_def by (elim bind_p_cases) auto
  from call_tools_length [OF calls] obtain c e where results: "results = [c, e]"
    by (auto simp: length_Suc_conv)
  with answer obtain content_search asset_entity documents where
      "tool_payload (ma_json a) c = Inr content_search" "tool_payload (ma_json a) e = Inr asset_entity"
      "validate_content_search content_search urn title content = Inr ()"
      "jget asset_entity ''urn'' = JStr asset" "document_context asset_entity = Inr documents"
      "urn \<in> set documents"
    by (auto simp: readback_answer_def validate_document_readback_def elim!: bind_res_InrE
        split: if_split_asm)
  with calls results None show ?thesis unfolding document_read_back_def by simp blast
qed

lemma save_ok:
  assumes "save_and_verify a asset title content degraded w = (Inr urn, w')"
  shows "prefix ''urn:li:document:'' urn \<and> document_read_back a urn title content asset w'"
proof -
  from assms obtain results v where
      saved: "saved_document a results = Inr urn" and
      verified: "verify_document_readback a urn title content asset v = (Inr (), w')"
    unfolding save_and_verify_def then_p_def by (auto elim!: bind_p_cases)
  have "prefix ''urn:li:document:'' urn"
    using saved by (auto simp: saved_document_def validated_document_result_def elim!: bind_res_InrE
        split: list.split_asm json.split_asm if_split_asm)
  with verify_ok [OF verified] show ?thesis by blast
qed

lemma write_ok:
  assumes "write_evidence_report a asset case_id report degraded w = (Inr result, w')"
    "ir_status result = SUCCEEDED"
  obtains urn where "ir_resource_id result = Some urn" "ir_evidence_refs result = [urn, asset]"
    "prefix ''urn:li:document:'' urn"
    "document_read_back a urn (report_title case_id) (lib_dumps (ma_json a) (JDict report)) asset w'"
  using assms save_ok [of a asset "report_title case_id" "lib_dumps (ma_json a) (JDict report)" degraded w]
  by (auto simp: write_evidence_report_def mcp_not_configured_def integration_def
      elim!: catch_p_cases bind_p_cases split: if_split_asm)

lemma fetch_ok:
  assumes "mcp_fetch_context a urn w = (Inr r, w')" "ir_status (mc_integration r) = SUCCEEDED"
  obtains results v entity schema lineage direct info lc where
    "call_tools a (context_calls urn) w = (Inr results, v)"
    "context_payloads (ma_json a) urn results = Inr (entity, schema, lineage, direct)"
    "canonical_document a urn v = (Inr info, w')"
    "normalize_context urn entity schema lineage direct info = Inr lc" "r = context_result urn lc"
proof -
  from assms obtain lc where gather: "gather_context a urn w = (Inr lc, w')" "r = context_result urn lc"
    by (auto simp: mcp_fetch_context_def mcp_not_configured_def integration_def
        elim!: catch_p_cases bind_p_cases split: if_split_asm)
  from gather(1) show ?thesis
    unfolding gather_context_def by (elim bind_p_cases) (auto elim!: bind_p_cases intro: that gather(2))
qed

lemma direct_payloads_keys:
  assumes "direct_payloads lib results = Inr direct"
  shows "map fst direct = map fst direct_lineage_edges"
proof -
  have keys: "map_res (\<lambda>((s, _), r). bind_res (tool_payload lib r) (\<lambda>p. Inr (s, p))) (zip edges rs) = Inr ds
      \<Longrightarrow> length rs = length edges \<Longrightarrow> map fst ds = map fst edges" for edges :: "(string \<times> string) list" and rs ds
    by (induction edges arbitrary: rs ds) (auto simp: length_Suc_conv elim!: bind_res_InrE)
  from assms show ?thesis
    unfolding direct_payloads_def
    by (elim bind_res_InrE) (auto split: if_split_asm intro: keys)
qed

lemma context_payloads_direct:
  assumes "context_payloads lib contract_asset_urn results = Inr (entity, schema, lineage, direct)"
  obtains d where "direct = Some d" "map fst d = map fst direct_lineage_edges"
  using assms direct_payloads_keys
  by (auto simp: context_payloads_def elim!: bind_res_InrE split: list.split_asm)

text \<open>Of the canonical asset, the context is complete exactly when the whole bridge is.\<close>

lemma canonical_context:
  assumes "normalize_context contract_asset_urn entity schema lineage (Some direct) info = Inr lc"
    "map fst direct = map fst direct_lineage_edges"
  shows "lc_lineage_current lc \<longleftrightarrow>
      set required_lineage_urns \<subseteq> set (lc_lineage_urns lc) \<and> (\<forall>e \<in> set direct_lineage_edges. exact_edge direct e)"
    and "lc_owner lc = Some canonical_owner_name" and "canonical_owner_verified entity"
    and "lc_glossary_definition lc = canonical_glossary_definition entity"
    and "\<exists>d. lc_glossary_definition lc = Some d \<and> d \<noteq> []"
    and "canonical_document_urn \<in> set (lc_documents lc)"
proof -
  from assms(1) obtain fields' glossary_urns documents' topology urns description documents where
      contract: "canonical_contract entity info documents = Inr (description, documents')" and
      topology: "canonical_topology_current (Some direct) = Inr topology" and
      lc: "lc = \<lparr>lc_asset_urn = contract_asset_urn, lc_schema_fields = fields',
        lc_glossary_definition = Some description, lc_owner = Some canonical_owner_name,
        lc_lineage_urns = urns, lc_documents = unique_strings (glossary_urns @ documents'),
        lc_lineage_current = set required_lineage_urns \<subseteq> set urns \<and> topology\<rparr>"
    by (cases rule: normalize_cases) auto
  note valid = canonical_contract_valid(1-3) [OF contract]
  have "topology \<longleftrightarrow> (\<forall>e \<in> set direct_lineage_edges. exact_edge direct e)"
    using topology_exact [OF topology] assms(2) by (simp flip: set_map)
  then show "lc_lineage_current lc \<longleftrightarrow>
      set required_lineage_urns \<subseteq> set (lc_lineage_urns lc) \<and> (\<forall>e \<in> set direct_lineage_edges. exact_edge direct e)"
    by (simp add: lc)
  show "lc_owner lc = Some canonical_owner_name" "canonical_owner_verified entity"
    "lc_glossary_definition lc = canonical_glossary_definition entity"
    using valid by (simp_all add: lc)
  show "\<exists>d. lc_glossary_definition lc = Some d \<and> d \<noteq> []"
    using valid(2) canonical_glossary_ne [of entity] by (auto simp: lc)
  show "canonical_document_urn \<in> set (lc_documents lc)"
    using valid(3) by (simp add: lc) (simp add: canonical_document_urn_def)
qed

end
