(* ===== verification/Mcp_Examples.thy ===== *)
theory Mcp_Examples
  imports Examples Mcp_Safety
begin

text \<open>
  A small MCP server to run the adapter against: it answers the handshake, and a tool call with the
  result its table of tools gives. The world counts the requests.
\<close>

definition answer_to :: "(string \<Rightarrow> jdict \<Rightarrow> json) \<Rightarrow> jdict \<Rightarrow> json" where
  "answer_to tools request =
     (if jget request ''method'' = JStr ''initialize''
      then JDict [(''protocolVersion'', JStr protocol_version), (''capabilities'', JDict []),
                  (''serverInfo'', JDict [(''name'', JStr ''datahub'')])]
      else case jget request ''params'' of
        JDict params \<Rightarrow>
          (case (jget params ''name'', jget params ''arguments'') of
             (JStr name, JDict arguments) \<Rightarrow> tools name arguments
           | _ \<Rightarrow> JNull)
      | _ \<Rightarrow> JNull)"

definition served :: "(string \<Rightarrow> jdict \<Rightarrow> json) \<Rightarrow> json \<Rightarrow> rpc_response" where
  "served tools body =
     (case body of
        JDict request \<Rightarrow>
          \<lparr>rp_http = example_answer (JDict
             [(''jsonrpc'', JStr ''2.0''), (''id'', jget request ''id''), (''result'', answer_to tools request)]),
           rp_text = []\<rparr>
      | _ \<Rightarrow> \<lparr>rp_http = example_answer JNull, rp_text = []\<rparr>)"

definition example_mcp :: "(string \<Rightarrow> jdict \<Rightarrow> json) \<Rightarrow> nat mcp_adapter" where
  "example_mcp tools =
     \<lparr>ma_endpoint = Some ''https://datahub.example/mcp'', ma_token = Some ''t'',
      ma_legacy_context_tool = ''get_entities'', ma_write_tool = ''write_document'', ma_gms_url = None,
      ma_gms_token = None, ma_attempts = 5, ma_delay = Fin (1/5),
      ma_json = example_json\<lparr>lib_dumps := (\<lambda>_. ''{}'')\<rparr>, ma_loads_error = (\<lambda>_. []),
      ma_post = (\<lambda>_ _ body n. (Inr (served tools body), Suc n)),
      ma_get = (\<lambda>_ _ n. (Inr (example_answer JNull), Suc n)), ma_sleep = (\<lambda>_. return_p ())\<rparr>"

definition structured :: "jdict \<Rightarrow> json" where
  "structured d = JDict [(''structuredContent'', JDict d)]"

definition hop :: "string \<Rightarrow> int \<Rightarrow> json" where
  "hop urn degree = JDict [(''entity'', JDict [(''urn'', JStr urn)]), (''degree'', JInt degree)]"

definition hops :: "json list \<Rightarrow> jdict" where
  "hops results =
     [(''downstreams'', JDict [(''searchResults'', JList results), (''total'', JInt (int (length results))),
        (''returned'', JInt (int (length results)))])]"

definition canonical_entity :: jdict where
  "canonical_entity =
     [(''urn'', JStr contract_asset_urn),
      (''ownership'', JDict [(''owners'', JList [JDict [(''owner'', JDict
         [(''urn'', JStr canonical_owner_urn),
          (''properties'', JDict [(''displayName'', JStr canonical_owner_name)])])]])]),
      (''glossaryTerms'', JDict [(''terms'', JList [JDict [(''term'', JDict
         [(''urn'', JStr canonical_term_urn),
          (''properties'', JDict [(''description'', JStr ''Net of fees'')])])]])]),
      (''relatedDocuments'', JDict [(''documents'', JList
         [JDict [(''urn'', JStr canonical_document_urn)]])])]"

definition canonical_tools :: "string \<Rightarrow> jdict \<Rightarrow> json" where
  "canonical_tools name arguments =
     (if name = ''get_entities'' then structured canonical_entity
      else if name = ''list_schema_fields''
      then structured [(''urn'', JStr contract_asset_urn),
             (''fields'', JList [JDict [(''fieldPath'', JStr ''net_amount'')]]),
             (''returned'', JInt 1), (''totalFields'', JInt 1), (''remainingCount'', JInt 0)]
      else if jget arguments ''max_hops'' = JInt 4
      then structured (hops [hop dbt_source_urn 1, hop dbt_staging_urn 2, hop physical_staging_urn 1,
             hop dbt_mart_urn 4])
      else case jget arguments ''urn'' of
        JStr source \<Rightarrow>
          (case map_of direct_lineage_edges source of
             Some target \<Rightarrow> structured (hops [hop target 1])
           | None \<Rightarrow> JNull)
      | _ \<Rightarrow> JNull)"

lemma canonical_run:
  "case mcp_fetch_context (example_mcp canonical_tools) contract_asset_urn 0 of
     (Inr r, n) \<Rightarrow> ir_status (mc_integration r) = SUCCEEDED \<and> n = 9
       \<and> context_complete (context_of example_settings contract_asset_urn r)
   | _ \<Rightarrow> False"
  by code_simp

definition document_tools :: "string \<Rightarrow> jdict \<Rightarrow> json" where
  "document_tools name arguments =
     (if name = ''get_entities''
      then structured [(''urn'', JStr ''urn:payments''),
             (''relatedDocuments'', JDict [(''documents'', JList [JDict [(''urn'', JStr ''urn:li:document:1'')]])])]
      else if name = ''grep_documents''
      then structured [(''documents_with_matches'', JInt 1), (''total_matches'', JInt 1),
             (''results'', JList [JDict
                [(''urn'', JStr ''urn:li:document:1''), (''title'', JStr (report_title ''DR-1'')),
                 (''total_matches'', JInt 1),
                 (''matches'', JList [JDict [(''position'', JInt 0), (''excerpt'', JStr ''{}'')]])]])]
      else structured [(''success'', JBool True), (''urn'', JStr ''urn:li:document:1'')])"

lemma document_run:
  "case write_evidence_report (example_mcp document_tools) ''urn:payments'' ''DR-1'' [] False 0 of
     (Inr r, n) \<Rightarrow> ir_status r = SUCCEEDED \<and> ir_resource_id r = Some ''urn:li:document:1'' \<and> n = 7
   | _ \<Rightarrow> False"
  by code_simp

definition null_tools :: "string \<Rightarrow> jdict \<Rightarrow> json" where
  "null_tools name arguments = JDict [(''content'', JNull)]"

lemma null_run:
  "mcp_fetch_context (example_mcp null_tools) ''urn:payments'' 0 = (Inl (TypeErr ''object is not iterable''), 5)"
  by code_simp

lemma example_mcp_counts: "counts_requests (\<lambda>n. n) (example_mcp tools)"
  by (simp add: counts_requests_def example_mcp_def adds_def)

lemma example_mcp_proper: "proper_client (example_mcp tools)"
  by (auto simp: proper_client_def example_mcp_def served_def example_answer_def errs_def split: json.split)

lemma example_mcp_counts2: "counts_requests (\<lambda>n. n) (example_mcp tools\<lparr>ma_write_tool := document_tool\<rparr>)"
  by (simp add: counts_requests_def example_mcp_def adds_def)

lemma example_mcp_new:
  "new_mcp_adapter (\<lambda>_. False) (\<lambda>_. False) (example_mcp tools)
     = Inr (example_mcp tools\<lparr>ma_write_tool := document_tool\<rparr>)"
proof -
  have "validated_endpoint (\<lambda>_. False) (\<lambda>_. False) (Some ''https://datahub.example/mcp'')
      = Inr (Some ''https://datahub.example/mcp'')"
    by code_simp
  then show ?thesis by (simp add: new_mcp_adapter_def example_mcp_def present_def flt_def)
qed

end
