(* ===== verification/Connected_Proof.thy ===== *)
theory Connected_Proof
  imports Json_Ops Checkout Service_Api
begin

text \<open>
  \<^verbatim>\<open>scripts/verify-connected-case.py\<close>: polling the service until its one case is a fully evidenced draft pull
  request. HTTP, the clock and the texts of values are parameters.
\<close>

section \<open>Values\<close>

record proof_text =
  pt_lib :: json_lib
  pt_fixed :: "string \<Rightarrow> pyfloat \<Rightarrow> string"
  pt_set :: "json list \<Rightarrow> string"
  pt_bracketed_host :: "string \<Rightarrow> bool"

definition proof_error :: "string \<Rightarrow> exn" where
  "proof_error m = Other ''ProofError'' m"

definition terminal_error :: "string \<Rightarrow> exn" where
  "terminal_error m = Other ''TerminalProofError'' m"

definition is_terminal_error :: "exn \<Rightarrow> bool" where
  "is_terminal_error e \<longleftrightarrow> (case e of Other n _ \<Rightarrow> n = ''TerminalProofError'' | _ \<Rightarrow> False)"

definition in_progress_states :: "string list" where
  "in_progress_states =
     [''DETECTED'', ''CONTEXT_GATHERED'', ''CANDIDATES_READY'', ''VALIDATING'', ''PATCH_READY'']"

definition fail_closed_states :: "string list" where
  "fail_closed_states = [''CONTAINED'', ''FAILED'']"

definition proof_repr :: "proof_text \<Rightarrow> json \<Rightarrow> string" where
  "proof_repr pt v = (case v of JStr s \<Rightarrow> py_repr s | _ \<Rightarrow> lib_str (pt_lib pt) v)"

definition proof_mapping :: "json \<Rightarrow> string \<Rightarrow> exn + jdict" where
  "proof_mapping v label =
     (case v of JDict d \<Rightarrow> Inr d
      | _ \<Rightarrow> Inl (proof_error (label @ '' is missing or is not an object'')))"

definition proof_list :: "json \<Rightarrow> string \<Rightarrow> exn + json list" where
  "proof_list v label =
     (case v of JList xs \<Rightarrow> Inr xs
      | _ \<Rightarrow> Inl (proof_error (label @ '' is missing or is not a list'')))"

definition proof_number :: "proof_text \<Rightarrow> json \<Rightarrow> string \<Rightarrow> exn + pyfloat" where
  "proof_number pt v label =
     (case v of
        JInt _ \<Rightarrow> to_float v
      | JFloat _ \<Rightarrow> to_float v
      | _ \<Rightarrow> Inl (proof_error (label @ '' is not numeric: '' @ proof_repr pt v)))"

definition must :: "bool \<Rightarrow> exn \<Rightarrow> exn + unit" where
  "must c e = (if c then Inr () else Inl e)"

definition require_close :: "proof_text \<Rightarrow> json \<Rightarrow> pyfloat \<Rightarrow> string \<Rightarrow> exn + unit" where
  "require_close pt v expected label =
     bind_res (proof_number pt v label) (\<lambda>observed.
       must (is_close (Fin 0) (dbl (1 / 1000000000)) observed expected)
         (proof_error (label @ '' must be '' @ pt_fixed pt ''.2f'' expected @ '', observed ''
            @ pt_fixed pt ''.8f'' observed)))"

definition succeeded :: "proof_text \<Rightarrow> json \<Rightarrow> string \<Rightarrow> exn + jdict" where
  "succeeded pt v label =
     bind_res (proof_mapping v label) (\<lambda>integration.
     bind_res (must (jget integration ''status'' = JStr ''SUCCEEDED'')
       (proof_error (label @ '' did not succeed: '' @ proof_repr pt v))) (\<lambda>_.
       Inr integration))"

definition validate_dbt_build :: "proof_text \<Rightarrow> jdict \<Rightarrow> string \<Rightarrow> bool \<Rightarrow> exn + unit" where
  "validate_dbt_build pt candidate label exact_checks =
     bind_res (proof_mapping (jget candidate ''build'') (label @ '' dbt build'')) (\<lambda>build.
     bind_res (must (jget build ''passed'' = JBool True)
       (proof_error (label @ '' did not pass dbt build: '' @ proof_repr pt (JDict build)))) (\<lambda>_.
       must (\<not> exact_checks
             \<or> py_eq (jget build ''passed_checks'') (JInt 8) \<and> py_eq (jget build ''total_checks'') (JInt 8))
         (proof_error (label @ '' must prove 8/8 dbt checks, observed ''
            @ proof_repr pt (jget build ''passed_checks'') @ ''/''
            @ proof_repr pt (jget build ''total_checks'')))))"

definition candidates_of :: "json list \<Rightarrow> string \<Rightarrow> jdict list" where
  "candidates_of candidates source_field =
     List.map_filter (\<lambda>c. case c of
        JDict d \<Rightarrow> if jget d ''source_field'' = JStr source_field then Some d else None
      | _ \<Rightarrow> None) candidates"

definition candidate_for :: "json list \<Rightarrow> string \<Rightarrow> exn + jdict" where
  "candidate_for candidates source_field =
     (case candidates_of candidates source_field of
        [d] \<Rightarrow> Inr d
      | found \<Rightarrow> Inl (proof_error (''Expected exactly one '' @ source_field @ '' candidate, observed ''
          @ decimal (int (length found)))))"

definition validate_github_url :: "proof_text \<Rightarrow> json \<Rightarrow> exn + string" where
  "validate_github_url pt v =
     (case v of
        JStr url \<Rightarrow>
          (case urlsplit (pt_bracketed_host pt) url of
             None \<Rightarrow> Inl (ValueError ''Invalid IPv6 URL'')
           | Some parsed \<Rightarrow>
               let parts = filter (\<lambda>p. p \<noteq> []) (split_on CHR ''/'' (us_path parsed))
               in if us_scheme parsed \<noteq> ''https'' \<or> hostname (us_netloc parsed) \<noteq> ''github.com''
                   \<or> length parts \<noteq> 4 \<or> parts ! 2 \<noteq> ''pull'' \<or> \<not> list_all is_digit (parts ! 3)
                 then Inl (proof_error
                   (''Draft PR URL is not a canonical GitHub pull request: '' @ py_repr url))
                 else Inr url)
      | _ \<Rightarrow> Inl (proof_error (''Draft PR URL is missing: '' @ proof_repr pt v)))"

section \<open>The case\<close>

text \<open>The set of the names of the fields; a name that cannot be hashed raises.\<close>

definition field_names :: "json list \<Rightarrow> exn + json list" where
  "field_names items =
     (let found = List.map_filter (\<lambda>f. case f of JDict d \<Rightarrow> Some (jget d ''name'') | _ \<Rightarrow> None) items
      in if list_ex (\<lambda>v. case v of JList _ \<Rightarrow> True | JDict _ \<Rightarrow> True | _ \<Rightarrow> False) found
         then Inl (TypeErr ''unhashable type'') else Inr found)"

definition validate_schema_change :: "proof_text \<Rightarrow> jdict \<Rightarrow> exn + unit" where
  "validate_schema_change pt recorded_case =
     bind_res (proof_mapping (jget recorded_case ''schema_change'') ''schema change'') (\<lambda>change.
     bind_res (must (jget change ''source'' = JStr ''DATAHUB_MCL'')
       (terminal_error (''Current case was not created by the DataHub MCL watcher: ''
          @ proof_repr pt (jget change ''source'')))) (\<lambda>_.
     bind_res (bind_res (proof_list (jget change ''before_fields'') ''schema change before_fields'') field_names)
       (\<lambda>before.
     bind_res (bind_res (proof_list (jget change ''after_fields'') ''schema change after_fields'') field_names)
       (\<lambda>after.
     bind_res (must (JStr ''amount'' \<in> set before \<and> JStr ''amount'' \<notin> set after)
       (terminal_error (''Current case does not prove the amount removal: before='' @ pt_set pt before
          @ '', after='' @ pt_set pt after))) (\<lambda>_.
       must (JStr ''gross_amount'' \<in> set after \<and> JStr ''net_amount'' \<in> set after)
         (terminal_error (''Current case is missing drift fields: after='' @ pt_set pt after)))))))"

definition validate_monitored :: "proof_text \<Rightarrow> jdict \<Rightarrow> exn + unit" where
  "validate_monitored pt recorded_case =
     bind_res (must (jget recorded_case ''asset_urn'' = JStr canonical_asset_urn)
       (terminal_error (''Current case monitors the wrong asset: ''
          @ proof_repr pt (jget recorded_case ''asset_urn'')))) (\<lambda>_.
       validate_schema_change pt recorded_case)"

definition validate_incident :: "proof_text \<Rightarrow> jdict \<Rightarrow> exn + string" where
  "validate_incident pt recorded_case =
     bind_res (succeeded pt (jget recorded_case ''incident_integration'') ''DataHub incident integration'')
       (\<lambda>incident.
     bind_res (case jget incident ''resource_id'' of
         JStr urn \<Rightarrow> if prefix ''urn:li:incident:'' urn then Inr urn
                     else Inl (proof_error (''DataHub incident URN is invalid: '' @ py_repr urn))
       | v \<Rightarrow> Inl (proof_error (''DataHub incident URN is invalid: '' @ proof_repr pt v))) (\<lambda>urn.
     bind_res (proof_mapping (jget incident ''details'') ''DataHub incident read-back'') (\<lambda>details.
     bind_res (must (jget details ''readback_verified'' = JBool True
         \<and> jget details ''remote_state'' = JStr ''ACTIVE''
         \<and> jget recorded_case ''incident_status'' = JStr ''ACTIVE'')
       (proof_error ''DataHub incident must have exact remote ACTIVE read-back proof and remain open'')) (\<lambda>_.
       Inr urn))))"

definition validate_context_source :: "proof_text \<Rightarrow> jdict \<Rightarrow> exn + unit" where
  "validate_context_source pt recorded_case =
     bind_res (proof_mapping (jget recorded_case ''context'') ''DataHub context'') (\<lambda>gathered.
     bind_res (succeeded pt (jget gathered ''integration'') ''DataHub MCP context integration'') (\<lambda>_.
     bind_res (must (jget gathered ''source'' = JStr ''DATAHUB_MCP'')
       (proof_error (''Context is not live DataHub MCP evidence: '' @ proof_repr pt (jget gathered ''source'')))) (\<lambda>_.
     bind_res (succeeded pt (jget recorded_case ''candidate_generation'') ''OpenAI candidate generation'') (\<lambda>_.
       Inr ()))))"

definition validate_gross :: "proof_text \<Rightarrow> json list \<Rightarrow> exn + unit" where
  "validate_gross pt candidates =
     bind_res (candidate_for candidates ''gross_amount'') (\<lambda>gross.
     bind_res (must (jget gross ''outcome'' = JStr ''REJECTED'')
       (proof_error (''gross_amount must be deterministically rejected: '' @ proof_repr pt (JDict gross)))) (\<lambda>_.
     bind_res (validate_dbt_build pt gross ''gross_amount'' False) (\<lambda>_.
     bind_res (proof_mapping (jget gross ''reconciliation'') ''gross_amount reconciliation'') (\<lambda>metrics.
       require_close pt (jget metrics ''total_variance_pct'') (dbl (34 / 10))
         ''gross_amount total variance percent''))))"

definition validate_net :: "proof_text \<Rightarrow> jdict \<Rightarrow> json list \<Rightarrow> exn + unit" where
  "validate_net pt recorded_case candidates =
     bind_res (candidate_for candidates ''net_amount'') (\<lambda>net.
     bind_res (proof_mapping (jget recorded_case ''selected_candidate'') ''selected candidate'') (\<lambda>selected.
     bind_res (must (jget net ''outcome'' = JStr ''SELECTED'' \<and> jget selected ''outcome'' = JStr ''SELECTED'')
       (proof_error ''net_amount must be the deterministically selected candidate'')) (\<lambda>_.
     bind_res (must (jget selected ''source_field'' = JStr ''net_amount''
         \<and> py_eq (jget selected ''id'') (jget net ''id''))
       (proof_error ''Selected candidate does not identify the assessed net_amount candidate'')) (\<lambda>_.
     bind_res (validate_dbt_build pt selected ''selected net_amount'' True) (\<lambda>_.
     bind_res (proof_mapping (jget selected ''reconciliation'') ''selected net_amount reconciliation'') (\<lambda>metrics.
     bind_res (require_close pt (jget metrics ''total_variance_pct'') (Fin 0)
       ''net_amount total variance percent'') (\<lambda>_.
       require_close pt (jget metrics ''primary_key_overlap_pct'') (Fin 100)
         ''net_amount primary-key overlap percent'')))))))"

definition validate_writeback_proof :: "proof_text \<Rightarrow> jdict \<Rightarrow> exn + unit" where
  "validate_writeback_proof pt recorded_case =
     bind_res (succeeded pt (jget recorded_case ''evidence_writeback'') ''DataHub evidence write-back'')
       (\<lambda>writeback.
     bind_res (proof_mapping (jget writeback ''details'') ''DataHub evidence read-back'') (\<lambda>details.
       must (jget details ''readback_verified'' = JBool True)
         (proof_error ''DataHub evidence write-back has no exact read-back proof'')))"

definition validate_pull_request :: "proof_text \<Rightarrow> jdict \<Rightarrow> exn + string" where
  "validate_pull_request pt recorded_case =
     bind_res (proof_mapping (jget recorded_case ''pull_request'') ''draft pull request'') (\<lambda>pull_request.
     bind_res (succeeded pt (jget pull_request ''integration'') ''GitHub draft PR integration'') (\<lambda>integration.
     bind_res (proof_mapping (jget integration ''details'') ''GitHub draft PR details'') (\<lambda>details.
     bind_res (must (jget details ''requires_human_merge'' = JBool True)
       (proof_error ''Draft PR does not explicitly require a human merge'')) (\<lambda>_.
     bind_res (validate_github_url pt (jget pull_request ''url'')) (\<lambda>pr_url.
     bind_res (must (jget integration ''resource_id'' = JStr pr_url)
       (proof_error ''GitHub integration resource does not match the draft PR URL'')) (\<lambda>_.
       Inr pr_url))))))"

definition validate_case :: "proof_text \<Rightarrow> json \<Rightarrow> exn + jdict" where
  "validate_case pt case_value =
     bind_res (proof_mapping case_value ''case'') (\<lambda>recorded_case.
     bind_res (validate_monitored pt recorded_case) (\<lambda>_.
     bind_res (must (jget recorded_case ''state'' = JStr ''PR_OPEN'')
       (proof_error (''Connected case has not reached PR_OPEN: '' @ proof_repr pt (jget recorded_case ''state''))))
       (\<lambda>_.
     bind_res (validate_incident pt recorded_case) (\<lambda>incident_urn.
     bind_res (validate_context_source pt recorded_case) (\<lambda>_.
     bind_res (proof_list (jget recorded_case ''candidates'') ''candidate assessments'') (\<lambda>candidates.
     bind_res (validate_gross pt candidates) (\<lambda>_.
     bind_res (validate_net pt recorded_case candidates) (\<lambda>_.
     bind_res (validate_writeback_proof pt recorded_case) (\<lambda>_.
     bind_res (validate_pull_request pt recorded_case) (\<lambda>pr_url.
       Inr [(''case_id'', jget recorded_case ''id''), (''incident_urn'', JStr incident_urn),
            (''gross_variance_pct'', JFloat (dbl (34 / 10))), (''selected_candidate'', JStr ''net_amount''),
            (''selected_variance_pct'', JFloat (Fin 0)), (''primary_key_overlap_pct'', JFloat (Fin 100)),
            (''dbt_checks'', JStr ''8/8''), (''pr_url'', JStr pr_url), (''state'', JStr ''PR_OPEN'')]))))))))))"

text \<open>Whether the state is one of the given; a state that cannot be hashed raises.\<close>

definition state_in :: "json \<Rightarrow> string list \<Rightarrow> exn + bool" where
  "state_in state names_of_states =
     (case state of
        JList _ \<Rightarrow> Inl (TypeErr ''unhashable type'')
      | JDict _ \<Rightarrow> Inl (TypeErr ''unhashable type'')
      | JStr s \<Rightarrow> Inr (s \<in> set names_of_states)
      | _ \<Rightarrow> Inr False)"

definition validate_current_cases :: "proof_text \<Rightarrow> json \<Rightarrow> exn + jdict option" where
  "validate_current_cases pt cases_value =
     bind_res (proof_list cases_value ''cases response'') (\<lambda>all_cases.
     case all_cases of
       [] \<Rightarrow> Inr None
     | [current] \<Rightarrow>
         bind_res (proof_mapping current ''current case'') (\<lambda>recorded_case.
         bind_res (validate_monitored pt recorded_case) (\<lambda>_.
         let state = jget recorded_case ''state'' in
         bind_res (state_in state fail_closed_states) (\<lambda>closed.
         if closed
         then Inl (terminal_error (''Connected case reached terminal state ''
                @ py_str (pt_lib pt) state @ '': ''
                @ proof_repr pt (jget recorded_case ''containment_reasons'')))
         else if state = JStr ''PR_OPEN'' then map_sum id Some (validate_case pt current)
         else bind_res (state_in state in_progress_states) (\<lambda>going.
           if \<not> going
           then Inl (terminal_error (''Connected case reached unexpected state: '' @ proof_repr pt state))
           else Inr None))))
     | _ \<Rightarrow> Inl (terminal_error (''Expected exactly one current case after reset, found ''
              @ decimal (int (length all_cases)))))"

section \<open>Polling\<close>

record 'w proof_api =
  pa_get :: "string \<Rightarrow> ('w, exn, string) prog"
  pa_now :: "'w \<Rightarrow> pyfloat \<times> 'w"
  pa_sleep :: "pyfloat \<Rightarrow> ('w, exn, unit) prog"
  pa_loads_error :: "string \<Rightarrow> string"

definition parsed_body :: "'w proof_api \<Rightarrow> proof_text \<Rightarrow> string \<Rightarrow> exn + json" where
  "parsed_body api pt body =
     (case lib_loads (pt_lib pt) body of
        Some v \<Rightarrow> Inr v | None \<Rightarrow> Inl (JSONDecodeError (pa_loads_error api body)))"

definition case_status :: "proof_text \<Rightarrow> json \<Rightarrow> string" where
  "case_status pt payload =
     (case payload of
        JList (JDict d # _) \<Rightarrow> ''current state is '' @ proof_repr pt (jget d ''state'')
      | _ \<Rightarrow> ''no current case returned'')"

text \<open>One round: the proof, or the status to report if there is no time left.\<close>

definition read_cases ::
  "'w proof_api \<Rightarrow> proof_text \<Rightarrow> string \<Rightarrow> ('w, exn, jdict + string) prog" where
  "read_cases api pt api_url =
     catch_p
       (bind_p (pa_get api (rstrip_by (\<lambda>c. c = CHR ''/'') api_url @ ''/api/v1/cases'')) (\<lambda>body.
        bind_p (result_p (parsed_body api pt body)) (\<lambda>payload.
        bind_p (result_p (validate_current_cases pt payload)) (\<lambda>found.
          return_p (case found of Some report \<Rightarrow> Inl report | None \<Rightarrow> Inr (case_status pt payload))))))
       (\<lambda>e. if is_terminal_error e then raise_p e
            else if is_http_error e \<or> is_value_error e
            then return_p (Inr (''API read failed: '' @ exn_text e))
            else raise_p e)"

definition shorter :: "pyfloat \<Rightarrow> pyfloat \<Rightarrow> pyfloat" where
  "shorter a b = (if flt b a then b else a)"

text \<open>None is a loop that is still running when the fuel is gone.\<close>

fun poll_loop ::
  "nat \<Rightarrow> 'w proof_api \<Rightarrow> proof_text \<Rightarrow> string \<Rightarrow> pyfloat \<Rightarrow> pyfloat \<Rightarrow> pyfloat \<Rightarrow> 'w
    \<Rightarrow> ((exn + jdict) \<times> 'w) option" where
  "poll_loop 0 api pt api_url timeout interval deadline w = None"
| "poll_loop (Suc fuel) api pt api_url timeout interval deadline w =
     (case read_cases api pt api_url w of
        (Inl e, w1) \<Rightarrow> Some (Inl e, w1)
      | (Inr (Inl report), w1) \<Rightarrow> Some (Inr report, w1)
      | (Inr (Inr last_status), w1) \<Rightarrow>
          (case pa_now api w1 of (now, w2) \<Rightarrow>
             let remaining = fsub deadline now in
             if fle remaining (Fin 0)
             then Some (Inl (proof_error (''Connected case did not reach a fully evidenced PR_OPEN within ''
                    @ pt_fixed pt ''g'' timeout @ ''s: '' @ last_status)), w2)
             else case pa_sleep api (shorter interval remaining) w2 of
                 (Inl e, w3) \<Rightarrow> Some (Inl e, w3)
               | (Inr _, w3) \<Rightarrow> poll_loop fuel api pt api_url timeout interval deadline w3))"

definition poll ::
  "nat \<Rightarrow> 'w proof_api \<Rightarrow> proof_text \<Rightarrow> string \<Rightarrow> pyfloat \<Rightarrow> pyfloat \<Rightarrow> 'w
    \<Rightarrow> ((exn + jdict) \<times> 'w) option" where
  "poll fuel api pt api_url timeout interval w =
     (if fle timeout (Fin 0)
      then Some (Inl (proof_error ''Connected proof timeout must be greater than zero''), w)
      else if flt interval (Fin 0)
      then Some (Inl (proof_error ''Connected proof poll interval cannot be negative''), w)
      else case pa_now api w of (start, w1) \<Rightarrow>
        poll_loop fuel api pt api_url timeout interval (fadd start timeout) w1)"

end
