(* ===== verification/Loops.thy ===== *)
theory Loops
  imports Rescue_Prelude
begin

text \<open>
  Loops that wait: each turn either ends with a result or goes on from another state. The scripts' loops are run
  with fuel; here is once for all why some fuel is enough and where a result comes from.
\<close>

locale waiting_loop =
  fixes run :: "nat \<Rightarrow> 's \<Rightarrow> 'r option" and turn :: "'s \<Rightarrow> 'r + 's"
  assumes run_0: "run 0 s = None"
    and run_Suc: "run (Suc fuel) s = (case turn s of Inl r \<Rightarrow> Some r | Inr s' \<Rightarrow> run fuel s')"
begin

text \<open>A result is that of some turn.\<close>

lemma result_of_turn: "run fuel s = Some r \<Longrightarrow> \<exists>s'. turn s' = Inl r"
  by (induction fuel arbitrary: s) (auto simp: run_0 run_Suc split: sum.splits)

lemma more_fuel: "run fuel s = Some r \<Longrightarrow> fuel \<le> fuel' \<Longrightarrow> run fuel' s = Some r"
proof (induction fuel arbitrary: s fuel')
  case (Suc fuel)
  then obtain more where "fuel' = Suc more" "fuel \<le> more" by (cases fuel') auto
  with Suc show ?case by (auto simp: run_Suc split: sum.splits)
qed (simp add: run_0)

text \<open>A loop whose turns take time, and which does not go on from tick \<open>n\<close> on, ends.\<close>

lemma ends:
  assumes "\<And>s s'. turn s = Inr s' \<Longrightarrow> ticks s < n \<and> ticks s < ticks s'"
  shows "n - ticks s < fuel \<Longrightarrow> \<exists>r. run fuel s = Some r"
proof (induction fuel arbitrary: s)
  case (Suc fuel)
  show ?case
  proof (cases "turn s")
    case (Inr s')
    with assms [OF Inr] Suc.prems have "n - ticks s' < fuel" by linarith
    from Suc.IH [OF this] Inr show ?thesis by (simp add: run_Suc)
  qed (simp add: run_Suc)
qed simp

lemma ends_with_fuel:
  assumes "\<And>s s'. turn s = Inr s' \<Longrightarrow> ticks s < n \<and> ticks s < ticks s'"
  shows "\<exists>r. \<forall>fuel \<ge> Suc n. run fuel s = Some r"
proof -
  have "\<exists>r. run (Suc n) s = Some r"
    by (rule ends [where ticks = ticks and n = n]) (use assms in auto)
  then obtain r where "run (Suc n) s = Some r" ..
  then show ?thesis using more_fuel by blast
qed

end

end
