(* ===== verification/Connected_Safety.thy ===== *)
theory Connected_Safety
  imports Connected_Proof Loops
begin

text \<open>
  The proof of a connected case is bounded and complete: polling ends once the clock has passed the deadline,
  and what it accepts is a fully evidenced draft pull request.
\<close>

section \<open>The contract of a proven case\<close>

definition evidenced_case :: "jdict \<Rightarrow> bool" where
  "evidenced_case c \<longleftrightarrow>
     (let v = json_at (JDict c) in
      v [''state''] = JStr ''PR_OPEN'' \<and> v [''asset_urn''] = JStr canonical_asset_urn
      \<and> v [''schema_change'', ''source''] = JStr ''DATAHUB_MCL''
      \<and> v [''incident_integration'', ''status''] = JStr ''SUCCEEDED''
      \<and> v [''incident_integration'', ''details'', ''readback_verified''] = JBool True
      \<and> v [''incident_integration'', ''details'', ''remote_state''] = JStr ''ACTIVE''
      \<and> v [''incident_status''] = JStr ''ACTIVE''
      \<and> v [''context'', ''integration'', ''status''] = JStr ''SUCCEEDED''
      \<and> v [''context'', ''source''] = JStr ''DATAHUB_MCP''
      \<and> v [''candidate_generation'', ''status''] = JStr ''SUCCEEDED''
      \<and> v [''selected_candidate'', ''outcome''] = JStr ''SELECTED''
      \<and> v [''selected_candidate'', ''source_field''] = JStr ''net_amount''
      \<and> v [''selected_candidate'', ''build'', ''passed''] = JBool True
      \<and> v [''evidence_writeback'', ''status''] = JStr ''SUCCEEDED''
      \<and> v [''evidence_writeback'', ''details'', ''readback_verified''] = JBool True
      \<and> v [''pull_request'', ''integration'', ''status''] = JStr ''SUCCEEDED''
      \<and> v [''pull_request'', ''integration'', ''details'', ''requires_human_merge''] = JBool True
      \<and> v [''pull_request'', ''integration'', ''resource_id''] = v [''pull_request'', ''url''])"

text \<open>Exactly one candidate of the column was assessed, with that outcome.\<close>

definition assessed :: "jdict \<Rightarrow> string \<Rightarrow> string \<Rightarrow> bool" where
  "assessed c source_field decision \<longleftrightarrow>
     (case jget c ''candidates'' of
        JList xs \<Rightarrow> (case candidates_of xs source_field of
          [d] \<Rightarrow> jget d ''outcome'' = JStr decision | _ \<Rightarrow> False)
      | _ \<Rightarrow> False)"

section \<open>What the validators establish\<close>

lemma must_Inr [simp]: "must c e = Inr x \<longleftrightarrow> c"
  by (simp add: must_def)

lemma proof_mapping_Inr [simp]: "proof_mapping v l = Inr d \<longleftrightarrow> v = JDict d"
  by (cases v) (auto simp: proof_mapping_def)

lemma proof_list_Inr [simp]: "proof_list v l = Inr xs \<longleftrightarrow> v = JList xs"
  by (cases v) (auto simp: proof_list_def)

lemma succeeded_Inr [simp]: "succeeded pt v l = Inr d \<longleftrightarrow> v = JDict d \<and> jget d ''status'' = JStr ''SUCCEEDED''"
  by (cases v) (auto simp: succeeded_def proof_mapping_def must_def)

lemma candidate_for_Inr [simp]: "candidate_for xs f = Inr d \<longleftrightarrow> candidates_of xs f = [d]"
  by (auto simp: candidate_for_def split: list.splits)

lemma monitored_Inr:
  assumes "validate_monitored pt c = Inr x"
  shows "json_at (JDict c) [''asset_urn''] = JStr canonical_asset_urn"
    "json_at (JDict c) [''schema_change'', ''source''] = JStr ''DATAHUB_MCL''"
  using assms by (auto simp: validate_monitored_def validate_schema_change_def elim!: bind_res_InrE)

lemma incident_Inr:
  assumes "validate_incident pt c = Inr urn"
  shows "json_at (JDict c) [''incident_integration'', ''status''] = JStr ''SUCCEEDED''"
    "json_at (JDict c) [''incident_integration'', ''details'', ''readback_verified''] = JBool True"
    "json_at (JDict c) [''incident_integration'', ''details'', ''remote_state''] = JStr ''ACTIVE''"
    "json_at (JDict c) [''incident_status''] = JStr ''ACTIVE''"
  using assms by (auto simp: validate_incident_def elim!: bind_res_InrE)

lemma context_source_Inr:
  assumes "validate_context_source pt c = Inr x"
  shows "json_at (JDict c) [''context'', ''integration'', ''status''] = JStr ''SUCCEEDED''"
    "json_at (JDict c) [''context'', ''source''] = JStr ''DATAHUB_MCP''"
    "json_at (JDict c) [''candidate_generation'', ''status''] = JStr ''SUCCEEDED''"
  using assms by (auto simp: validate_context_source_def elim!: bind_res_InrE)

lemma gross_Inr:
  "validate_gross pt xs = Inr x \<Longrightarrow> jget c ''candidates'' = JList xs \<Longrightarrow> assessed c ''gross_amount'' ''REJECTED''"
  by (auto simp: validate_gross_def assessed_def elim!: bind_res_InrE)

lemma net_Inr:
  assumes "validate_net pt c xs = Inr x" "jget c ''candidates'' = JList xs"
  shows "assessed c ''net_amount'' ''SELECTED''"
    "json_at (JDict c) [''selected_candidate'', ''outcome''] = JStr ''SELECTED''"
    "json_at (JDict c) [''selected_candidate'', ''source_field''] = JStr ''net_amount''"
    "json_at (JDict c) [''selected_candidate'', ''build'', ''passed''] = JBool True"
  using assms by (auto simp: validate_net_def assessed_def validate_dbt_build_def elim!: bind_res_InrE)

lemma writeback_Inr:
  assumes "validate_writeback_proof pt c = Inr x"
  shows "json_at (JDict c) [''evidence_writeback'', ''status''] = JStr ''SUCCEEDED''"
    "json_at (JDict c) [''evidence_writeback'', ''details'', ''readback_verified''] = JBool True"
  using assms by (auto simp: validate_writeback_proof_def elim!: bind_res_InrE)

lemma github_url_Inr: "validate_github_url pt v = Inr url \<Longrightarrow> v = JStr url"
  by (auto simp: validate_github_url_def Let_def split: json.splits option.splits if_splits)

lemma pull_request_Inr:
  assumes "validate_pull_request pt c = Inr url"
  shows "json_at (JDict c) [''pull_request'', ''integration'', ''status''] = JStr ''SUCCEEDED''"
    "json_at (JDict c) [''pull_request'', ''integration'', ''details'', ''requires_human_merge''] = JBool True"
    "json_at (JDict c) [''pull_request'', ''integration'', ''resource_id''] = JStr url"
    "json_at (JDict c) [''pull_request'', ''url''] = JStr url"
  using assms by (auto simp: validate_pull_request_def elim!: bind_res_InrE dest!: github_url_Inr)

lemma validate_case_evidenced:
  assumes "validate_case pt (JDict c) = Inr report"
  shows "evidenced_case c \<and> assessed c ''gross_amount'' ''REJECTED'' \<and> assessed c ''net_amount'' ''SELECTED''
    \<and> jget report ''pr_url'' = json_at (JDict c) [''pull_request'', ''url'']"
proof -
  from assms obtain u xs url where parts: "validate_monitored pt c = Inr ()" "jget c ''state'' = JStr ''PR_OPEN''"
      "validate_incident pt c = Inr u" "validate_context_source pt c = Inr ()" "jget c ''candidates'' = JList xs"
      "validate_gross pt xs = Inr ()" "validate_net pt c xs = Inr ()" "validate_writeback_proof pt c = Inr ()"
      "validate_pull_request pt c = Inr url" "jget report ''pr_url'' = JStr url"
    by (auto simp: validate_case_def jget_def elim!: bind_res_InrE)
  note found = monitored_Inr [OF parts(1)] incident_Inr [OF parts(3)] context_source_Inr [OF parts(4)]
    gross_Inr [OF parts(6) parts(5)] net_Inr [OF parts(7) parts(5)] writeback_Inr [OF parts(8)]
    pull_request_Inr [OF parts(9)]
  have "json_at (JDict c) [''state''] = JStr ''PR_OPEN''" using parts(2) by simp
  then show ?thesis
    unfolding evidenced_case_def Let_def using found parts(10) by (simp only: simp_thms)
qed

lemma map_some_Inr [simp]: "map_sum id Some r = Inr (Some x) \<longleftrightarrow> r = Inr x"
  by (cases r) auto

lemma current_cases_proof:
  assumes "validate_current_cases pt v = Inr (Some report)"
  obtains c where "v = JList [JDict c]" "validate_case pt (JDict c) = Inr report"
  using assms
  by (auto simp: validate_current_cases_def Let_def elim!: bind_res_InrE split: list.splits if_splits)

section \<open>Polling\<close>

lemma read_cases_proof:
  assumes "read_cases api pt api_url w = (Inr (Inl report), w')"
  obtains body c where "lib_loads (pt_lib pt) body = Some (JList [JDict c])" "validate_case pt (JDict c) = Inr report"
proof -
  from assms obtain body w1 payload where "lib_loads (pt_lib pt) body = Some payload"
      "validate_current_cases pt payload = Inr (Some report)"
    by (auto simp: read_cases_def catch_p_def bind_p_def parsed_body_def
      split: prod.splits sum.splits if_splits option.splits)
  then show thesis
    using that by (elim current_cases_proof) simp
qed

text \<open>One turn of the loop.\<close>

definition poll_turn ::
  "'w proof_api \<Rightarrow> proof_text \<Rightarrow> string \<Rightarrow> pyfloat \<Rightarrow> pyfloat \<Rightarrow> pyfloat \<Rightarrow> 'w
    \<Rightarrow> ((exn + jdict) \<times> 'w) + 'w" where
  "poll_turn api pt api_url timeout interval deadline w =
     (case read_cases api pt api_url w of
        (Inl e, w1) \<Rightarrow> Inl (Inl e, w1)
      | (Inr (Inl report), w1) \<Rightarrow> Inl (Inr report, w1)
      | (Inr (Inr last_status), w1) \<Rightarrow>
          (case pa_now api w1 of (now, w2) \<Rightarrow>
             let remaining = fsub deadline now in
             if fle remaining (Fin 0) then Inl (Inl (proof_error (''Connected case did not reach a fully evidenced PR_OPEN within ''
                    @ pt_fixed pt ''g'' timeout @ ''s: '' @ last_status)), w2)
             else case pa_sleep api (shorter interval remaining) w2 of
                 (Inl e, w3) \<Rightarrow> Inl (Inl e, w3)
               | (Inr _, w3) \<Rightarrow> Inr w3))"

interpretation polling: waiting_loop "\<lambda>fuel. poll_loop fuel api pt api_url timeout interval deadline"
  "poll_turn api pt api_url timeout interval deadline"
  by unfold_locales (auto simp: poll_turn_def Let_def split: prod.split sum.split)

lemma poll_proof:
  assumes "poll fuel api pt api_url timeout interval w = Some (Inr report, w')"
  shows "\<exists>body c. lib_loads (pt_lib pt) body = Some (JList [JDict c]) \<and> validate_case pt (JDict c) = Inr report"
proof -
  obtain deadline w1 where "poll_loop fuel api pt api_url timeout interval deadline w1 = Some (Inr report, w')"
    using assms by (auto simp: poll_def split: if_splits prod.splits)
  from polling.result_of_turn [OF this] obtain v where
      "poll_turn api pt api_url timeout interval deadline v = Inl (Inr report, w')" ..
  then have "\<exists>u. read_cases api pt api_url v = (Inr (Inl report), u)"
    by (auto simp: poll_turn_def Let_def split: prod.splits sum.splits if_splits)
  then show ?thesis by (metis read_cases_proof)
qed

text \<open>
  Time passes: reading and asking for the time never goes back, sleeping takes at least one tick, and from
  tick \<open>n\<close> on the clock has reached the deadline.
\<close>

definition time_passes :: "('w \<Rightarrow> nat) \<Rightarrow> 'w proof_api \<Rightarrow> pyfloat \<Rightarrow> nat \<Rightarrow> bool" where
  "time_passes ticks api deadline n \<longleftrightarrow>
     (\<forall>url w. ticks w \<le> ticks (snd (pa_get api url w)))
     \<and> (\<forall>w. ticks w \<le> ticks (snd (pa_now api w)))
     \<and> (\<forall>d w. ticks w < ticks (snd (pa_sleep api d w)))
     \<and> (\<forall>w. n \<le> ticks w \<longrightarrow> fle (fsub deadline (fst (pa_now api w))) (Fin 0))"

lemma read_cases_ticks:
  assumes "time_passes ticks api deadline n"
  shows "ticks w \<le> ticks (snd (read_cases api pt api_url w))"
proof -
  have "keeps (\<lambda>s. ticks w \<le> ticks s) (pa_get api url)" for url
    using assms unfolding time_passes_def keeps_def by (meson le_trans)
  then have "keeps (\<lambda>s. ticks w \<le> ticks s) (read_cases api pt api_url)"
    unfolding read_cases_def
    by (intro keeps_intros keeps_bind keeps_catch) (auto simp: keeps_def)
  then show ?thesis by (simp add: keeps_def)
qed

lemma poll_turn_time:
  assumes "time_passes ticks api deadline n" "poll_turn api pt api_url timeout interval deadline w = Inr w'"
  shows "ticks w < n \<and> ticks w < ticks w'"
proof -
  from assms(2) obtain seen w1 now w2 u where turn: "read_cases api pt api_url w = (Inr (Inr seen), w1)"
      "pa_now api w1 = (now, w2)" "\<not> fle (fsub deadline now) (Fin 0)"
      "pa_sleep api (shorter interval (fsub deadline now)) w2 = (Inr u, w')"
    by (auto simp: poll_turn_def Let_def split: prod.splits sum.splits if_splits)
  have "ticks w \<le> ticks w1"
    using read_cases_ticks [OF assms(1), of w pt api_url] turn(1) by simp
  moreover have "ticks w1 \<le> ticks w2" "ticks w2 < ticks w'" "\<not> n \<le> ticks w1"
    using assms(1) turn unfolding time_passes_def by (metis snd_conv, metis snd_conv, metis fst_conv)
  ultimately show ?thesis by simp
qed

lemma poll_ends:
  assumes "time_passes ticks api (fadd (fst (pa_now api w)) timeout) n"
  shows "\<exists>r. \<forall>fuel \<ge> Suc n. poll fuel api pt api_url timeout interval w = Some r"
proof -
  obtain start w1 where start: "pa_now api w = (start, w1)" by fastforce
  have time: "time_passes ticks api (fadd start timeout) n"
    using assms start by simp
  have "\<exists>r. \<forall>fuel \<ge> Suc n. poll_loop fuel api pt api_url timeout interval (fadd start timeout) w1 = Some r"
    by (rule polling.ends_with_fuel) (rule poll_turn_time [OF time])
  then show ?thesis
    using start
    by (cases "fle timeout (Fin 0)"; cases "flt interval (Fin 0)") (auto simp: poll_def simp del: poll_loop.simps)
qed

end
