(* ===== verification/Connected_Examples.thy ===== *)
theory Connected_Examples
  imports Connected_Safety
begin

text \<open>
  A service whose case reaches its draft pull request at the third reading, asked with a timeout of three
  seconds on a clock that counts sleeps.
\<close>

definition integration_json :: "json \<Rightarrow> jdict \<Rightarrow> json" where
  "integration_json resource_id details = JDict
     [(''status'', JStr ''SUCCEEDED''), (''resource_id'', resource_id), (''details'', JDict details)]"

definition candidate_json :: "string \<Rightarrow> string \<Rightarrow> rat \<Rightarrow> json" where
  "candidate_json source_field decision variance = JDict
     [(''id'', JStr source_field), (''source_field'', JStr source_field), (''outcome'', JStr decision),
      (''build'', JDict [(''passed'', JBool True), (''passed_checks'', JInt 8), (''total_checks'', JInt 8)]),
      (''reconciliation'', JDict
        [(''total_variance_pct'', JFloat (dbl variance)), (''primary_key_overlap_pct'', JInt 100)])]"

definition field_json :: "string \<Rightarrow> json" where
  "field_json name = JDict [(''name'', JStr name)]"

definition case_json :: "string \<Rightarrow> jdict" where
  "case_json state =
     [(''id'', JStr ''DR-024''), (''asset_urn'', JStr canonical_asset_urn), (''state'', JStr state),
      (''incident_status'', JStr ''ACTIVE''),
      (''schema_change'', JDict
        [(''source'', JStr ''DATAHUB_MCL''), (''before_fields'', JList [field_json ''amount'']),
         (''after_fields'', JList [field_json ''gross_amount'', field_json ''net_amount''])]),
      (''incident_integration'', integration_json (JStr ''urn:li:incident:1'')
        [(''readback_verified'', JBool True), (''remote_state'', JStr ''ACTIVE'')]),
      (''context'', JDict [(''integration'', integration_json JNull []), (''source'', JStr ''DATAHUB_MCP'')]),
      (''candidate_generation'', integration_json JNull []),
      (''candidates'', JList
        [candidate_json ''gross_amount'' ''REJECTED'' (34 / 10), candidate_json ''net_amount'' ''SELECTED'' 0]),
      (''selected_candidate'', candidate_json ''net_amount'' ''SELECTED'' 0),
      (''evidence_writeback'', integration_json JNull [(''readback_verified'', JBool True)]),
      (''pull_request'', JDict
        [(''url'', JStr ''https://github.com/acme/shop/pull/7''),
         (''integration'', integration_json (JStr ''https://github.com/acme/shop/pull/7'')
            [(''requires_human_merge'', JBool True)])])]"

definition example_text :: proof_text where
  "example_text =
     \<lparr>pt_lib = \<lparr>lib_loads = (\<lambda>body. Some (JList [JDict (case_json body)])), lib_dumps = (\<lambda>_. []),
        lib_str = (\<lambda>_. [])\<rparr>,
      pt_fixed = (\<lambda>_ _. []), pt_set = (\<lambda>_. []), pt_bracketed_host = (\<lambda>_. False)\<rparr>"

definition example_api :: "nat proof_api" where
  "example_api =
     \<lparr>pa_get = (\<lambda>_ n. (Inr (if n < 2 then ''VALIDATING'' else ''PR_OPEN''), n)),
      pa_now = (\<lambda>n. (Fin (of_nat (min n 3)), n)),
      pa_sleep = (\<lambda>_ n. (Inr (), Suc n)),
      pa_loads_error = (\<lambda>_. [])\<rparr>"

lemma example_time: "time_passes id example_api (fadd (fst (pa_now example_api 0)) (Fin 3)) 3"
proof -
  have "fadd (fst (pa_now example_api 0)) (Fin 3) = Fin 3"
    by code_simp
  moreover have "fle (fsub (Fin 3) (Fin 3)) (Fin 0)"
    by (simp add: fsub_self)
  ultimately show ?thesis
    by (simp add: time_passes_def example_api_def)
qed

lemma example_poll:
  "map_option fst (poll 4 example_api example_text ''http://api'' (Fin 3) (Fin 1) 0)
     = Some (validate_case example_text (JDict (case_json ''PR_OPEN'')))
   \<and> validate_case example_text (JDict (case_json ''PR_OPEN'')) = Inr
       [(''case_id'', JStr ''DR-024''), (''incident_urn'', JStr ''urn:li:incident:1''),
        (''gross_variance_pct'', JFloat (dbl (34 / 10))), (''selected_candidate'', JStr ''net_amount''),
        (''selected_variance_pct'', JFloat (Fin 0)), (''primary_key_overlap_pct'', JFloat (Fin 100)),
        (''dbt_checks'', JStr ''8/8''), (''pr_url'', JStr ''https://github.com/acme/shop/pull/7''),
        (''state'', JStr ''PR_OPEN'')]"
  by code_simp

end
