(* ===== verification/Live_Proof.thy ===== *)
theory Live_Proof
  imports Connected_Proof Mcp_Safety
begin

text \<open>
  \<^verbatim>\<open>scripts/verify-datahub-mcp-proof.py\<close>: reading the context of the canonical asset and writing a report, and
  \<^verbatim>\<open>scripts/verify-datahub-mcl-proof.py\<close>: waiting for the one case the change log watcher raised.
\<close>

section \<open>The context read\<close>

text \<open>The paths of the schema's fields.\<close>

definition schema_paths :: "json list \<Rightarrow> string list" where
  "schema_paths fields_found =
     List.map_filter (\<lambda>f. case f of
        JDict d \<Rightarrow> (case jget d ''fieldPath'' of JStr s \<Rightarrow> Some s | _ \<Rightarrow> None)
      | _ \<Rightarrow> None) fields_found"

definition common_fields :: "string list" where
  "common_fields = [''payment_id'', ''customer_id'', ''paid_at'', ''currency'', ''status'']"

definition catalog_state :: "string list \<Rightarrow> string option" where
  "catalog_state paths =
     (if ''amount'' \<in> set paths \<and> ''gross_amount'' \<notin> set paths \<and> ''net_amount'' \<notin> set paths then Some ''HEALTHY''
      else if ''amount'' \<notin> set paths \<and> ''gross_amount'' \<in> set paths \<and> ''net_amount'' \<in> set paths then Some ''DRIFTED''
      else None)"

definition validate_fields :: "proof_text \<Rightarrow> json \<Rightarrow> exn + nat \<times> string" where
  "validate_fields pt v =
     (case v of
        JList fields_found \<Rightarrow>
          let paths = schema_paths fields_found in
          bind_res (must (set common_fields \<subseteq> set paths)
            (proof_error (''MCP schema is missing required fields: ''
               @ pt_set pt (map JStr (filter (\<lambda>p. p \<notin> set paths) common_fields))))) (\<lambda>_.
          case catalog_state paths of
            Some state \<Rightarrow> Inr (length fields_found, state)
          | None \<Rightarrow> Inl (proof_error (''MCP schema is neither healthy nor the expected drift: ''
                      @ pt_set pt (map JStr paths))))
      | _ \<Rightarrow> Inl (proof_error ''MCP returned no schema fields''))"

definition validate_lineage :: "proof_text \<Rightarrow> jdict \<Rightarrow> exn + nat" where
  "validate_lineage pt gathered =
     (case jget gathered ''lineage_urns'' of
        JList urns \<Rightarrow>
          if list_ex (\<lambda>v. case v of JList _ \<Rightarrow> True | JDict _ \<Rightarrow> True | _ \<Rightarrow> False) urns
          then Inl (TypeErr ''unhashable type'')
          else let missing = filter (\<lambda>u. JStr u \<notin> set urns) required_lineage_urns in
            bind_res (must (missing = [] \<and> jget gathered ''lineage_current'' = JBool True)
              (proof_error (''MCP lineage contract is incomplete: ''
                 @ lib_str (pt_lib pt) (JList (map JStr (sort missing)))))) (\<lambda>_. Inr (length urns))
      | _ \<Rightarrow> Inl (proof_error ''MCP returned no lineage URNs''))"

definition validate_semantics :: "proof_text \<Rightarrow> jdict \<Rightarrow> exn + unit" where
  "validate_semantics pt gathered =
     bind_res (must (jget gathered ''owner'' = JStr ''Finance Data'')
       (proof_error (''MCP returned an unexpected owner: '' @ proof_repr pt (jget gathered ''owner'')))) (\<lambda>_.
     bind_res (must (case jget gathered ''glossary_definition'' of
           JStr s \<Rightarrow> contains ''net_amount'' s \<and> contains ''gross_amount'' s | _ \<Rightarrow> False)
       (proof_error ''MCP returned no exact NetRevenue semantic rule'')) (\<lambda>_.
       must (case jget gathered ''context_documents'' of
           JList documents \<Rightarrow> JStr canonical_document_urn \<in> set documents | _ \<Rightarrow> False)
         (proof_error ''MCP did not return the deterministic DataRescue context document'')))"

definition validate_context :: "proof_text \<Rightarrow> mcp_context \<Rightarrow> exn + jdict" where
  "validate_context pt result =
     (let gathered = mc_context result in
      bind_res (must (ir_status (mc_integration result) = SUCCEEDED)
        (proof_error (''MCP context read failed: '' @ ir_message (mc_integration result)))) (\<lambda>_.
      bind_res (must (jget gathered ''asset_urn'' = JStr canonical_asset_urn)
        (proof_error ''MCP returned the wrong monitored asset'')) (\<lambda>_.
      bind_res (validate_fields pt (jget gathered ''schema_fields'')) (\<lambda>(field_count, state).
      bind_res (validate_lineage pt gathered) (\<lambda>lineage_count.
      bind_res (validate_semantics pt gathered) (\<lambda>_.
        Inr [(''asset_urn'', JStr canonical_asset_urn), (''catalog_state'', JStr state),
             (''schema_field_count'', JInt (int field_count)),
             (''lineage_entity_count'', JInt (int lineage_count)), (''owner'', jget gathered ''owner''),
             (''context_document'', JStr canonical_document_urn)]))))))"

section \<open>The report written\<close>

definition validate_writeback :: "integration_result \<Rightarrow> exn + string" where
  "validate_writeback result =
     (if ir_status result \<noteq> SUCCEEDED
      then Inl (proof_error (''MCP evidence write-back failed: '' @ ir_message result))
      else case ir_resource_id result of
        Some urn \<Rightarrow>
          if \<not> prefix ''urn:li:document:'' urn
          then Inl (proof_error ''MCP evidence write-back returned no document URN'')
          else if canonical_asset_urn \<notin> set (ir_evidence_refs result)
          then Inl (proof_error ''MCP evidence write-back is not linked to the monitored asset'')
          else if jget (ir_details result) ''readback_verified'' \<noteq> JBool True
          then Inl (proof_error ''MCP evidence write-back has no exact DataHub read-back proof'')
          else Inr urn
      | None \<Rightarrow> Inl (proof_error ''MCP evidence write-back returned no document URN''))"

definition live_report :: jdict where
  "live_report =
     [(''decision'', JStr ''MCP_LIVE_PROOF''), (''context_document'', JStr canonical_document_urn),
      (''lineage_current'', JBool True)]"

definition live_case_id :: "string \<Rightarrow> string" where
  "live_case_id hex_id = ''DR-MCP-PROOF-'' @ upper (take 8 hex_id)"

definition proof_arguments :: "'w mcp_adapter \<Rightarrow> 'w mcp_adapter" where
  "proof_arguments args =
     args\<lparr>ma_token := present (ma_token args), ma_gms_url := present (ma_gms_url args),
          ma_gms_token := present (ma_gms_token args)\<rparr>"

text \<open>\<^verbatim>\<open>main\<close> with the adapter's arguments and the random id: the summary it prints.\<close>

definition live_proof ::
  "(string \<Rightarrow> bool) \<Rightarrow> (string \<Rightarrow> bool) \<Rightarrow> proof_text \<Rightarrow> 'w mcp_adapter \<Rightarrow> bool \<Rightarrow> string
    \<Rightarrow> ('w, exn, jdict) prog" where
  "live_proof ip ipv6_loopback pt args skip_write hex_id =
     bind_p (result_p (new_mcp_adapter ip ipv6_loopback (proof_arguments args))) (\<lambda>a.
     bind_p (mcp_fetch_context a canonical_asset_urn) (\<lambda>result.
     bind_p (result_p (validate_context pt result)) (\<lambda>summary.
     if skip_write
     then return_p (summary @ [(''writeback_status'', JStr ''SKIPPED''), (''context_status'', JStr ''SUCCEEDED'')])
     else bind_p (write_evidence_report a canonical_asset_urn (live_case_id hex_id) live_report False) (\<lambda>writeback.
          bind_p (result_p (validate_writeback writeback)) (\<lambda>document_urn.
            return_p (summary @ [(''writeback_document'', JStr document_urn),
              (''writeback_status'', JStr (integration_status_value (ir_status writeback))),
              (''context_status'', JStr ''SUCCEEDED'')]))))))"

section \<open>The case of the watcher\<close>

text \<open>Iterating a JSON value, and the set of the values below a key of its objects.\<close>

definition json_iter :: "json \<Rightarrow> exn + json list" where
  "json_iter v =
     (case v of
        JList xs \<Rightarrow> Inr xs
      | JDict d \<Rightarrow> Inr (map (\<lambda>(k, _). JStr k) d)
      | JStr s \<Rightarrow> Inr (map (\<lambda>c. JStr [c]) s)
      | _ \<Rightarrow> Inl (TypeErr ''object is not iterable''))"

definition changed_names :: "jdict \<Rightarrow> string \<Rightarrow> exn + json list" where
  "changed_names change key =
     bind_res (json_iter (case map_of change key of Some v \<Rightarrow> v | None \<Rightarrow> JList [])) field_names"

definition event_types :: "json list \<Rightarrow> exn + json list" where
  "event_types events =
     (let found = List.map_filter (\<lambda>e. case e of JDict d \<Rightarrow> Some (jget d ''event_type'') | _ \<Rightarrow> None) events
      in if list_ex (\<lambda>v. case v of JList _ \<Rightarrow> True | JDict _ \<Rightarrow> True | _ \<Rightarrow> False) found
         then Inl (TypeErr ''unhashable type'') else Inr found)"

definition watched_cases :: "json list \<Rightarrow> (jdict \<times> jdict) list" where
  "watched_cases all_cases =
     List.map_filter (\<lambda>c. case c of
        JDict d \<Rightarrow>
          (case jget d ''schema_change'' of
             JDict change \<Rightarrow>
               if jget d ''asset_urn'' = JStr canonical_asset_urn \<and> jget change ''source'' = JStr ''DATAHUB_MCL''
               then Some (d, change) else None
           | _ \<Rightarrow> None)
      | _ \<Rightarrow> None) all_cases"

definition watched_fields :: "proof_text \<Rightarrow> jdict \<Rightarrow> exn + unit" where
  "watched_fields pt change =
     bind_res (changed_names change ''before_fields'') (\<lambda>before.
     bind_res (changed_names change ''after_fields'') (\<lambda>after.
     bind_res (must (JStr ''amount'' \<in> set before \<and> JStr ''amount'' \<notin> set after)
       (proof_error (''Unexpected pre/post amount fields: before='' @ pt_set pt before
          @ '', after='' @ pt_set pt after))) (\<lambda>_.
       must (JStr ''gross_amount'' \<in> set after \<and> JStr ''net_amount'' \<in> set after)
         (proof_error (''Drift fields are missing from the MCL: '' @ pt_set pt after)))))"

definition watched_incident :: "proof_text \<Rightarrow> jdict \<Rightarrow> exn + string" where
  "watched_incident pt c =
     (case jget c ''incident_integration'' of
        JDict incident \<Rightarrow>
          bind_res (must (jget incident ''status'' = JStr ''SUCCEEDED'')
            (proof_error (''Live GraphQL incident did not succeed: '' @ proof_repr pt (JDict incident)))) (\<lambda>_.
          case jget incident ''resource_id'' of
            JStr urn \<Rightarrow>
              if \<not> prefix ''urn:li:incident:'' urn
              then Inl (proof_error (''Invalid live incident URN: '' @ py_repr urn))
              else bind_res (must (case jget incident ''details'' of
                    JDict details \<Rightarrow> jget details ''readback_verified'' = JBool True
                      \<and> jget details ''remote_state'' = JStr ''ACTIVE''
                  | _ \<Rightarrow> False)
                (proof_error ''The GraphQL incident has no remote ACTIVE read-back proof'')) (\<lambda>_. Inr urn)
          | v \<Rightarrow> Inl (proof_error (''Invalid live incident URN: '' @ proof_repr pt v)))
      | v \<Rightarrow> Inl (proof_error (''Live GraphQL incident did not succeed: '' @ proof_repr pt v)))"

definition watched_ledger :: "proof_text \<Rightarrow> jdict \<Rightarrow> exn + nat" where
  "watched_ledger pt c =
     (case jget c ''events'' of
        JList events \<Rightarrow>
          bind_res (event_types events) (\<lambda>types.
          bind_res (must ({JStr ''SCHEMA_CHANGE_DETECTED'', JStr ''INCIDENT_RAISED'', JStr ''CONTAINED''} \<subseteq> set types)
            (proof_error (''Case event ledger is incomplete: '' @ pt_set pt types))) (\<lambda>_. Inr (length events)))
      | _ \<Rightarrow> Inl (proof_error ''Case event ledger is missing''))"

definition validate_cases :: "proof_text \<Rightarrow> json \<Rightarrow> exn + jdict" where
  "validate_cases pt v =
     (case v of
        JList all_cases \<Rightarrow>
          (case watched_cases all_cases of
             [(c, change)] \<Rightarrow>
               bind_res (watched_fields pt change) (\<lambda>_.
               bind_res (watched_incident pt c) (\<lambda>urn.
               bind_res (must (jget c ''incident_status'' = JStr ''ACTIVE'')
                 (proof_error ''The staged proof must leave the incident ACTIVE'')) (\<lambda>_.
               bind_res (must (jget c ''state'' = JStr ''CONTAINED'')
                 (proof_error ''Without MCP/OpenAI credentials the staged proof must fail closed as CONTAINED'')) (\<lambda>_.
               bind_res (watched_ledger pt c) (\<lambda>n.
                 Inr [(''case_id'', jget c ''id''), (''event_count'', JInt (int n)), (''incident_urn'', JStr urn),
                      (''state'', jget c ''state'')])))))
           | found \<Rightarrow> Inl (proof_error (''Expected one automatic DATAHUB_MCL case, found ''
                       @ decimal (int (length found)))))
      | _ \<Rightarrow> Inl (proof_error ''Cases response is not a list''))"

definition is_proof_error :: "exn \<Rightarrow> bool" where
  "is_proof_error e \<longleftrightarrow> (case e of Other n _ \<Rightarrow> n = ''ProofError'' | _ \<Rightarrow> False)"

definition read_watched ::
  "'w proof_api \<Rightarrow> proof_text \<Rightarrow> string \<Rightarrow> ('w, exn, jdict + string) prog" where
  "read_watched api pt api_url =
     catch_p
       (bind_p (pa_get api (rstrip_by (\<lambda>c. c = CHR ''/'') api_url @ ''/api/v1/cases'')) (\<lambda>body.
        bind_p (result_p (parsed_body api pt body)) (\<lambda>payload.
        bind_p (result_p (validate_cases pt payload)) (\<lambda>report. return_p (Inl report)))))
       (\<lambda>e. if is_http_error e \<or> is_value_error e \<or> is_proof_error e then return_p (Inr (exn_text e)) else raise_p e)"

text \<open>None is a loop that is still running when the fuel is gone.\<close>

fun watch_loop ::
  "nat \<Rightarrow> 'w proof_api \<Rightarrow> proof_text \<Rightarrow> string \<Rightarrow> pyfloat \<Rightarrow> string \<Rightarrow> 'w
    \<Rightarrow> ((exn + jdict) \<times> 'w) option" where
  "watch_loop 0 api pt api_url deadline last_error w = None"
| "watch_loop (Suc fuel) api pt api_url deadline last_error w =
     (case pa_now api w of (now, w1) \<Rightarrow>
        if \<not> flt now deadline
        then Some (Inl (proof_error (''MCL proof did not converge: '' @ last_error)), w1)
        else case read_watched api pt api_url w1 of
            (Inl e, w2) \<Rightarrow> Some (Inl e, w2)
          | (Inr (Inl report), w2) \<Rightarrow> Some (Inr report, w2)
          | (Inr (Inr seen), w2) \<Rightarrow>
              (case pa_sleep api (Fin 1) w2 of
                 (Inl e, w3) \<Rightarrow> Some (Inl e, w3)
               | (Inr _, w3) \<Rightarrow> watch_loop fuel api pt api_url deadline seen w3))"

definition watch_poll ::
  "nat \<Rightarrow> 'w proof_api \<Rightarrow> proof_text \<Rightarrow> string \<Rightarrow> pyfloat \<Rightarrow> 'w \<Rightarrow> ((exn + jdict) \<times> 'w) option" where
  "watch_poll fuel api pt api_url timeout w =
     (case pa_now api w of (start, w1) \<Rightarrow>
        watch_loop fuel api pt api_url (fadd start timeout) ''no case returned'' w1)"

record 'w baseline_files =
  bf_read :: "string \<Rightarrow> ('w, exn, string) prog"
  bf_write :: "string \<Rightarrow> string \<Rightarrow> ('w, exn, unit) prog"

text \<open>Comparing the report with a baseline and writing one, as \<^verbatim>\<open>main\<close> does after the poll.\<close>

definition keep_baseline ::
  "'w baseline_files \<Rightarrow> 'w proof_api \<Rightarrow> proof_text \<Rightarrow> string option \<Rightarrow> string option \<Rightarrow> jdict
    \<Rightarrow> ('w, exn, jdict) prog" where
  "keep_baseline files api pt expect_unchanged write_baseline report =
     then_p (case expect_unchanged of
         None \<Rightarrow> return_p ()
       | Some path \<Rightarrow>
           bind_p (bf_read files path) (\<lambda>content.
           bind_p (result_p (parsed_body api pt content)) (\<lambda>baseline.
             if py_eq (JDict report) baseline then return_p ()
             else raise_p (proof_error (''Duplicate MCL replay changed the durable case: baseline=''
                    @ proof_repr pt baseline @ '', current='' @ proof_repr pt (JDict report))))))
      (then_p (case write_baseline of
          None \<Rightarrow> return_p ()
        | Some path \<Rightarrow> bf_write files path (lib_dumps (pt_lib pt) (JDict report) @ newline))
        (return_p report))"

definition watch_main ::
  "nat \<Rightarrow> 'w baseline_files \<Rightarrow> 'w proof_api \<Rightarrow> proof_text \<Rightarrow> string \<Rightarrow> pyfloat \<Rightarrow> string option \<Rightarrow> string option
    \<Rightarrow> 'w \<Rightarrow> ((exn + jdict) \<times> 'w) option" where
  "watch_main fuel files api pt api_url timeout expect_unchanged write_baseline w =
     (case watch_poll fuel api pt api_url timeout w of
        None \<Rightarrow> None
      | Some (Inl e, w1) \<Rightarrow> Some (Inl e, w1)
      | Some (Inr report, w1) \<Rightarrow> Some (keep_baseline files api pt expect_unchanged write_baseline report w1))"

end
