(* ===== verification/Live_Safety.thy ===== *)
theory Live_Safety
  imports Live_Proof Connected_Safety
begin

text \<open>
  The proof of the context agrees with the workflow's own judgement of it; a report it names was read back; and
  the watch for the case of the watcher ends.
\<close>

section \<open>The context\<close>

lemma same_asset: "canonical_asset_urn = contract_asset_urn"
  by (simp add: canonical_asset_urn_def contract_asset_urn_def)

definition known_schema :: "json \<Rightarrow> bool" where
  "known_schema v \<longleftrightarrow>
     (case v of
        JList fs \<Rightarrow> set common_fields \<subseteq> set (schema_paths fs) \<and> catalog_state (schema_paths fs) \<noteq> None
      | _ \<Rightarrow> False)"

definition names_both_columns :: "string option \<Rightarrow> bool" where
  "names_both_columns rule \<longleftrightarrow>
     (case rule of Some s \<Rightarrow> contains ''net_amount'' s \<and> contains ''gross_amount'' s | None \<Rightarrow> False)"

lemma fields_accepted: "(\<exists>x. validate_fields pt v = Inr x) \<longleftrightarrow> known_schema v"
  by (auto simp: validate_fields_def known_schema_def Let_def must_def split: json.split option.split)

lemma lineage_accepted:
  "(\<exists>n. validate_lineage pt (context_items lc) = Inr n) \<longleftrightarrow>
     set required_lineage_urns \<subseteq> set (lc_lineage_urns lc) \<and> lc_lineage_current lc"
proof -
  have "filter (\<lambda>u. u \<notin> set (lc_lineage_urns lc)) required_lineage_urns = []
      \<longleftrightarrow> set required_lineage_urns \<subseteq> set (lc_lineage_urns lc)"
    by (auto simp: filter_empty_conv)
  moreover have "\<not> list_ex (\<lambda>v. case v of JList _ \<Rightarrow> True | JDict _ \<Rightarrow> True | _ \<Rightarrow> False) (map JStr us)" for us
    by (simp add: list_ex_iff)
  ultimately show ?thesis
    by (simp add: validate_lineage_def context_items_def jget_def must_def Let_def image_iff)
qed

lemma semantics_accepted:
  "(validate_semantics pt (context_items lc) = Inr ()) \<longleftrightarrow>
     lc_owner lc = Some ''Finance Data'' \<and> names_both_columns (lc_glossary_definition lc)
     \<and> canonical_document_urn \<in> set (lc_documents lc)"
  by (auto simp: validate_semantics_def context_items_def jget_def must_def names_both_columns_def
      optional_string_def image_iff bind_res_Inr_iff split: option.split)

lemma context_accepted:
  assumes "ir_status (mc_integration r) = SUCCEEDED" "mc_context r = context_items lc"
    "lc_asset_urn lc = contract_asset_urn"
  shows "(\<exists>summary. validate_context pt r = Inr summary) \<longleftrightarrow>
     known_schema (JList (lc_schema_fields lc))
     \<and> (set required_lineage_urns \<subseteq> set (lc_lineage_urns lc) \<and> lc_lineage_current lc)
     \<and> lc_owner lc = Some ''Finance Data'' \<and> names_both_columns (lc_glossary_definition lc)
     \<and> canonical_document_urn \<in> set (lc_documents lc)"
proof -
  have items: "jget (context_items lc) ''asset_urn'' = JStr canonical_asset_urn"
      "jget (context_items lc) ''schema_fields'' = JList (lc_schema_fields lc)"
    using assms(3) by (simp_all add: context_items_def jget_def same_asset)
  have "(\<exists>summary. validate_context pt r = Inr summary) \<longleftrightarrow>
      (\<exists>x. validate_fields pt (JList (lc_schema_fields lc)) = Inr x)
      \<and> (\<exists>n. validate_lineage pt (context_items lc) = Inr n) \<and> validate_semantics pt (context_items lc) = Inr ()"
    by (auto simp: validate_context_def Let_def assms(1,2) items bind_res_Inr_iff)
  then show ?thesis
    unfolding fields_accepted lineage_accepted semantics_accepted by blast
qed

lemma fetched_canonical:
  assumes "mcp_fetch_context a contract_asset_urn w = (Inr r, w')" "ir_status (mc_integration r) = SUCCEEDED"
  obtains lc where "mc_context r = context_items lc" "lc_asset_urn lc = contract_asset_urn"
    "lc_owner lc = Some ''Finance Data''" "canonical_document_urn \<in> set (lc_documents lc)"
    "lc_lineage_current lc \<longrightarrow> set required_lineage_urns \<subseteq> set (lc_lineage_urns lc)"
    "\<exists>d. lc_glossary_definition lc = Some d \<and> d \<noteq> []"
    "\<And>cfg. context_of cfg contract_asset_urn r =
      \<lparr>cb_asset_urn = contract_asset_urn, cb_glossary_definition = lc_glossary_definition lc,
       cb_owner = lc_owner lc, cb_lineage_urns = lc_lineage_urns lc, cb_context_documents = lc_documents lc,
       cb_lineage_current = lc_lineage_current lc, cb_source = ''DATAHUB_MCP'', cb_integration = mc_integration r\<rparr>"
proof -
  from fetch_ok [OF assms] obtain results v entity schema lineage direct info lc where run:
      "context_payloads (ma_json a) contract_asset_urn results = Inr (entity, schema, lineage, direct)"
      "normalize_context contract_asset_urn entity schema lineage direct info = Inr lc"
      "r = context_result contract_asset_urn lc"
    by metis
  from context_payloads_direct [OF run(1)] obtain d where d:
      "direct = Some d" "map fst d = map fst direct_lineage_edges" .
  note exact = canonical_context [OF run(2) [unfolded d(1)] d(2)]
  show thesis
  proof (rule that)
    show "mc_context r = context_items lc" by (simp add: run(3) context_result_def)
    show "lc_asset_urn lc = contract_asset_urn" using normalized_well_typed [OF run(2)] by simp
    show "lc_owner lc = Some ''Finance Data''" using exact(2) by (simp add: canonical_owner_name_def)
    show "context_of cfg contract_asset_urn r =
      \<lparr>cb_asset_urn = contract_asset_urn, cb_glossary_definition = lc_glossary_definition lc,
       cb_owner = lc_owner lc, cb_lineage_urns = lc_lineage_urns lc, cb_context_documents = lc_documents lc,
       cb_lineage_current = lc_lineage_current lc, cb_source = ''DATAHUB_MCP'', cb_integration = mc_integration r\<rparr>" for cfg
      using context_of_items [of "mc_integration r" cfg contract_asset_urn lc] assms(2) run(3)
      by (simp add: context_result_def)
  qed (use exact in blast)+
qed

lemma fetched_accepted:
  assumes "mcp_fetch_context a contract_asset_urn w = (Inr r, w')" "ir_status (mc_integration r) = SUCCEEDED"
  shows "(\<exists>summary. validate_context pt r = Inr summary) \<longleftrightarrow>
    context_complete (context_of cfg contract_asset_urn r)
    \<and> known_schema (jget (mc_context r) ''schema_fields'')
    \<and> names_both_columns (cb_glossary_definition (context_of cfg contract_asset_urn r))"
proof -
  obtain lc where lc: "mc_context r = context_items lc" "lc_asset_urn lc = contract_asset_urn"
    "lc_owner lc = Some ''Finance Data''" "canonical_document_urn \<in> set (lc_documents lc)"
    "lc_lineage_current lc \<longrightarrow> set required_lineage_urns \<subseteq> set (lc_lineage_urns lc)"
    "\<exists>d. lc_glossary_definition lc = Some d \<and> d \<noteq> []"
    "context_of cfg contract_asset_urn r =
      \<lparr>cb_asset_urn = contract_asset_urn, cb_glossary_definition = lc_glossary_definition lc,
       cb_owner = lc_owner lc, cb_lineage_urns = lc_lineage_urns lc, cb_context_documents = lc_documents lc,
       cb_lineage_current = lc_lineage_current lc, cb_source = ''DATAHUB_MCP'', cb_integration = mc_integration r\<rparr>"
    by (rule fetched_canonical [OF assms]) blast
  have schema: "jget (mc_context r) ''schema_fields'' = JList (lc_schema_fields lc)"
    by (simp add: lc(1) context_items_def jget_def)
  have complete: "context_complete (context_of cfg contract_asset_urn r) \<longleftrightarrow> lc_lineage_current lc"
    using lc(6) by (auto simp: context_complete_def lc(7))
  have rule: "cb_glossary_definition (context_of cfg contract_asset_urn r) = lc_glossary_definition lc"
    by (simp add: lc(7))
  show ?thesis
    unfolding context_accepted [OF assms(2) lc(1,2)] schema complete rule using lc(3-5) by blast
qed

section \<open>The report\<close>

text \<open>What a returned summary stands for.\<close>

lemma live_proof_backed:
  assumes "live_proof ip ipv6_loopback pt args skip_write hex_id w = (Inr summary, w')"
  obtains a r v where "new_mcp_adapter ip ipv6_loopback (proof_arguments args) = Inr a"
    "mcp_fetch_context a canonical_asset_urn w = (Inr r, v)" "ir_status (mc_integration r) = SUCCEEDED"
    "\<exists>found. validate_context pt r = Inr found"
    "skip_write \<or> (\<exists>urn. document_read_back a urn (report_title (live_case_id hex_id))
        (lib_dumps (ma_json a) (JDict live_report)) canonical_asset_urn w'
        \<and> jget summary ''writeback_document'' = JStr urn)"
proof -
  from assms obtain a r v found where run: "new_mcp_adapter ip ipv6_loopback (proof_arguments args) = Inr a"
    "mcp_fetch_context a canonical_asset_urn w = (Inr r, v)" "validate_context pt r = Inr found"
    and report: "skip_write \<or> (\<exists>writeback urn.
        write_evidence_report a canonical_asset_urn (live_case_id hex_id) live_report False v = (Inr writeback, w')
        \<and> validate_writeback writeback = Inr urn
        \<and> summary = found @ [(''writeback_document'', JStr urn),
            (''writeback_status'', JStr (integration_status_value (ir_status writeback))),
            (''context_status'', JStr ''SUCCEEDED'')])"
    unfolding live_proof_def by (auto elim!: bind_p_cases split: if_splits)
  have fresh: "jget (found @ (''writeback_document'', x) # rest) ''writeback_document'' = x" for x rest
    using run(3) by (auto simp: validate_context_def Let_def jget_def elim!: bind_res_InrE)
  have "skip_write \<or> (\<exists>urn. document_read_back a urn (report_title (live_case_id hex_id))
        (lib_dumps (ma_json a) (JDict live_report)) canonical_asset_urn w'
        \<and> jget summary ''writeback_document'' = JStr urn)"
    using report
  proof (elim disjE exE conjE)
    fix writeback urn
    assume saved: "write_evidence_report a canonical_asset_urn (live_case_id hex_id) live_report False v = (Inr writeback, w')"
      and valid: "validate_writeback writeback = Inr urn"
      and summary: "summary = found @ [(''writeback_document'', JStr urn),
            (''writeback_status'', JStr (integration_status_value (ir_status writeback))),
            (''context_status'', JStr ''SUCCEEDED'')]"
    have ok: "ir_status writeback = SUCCEEDED" "ir_resource_id writeback = Some urn"
      using valid by (auto simp: validate_writeback_def split: if_splits option.splits)
    show ?thesis
      using write_ok [OF saved ok(1)] ok(2) fresh summary by (metis option.inject)
  qed simp
  moreover have "ir_status (mc_integration r) = SUCCEEDED"
    using run(3) by (auto simp: validate_context_def Let_def elim!: bind_res_InrE)
  ultimately show thesis using run by (intro that) auto
qed

section \<open>The watch\<close>

definition watch_time_passes :: "('w \<Rightarrow> nat) \<Rightarrow> 'w proof_api \<Rightarrow> pyfloat \<Rightarrow> nat \<Rightarrow> bool" where
  "watch_time_passes ticks api deadline n \<longleftrightarrow>
     (\<forall>url w. ticks w \<le> ticks (snd (pa_get api url w)))
     \<and> (\<forall>w. ticks w \<le> ticks (snd (pa_now api w)))
     \<and> (\<forall>d w. ticks w < ticks (snd (pa_sleep api d w)))
     \<and> (\<forall>w. n \<le> ticks w \<longrightarrow> \<not> flt (fst (pa_now api w)) deadline)"

lemma read_watched_ticks:
  assumes "watch_time_passes ticks api deadline n"
  shows "ticks w \<le> ticks (snd (read_watched api pt api_url w))"
proof -
  have "keeps (\<lambda>s. ticks w \<le> ticks s) (pa_get api url)" for url
    using assms unfolding watch_time_passes_def keeps_def by (meson le_trans)
  then have "keeps (\<lambda>s. ticks w \<le> ticks s) (read_watched api pt api_url)"
    unfolding read_watched_def by (intro keeps_intros)
  then show ?thesis by (simp add: keeps_def)
qed

text \<open>One turn of the loop, from the last error and the world.\<close>

definition watch_turn ::
  "'w proof_api \<Rightarrow> proof_text \<Rightarrow> string \<Rightarrow> pyfloat \<Rightarrow> string \<times> 'w
    \<Rightarrow> ((exn + jdict) \<times> 'w) + string \<times> 'w" where
  "watch_turn api pt api_url deadline s =
     (case s of (last_error, w) \<Rightarrow>
        case pa_now api w of (now, w1) \<Rightarrow>
          if \<not> flt now deadline
          then Inl (Inl (proof_error (''MCL proof did not converge: '' @ last_error)), w1)
          else case read_watched api pt api_url w1 of
              (Inl e, w2) \<Rightarrow> Inl (Inl e, w2)
            | (Inr (Inl report), w2) \<Rightarrow> Inl (Inr report, w2)
            | (Inr (Inr seen), w2) \<Rightarrow>
                (case pa_sleep api (Fin 1) w2 of
                   (Inl e, w3) \<Rightarrow> Inl (Inl e, w3)
                 | (Inr _, w3) \<Rightarrow> Inr (seen, w3)))"

interpretation watching: waiting_loop "\<lambda>fuel (last_error, w). watch_loop fuel api pt api_url deadline last_error w"
  "watch_turn api pt api_url deadline"
  by unfold_locales (auto simp: watch_turn_def split: prod.split sum.split)

lemma watch_turn_time:
  assumes "watch_time_passes ticks api deadline n" "watch_turn api pt api_url deadline s = Inr s'"
  shows "ticks (snd s) < n \<and> ticks (snd s) < ticks (snd s')"
proof -
  from assms(2) obtain last_error w now w1 seen w2 u w3 where turn: "s = (last_error, w)" "pa_now api w = (now, w1)"
      "flt now deadline" "read_watched api pt api_url w1 = (Inr (Inr seen), w2)" "pa_sleep api (Fin 1) w2 = (Inr u, w3)"
      "s' = (seen, w3)"
    by (auto simp: watch_turn_def split: prod.splits sum.splits if_splits)
  have "ticks w1 \<le> ticks w2"
    using read_watched_ticks [OF assms(1), of w1 pt api_url] turn(4) by simp
  moreover have "ticks w \<le> ticks w1" "ticks w2 < ticks w3" "\<not> n \<le> ticks w"
    using assms(1) turn unfolding watch_time_passes_def by (metis snd_conv, metis snd_conv, metis fst_conv)
  ultimately show ?thesis by (simp add: turn(1,6))
qed

lemma watch_poll_ends:
  assumes "watch_time_passes ticks api (fadd (fst (pa_now api w)) timeout) n"
  shows "\<exists>r. \<forall>fuel \<ge> Suc n. watch_poll fuel api pt api_url timeout w = Some r"
proof -
  obtain start w1 where start: "pa_now api w = (start, w1)" by fastforce
  with assms have time: "watch_time_passes ticks api (fadd start timeout) n" by simp
  have "\<exists>r. \<forall>fuel \<ge> Suc n. (case (''no case returned'', w1) of (last_error, w) \<Rightarrow>
      watch_loop fuel api pt api_url (fadd start timeout) last_error w) = Some r"
    by (rule watching.ends_with_fuel [where ticks = "\<lambda>s. ticks (snd s)"]) (rule watch_turn_time [OF time])
  then show ?thesis
    using start by (simp add: watch_poll_def del: watch_loop.simps)
qed

text \<open>A report rests on an answer with exactly one such case.\<close>

lemma watch_report:
  assumes "watch_poll fuel api pt api_url timeout w = Some (Inr report, w')"
  shows "\<exists>body payload. lib_loads (pt_lib pt) body = Some payload \<and> validate_cases pt payload = Inr report"
proof -
  obtain deadline w1 where "watch_loop fuel api pt api_url deadline ''no case returned'' w1 = Some (Inr report, w')"
    using assms by (auto simp: watch_poll_def split: prod.splits)
  then have "(case (''no case returned'', w1) of (last_error, w) \<Rightarrow>
      watch_loop fuel api pt api_url deadline last_error w) = Some (Inr report, w')" by simp
  from watching.result_of_turn [OF this] obtain s where
      "watch_turn api pt api_url deadline s = Inl (Inr report, w')" ..
  then obtain v u where "read_watched api pt api_url v = (Inr (Inl report), u)"
    by (auto simp: watch_turn_def split: prod.splits sum.splits if_splits)
  then show ?thesis
    by (auto simp: read_watched_def parsed_body_def elim!: catch_p_cases bind_p_cases
        split: if_splits option.splits) blast
qed

lemma watched_case:
  assumes "validate_cases pt payload = Inr report"
  obtains all_cases c change where "payload = JList all_cases" "watched_cases all_cases = [(c, change)]"
    "jget c ''state'' = JStr ''CONTAINED''" "jget c ''incident_status'' = JStr ''ACTIVE''"
    "json_at (JDict c) [''incident_integration'', ''details'', ''readback_verified''] = JBool True"
  using assms
  by (auto simp: validate_cases_def watched_incident_def elim!: bind_res_InrE
      split: json.splits list.splits if_splits)

end
