(* ===== verification/Live_Examples.thy ===== *)
theory Live_Examples
  imports Mcp_Examples Connected_Examples Live_Safety
begin

text \<open>A catalog whose schema has drifted and whose glossary names both columns.\<close>

definition live_description :: string where
  "live_description = ''Use net_amount, not gross_amount.''"

definition live_entity :: jdict where
  "live_entity = dict_set canonical_entity ''glossaryTerms'' (JDict [(''terms'', JList [JDict [(''term'', JDict
     [(''urn'', JStr canonical_term_urn), (''properties'', JDict [(''description'', JStr live_description)])])]])])"

definition live_fields :: "string list" where
  "live_fields = common_fields @ [''gross_amount'', ''net_amount'']"

definition live_tools :: "string \<Rightarrow> jdict \<Rightarrow> json" where
  "live_tools name arguments =
     (if name = ''get_entities'' then structured live_entity
      else if name = ''list_schema_fields''
      then structured [(''urn'', JStr contract_asset_urn),
             (''fields'', JList (map (\<lambda>f. JDict [(''fieldPath'', JStr f)]) live_fields)),
             (''returned'', JInt 7), (''totalFields'', JInt 7), (''remainingCount'', JInt 0)]
      else canonical_tools name arguments)"

lemma live_run:
  "case mcp_fetch_context (example_mcp live_tools) contract_asset_urn 0 of
     (Inr r, n) \<Rightarrow> ir_status (mc_integration r) = SUCCEEDED
       \<and> jget (mc_context r) ''schema_fields'' = JList (map (\<lambda>f. JDict [(''fieldPath'', JStr f)]) live_fields)
       \<and> context_complete (context_of example_settings contract_asset_urn r)
       \<and> cb_glossary_definition (context_of example_settings contract_asset_urn r) = Some live_description
   | _ \<Rightarrow> False"
  by code_simp

lemma live_known:
  "known_schema (JList (map (\<lambda>f. JDict [(''fieldPath'', JStr f)]) live_fields))"
  "names_both_columns (Some live_description)"
  by code_simp+

end
