(* ===== verification/Memory_Index.thy ===== *)
theory Memory_Index
  imports Checkout Json_Ops Text_Lines Sha256 "HOL-Library.AList"
begin

text \<open>
  \<^verbatim>\<open>scripts/repo_memory.py\<close>: the notes of a repository and the index of their contents. The files, git and the
  math library are parameters; the index is the table \<^verbatim>\<open>chunks\<close>, whose rows are those of every repository
  that shares the cache.
\<close>

section \<open>Refused content\<close>

definition run_after :: "string \<Rightarrow> (char \<Rightarrow> bool) \<Rightarrow> nat \<Rightarrow> string \<Rightarrow> bool" where
  "run_after start cls n s \<longleftrightarrow> prefix start s \<and> n \<le> length (takeWhile cls (drop (length start) s))"

definition secret_here :: "string \<Rightarrow> bool" where
  "secret_here s \<longleftrightarrow>
     run_after ''sk-'' (\<lambda>c. is_alpha c \<or> is_digit c \<or> c \<in> set ''_-'') 20 s
     \<or> list_ex (\<lambda>k. run_after (''gh'' @ [k] @ ''_'') (\<lambda>c. is_alpha c \<or> is_digit c) 20 s) ''opsu''
     \<or> run_after ''AKIA'' (\<lambda>c. is_upper c \<or> is_digit c) 16 s
     \<or> list_ex (\<lambda>k. prefix (''-----BEGIN '' @ k @ ''PRIVATE KEY-----'') s) ['''', ''RSA '', ''EC '', ''OPENSSH '']"

definition has_secret :: "string \<Rightarrow> bool" where
  "has_secret s \<longleftrightarrow> list_ex secret_here (suffixes s)"

section \<open>Vectors\<close>

record float_math =
  fm_log :: "nat \<Rightarrow> pyfloat"
  fm_sqrt :: "pyfloat \<Rightarrow> pyfloat"
  fm_sum :: "pyfloat list \<Rightarrow> pyfloat"

definition vector_dimensions :: nat where
  "vector_dimensions = 384"

definition token_char :: "char \<Rightarrow> bool" where
  "token_char c \<longleftrightarrow> is_word c \<or> c = CHR ''.'' \<or> c = CHR ''-''"

definition raw_tokens :: "string \<Rightarrow> string list" where
  "raw_tokens s =
     filter (\<lambda>w. w \<noteq> []) (split_on CHR '' '' (map (\<lambda>c. if token_char c then c else CHR '' '') (casefold s)))"

definition tokenize :: "string \<Rightarrow> string list" where
  "tokenize s =
     (let ws = raw_tokens s in ws @ map (\<lambda>(left, right). left @ ''::'' @ right) (zip ws (tl ws)))"

definition counter :: "'a list \<Rightarrow> ('a \<times> nat) list" where
  "counter xs = map (\<lambda>x. (x, count_list xs x)) (first_occurrences xs)"

text \<open>The position of a token: the first four bytes of its digest, and its sign: a bit of the fifth.\<close>

definition token_bucket :: "string \<Rightarrow> nat \<times> pyfloat" where
  "token_bucket token =
     (let ws = foldl sha_block initial_hash (chunks16 (words_of (pad (bytes_of token))))
      in (unat (ws ! 0) mod vector_dimensions, if bit (ws ! 1) 24 then Fin 1 else Fin (- 1)))"

definition add_token :: "float_math \<Rightarrow> pyfloat list \<Rightarrow> string \<times> nat \<Rightarrow> pyfloat list" where
  "add_token fm vector item =
     (case item of (token, n) \<Rightarrow> case token_bucket token of (index, sign) \<Rightarrow>
        vector[index := fadd (vector ! index) (fmul sign (fadd (Fin 1) (fm_log fm n)))])"

definition embed :: "float_math \<Rightarrow> string \<Rightarrow> pyfloat list" where
  "embed fm content =
     (let vector = foldl (add_token fm) (replicate vector_dimensions (Fin 0)) (counter (tokenize content));
          length_of = fm_sqrt fm (fm_sum fm (map (\<lambda>x. fmul x x) vector));
          magnitude = (if feq length_of (Fin 0) then Fin 1 else length_of)
      in map (\<lambda>x. fdiv x magnitude) vector)"

definition cosine :: "float_math \<Rightarrow> pyfloat list \<Rightarrow> pyfloat list \<Rightarrow> exn + pyfloat" where
  "cosine fm left right =
     (if length right < length left then Inl (ValueError ''zip() argument 2 is shorter than argument 1'')
      else if length left < length right then Inl (ValueError ''zip() argument 2 is longer than argument 1'')
      else Inr (fm_sum fm (map (\<lambda>(a, b). fmul a b) (zip left right))))"

section \<open>Notes\<close>

type_synonym note_metadata = "(string \<times> string) list"

fun cut_at :: "string \<Rightarrow> string \<Rightarrow> (string \<times> string) option" where
  "cut_at pat [] = (if pat = [] then Some ([], []) else None)"
| "cut_at pat (c # cs) =
     (if prefix pat (c # cs) then Some ([], drop (length pat) (c # cs))
      else map_option (\<lambda>(front, rest). (c # front, rest)) (cut_at pat cs))"

definition fence :: string where
  "fence = ''---'' @ newline"

definition metadata_line :: "note_metadata \<Rightarrow> string \<Rightarrow> note_metadata" where
  "metadata_line md line =
     (case partition CHR '':'' line of (key, found, rest) \<Rightarrow>
        if found then AList.update (strip key) (strip_by (\<lambda>c. c = CHR 0x22) (strip rest)) md else md)"

definition front_matter :: "string \<Rightarrow> exn + note_metadata" where
  "front_matter content =
     (if prefix fence content
      then case cut_at fence (drop (length fence) content) of
             None \<Rightarrow> Inl (ValueError ''not enough values to unpack (expected 3, got 2)'')
           | Some (front, _) \<Rightarrow> Inr (foldl metadata_line [] (splitlines front))
      else Inr [])"

definition path_name :: "string \<Rightarrow> string" where
  "path_name path = (if path_parts path = [] then [] else last (path_parts path))"

definition path_stem :: "string \<Rightarrow> string" where
  "path_stem path =
     (case rpartition CHR ''.'' (path_name path) of (front, found, suffix_part) \<Rightarrow>
        if found \<and> front \<noteq> [] \<and> suffix_part \<noteq> [] then front else path_name path)"

fun title_case :: "bool \<Rightarrow> string \<Rightarrow> string" where
  "title_case inside_word [] = []"
| "title_case inside_word (c # cs) =
     (if inside_word then lower_char c else upper_char c) # title_case (is_alpha c) cs"

definition note_heading :: "string \<Rightarrow> string \<Rightarrow> string" where
  "note_heading content source =
     (case List.find (prefix ''# '') (splitlines content) of
        Some line \<Rightarrow> strip (remove_prefix ''# '' line)
      | None \<Rightarrow> title_case False (map (\<lambda>c. if c = CHR ''-'' then CHR '' '' else c) (path_stem source)))"

definition default_entry :: "string \<Rightarrow> string \<Rightarrow> note_metadata \<Rightarrow> note_metadata" where
  "default_entry k v md = (if map_of md k = None then AList.update k v md else md)"

definition parse_note :: "string \<Rightarrow> string \<Rightarrow> exn + note_metadata" where
  "parse_note content source =
     bind_res (front_matter content) (\<lambda>md.
       Inr (default_entry ''related_files'' [] (default_entry ''tags'' []
         (default_entry ''status'' ''active'' (default_entry ''title'' (note_heading content source) md)))))"

text \<open>\<^verbatim>\<open>metadata[key]\<close> for one of the four keys every parsed note has.\<close>

definition meta :: "note_metadata \<Rightarrow> string \<Rightarrow> string" where
  "meta md k = (case map_of md k of Some v \<Rightarrow> v | None \<Rightarrow> [])"

type_synonym memory_note = "string \<times> string \<times> note_metadata"

record 'w memory_env =
  me_name :: string
  me_root :: string
  me_remote :: "('w, exn, string) prog"
  me_note_paths :: "('w, exn, string list) prog"
  me_read :: "string \<Rightarrow> ('w, exn, string) prog"
  me_exists :: "string \<Rightarrow> ('w, exn, bool) prog"
  me_write :: "string \<Rightarrow> string \<Rightarrow> ('w, exn, unit) prog"
  me_read_manifest :: "string \<Rightarrow> ('w, exn, string option) prog"
  me_write_manifest :: "string \<Rightarrow> string \<Rightarrow> ('w, exn, unit) prog"
  me_has_database :: "('w, exn, bool) prog"
  me_today :: "('w, exn, string) prog"
  me_dumps_compact :: "json \<Rightarrow> string"
  me_dumps_sorted :: "json \<Rightarrow> string"
  me_loads :: "string \<Rightarrow> json option"
  me_math :: float_math

definition repo_namespace :: "'w memory_env \<Rightarrow> ('w, exn, string) prog" where
  "repo_namespace env =
     bind_p (me_remote env) (\<lambda>out.
       let remote = strip out;
           identity = me_name env @ '':'' @ (if remote = [] then me_root env else remote);
           readable = take 42 (strip_by (\<lambda>c. c = CHR ''_'')
             (collapse_runs (\<lambda>c. is_lower c \<or> is_digit c) CHR ''_'' (casefold identity)))
       in return_p (readable @ ''_'' @ take 10 (sha256_hex identity)))"

text \<open>The paths are distinct, so the dictionary is the list of its items.\<close>

fun read_notes :: "'w memory_env \<Rightarrow> string list \<Rightarrow> ('w, exn, memory_note list) prog" where
  "read_notes env [] = return_p []"
| "read_notes env (path # paths) =
     (if prefix ''_template'' (path_name path) then read_notes env paths
      else bind_p (me_read env path) (\<lambda>content.
        if has_secret content then raise_p (ValueError (''Secret-like content refused: '' @ path))
        else bind_p (result_p (parse_note content path)) (\<lambda>md.
             bind_p (read_notes env paths) (\<lambda>found. return_p ((path, content, md) # found)))))"

definition all_notes :: "'w memory_env \<Rightarrow> ('w, exn, memory_note list) prog" where
  "all_notes env = bind_p (me_note_paths env) (\<lambda>paths. read_notes env (sort_key path_parts paths))"

section \<open>The index\<close>

record chunk_row =
  ch_namespace :: string
  ch_source :: string
  ch_title :: string
  ch_status :: string
  ch_tags :: string
  ch_related_files :: string
  ch_content_hash :: string
  ch_excerpt :: string
  ch_vector_json :: string

record 'w memory_state =
  mem_world :: 'w
  mem_chunks :: "chunk_row list"

definition in_repo :: "('w, 'e, 'a) prog \<Rightarrow> ('w memory_state, 'e, 'a) prog" where
  "in_repo m s = (case m (mem_world s) of (r, w) \<Rightarrow> (r, s\<lparr>mem_world := w\<rparr>))"

definition note_chunk :: "'w memory_env \<Rightarrow> string \<Rightarrow> memory_note \<Rightarrow> chunk_row" where
  "note_chunk env ns note =
     (case note of (source, content, md) \<Rightarrow>
       \<lparr>ch_namespace = ns, ch_source = source, ch_title = meta md ''title'', ch_status = meta md ''status'',
        ch_tags = meta md ''tags'', ch_related_files = meta md ''related_files'',
        ch_content_hash = sha256_hex content, ch_excerpt = take 600 (join_with '' '' (words content)),
        ch_vector_json = me_dumps_compact env (JList (map JFloat (embed (me_math env) content)))\<rparr>)"

definition chunk_key :: "chunk_row \<Rightarrow> string \<times> string" where
  "chunk_key c = (ch_namespace c, ch_source c)"

text \<open>\<^verbatim>\<open>INSERT ... ON CONFLICT(namespace, source) DO UPDATE\<close>\<close>

definition upsert_chunk :: "chunk_row \<Rightarrow> chunk_row list \<Rightarrow> chunk_row list" where
  "upsert_chunk c rows =
     (if chunk_key c \<in> chunk_key ` set rows then map (\<lambda>r. if chunk_key r = chunk_key c then c else r) rows
      else rows @ [c])"

definition known_hashes :: "string \<Rightarrow> chunk_row list \<Rightarrow> (string \<times> string) list" where
  "known_hashes ns rows =
     map (\<lambda>c. (ch_source c, ch_content_hash c)) (filter (\<lambda>c. ch_namespace c = ns) rows)"

record sync_counts =
  sc_inserted :: nat
  sc_updated :: nat
  sc_unchanged :: nat

definition sync_note ::
  "'w memory_env \<Rightarrow> string \<Rightarrow> (string \<times> string) list \<Rightarrow> chunk_row list \<times> sync_counts \<Rightarrow> memory_note
    \<Rightarrow> chunk_row list \<times> sync_counts" where
  "sync_note env ns existing acc note =
     (case (acc, note) of ((rows, n), (source, content, md)) \<Rightarrow>
        if map_of existing source = Some (sha256_hex content)
        then (rows, n\<lparr>sc_unchanged := Suc (sc_unchanged n)\<rparr>)
        else (upsert_chunk (note_chunk env ns note) rows,
              if map_of existing source = None then n\<lparr>sc_inserted := Suc (sc_inserted n)\<rparr>
              else n\<lparr>sc_updated := Suc (sc_updated n)\<rparr>))"

definition note_hashes :: "memory_note list \<Rightarrow> (string \<times> string) list" where
  "note_hashes found = map (\<lambda>(source, content, _). (source, sha256_hex content)) found"

definition manifest_text :: "'w memory_env \<Rightarrow> string \<Rightarrow> (string \<times> string) list \<Rightarrow> string" where
  "manifest_text env ns hashes =
     me_dumps_sorted env (JDict [(''namespace'', JStr ns), (''sources'', JDict (map (\<lambda>(s, h). (s, JStr h)) hashes))])
       @ newline"

record sync_report =
  sr_namespace :: string
  sr_scanned :: nat
  sr_counts :: sync_counts
  sr_deleted :: nat

text \<open>The table after the sync of the notes found, before it is committed.\<close>

definition synced ::
  "'w memory_env \<Rightarrow> string \<Rightarrow> chunk_row list \<Rightarrow> memory_note list \<Rightarrow> chunk_row list \<times> sync_report" where
  "synced env ns start found =
     (let existing = known_hashes ns start;
          (rows, counts) = foldl (sync_note env ns existing)
            (start, \<lparr>sc_inserted = 0, sc_updated = 0, sc_unchanged = 0\<rparr>) found;
          deleted = filter (\<lambda>s. s \<notin> fst ` set found) (first_occurrences (map fst existing))
      in (filter (\<lambda>c. \<not> (ch_namespace c = ns \<and> ch_source c \<in> set deleted)) rows,
          \<lparr>sr_namespace = ns, sr_scanned = length found, sr_counts = counts, sr_deleted = length deleted\<rparr>))"

text \<open>Nothing is committed when a note cannot be read; the manifest is written after the commit.\<close>

definition sync :: "'w memory_env \<Rightarrow> bool \<Rightarrow> ('w memory_state, exn, sync_report) prog" where
  "sync env rebuild =
     bind_p (in_repo (repo_namespace env)) (\<lambda>ns.
     bind_p (reads_p mem_chunks) (\<lambda>rows.
     let start = (if rebuild then filter (\<lambda>c. ch_namespace c \<noteq> ns) rows else rows) in
     bind_p (in_repo (all_notes env)) (\<lambda>found.
     case synced env ns start found of (committed, report) \<Rightarrow>
       then_p (update_p (mem_chunks_update (\<lambda>_. committed)))
      (then_p (in_repo (me_write_manifest env ns (manifest_text env ns (note_hashes found))))
        (return_p report)))))"

section \<open>Search\<close>

type_synonym scored_row = "pyfloat \<times> chunk_row"

definition row_tuple :: "chunk_row \<Rightarrow> string list" where
  "row_tuple c =
     [ch_source c, ch_title c, ch_status c, ch_tags c, ch_related_files c, ch_excerpt c, ch_vector_json c]"

text \<open>The reverse order of the tuples of a score and a row.\<close>

definition scored_before :: "scored_row \<Rightarrow> scored_row \<Rightarrow> bool" where
  "scored_before a b \<longleftrightarrow>
     flt (fst b) (fst a) \<or> feq (fst a) (fst b) \<and> row_tuple (snd b) \<le> row_tuple (snd a)"

fun insert_ranked :: "scored_row \<Rightarrow> scored_row list \<Rightarrow> scored_row list" where
  "insert_ranked x [] = [x]"
| "insert_ranked x (y # ys) = (if scored_before x y then x # y # ys else y # insert_ranked x ys)"

definition ranked :: "scored_row list \<Rightarrow> scored_row list" where
  "ranked xs = foldr insert_ranked xs []"

text \<open>\<^verbatim>\<open>xs[:n]\<close>\<close>

definition py_take :: "int \<Rightarrow> 'a list \<Rightarrow> 'a list" where
  "py_take n xs = take (nat (if n < 0 then n + int (length xs) else n)) xs"

definition stored_vector :: "'w memory_env \<Rightarrow> string \<Rightarrow> exn + pyfloat list" where
  "stored_vector env content =
     (case me_loads env content of
        None \<Rightarrow> Inl (JSONDecodeError ''vector_json'')
      | Some (JList xs) \<Rightarrow> map_res to_float xs
      | Some _ \<Rightarrow> Inl (TypeErr ''argument 2 to zip() must support iteration''))"

definition lexical_matches :: "string list \<Rightarrow> chunk_row \<Rightarrow> nat" where
  "lexical_matches terms c =
     length (filter (\<lambda>t. t \<in> set terms)
       (first_occurrences (tokenize (ch_title c @ '' '' @ ch_tags c @ '' '' @ ch_excerpt c))))"

definition match_score ::
  "'w memory_env \<Rightarrow> pyfloat list \<Rightarrow> string list \<Rightarrow> chunk_row \<Rightarrow> exn + scored_row" where
  "match_score env query_vector terms c =
     bind_res (stored_vector env (ch_vector_json c)) (\<lambda>vector.
     bind_res (cosine (me_math env) query_vector vector) (\<lambda>score.
       let bonus = fmul (float_of_int (int (lexical_matches terms c))) (dbl (4 / 100))
       in Inr (fadd score (if flt (dbl (24 / 100)) bonus then dbl (24 / 100) else bonus), c)))"

definition searchable :: "string \<Rightarrow> chunk_row list \<Rightarrow> chunk_row list" where
  "searchable ns rows =
     filter (\<lambda>c. ch_namespace c = ns \<and> ch_status c \<notin> {''deprecated'', ''superseded''}) rows"

definition search :: "'w memory_env \<Rightarrow> string \<Rightarrow> int \<Rightarrow> ('w memory_state, exn, scored_row list) prog" where
  "search env query top_k =
     then_p (sync env False)
     (bind_p (in_repo (repo_namespace env)) (\<lambda>ns.
      bind_p (reads_p mem_chunks) (\<lambda>rows.
      bind_p (result_p (map_res (match_score env (embed (me_math env) query) (first_occurrences (tokenize query)))
          (searchable ns rows))) (\<lambda>matches.
        return_p (py_take top_k (ranked matches))))))"

section \<open>Adding a note\<close>

definition required_categories :: "string list" where
  "required_categories =
     [''architecture'', ''decisions'', ''bugfixes'', ''gotchas'', ''file-map'', ''api-notes'']"

record note_request =
  nr_category :: string
  nr_slug :: string
  nr_title :: string
  nr_summary :: string
  nr_tags :: string
  nr_related_files :: string

definition note_path :: "note_request \<Rightarrow> string" where
  "note_path r =
     ''memory/'' @ nr_category r @ ''/''
       @ strip_by (\<lambda>c. c = CHR ''-'')
           (collapse_runs (\<lambda>c. is_lower c \<or> is_digit c \<or> c = CHR ''-'') CHR ''-'' (casefold (nr_slug r)))
       @ ''.md''"

definition note_front :: "note_request \<Rightarrow> string \<Rightarrow> string list" where
  "note_front r today =
     [''title: '' @ [CHR 0x22] @ nr_title r @ [CHR 0x22], ''date: '' @ today, ''status: active'',
      ''tags: '' @ nr_tags r, ''related_files: '' @ nr_related_files r]"

definition note_body :: "note_request \<Rightarrow> string list" where
  "note_body r =
     ['''', ''# '' @ nr_title r, '''', ''## Summary'', '''', nr_summary r, '''', ''## Details'', '''',
      ''Add durable context here. Do not include secrets or raw logs.'']"

definition note_content :: "note_request \<Rightarrow> string \<Rightarrow> string" where
  "note_content r today =
     fence @ concat (map (\<lambda>l. l @ newline) (note_front r today)) @ fence
       @ concat (map (\<lambda>l. l @ newline) (note_body r))"

definition add_note :: "'w memory_env \<Rightarrow> note_request \<Rightarrow> ('w, exn, string) prog" where
  "add_note env r =
     (if nr_category r \<notin> set required_categories
      then raise_p (ValueError (''Unknown category: '' @ nr_category r))
      else bind_p (me_exists env (note_path r)) (\<lambda>there.
        if there then raise_p (ValueError (''Memory note already exists: '' @ note_path r))
        else bind_p (me_today env) (\<lambda>today.
          if has_secret (note_content r today) then raise_p (ValueError ''Secret-like content refused'')
          else then_p (me_write env (note_path r) (note_content r today)) (return_p (note_path r)))))"

section \<open>The health check\<close>

definition missing_paths :: "'w memory_env \<Rightarrow> string list \<Rightarrow> ('w, exn, string list) prog" where
  "missing_paths env paths =
     foldr (\<lambda>p rest. bind_p (me_exists env p) (\<lambda>there.
        bind_p rest (\<lambda>missing. return_p (if there then missing else p # missing)))) paths (return_p [])"

definition required_problems :: "'w memory_env \<Rightarrow> ('w, exn, string list) prog" where
  "required_problems env =
     bind_p (missing_paths env (''memory/README.md'' # map (\<lambda>c. ''memory/'' @ c) required_categories))
       (\<lambda>missing. return_p (map (\<lambda>p. ''missing '' @ p) missing))"

definition agents_problems :: "'w memory_env \<Rightarrow> ('w, exn, string list) prog" where
  "agents_problems env =
     bind_p (me_exists env ''AGENTS.md'') (\<lambda>there.
     bind_p (if there then bind_p (me_read env ''AGENTS.md'')
               (\<lambda>content. return_p (contains ''<!-- repo-semantic-memory:start -->'' content))
             else return_p False) (\<lambda>ok.
       return_p (if ok then [] else [''AGENTS.md memory instructions missing''])))"

definition indexed_sources :: "'w memory_env \<Rightarrow> string \<Rightarrow> exn + json" where
  "indexed_sources env content =
     (case me_loads env content of
        None \<Rightarrow> Inl (JSONDecodeError ''manifest'')
      | Some (JDict d) \<Rightarrow> Inr (case map_of d ''sources'' of Some v \<Rightarrow> v | None \<Rightarrow> JDict [])
      | Some _ \<Rightarrow> Inl (AttributeErr ''get''))"

definition manifest_problems :: "'w memory_env \<Rightarrow> string \<Rightarrow> ('w, exn, string list) prog" where
  "manifest_problems env ns =
     bind_p (me_read_manifest env ns) (\<lambda>found.
     case found of
       None \<Rightarrow> return_p [''index manifest missing'']
     | Some content \<Rightarrow>
         bind_p (result_p (indexed_sources env content)) (\<lambda>sources.
         bind_p (all_notes env) (\<lambda>found_notes.
           return_p (if py_eq sources (JDict (map (\<lambda>(s, h). (s, JStr h)) (note_hashes found_notes))) then []
             else [''local index manifest is stale; run memory-sync'']))))"

definition related_paths :: "note_metadata \<Rightarrow> string list" where
  "related_paths md =
     filter (\<lambda>p. p \<noteq> []) (map strip (split_on CHR '','' (meta md ''related_files'')))"

definition stale_notes :: "'w memory_env \<Rightarrow> memory_note list \<Rightarrow> ('w, exn, string list) prog" where
  "stale_notes env found =
     foldr (\<lambda>(source, _, md) rest. bind_p (missing_paths env (related_paths md)) (\<lambda>missing.
        bind_p rest (\<lambda>stale. return_p
          (if missing = [] then stale
           else (source @ '': missing related files '' @ join_with '', '' missing) # stale))))
       found (return_p [])"

text \<open>The exit code with the stale notes and the problems it prints.\<close>

definition doctor :: "'w memory_env \<Rightarrow> ('w, exn, int \<times> string list \<times> string list) prog" where
  "doctor env =
     bind_p (repo_namespace env) (\<lambda>ns.
     bind_p (required_problems env) (\<lambda>required.
     bind_p (agents_problems env) (\<lambda>agents.
     bind_p (me_has_database env) (\<lambda>has_database.
     bind_p (manifest_problems env ns) (\<lambda>index.
     bind_p (all_notes env) (\<lambda>found.
     bind_p (stale_notes env found) (\<lambda>stale.
     bind_p (all_notes env) (\<lambda>_.
     let problems = required @ agents
           @ (if has_database then [] else [''local SQLite vector cache missing'']) @ index
     in return_p (if problems = [] then 0 else 1, stale, problems)))))))))"

end
