(* ===== verification/Memory_Safety.thy ===== *)
theory Memory_Safety
  imports Memory_Index
begin

text \<open>What a sync makes of the index, and that an added note is read back as it was given.\<close>

section \<open>The table\<close>

definition row_at :: "chunk_row list \<Rightarrow> string \<times> string \<Rightarrow> chunk_row option" where
  "row_at rows k = map_of (map (\<lambda>c. (chunk_key c, c)) rows) k"

definition keyed :: "chunk_row list \<Rightarrow> bool" where
  "keyed rows \<longleftrightarrow> distinct (map chunk_key rows)"

lemma row_at_simps [simp]:
  "row_at [] k = None" "row_at (c # rows) k = (if k = chunk_key c then Some c else row_at rows k)"
  by (auto simp: row_at_def)

lemma row_at_append: "row_at (xs @ ys) k = (case row_at xs k of None \<Rightarrow> row_at ys k | Some c \<Rightarrow> Some c)"
  by (induction xs) auto

lemma row_at_None: "row_at rows k = None \<longleftrightarrow> k \<notin> chunk_key ` set rows"
  by (induction rows) auto

lemma row_at_Some: "keyed rows \<Longrightarrow> row_at rows k = Some c \<longleftrightarrow> c \<in> set rows \<and> chunk_key c = k"
  by (induction rows) (auto simp: keyed_def row_at_None [symmetric] image_iff)

lemma row_at_filter: "row_at (filter (\<lambda>c. P (chunk_key c)) rows) k = (if P k then row_at rows k else None)"
  by (induction rows) auto

lemma row_at_replaced:
  "row_at (map (\<lambda>r. if chunk_key r = chunk_key c then c else r) rows) k
     = (if k = chunk_key c \<and> k \<in> chunk_key ` set rows then Some c else row_at rows k)"
  by (induction rows) auto

lemma row_at_upsert: "row_at (upsert_chunk c rows) k = (if k = chunk_key c then Some c else row_at rows k)"
proof (cases "chunk_key c \<in> chunk_key ` set rows")
  case False
  then have "row_at rows (chunk_key c) = None" by (simp add: row_at_None)
  with False show ?thesis
    by (auto simp: upsert_chunk_def row_at_append split: option.split)
qed (simp add: upsert_chunk_def row_at_replaced)

lemma keys_replaced: "map chunk_key (map (\<lambda>r. if chunk_key r = chunk_key c then c else r) rows) = map chunk_key rows"
  by (induction rows) auto

lemma keyed_upsert: "keyed rows \<Longrightarrow> keyed (upsert_chunk c rows)"
  unfolding keyed_def upsert_chunk_def by (cases "chunk_key c \<in> chunk_key ` set rows") (simp_all add: keys_replaced del: map_map)

lemma keyed_filter: "keyed rows \<Longrightarrow> keyed (filter P rows)"
  by (simp add: keyed_def distinct_map_filter)

lemma others_upsert:
  "ch_namespace c = ns \<Longrightarrow>
     filter (\<lambda>r. ch_namespace r \<noteq> ns) (upsert_chunk c rows) = filter (\<lambda>r. ch_namespace r \<noteq> ns) rows"
proof -
  assume ns: "ch_namespace c = ns"
  have "filter (\<lambda>r. ch_namespace r \<noteq> ns) (map (\<lambda>r. if chunk_key r = chunk_key c then c else r) rows)
      = filter (\<lambda>r. ch_namespace r \<noteq> ns) rows"
    using ns by (induction rows) (auto simp: chunk_key_def)
  then show ?thesis using ns by (simp add: upsert_chunk_def)
qed

lemma known_hashes_at: "map_of (known_hashes ns rows) s = map_option ch_content_hash (row_at rows (ns, s))"
  unfolding known_hashes_def by (induction rows) (auto simp: chunk_key_def)

lemma note_chunk_fields [simp]:
  "ch_namespace (note_chunk env ns (s, t, md)) = ns" "chunk_key (note_chunk env ns (s, t, md)) = (ns, s)"
  "ch_content_hash (note_chunk env ns (s, t, md)) = sha256_hex t" "ch_source (note_chunk env ns (s, t, md)) = s"
  by (simp_all add: note_chunk_def chunk_key_def)

section \<open>One sync\<close>

definition counted :: "sync_counts \<Rightarrow> nat" where
  "counted n = sc_inserted n + sc_updated n + sc_unchanged n"

lemma sync_fold:
  "keyed rows \<Longrightarrow> foldl (sync_note env ns existing) (rows, n) found = (rows', n') \<Longrightarrow>
     keyed rows' \<and> filter (\<lambda>c. ch_namespace c \<noteq> ns) rows' = filter (\<lambda>c. ch_namespace c \<noteq> ns) rows
     \<and> counted n' = counted n + length found"
proof (induction found arbitrary: rows n)
  case (Cons x found)
  obtain s t md where item: "x = (s, t, md)" by (metis prod_cases3)
  obtain rows1 n1 where step: "sync_note env ns existing (rows, n) x = (rows1, n1)" by fastforce
  have one: "keyed rows1" "filter (\<lambda>c. ch_namespace c \<noteq> ns) rows1 = filter (\<lambda>c. ch_namespace c \<noteq> ns) rows"
      "counted n1 = Suc (counted n)"
    using step Cons.prems(1) others_upsert keyed_upsert
    by (auto simp: sync_note_def item counted_def split: if_splits)
  have "keyed rows' \<and> filter (\<lambda>c. ch_namespace c \<noteq> ns) rows' = filter (\<lambda>c. ch_namespace c \<noteq> ns) rows1
     \<and> counted n' = counted n1 + length found"
    by (rule Cons.IH [OF one(1)]) (use Cons.prems(2) step in simp)
  with one show ?case by simp
qed simp

text \<open>The row of a note after the fold.\<close>

definition note_row ::
  "'w memory_env \<Rightarrow> string \<Rightarrow> chunk_row list \<Rightarrow> memory_note \<Rightarrow> chunk_row option" where
  "note_row env ns start note =
     (case note of (s, t, md) \<Rightarrow>
        if map_of (known_hashes ns start) s = Some (sha256_hex t) then row_at start (ns, s)
        else Some (note_chunk env ns note))"

lemma sync_fold_row:
  assumes "foldl (sync_note env ns (known_hashes ns start)) (rows, n) found = (rows', n')"
    "distinct (map fst found)" "\<forall>note \<in> set found. row_at rows (ns, fst note) = row_at start (ns, fst note)"
  shows "row_at rows' k =
    (if fst k = ns then case map_of found (snd k) of
        Some (t, md) \<Rightarrow> note_row env ns start (snd k, t, md) | None \<Rightarrow> row_at rows k
     else row_at rows k)"
  using assms
proof (induction found arbitrary: rows n)
  case (Cons x found)
  obtain s t md where item: "x = (s, t, md)" by (metis prod_cases3)
  obtain rows1 n1 where step: "sync_note env ns (known_hashes ns start) (rows, n) x = (rows1, n1)" by fastforce
  have one: "row_at rows1 k' = (if k' = (ns, s) then note_row env ns start x else row_at rows k')" for k'
    using step Cons.prems(3) by (auto simp: sync_note_def item note_row_def row_at_upsert split: if_splits)
  have "row_at rows' k =
    (if fst k = ns then case map_of found (snd k) of
        Some (t, md) \<Rightarrow> note_row env ns start (snd k, t, md) | None \<Rightarrow> row_at rows1 k
     else row_at rows1 k)"
  proof (rule Cons.IH)
    show "foldl (sync_note env ns (known_hashes ns start)) (rows1, n1) found = (rows', n')"
      using Cons.prems(1) step by simp
    show "\<forall>note \<in> set found. row_at rows1 (ns, fst note) = row_at start (ns, fst note)"
      using Cons.prems(2,3) by (auto simp: one item image_iff)
  qed (use Cons.prems in simp)
  moreover have "map_of found s = None"
    using Cons.prems(2) by (simp add: item map_of_eq_None_iff)
  ultimately show ?case
    by (cases k) (auto simp: one item split: option.split)
qed simp

lemma synced_table:
  assumes "synced env ns start found = (rows, report)" "keyed start" "distinct (map fst found)"
  shows "keyed rows" "filter (\<lambda>c. ch_namespace c \<noteq> ns) rows = filter (\<lambda>c. ch_namespace c \<noteq> ns) start"
    "counted (sr_counts report) = length found" "sr_scanned report = length found"
    "row_at rows k =
      (if fst k = ns then case map_of found (snd k) of
          Some (t, md) \<Rightarrow> note_row env ns start (snd k, t, md) | None \<Rightarrow> None
       else row_at start k)"
proof -
  let ?deleted = "filter (\<lambda>s. s \<notin> fst ` set found) (first_occurrences (map fst (known_hashes ns start)))"
  obtain rows1 n1 where fold: "foldl (sync_note env ns (known_hashes ns start))
      (start, \<lparr>sc_inserted = 0, sc_updated = 0, sc_unchanged = 0\<rparr>) found = (rows1, n1)" by fastforce
  have out: "rows = filter (\<lambda>c. \<not> (fst (chunk_key c) = ns \<and> snd (chunk_key c) \<in> set ?deleted)) rows1"
      "sr_counts report = n1" "sr_scanned report = length found"
    using assms(1) fold by (auto simp: synced_def Let_def chunk_key_def intro!: filter_cong)
  note facts = sync_fold [OF assms(2) fold]
  show "keyed rows" using facts out(1) by (simp add: keyed_filter)
  have "filter (\<lambda>c. ch_namespace c \<noteq> ns) rows = filter (\<lambda>c. ch_namespace c \<noteq> ns) rows1"
    unfolding out(1) by (induction rows1) (auto simp: chunk_key_def)
  with facts show "filter (\<lambda>c. ch_namespace c \<noteq> ns) rows = filter (\<lambda>c. ch_namespace c \<noteq> ns) start" by simp
  show "counted (sr_counts report) = length found" "sr_scanned report = length found"
    using facts out by (simp_all add: counted_def)
  have gone: "s \<in> set ?deleted" if "row_at start (ns, s) \<noteq> None" "map_of found s = None" for s
  proof -
    have "map_of (known_hashes ns start) s \<noteq> None" using that(1) by (simp add: known_hashes_at)
    then have "s \<in> fst ` set (known_hashes ns start)" by (simp add: map_of_eq_None_iff)
    with that(2) show ?thesis by (simp add: map_of_eq_None_iff)
  qed
  have row1: "row_at rows1 k = (if fst k = ns then case map_of found (snd k) of
        Some (t, md) \<Rightarrow> note_row env ns start (snd k, t, md) | None \<Rightarrow> row_at start k
     else row_at start k)"
    by (rule sync_fold_row [OF fold assms(3)]) simp
  have kept: "snd k \<in> set ?deleted \<Longrightarrow> map_of found (snd k) = None"
    by (auto simp: map_of_eq_None_iff)
  have "row_at rows k = (if \<not> (fst k = ns \<and> snd k \<in> set ?deleted) then row_at rows1 k else None)"
    unfolding out(1) by (rule row_at_filter)
  moreover have "row_at start (ns, snd k) = None" if "map_of found (snd k) = None" "snd k \<notin> set ?deleted"
    using gone [of "snd k"] that by blast
  ultimately show "row_at rows k =
      (if fst k = ns then case map_of found (snd k) of
          Some (t, md) \<Rightarrow> note_row env ns start (snd k, t, md) | None \<Rightarrow> None
       else row_at start k)"
    unfolding row1 using kept
    by (cases "fst k = ns"; cases "snd k \<in> set ?deleted"; cases "map_of found (snd k)")
      (simp_all del: set_filter set_first_occurrences split: prod.split, metis prod.collapse)
qed

section \<open>The index after a sync\<close>

text \<open>Git and the notes are only read; the paths of the notes are distinct.\<close>

definition notes_only_read :: "'w memory_env \<Rightarrow> bool" where
  "notes_only_read env \<longleftrightarrow>
     leaves_world (me_remote env) \<and> leaves_world (me_note_paths env) \<and> (\<forall>p. leaves_world (me_read env p))
     \<and> (\<forall>w paths. fst (me_note_paths env w) = Inr paths \<longrightarrow> distinct paths)"

text \<open>A row that some sync wrote: all of it comes from one text.\<close>

definition rendered :: "'w memory_env \<Rightarrow> chunk_row \<Rightarrow> bool" where
  "rendered env c \<longleftrightarrow>
     (\<exists>content md. parse_note content (ch_source c) = Inr md
        \<and> c = note_chunk env (ch_namespace c) (ch_source c, content, md))"

definition index_of ::
  "'w memory_env \<Rightarrow> string \<Rightarrow> memory_note list \<Rightarrow> chunk_row list \<Rightarrow> bool" where
  "index_of env ns found rows \<longleftrightarrow>
     ch_source ` {c \<in> set rows. ch_namespace c = ns} = fst ` set found
     \<and> list_all (\<lambda>(source, content, md). \<exists>c. row_at rows (ns, source) = Some c \<and> ch_content_hash c = sha256_hex content)
         found"

lemma namespace_reads: "notes_only_read env \<Longrightarrow> leaves_world (repo_namespace env)"
  unfolding repo_namespace_def Let_def
  by (intro reads_only_bind reads_only_basic) (simp_all add: notes_only_read_def reads_only_basic)

lemma read_notes_reads: "notes_only_read env \<Longrightarrow> leaves_world (read_notes env paths)"
  by (induction paths) (auto simp: notes_only_read_def intro!: reads_only_bind reads_only_basic)

lemma notes_read: "notes_only_read env \<Longrightarrow> leaves_world (all_notes env)"
  unfolding all_notes_def by (intro reads_only_bind read_notes_reads) (simp_all add: notes_only_read_def)

lemma read_notes_parsed:
  "read_notes env paths w = (Inr found, w') \<Longrightarrow>
     subseq (map fst found) paths \<and> list_all (\<lambda>(s, t, md). \<not> has_secret t \<and> parse_note t s = Inr md) found"
proof (induction paths arbitrary: w found)
  case (Cons p paths)
  show ?case
  proof (cases "prefix ''_template'' (path_name p)")
    case False
    with Cons.prems obtain t md rest w1 where "\<not> has_secret t" "parse_note t p = Inr md"
        "read_notes env paths w1 = (Inr rest, w')" "found = (p, t, md) # rest"
      by (auto elim!: bind_p_cases split: if_splits)
    with Cons.IH show ?thesis by auto
  qed (use Cons in auto)
qed simp

lemma all_notes_parsed:
  assumes "notes_only_read env" "all_notes env w = (Inr found, w')"
  shows "distinct (map fst found)" "list_all (\<lambda>(s, t, md). \<not> has_secret t \<and> parse_note t s = Inr md) found"
proof -
  from assms(2) obtain paths w1 where run: "me_note_paths env w = (Inr paths, w1)"
      "read_notes env (sort_key path_parts paths) w1 = (Inr found, w')"
    unfolding all_notes_def by (auto elim!: bind_p_cases)
  have "distinct paths"
    using assms(1) run(1) unfolding notes_only_read_def by (metis fst_conv)
  then have "distinct (sort_key path_parts paths)" by simp
  then show "distinct (map fst found)" "list_all (\<lambda>(s, t, md). \<not> has_secret t \<and> parse_note t s = Inr md) found"
    using read_notes_parsed [OF run(2)] by (auto simp: subseq_conv_nths intro: distinct_nthsI)
qed

text \<open>One run, taken apart: what it read, and either everything is committed or nothing.\<close>

definition sync_start :: "bool \<Rightarrow> string \<Rightarrow> chunk_row list \<Rightarrow> chunk_row list" where
  "sync_start rebuild ns rows = (if rebuild then filter (\<lambda>c. ch_namespace c \<noteq> ns) rows else rows)"

lemma sync_run:
  assumes "notes_only_read env" "sync env rebuild s = (r, s')"
  shows "(\<exists>e. r = Inl e \<and> mem_chunks s' = mem_chunks s)
    \<or> (\<exists>ns found rows report. repo_namespace env (mem_world s) = (Inr ns, mem_world s)
        \<and> all_notes env (mem_world s) = (Inr found, mem_world s)
        \<and> synced env ns (sync_start rebuild ns (mem_chunks s)) found = (rows, report)
        \<and> mem_chunks s' = rows
        \<and> mem_world s' = snd (me_write_manifest env ns (manifest_text env ns (note_hashes found)) (mem_world s))
        \<and> (\<forall>report'. r = Inr report' \<longrightarrow> report' = report))"
proof -
  obtain a w1 where a: "repo_namespace env (mem_world s) = (a, w1)" by fastforce
  have w1: "w1 = mem_world s" using reads_onlyD [OF namespace_reads [OF assms(1)] a] .
  obtain b w2 where b: "all_notes env (mem_world s) = (b, w2)" by fastforce
  have w2: "w2 = mem_world s" using reads_onlyD [OF notes_read [OF assms(1)] b] .
  show ?thesis
  proof (cases a)
    case (Inl e)
    then have "r = Inl e \<and> mem_chunks s' = mem_chunks s"
      using assms(2) a by (auto simp: sync_def bind_p_def in_repo_def)
    then show ?thesis by blast
  next
    case (Inr ns)
    obtain rows report where out: "\<And>found. b = Inr found \<Longrightarrow>
        synced env ns (sync_start rebuild ns (mem_chunks s)) found = (rows, report)"
      by (cases b) fastforce+
    show ?thesis
    proof (cases b)
      case (Inl e)
      then have "r = Inl e \<and> mem_chunks s' = mem_chunks s"
        using assms(2) a b Inr w1 by (auto simp: sync_def bind_p_def in_repo_def)
      then show ?thesis by blast
    next
      case found: (Inr found)
      have "mem_chunks s' = rows
          \<and> mem_world s' = snd (me_write_manifest env ns (manifest_text env ns (note_hashes found)) (mem_world s))
          \<and> (\<forall>report'. r = Inr report' \<longrightarrow> report' = report)"
        using assms(2) a b Inr found out [OF found] w1 w2
        by (auto simp: sync_def bind_p_def then_p_def in_repo_def sync_start_def split: prod.splits sum.splits)
      then show ?thesis using a b Inr found w1 w2 out [OF found] by blast
    qed
  qed
qed

lemma rendered_note: "parse_note t s = Inr md \<Longrightarrow> rendered env (note_chunk env ns (s, t, md))"
  unfolding rendered_def by (metis note_chunk_fields(1,4))

lemma synced_index:
  assumes "synced env ns start found = (rows, report)" "keyed start" "distinct (map fst found)"
  shows "index_of env ns found rows"
proof -
  note out = synced_table [OF assms]
  have known: "\<exists>c. note_row env ns start (s, t, md) = Some c \<and> ch_content_hash c = sha256_hex t" for s t md
    by (auto simp: note_row_def known_hashes_at)
  have "s \<in> ch_source ` {c \<in> set rows. ch_namespace c = ns} \<longleftrightarrow> row_at rows (ns, s) \<noteq> None" for s
    unfolding row_at_None by (auto simp: chunk_key_def image_iff)
  moreover have "row_at rows (ns, s) \<noteq> None \<longleftrightarrow> s \<in> fst ` set found" for s
  proof (cases "map_of found s")
    case (Some v)
    then have "s \<in> fst ` set found" by (auto dest: map_of_SomeD intro: rev_image_eqI)
    with Some out(5) [of "(ns, s)"] known [of s "fst v" "snd v"] show ?thesis by auto
  next
    case None
    then have "s \<notin> fst ` set found" by (simp add: map_of_eq_None_iff)
    with None out(5) [of "(ns, s)"] show ?thesis by simp
  qed
  ultimately have "ch_source ` {c \<in> set rows. ch_namespace c = ns} = fst ` set found" by blast
  moreover have "list_all (\<lambda>(source, content, md). \<exists>c. row_at rows (ns, source) = Some c
      \<and> ch_content_hash c = sha256_hex content) found"
    using out(5) known assms(3) by (auto simp: list_all_iff)
  ultimately show ?thesis by (simp add: index_of_def)
qed

lemma synced_rendered:
  assumes "synced env ns start found = (rows, report)" "keyed start" "distinct (map fst found)"
    "list_all (rendered env) start" "list_all (\<lambda>(s, t, md). \<not> has_secret t \<and> parse_note t s = Inr md) found"
  shows "list_all (rendered env) rows"
proof -
  note out = synced_table [OF assms(1-3)]
  have "rendered env c" if "c \<in> set rows" for c
  proof -
    have "row_at rows (chunk_key c) = Some c" using that out(1) by (simp add: row_at_Some)
    then consider "row_at start (chunk_key c) = Some c"
      | t md where "(ch_source c, t, md) \<in> set found" "c = note_chunk env ns (ch_source c, t, md)"
      using out(5) [of "chunk_key c"]
      by (auto simp: note_row_def chunk_key_def split: if_splits option.splits dest: map_of_SomeD)
    then show ?thesis
    proof cases
      case 1
      then show ?thesis using assms(2,4) by (simp add: row_at_Some list_all_iff)
    next
      case 2
      then have "parse_note t (ch_source c) = Inr md" using assms(5) by (auto simp: list_all_iff)
      from rendered_note [OF this, of env ns] 2(2) show ?thesis by simp
    qed
  qed
  then show ?thesis by (simp add: list_all_iff)
qed

text \<open>A second sync of the same notes changes nothing.\<close>

lemma synced_again:
  assumes "index_of env ns found rows" "keyed rows"
  shows "synced env ns rows found = (rows,
    \<lparr>sr_namespace = ns, sr_scanned = length found,
     sr_counts = \<lparr>sc_inserted = 0, sc_updated = 0, sc_unchanged = length found\<rparr>, sr_deleted = 0\<rparr>)"
proof -
  have known: "map_of (known_hashes ns rows) s = Some (sha256_hex t)" if "(s, t, md) \<in> set found" for s t md
    using assms(1) that by (fastforce simp: index_of_def known_hashes_at list_all_iff)
  have "set xs \<subseteq> set found \<Longrightarrow> foldl (sync_note env ns (known_hashes ns rows)) (rows, n) xs
      = (rows, n\<lparr>sc_unchanged := sc_unchanged n + length xs\<rparr>)" for xs n
    by (induction xs arbitrary: n) (auto simp: sync_note_def known)
  then have fold: "foldl (sync_note env ns (known_hashes ns rows)) (rows, n) found
      = (rows, n\<lparr>sc_unchanged := sc_unchanged n + length found\<rparr>)" for n by blast
  have "fst ` set (known_hashes ns rows) \<subseteq> fst ` set found"
    using assms(1) by (auto simp: index_of_def known_hashes_def)
  then have "filter (\<lambda>s. s \<notin> fst ` set found) (first_occurrences (map fst (known_hashes ns rows))) = []"
    by (auto simp: filter_empty_conv)
  with fold show ?thesis by (simp add: synced_def Let_def del: set_filter)
qed

text \<open>What a run leaves, and what another run on the same files then does.\<close>

definition settled :: "'w memory_env \<Rightarrow> 'w memory_state \<Rightarrow> bool" where
  "settled env s \<longleftrightarrow> keyed (mem_chunks s) \<and> list_all (rendered env) (mem_chunks s)"

lemma settled_start: "settled env s \<Longrightarrow>
    keyed (sync_start rebuild ns (mem_chunks s)) \<and> list_all (rendered env) (sync_start rebuild ns (mem_chunks s))"
  by (auto simp: settled_def sync_start_def keyed_filter list_all_iff)

lemma sync_result:
  assumes "notes_only_read env" "settled env s" "sync env rebuild s = (r, s')"
  shows "settled env s' \<and>
    ((\<exists>e. r = Inl e) \<and> mem_chunks s' = mem_chunks s
     \<or> (\<exists>ns found. fst (repo_namespace env (mem_world s)) = Inr ns
          \<and> fst (all_notes env (mem_world s)) = Inr found
          \<and> index_of env ns found (mem_chunks s')
          \<and> filter (\<lambda>c. ch_namespace c \<noteq> ns) (mem_chunks s') = filter (\<lambda>c. ch_namespace c \<noteq> ns) (mem_chunks s)
          \<and> (\<forall>report. r = Inr report \<longrightarrow> counted (sr_counts report) = length found)))"
  using sync_run [OF assms(1,3)]
proof (elim disjE exE conjE)
  fix ns found rows report
  let ?start = "sync_start rebuild ns (mem_chunks s)"
  assume ns: "repo_namespace env (mem_world s) = (Inr ns, mem_world s)"
    and found: "all_notes env (mem_world s) = (Inr found, mem_world s)"
    and out: "synced env ns ?start found = (rows, report)" "mem_chunks s' = rows"
    and r: "\<forall>report'. r = Inr report' \<longrightarrow> report' = report"
  note start = settled_start [OF assms(2), of rebuild ns]
  note parsed = all_notes_parsed [OF assms(1) found]
  note table = synced_table [OF out(1) conjunct1 [OF start] parsed(1)]
  have "settled env s'"
    using table(1) synced_rendered [OF out(1) conjunct1 [OF start] parsed(1) conjunct2 [OF start] parsed(2)] out(2)
    by (simp add: settled_def)
  moreover have "filter (\<lambda>c. ch_namespace c \<noteq> ns) ?start = filter (\<lambda>c. ch_namespace c \<noteq> ns) (mem_chunks s)"
    by (simp add: sync_start_def)
  moreover have "index_of env ns found (mem_chunks s')"
    using synced_index [OF out(1) conjunct1 [OF start] parsed(1)] out(2) by simp
  moreover have "\<forall>report'. r = Inr report' \<longrightarrow> counted (sr_counts report') = length found"
    using r table(3) by auto
  ultimately show ?thesis
    using ns found table(2) out(2) by (intro conjI disjI2 exI [of _ ns] exI [of _ found]) simp_all
qed (use assms(2) in \<open>auto simp: settled_def\<close>)

text \<open>Writing the manifest changes nothing that the notes or git say.\<close>

definition manifest_apart :: "'w memory_env \<Rightarrow> bool" where
  "manifest_apart env \<longleftrightarrow>
     (\<forall>ns t w. let w' = snd (me_write_manifest env ns t w) in
        fst (repo_namespace env w') = fst (repo_namespace env w) \<and> fst (all_notes env w') = fst (all_notes env w))"

lemma sync_twice:
  assumes "notes_only_read env" "settled env s" "manifest_apart env" "sync env rebuild s = (Inr report, s')"
    "sync env False s' = (r, s'')"
  shows "mem_chunks s'' = mem_chunks s' \<and> (\<forall>again. r = Inr again \<longrightarrow>
    sr_counts again = \<lparr>sc_inserted = 0, sc_updated = 0, sc_unchanged = sr_scanned again\<rparr> \<and> sr_deleted again = 0)"
proof -
  from sync_run [OF assms(1,4)] obtain ns found rows where
      ns: "repo_namespace env (mem_world s) = (Inr ns, mem_world s)"
      and found: "all_notes env (mem_world s) = (Inr found, mem_world s)"
      and out: "synced env ns (sync_start rebuild ns (mem_chunks s)) found = (rows, report)" "mem_chunks s' = rows"
      and w: "mem_world s' = snd (me_write_manifest env ns (manifest_text env ns (note_hashes found)) (mem_world s))"
    by auto
  note start = settled_start [OF assms(2), of rebuild ns]
  note parsed = all_notes_parsed [OF assms(1) found]
  have idx: "index_of env ns found rows" "keyed rows"
    using synced_index [OF out(1) conjunct1 [OF start] parsed(1)]
      synced_table(1) [OF out(1) conjunct1 [OF start] parsed(1)] by simp_all
  have same: "fst (repo_namespace env (mem_world s')) = Inr ns" "fst (all_notes env (mem_world s')) = Inr found"
    using assms(3) ns found unfolding manifest_apart_def w Let_def by simp_all
  show ?thesis
    using sync_run [OF assms(1,5)]
  proof (elim disjE exE conjE)
    fix ns2 found2 rows2 report2
    assume "repo_namespace env (mem_world s') = (Inr ns2, mem_world s')"
      "all_notes env (mem_world s') = (Inr found2, mem_world s')"
      and out2: "synced env ns2 (sync_start False ns2 (mem_chunks s')) found2 = (rows2, report2)"
      "mem_chunks s'' = rows2" "\<forall>report'. r = Inr report' \<longrightarrow> report' = report2"
    then have "ns2 = ns" "found2 = found" using same by simp_all
    then show ?thesis
      using out2 synced_again [OF idx] out(2) by (auto simp: sync_start_def)
  qed auto
qed

section \<open>A note that was added\<close>

definition plain_line :: "string \<Rightarrow> bool" where
  "plain_line s \<longleftrightarrow> list_all (\<lambda>c. \<not> line_break c) s"

lemma cut_at_line:
  assumes "plain_line l" "\<not> suffix ''---'' l"
  shows "cut_at fence (l @ newline @ rest) = map_option (\<lambda>(a, b). (l @ newline @ a, b)) (cut_at fence rest)"
  using assms
proof (induction l)
  case Nil
  then show ?case by (cases "cut_at fence rest") (auto simp: fence_def newline_def)
next
  case (Cons c l)
  have no: "\<not> prefix fence (c # l @ newline @ rest)"
  proof
    assume p: "prefix fence (c # l @ newline @ rest)"
    have plain: "CHR 0x0A \<notin> set (c # l)"
      using Cons.prems(1) by (auto simp: plain_line_def line_break_def list_all_iff code_def)
    from p have "c # l = ''---'' \<or> CHR 0x0A \<in> set (c # l) \<or> False"
      by (cases l rule: list.exhaust; cases "tl l"; cases "tl (tl l)")
        (auto simp: fence_def newline_def)
    with plain Cons.prems(2) show False by auto
  qed
  have "plain_line l" "\<not> suffix ''---'' l"
    using Cons.prems by (auto simp: plain_line_def suffix_Cons)
  from Cons.IH [OF this] no show ?case
    by (cases "cut_at fence rest") auto
qed

lemma cut_at_lines:
  "list_all (\<lambda>l. plain_line l \<and> \<not> suffix ''---'' l) ls \<Longrightarrow>
     cut_at fence (concat (map (\<lambda>l. l @ newline) ls) @ fence @ rest)
       = Some (concat (map (\<lambda>l. l @ newline) ls), rest)"
proof (induction ls)
  case Nil
  have "cut_at fence (fence @ rest) = Some ([], rest)"
    by (simp add: fence_def newline_def)
  then show ?case by simp
qed (auto simp: cut_at_line)

lemma front_matter_lines:
  assumes "list_all (\<lambda>l. plain_line l \<and> \<not> suffix ''---'' l) ls"
  shows "front_matter (fence @ concat (map (\<lambda>l. l @ newline) ls) @ fence @ rest)
    = Inr (foldl metadata_line [] ls)"
proof -
  have "splitlines (concat (map (\<lambda>l. l @ newline) ls)) = ls"
    using splitlines_lines [of ls "[]"] assms by (auto simp: plain_line_def list_all_iff)
  with cut_at_lines [OF assms] show ?thesis
    by (simp add: front_matter_def)
qed

definition unquoted :: "string \<Rightarrow> string" where
  "unquoted s = strip_by (\<lambda>c. c = CHR 0x22) s"

lemma metadata_entry:
  "CHR '':'' \<notin> set k \<Longrightarrow> metadata_line md (k @ '':'' @ v) = AList.update (strip k) (unquoted (strip v)) md"
  by (simp add: metadata_line_def unquoted_def)

lemma strip_space: "strip ('' '' @ s) = strip s"
  by (simp add: strip_def strip_by_def is_space_def code_def)

lemma strip_quoted: "strip ([CHR 0x22] @ s @ [CHR 0x22]) = [CHR 0x22] @ s @ [CHR 0x22]"
  by (simp add: strip_def strip_by_def is_space_def code_def)

lemma unquoted_quoted: "unquoted ([CHR 0x22] @ s @ [CHR 0x22]) = unquoted s"
proof (cases "dropWhile (\<lambda>c. c = CHR 0x22) s = []")
  case False
  then have "dropWhile (\<lambda>c. c = CHR 0x22) (s @ [CHR 0x22]) = dropWhile (\<lambda>c. c = CHR 0x22) s @ [CHR 0x22]"
    by (simp add: dropWhile_append)
  then show ?thesis by (simp add: unquoted_def strip_by_def)
next
  case True
  then have "dropWhile (\<lambda>c. c = CHR 0x22) (s @ [CHR 0x22]) = []"
    by simp
  then show ?thesis
    unfolding unquoted_def strip_by_def True by simp
qed

definition given_plainly :: "note_request \<Rightarrow> string \<Rightarrow> bool" where
  "given_plainly r today \<longleftrightarrow>
     plain_line (nr_title r) \<and> plain_line today \<and> plain_line (nr_tags r) \<and> plain_line (nr_related_files r)
     \<and> \<not> suffix ''---'' today \<and> \<not> suffix ''---'' (nr_tags r) \<and> \<not> suffix ''---'' (nr_related_files r)"

lemma suffix_dashes: "suffix ''---'' (k @ '' '' @ v) \<longleftrightarrow> suffix ''---'' v"
proof
  assume dashes: "suffix ''---'' (k @ '' '' @ v)"
  then consider "suffix ''---'' v" | "suffix v ''---''"
    using suffix_same_cases [of "''---''" "k @ '' '' @ v" v] by (auto simp: suffix_def)
  then show "suffix ''---'' v"
  proof cases
    case 2
    then obtain z where z: "''---'' = z @ v" by (auto simp: suffix_def)
    with dashes have "suffix (z @ v) ((k @ '' '') @ v)" by simp
    then have tail: "suffix z (k @ '' '')" by (simp only: same_suffix_suffix)
    have "CHR '' '' \<notin> set z" using arg_cong [OF z, of set] by auto
    with tail have "z = []" by (cases z rule: rev_cases) (auto simp: suffix_def)
    with z show ?thesis by simp
  qed
qed (auto simp: suffix_def)

lemma note_front_plain:
  "given_plainly r today \<Longrightarrow> list_all (\<lambda>l. plain_line l \<and> \<not> suffix ''---'' l) (note_front r today)"
  using suffix_dashes [of "''date:''" today] suffix_dashes [of "''tags:''" "nr_tags r"]
    suffix_dashes [of "''related_files:''" "nr_related_files r"]
  by (simp add: note_front_def given_plainly_def plain_line_def line_break_def code_def suffix_def)

lemma added_note_parsed:
  assumes "given_plainly r today"
  shows "\<exists>md. parse_note (note_content r today) path = Inr md \<and> meta md ''title'' = unquoted (nr_title r)
    \<and> meta md ''status'' = ''active'' \<and> meta md ''tags'' = unquoted (strip (nr_tags r))
    \<and> meta md ''related_files'' = unquoted (strip (nr_related_files r))"
proof -
  have entries: "metadata_line md (''title: '' @ [CHR 0x22] @ nr_title r @ [CHR 0x22])
        = AList.update ''title'' (unquoted (nr_title r)) md"
      "metadata_line md (''date: '' @ today) = AList.update ''date'' (unquoted (strip today)) md"
      "metadata_line md ''status: active'' = AList.update ''status'' ''active'' md"
      "metadata_line md (''tags: '' @ nr_tags r) = AList.update ''tags'' (unquoted (strip (nr_tags r))) md"
      "metadata_line md (''related_files: '' @ nr_related_files r)
        = AList.update ''related_files'' (unquoted (strip (nr_related_files r))) md" for md
    using metadata_entry [of "''title''" md "'' '' @ [CHR 0x22] @ nr_title r @ [CHR 0x22]"]
      metadata_entry [of "''date''" md "'' '' @ today"] metadata_entry [of "''status''" md "'' active''"]
      metadata_entry [of "''tags''" md "'' '' @ nr_tags r"]
      metadata_entry [of "''related_files''" md "'' '' @ nr_related_files r"]
    unfolding strip_space strip_quoted unquoted_quoted
    by (simp_all add: strip_def strip_by_def is_space_def code_def unquoted_def)
  have front: "front_matter (note_content r today) = Inr (foldl metadata_line [] (note_front r today))"
    unfolding note_content_def by (rule front_matter_lines [OF note_front_plain [OF assms]])
  have "map_of (foldl metadata_line [] (note_front r today)) =
      [''title'' \<mapsto> unquoted (nr_title r), ''date'' \<mapsto> unquoted (strip today), ''status'' \<mapsto> ''active'',
       ''tags'' \<mapsto> unquoted (strip (nr_tags r)), ''related_files'' \<mapsto> unquoted (strip (nr_related_files r))]"
    unfolding note_front_def by (simp only: foldl.simps entries update_conv') simp
  then show ?thesis
    by (simp add: parse_note_def front default_entry_def meta_def)
qed

lemma add_note_run:
  assumes "add_note env r w = (Inr path, w')"
  obtains today w1 where "path = note_path r" "nr_category r \<in> set required_categories"
    "\<not> has_secret (note_content r today)" "me_write env path (note_content r today) w1 = (Inr (), w')"
  using assms unfolding add_note_def then_p_def
  by (auto elim!: bind_p_cases split: if_splits)

lemma cut_at_found: "cut_at pat (a @ pat @ b) \<noteq> None"
proof (induction a)
  case Nil
  then show ?case by (cases pat; cases b) auto
qed auto

text \<open>Whatever the values are, the content can be parsed.\<close>

lemma added_note_parses: "\<exists>md. parse_note (note_content r today) path = Inr md"
proof -
  have "cut_at fence (concat (map (\<lambda>l. l @ newline) (note_front r today)) @ fence
      @ concat (map (\<lambda>l. l @ newline) (note_body r))) \<noteq> None"
    by (rule cut_at_found)
  then show ?thesis
    by (auto simp: parse_note_def front_matter_def note_content_def simp del: append_assoc
      simp flip: append_assoc split: option.splits)
qed

end
