(* ===== verification/Memory_Examples.thy ===== *)
theory Memory_Examples
  imports Memory_Safety
begin

text \<open>A repository with two notes whose cache still has a row of a deleted note and one of another repository.\<close>

definition example_math :: float_math where
  "example_math = \<lparr>fm_log = \<lambda>_. Fin 0, fm_sqrt = \<lambda>x. x, fm_sum = \<lambda>xs. foldl fadd (Fin 0) xs\<rparr>"

definition first_note :: string where
  "first_note = ''# Event log'' @ newline @ ''Append only.'' @ newline"

definition second_note :: string where
  "second_note = ''---'' @ newline @ ''title: Guard'' @ newline @ ''---'' @ newline @ ''Blocks commands.'' @ newline"

definition example_memory :: "unit memory_env" where
  "example_memory =
     \<lparr>me_name = ''shop'', me_root = ''/work/shop'', me_remote = return_p ''git@github.com:acme/shop.git'',
      me_note_paths = return_p [''memory/gotchas/guard.md'', ''memory/architecture/event-log.md''],
      me_read = (\<lambda>p. return_p (if p = ''memory/gotchas/guard.md'' then second_note else first_note)),
      me_exists = (\<lambda>p. return_p (p \<in> {''memory/gotchas/guard.md'', ''memory/architecture/event-log.md''})),
      me_write = (\<lambda>_ _. return_p ()), me_read_manifest = (\<lambda>_. return_p None),
      me_write_manifest = (\<lambda>_ _. return_p ()), me_has_database = return_p True,
      me_today = return_p ''2026-01-31'', me_dumps_compact = (\<lambda>_. ''[]''), me_dumps_sorted = (\<lambda>_. ''{}''),
      me_loads = (\<lambda>_. None), me_math = example_math\<rparr>"

definition example_ns :: string where
  "example_ns = ''shop_git_github_com_acme_shop_git_'' @ take 10 (sha256_hex ''shop:git@github.com:acme/shop.git'')"

definition example_cache :: "unit memory_state" where
  "example_cache = \<lparr>mem_world = (), mem_chunks =
     [note_chunk example_memory example_ns (''memory/old.md'', '''', default_entry ''related_files'' []
        (default_entry ''tags'' [] (default_entry ''status'' ''active'' (default_entry ''title'' ''Old'' [])))),
      note_chunk example_memory ''other'' (''memory/old.md'', '''', default_entry ''related_files'' []
        (default_entry ''tags'' [] (default_entry ''status'' ''active'' (default_entry ''title'' ''Old'' []))))]\<rparr>"

lemma example_memory_reads: "notes_only_read example_memory"
  by (simp add: notes_only_read_def example_memory_def reads_only_basic)

lemma example_manifest_apart: "manifest_apart example_memory"
  by (simp add: manifest_apart_def example_memory_def Let_def)

lemma old_note: "parse_note '''' ''memory/old.md'' = Inr (default_entry ''related_files'' []
    (default_entry ''tags'' [] (default_entry ''status'' ''active'' (default_entry ''title'' ''Old'' []))))"
  by code_simp

lemma example_settled: "settled example_memory example_cache"
proof -
  have "example_ns \<noteq> ''other''" by (simp add: example_ns_def)
  then show ?thesis
    using rendered_note [OF old_note, of example_memory]
    by (simp add: settled_def example_cache_def keyed_def)
qed

lemma example_parsed:
  "has_secret first_note = False" "has_secret second_note = False"
  "parse_note first_note ''memory/architecture/event-log.md'' \<noteq> Inl e"
  "parse_note second_note ''memory/gotchas/guard.md'' \<noteq> Inl e"
  "sort_key path_parts [''memory/gotchas/guard.md'', ''memory/architecture/event-log.md'']
     = [''memory/architecture/event-log.md'', ''memory/gotchas/guard.md'']"
  "prefix ''_template'' (path_name ''memory/architecture/event-log.md'') = False"
  "prefix ''_template'' (path_name ''memory/gotchas/guard.md'') = False"
  by code_simp+

lemma example_notes: "\<exists>md md'. all_notes example_memory () = (Inr
    [(''memory/architecture/event-log.md'', first_note, md), (''memory/gotchas/guard.md'', second_note, md')], ())"
proof -
  obtain md md' where "parse_note first_note ''memory/architecture/event-log.md'' = Inr md"
      "parse_note second_note ''memory/gotchas/guard.md'' = Inr md'"
    using example_parsed(3,4) by (metis sum.exhaust)
  moreover have "me_note_paths example_memory ()
      = (Inr [''memory/gotchas/guard.md'', ''memory/architecture/event-log.md''], ())"
      "me_read example_memory ''memory/architecture/event-log.md'' () = (Inr first_note, ())"
      "me_read example_memory ''memory/gotchas/guard.md'' () = (Inr second_note, ())"
    by (simp_all add: example_memory_def)
  ultimately show ?thesis
    by (simp add: all_notes_def bind_p_def example_parsed del: sort_key_simps)
qed

lemma example_sync: "\<exists>report s'. sync example_memory False example_cache = (Inr report, s')"
proof -
  obtain ns where ns: "repo_namespace example_memory () = (Inr ns, ())"
    by (simp add: repo_namespace_def example_memory_def bind_p_def Let_def)
  have manifest: "me_write_manifest example_memory ns t () = (Inr (), ())" for ns t
    by (simp add: example_memory_def)
  show ?thesis
    using ns example_notes
    by (auto simp: sync_def bind_p_def then_p_def in_repo_def example_cache_def manifest split: prod.splits)
qed

definition example_request :: note_request where
  "example_request = \<lparr>nr_category = ''gotchas'', nr_slug = ''Reset scope!'', nr_title = ''Resets keep history'',
     nr_summary = ''A reset appends a row.'', nr_tags = ''store, reset'', nr_related_files = ''apps/api/store.py''\<rparr>"

text \<open>A text with a secret contains the beginning of one.\<close>

lemma no_secret:
  assumes "list_all (\<lambda>p. \<not> contains p s) [''sk-'', ''gho_'', ''ghp_'', ''ghs_'', ''ghu_'', ''AKIA'', ''-----BEGIN '']"
  shows "\<not> has_secret s"
proof
  assume "has_secret s"
  then obtain t where t: "suffix t s" "secret_here t"
    by (auto simp: has_secret_def list_ex_iff in_set_suffixes)
  then have "\<exists>p \<in> set [''sk-'', ''gho_'', ''ghp_'', ''ghs_'', ''ghu_'', ''AKIA'', ''-----BEGIN '']. prefix p t"
    by (auto simp: secret_here_def run_after_def prefix_def)
  then obtain p where "p \<in> set [''sk-'', ''gho_'', ''ghp_'', ''ghs_'', ''ghu_'', ''AKIA'', ''-----BEGIN '']" "prefix p t" ..
  moreover from this(2) t(1) have "contains p s"
    unfolding contains_iff by (meson prefix_imp_sublist suffix_imp_sublist sublist_order.order_trans)
  ultimately show False using assms by (auto simp: list_all_iff)
qed

lemma example_content: "list_all (\<lambda>p. \<not> contains p (note_content example_request ''2026-01-31''))
    [''sk-'', ''gho_'', ''ghp_'', ''ghs_'', ''ghu_'', ''AKIA'', ''-----BEGIN '']"
  by code_simp

lemma example_add: "add_note example_memory example_request () = (Inr ''memory/gotchas/reset-scope.md'', ())"
proof -
  have "note_path example_request = ''memory/gotchas/reset-scope.md''"
    by code_simp
  moreover note no_secret [OF example_content]
  ultimately show ?thesis
    by (simp add: add_note_def bind_p_def then_p_def example_memory_def required_categories_def example_request_def)
qed

text \<open>
  The front matter is cut at the first place where the fence occurs, not at a line that is one: a value that
  ends with three dashes ends it too early, and what follows is lost.
\<close>

lemma dashes_cut_the_front_matter:
  "map_sum id (\<lambda>md. (meta md ''tags'', meta md ''related_files''))
     (parse_note (note_content (example_request\<lparr>nr_tags := ''draft---''\<rparr>) ''2026-01-31'') ''memory/gotchas/x.md'')
   = Inr (''draft'', [])"
  by code_simp

text \<open>A note that begins with a rule and has no second fence cannot be parsed.\<close>

lemma rule_without_fence_raises:
  "parse_note (fence @ ''Some text.'') ''memory/gotchas/x.md''
   = Inl (ValueError ''not enough values to unpack (expected 3, got 2)'')"
  by code_simp

end
