(* ===== verification/Context_Seed.thy ===== *)
theory Context_Seed
  imports Json_Ops
begin

text \<open>
  \<^verbatim>\<open>scripts/seed_datahub_context.py\<close>: writing the semantic context of the canonical asset into DataHub
  without losing what is already there, and verifying it.

  The store of aspects (the DataHub SDK behind \<^verbatim>\<open>SdkAspectStore\<close>) is a parameter: programs that test the
  connection, look an entity up, and read and write an aspect of an entity.
\<close>

section \<open>Contract\<close>

record 'w aspect_store =
  as_test :: "('w, exn, unit) prog"
  as_exists :: "string \<Rightarrow> ('w, exn, bool) prog"
  as_get :: "string \<Rightarrow> string \<Rightarrow> ('w, exn, jdict option) prog"
  as_emit :: "string \<Rightarrow> string \<Rightarrow> jdict \<Rightarrow> ('w, exn, unit) prog"
  as_related :: "string \<Rightarrow> ('w, exn, jdict list) prog"

record context_spec =
  sp_source :: string
  sp_dbt_source :: string
  sp_staging :: string
  sp_staging_target :: string
  sp_mart :: string
  sp_term :: string
  sp_owner :: string
  sp_term_definition :: string
  sp_asset_description :: string
  sp_document_url :: string
  sp_document_description :: string
  sp_shared :: string
  sp_context_document :: string
  sp_context_title :: string
  sp_context_content :: string

definition source_asset_urn :: string where
  "source_asset_urn =
     ''urn:li:dataset:(urn:li:dataPlatform:postgres,datarescue.raw.payments_raw,PROD)''"

definition net_revenue_urn :: string where
  "net_revenue_urn = ''urn:li:glossaryTerm:NetRevenue''"

definition finance_owner_urn :: string where
  "finance_owner_urn = ''urn:li:corpuser:finance-data''"

definition contract_text :: string where
  "contract_text =
     ''# DataRescue Net Revenue Contract'' @ newline @ newline
     @ ''## Canonical asset'' @ newline @ newline
     @ ''`'' @ source_asset_urn @ ''`'' @ newline @ newline
     @ ''## Semantic rule'' @ newline @ newline
     @ ''Recognized merchant revenue is net of processing fees. After the legacy `amount`'' @ newline
     @ ''column is split, DataRescue must map the contract to `net_amount`. A candidate that'' @ newline
     @ ''uses `gross_amount` is unsafe even when it compiles and passes structural dbt tests.'' @ newline @ newline
     @ ''## Recovery evidence'' @ newline @ newline
     @ ''- Glossary term: `'' @ net_revenue_urn @ ''`'' @ newline
     @ ''- Deterministic owner: `'' @ finance_owner_urn @ ''`'' @ newline
     @ ''- Required decision: select `net_amount`; reject fee-inclusive `gross_amount`'' @ newline
     @ ''- Closure rule: keep the incident active until the merged commit passes dbt build'' @ newline
     @ ''  and reconciliation again.'' @ newline"

definition default_spec :: context_spec where
  "default_spec =
     \<lparr>sp_source = source_asset_urn,
      sp_dbt_source = ''urn:li:dataset:(urn:li:dataPlatform:dbt,datarescue.raw.payments_raw,PROD)'',
      sp_staging = ''urn:li:dataset:(urn:li:dataPlatform:dbt,datarescue.analytics.stg_payments,PROD)'',
      sp_staging_target =
        ''urn:li:dataset:(urn:li:dataPlatform:postgres,datarescue.analytics.stg_payments,PROD)'',
      sp_mart = ''urn:li:dataset:(urn:li:dataPlatform:dbt,datarescue.analytics.fct_revenue,PROD)'',
      sp_term = net_revenue_urn,
      sp_owner = finance_owner_urn,
      sp_term_definition =
        ''Recognized merchant revenue after processing fees. For the DataRescue payment contract this is the legacy amount value and maps to net_amount after the split; gross_amount must not be used.'',
      sp_asset_description =
        ''Payment source monitored by DataRescue. Recognized revenue is net of processing fees, so the legacy amount contract maps to net_amount after schema drift.'',
      sp_document_url = ''https://github.com/girginomer10/datarescue/blob/main/docs/devpost-submission.md'',
      sp_document_description = ''DataRescue recognized-revenue contract and recovery evidence guide.'',
      sp_shared = ''urn:li:document:__system_shared_documents'',
      sp_context_document = ''urn:li:document:datarescue-net-revenue-contract'',
      sp_context_title = ''DataRescue Net Revenue Contract'',
      sp_context_content = contract_text\<rparr>"

definition verification_error :: "string \<Rightarrow> exn" where
  "verification_error m = Other ''VerificationError'' m"

definition dataset_urns :: "context_spec \<Rightarrow> string list" where
  "dataset_urns sp = [sp_source sp, sp_dbt_source sp, sp_staging sp, sp_staging_target sp, sp_mart sp]"

definition term_info :: "context_spec \<Rightarrow> jdict" where
  "term_info sp =
     [(''definition'', JStr (sp_term_definition sp)), (''termSource'', JStr ''INTERNAL''),
      (''name'', JStr ''NetRevenue''),
      (''customProperties'', JDict [(''managedBy'', JStr ''DataRescue'')])]"

definition owner_info :: jdict where
  "owner_info =
     [(''active'', JBool True), (''displayName'', JStr ''Finance Data''),
      (''title'', JStr ''Finance Data Owner''), (''email'', JStr ''finance-data@example.invalid''),
      (''system'', JBool False)]"

definition owner_entry :: "context_spec \<Rightarrow> jdict" where
  "owner_entry sp = [(''owner'', JStr (sp_owner sp)), (''type'', JStr ''DATAOWNER'')]"

definition term_entry :: "context_spec \<Rightarrow> jdict" where
  "term_entry sp = [(''urn'', JStr (sp_term sp)), (''actor'', JStr (sp_owner sp))]"

definition document_entry :: "context_spec \<Rightarrow> jdict" where
  "document_entry sp =
     [(''url'', JStr (sp_document_url sp)), (''description'', JStr (sp_document_description sp))]"

definition context_info :: "context_spec \<Rightarrow> jdict" where
  "context_info sp =
     [(''title'', JStr (sp_context_title sp)),
      (''source'', JDict [(''sourceType'', JStr ''NATIVE'')]),
      (''status'', JDict [(''state'', JStr ''PUBLISHED'')]),
      (''contents'', JDict [(''text'', JStr (sp_context_content sp))]),
      (''parentDocument'', JDict [(''document'', JStr (sp_shared sp))])]"

definition asset_link :: "context_spec \<Rightarrow> jdict" where
  "asset_link sp = [(''asset'', JStr (sp_source sp))]"

definition lineage_checks :: "context_spec \<Rightarrow> (string \<times> jdict \<times> string) list" where
  "lineage_checks sp =
     (let upstream = (\<lambda>urn kind. [(''dataset'', JStr urn), (''type'', JStr kind)])
      in [(sp_dbt_source sp, upstream (sp_source sp) ''COPY'', ''physical-source-to-dbt-source lineage''),
          (sp_staging sp, upstream (sp_dbt_source sp) ''TRANSFORMED'', ''dbt-source-to-staging lineage''),
          (sp_staging_target sp, upstream (sp_staging sp) ''COPY'',
             ''dbt-staging-to-materialized-staging lineage''),
          (sp_mart sp, upstream (sp_staging_target sp) ''TRANSFORMED'',
             ''materialized-staging-to-mart lineage'')])"

section \<open>The facade of the SDK\<close>

text \<open>
  \<^verbatim>\<open>SdkAspectStore\<close> over the calls it makes of the DataHub SDK, which are parameters: the emitter, the
  graph's lookups and a GraphQL query.
\<close>

record 'w datahub_sdk =
  sdk_test :: "('w, exn, unit) prog"
  sdk_exists :: "string \<Rightarrow> ('w, exn, json) prog"
  sdk_aspect :: "string \<Rightarrow> string \<Rightarrow> ('w, exn, jdict option) prog"
  sdk_emit :: "string \<Rightarrow> string \<Rightarrow> jdict \<Rightarrow> ('w, exn, unit) prog"
  sdk_related :: "json \<Rightarrow> ('w, exn, jdict) prog"

definition aspect_names :: "string list" where
  "aspect_names =
     [''corpUserInfo'', ''documentInfo'', ''documentSettings'', ''editableDatasetProperties'',
      ''glossaryTermInfo'', ''glossaryTerms'', ''institutionalMemory'', ''ownership'', ''subTypes'',
      ''upstreamLineage'']"

definition aspect_class :: "string \<Rightarrow> exn + string" where
  "aspect_class aspect =
     (if aspect \<in> set aspect_names then Inr aspect
      else Inl (ValueError (''Unsupported DataHub aspect: '' @ aspect)))"

definition related_documents :: "string \<Rightarrow> jdict \<Rightarrow> exn + jdict list" where
  "related_documents asset_urn result =
     (case jget result ''entity'' of
        JDict entity \<Rightarrow>
          (case jget entity ''relatedDocuments'' of
             JDict related \<Rightarrow>
               (case jget related ''documents'' of
                  JList documents \<Rightarrow>
                    Inr (List.map_filter (\<lambda>item. case item of JDict d \<Rightarrow> Some d | _ \<Rightarrow> None) documents)
                | _ \<Rightarrow> Inl (ValueError
                    (''DataHub returned malformed related documents for: '' @ asset_urn)))
           | _ \<Rightarrow> Inl (ValueError (''DataHub returned no relatedDocuments result for: '' @ asset_urn)))
      | _ \<Rightarrow> Inl (ValueError
          (''DataHub returned no entity for related-document query: '' @ asset_urn)))"

definition sdk_store :: "'w datahub_sdk \<Rightarrow> 'w aspect_store" where
  "sdk_store sdk =
     \<lparr>as_test = sdk_test sdk,
      as_exists = (\<lambda>urn. bind_p (sdk_exists sdk urn) (\<lambda>v. return_p (truthy v))),
      as_get = (\<lambda>urn aspect. bind_p (result_p (aspect_class aspect)) (\<lambda>c. sdk_aspect sdk urn c)),
      as_emit = (\<lambda>urn aspect v. bind_p (result_p (aspect_class aspect)) (\<lambda>c. sdk_emit sdk urn c v)),
      as_related = (\<lambda>asset_urn.
        bind_p (sdk_related sdk (JDict
          [(''urn'', JStr asset_urn), (''input'', JDict [(''start'', JInt 0), (''count'', JInt 100)])]))
          (\<lambda>result. result_p (related_documents asset_urn result)))\<rparr>"

section \<open>Writing what is missing\<close>

text \<open>Every step gives the list of the aspects it changed.\<close>

definition or_empty :: "jdict option \<Rightarrow> jdict" where
  "or_empty v = (case v of Some d \<Rightarrow> d | None \<Rightarrow> [])"

definition emit_changed ::
  "'w aspect_store \<Rightarrow> string \<Rightarrow> string \<Rightarrow> jdict \<Rightarrow> ('w, exn, string list) prog" where
  "emit_changed st urn aspect v =
     then_p (as_emit st urn aspect v) (return_p [urn @ '':'' @ aspect])"

text \<open>Read an aspect; write it when \<open>f\<close> gives a new value.\<close>

definition ensure ::
  "'w aspect_store \<Rightarrow> string \<Rightarrow> string \<Rightarrow> (jdict \<Rightarrow> exn + jdict option) \<Rightarrow> ('w, exn, string list) prog" where
  "ensure st urn aspect f =
     bind_p (as_get st urn aspect) (\<lambda>current.
     bind_p (result_p (f (or_empty current))) (\<lambda>updated.
       case updated of None \<Rightarrow> return_p [] | Some v \<Rightarrow> emit_changed st urn aspect v))"

definition object_update :: "jdict \<Rightarrow> jdict \<Rightarrow> exn + jdict option" where
  "object_update required current =
     Inr (if covers current required then None else Some (merge_required current required))"

definition ensure_object_aspect ::
  "'w aspect_store \<Rightarrow> string \<Rightarrow> string \<Rightarrow> jdict \<Rightarrow> ('w, exn, string list) prog" where
  "ensure_object_aspect st urn aspect required = ensure st urn aspect (object_update required)"

definition description_update :: "context_spec \<Rightarrow> jdict \<Rightarrow> jdict \<Rightarrow> exn + jdict option" where
  "description_update sp stamp current =
     Inr (if jget current ''description'' = JStr (sp_asset_description sp) then None
          else Some (dict_set (dict_set (set_default current ''created'' (JDict stamp))
                  ''lastModified'' (JDict stamp))
                ''description'' (JStr (sp_asset_description sp))))"

definition ensure_description ::
  "'w aspect_store \<Rightarrow> context_spec \<Rightarrow> jdict \<Rightarrow> ('w, exn, string list) prog" where
  "ensure_description st sp stamp =
     ensure st (sp_source sp) ''editableDatasetProperties'' (description_update sp stamp)"

text \<open>The entries with the expected one: None when it is there already.\<close>

fun replace_entry :: "string \<Rightarrow> jdict \<Rightarrow> json list \<Rightarrow> exn + json list option" where
  "replace_entry identity_key expected [] = Inr (Some [JDict expected])"
| "replace_entry identity_key expected (item # rest) =
     (case item of
        JDict d \<Rightarrow>
          if \<not> py_eq (jget d identity_key) (jget expected identity_key)
          then bind_res (replace_entry identity_key expected rest) (\<lambda>more_entries.
                 Inr (map_option (\<lambda>es. item # es) more_entries))
          else if covers d expected then Inr None
          else Inr (Some (JDict (merge_required d expected) # rest))
      | _ \<Rightarrow> Inl (AttributeErr ''item has no attribute get''))"

definition entries_update ::
  "string \<Rightarrow> jdict \<Rightarrow> string \<Rightarrow> string \<Rightarrow> jdict \<Rightarrow> jdict \<Rightarrow> exn + jdict option" where
  "entries_update list_key expected identity_key stamp_key stamp current =
     bind_res (iterate (get_default current list_key)) (\<lambda>entries.
     bind_res (replace_entry identity_key expected entries) (\<lambda>replaced.
       Inr (map_option (\<lambda>es. dict_set (dict_set current list_key (JList es)) stamp_key (JDict stamp))
              replaced)))"

definition ensure_list_aspect ::
  "'w aspect_store \<Rightarrow> string \<Rightarrow> string \<Rightarrow> string \<Rightarrow> jdict \<Rightarrow> string \<Rightarrow> string \<Rightarrow> jdict
    \<Rightarrow> ('w, exn, string list) prog" where
  "ensure_list_aspect st urn aspect list_key expected identity_key stamp_key stamp =
     ensure st urn aspect (entries_update list_key expected identity_key stamp_key stamp)"

definition ensure_owner ::
  "'w aspect_store \<Rightarrow> context_spec \<Rightarrow> jdict \<Rightarrow> ('w, exn, string list) prog" where
  "ensure_owner st sp stamp =
     ensure_list_aspect st (sp_source sp) ''ownership'' ''owners'' (owner_entry sp) ''owner''
       ''lastModified'' stamp"

definition ensure_term_attachment ::
  "'w aspect_store \<Rightarrow> context_spec \<Rightarrow> jdict \<Rightarrow> ('w, exn, string list) prog" where
  "ensure_term_attachment st sp stamp =
     ensure_list_aspect st (sp_source sp) ''glossaryTerms'' ''terms'' (term_entry sp) ''urn''
       ''auditStamp'' stamp"

fun replace_document :: "context_spec \<Rightarrow> jdict \<Rightarrow> json list \<Rightarrow> exn + json list option" where
  "replace_document sp stamp [] =
     Inr (Some [JDict (document_entry sp @ [(''createStamp'', JDict stamp), (''updateStamp'', JDict stamp)])])"
| "replace_document sp stamp (element # rest) =
     (case element of
        JDict d \<Rightarrow>
          if jget d ''url'' \<noteq> JStr (sp_document_url sp)
          then bind_res (replace_document sp stamp rest) (\<lambda>more_elements.
                 Inr (map_option (\<lambda>es. element # es) more_elements))
          else if covers d (document_entry sp) then Inr None
          else Inr (Some (JDict (dict_set (dict_set (dict_update d (document_entry sp))
                 ''createStamp'' (or_else (jget d ''createStamp'') (JDict stamp)))
                 ''updateStamp'' (JDict stamp)) # rest))
      | _ \<Rightarrow> Inl (AttributeErr ''element has no attribute get''))"

definition document_update :: "context_spec \<Rightarrow> jdict \<Rightarrow> jdict \<Rightarrow> exn + jdict option" where
  "document_update sp stamp current =
     bind_res (iterate (get_default current ''elements'')) (\<lambda>elements.
     bind_res (replace_document sp stamp elements) (\<lambda>replaced.
       Inr (map_option (\<lambda>es. dict_set current ''elements'' (JList es)) replaced)))"

definition ensure_document ::
  "'w aspect_store \<Rightarrow> context_spec \<Rightarrow> jdict \<Rightarrow> ('w, exn, string list) prog" where
  "ensure_document st sp stamp =
     ensure st (sp_source sp) ''institutionalMemory'' (document_update sp stamp)"

definition subtype_update :: "string \<Rightarrow> jdict \<Rightarrow> exn + jdict option" where
  "subtype_update subtype current =
     bind_res (iterate (get_default current ''typeNames'')) (\<lambda>type_names.
       Inr (if JStr subtype \<in> set type_names then None
            else Some (dict_set current ''typeNames'' (JList (type_names @ [JStr subtype])))))"

definition ensure_subtype ::
  "'w aspect_store \<Rightarrow> string \<Rightarrow> string \<Rightarrow> ('w, exn, string list) prog" where
  "ensure_subtype st document_urn subtype = ensure st document_urn ''subTypes'' (subtype_update subtype)"

definition settings_update :: "jdict \<Rightarrow> jdict \<Rightarrow> exn + jdict option" where
  "settings_update stamp current =
     Inr (if jget current ''showInGlobalContext'' = JBool True then None
          else Some (dict_set (dict_set current ''showInGlobalContext'' (JBool True))
                 ''lastModified'' (JDict stamp)))"

definition ensure_document_settings ::
  "'w aspect_store \<Rightarrow> string \<Rightarrow> jdict \<Rightarrow> ('w, exn, string list) prog" where
  "ensure_document_settings st document_urn stamp =
     ensure st document_urn ''documentSettings'' (settings_update stamp)"

text \<open>\<^verbatim>\<open>any(_contains(item, link) for item in items)\<close>: an item before the first match that is no object raises.\<close>

fun any_covers :: "jdict \<Rightarrow> json list \<Rightarrow> exn + bool" where
  "any_covers link [] = Inr False"
| "any_covers link (item # rest) =
     (case item of
        JDict d \<Rightarrow> if covers d link then Inr True else any_covers link rest
      | _ \<Rightarrow> Inl (AttributeErr ''item has no attribute get''))"

definition context_info_value :: "context_spec \<Rightarrow> jdict \<Rightarrow> jdict \<Rightarrow> json list \<Rightarrow> jdict" where
  "context_info_value sp stamp current related_assets =
     (let updated = dict_update current (context_info sp);
          updated = set_default updated ''customProperties'' (JDict []);
          updated = set_default updated ''created'' (JDict stamp);
          updated = dict_set updated ''lastModified'' (JDict stamp)
      in dict_set updated ''relatedAssets'' (JList related_assets))"

definition context_info_update :: "context_spec \<Rightarrow> jdict \<Rightarrow> jdict \<Rightarrow> exn + jdict option" where
  "context_info_update sp stamp current =
     bind_res (iterate (get_default current ''relatedAssets'')) (\<lambda>related_assets.
     bind_res (any_covers (asset_link sp) related_assets) (\<lambda>has_asset_link.
       Inr (if covers current (context_info sp) \<and> has_asset_link then None
            else Some (context_info_value sp stamp current
                   (if has_asset_link then related_assets
                    else related_assets @ [JDict (asset_link sp)])))))"

definition ensure_context_document_info ::
  "'w aspect_store \<Rightarrow> context_spec \<Rightarrow> jdict \<Rightarrow> ('w, exn, string list) prog" where
  "ensure_context_document_info st sp stamp =
     ensure st (sp_context_document sp) ''documentInfo'' (context_info_update sp stamp)"

fun sequence_p :: "('w, exn, string list) prog list \<Rightarrow> ('w, exn, string list) prog" where
  "sequence_p [] = return_p []"
| "sequence_p (m # ms) =
     bind_p m (\<lambda>xs. bind_p (sequence_p ms) (\<lambda>ys. return_p (xs @ ys)))"

definition shared_folder :: "jdict \<Rightarrow> jdict" where
  "shared_folder stamp =
     [(''title'', JStr ''Shared''),
      (''source'', JDict [(''sourceType'', JStr ''NATIVE'')]),
      (''status'', JDict [(''state'', JStr ''PUBLISHED'')]),
      (''contents'', JDict [(''text'', JStr ''Contains shared documents authored through DataHub agents.'')]),
      (''created'', JDict stamp), (''lastModified'', JDict stamp)]"

definition ensure_shared_document_parent ::
  "'w aspect_store \<Rightarrow> context_spec \<Rightarrow> jdict \<Rightarrow> ('w, exn, string list) prog" where
  "ensure_shared_document_parent st sp stamp =
     bind_p (as_exists st (sp_shared sp)) (\<lambda>found.
       if found then return_p []
       else sequence_p
         [emit_changed st (sp_shared sp) ''documentInfo'' (shared_folder stamp),
          ensure_subtype st (sp_shared sp) ''Folder'',
          ensure_document_settings st (sp_shared sp) stamp])"

definition ensure_related_document ::
  "'w aspect_store \<Rightarrow> context_spec \<Rightarrow> jdict \<Rightarrow> ('w, exn, string list) prog" where
  "ensure_related_document st sp stamp =
     sequence_p
       [ensure_shared_document_parent st sp stamp,
        ensure_context_document_info st sp stamp,
        ensure_subtype st (sp_context_document sp) ''Context'',
        ensure_document_settings st (sp_context_document sp) stamp,
        ensure_list_aspect st (sp_context_document sp) ''ownership'' ''owners'' (owner_entry sp) ''owner''
          ''lastModified'' stamp,
        ensure_list_aspect st (sp_context_document sp) ''glossaryTerms'' ''terms'' (term_entry sp) ''urn''
          ''auditStamp'' stamp]"

section \<open>Verifying\<close>

text \<open>Every check gives the list of its complaints.\<close>

definition require_fields :: "jdict option \<Rightarrow> jdict \<Rightarrow> string \<Rightarrow> string list" where
  "require_fields actual expected label =
     (if actual = None \<or> \<not> covers (the actual) expected
      then [label @ '' is missing or does not match the exact contract''] else [])"

definition entry_listed :: "json \<Rightarrow> jdict \<Rightarrow> exn + bool" where
  "entry_listed values expected =
     bind_res (iterate values) (\<lambda>items.
       Inr (list_ex (\<lambda>item. case item of JDict d \<Rightarrow> covers d expected | _ \<Rightarrow> False) items))"

text \<open>\<^verbatim>\<open>expected in values\<close> for a string: a substring, a key or an element.\<close>

definition string_in :: "string \<Rightarrow> json \<Rightarrow> exn + bool" where
  "string_in s values =
     (case values of
        JList xs \<Rightarrow> Inr (JStr s \<in> set xs)
      | JDict d \<Rightarrow> Inr (has_key d s)
      | JStr t \<Rightarrow> Inr (contains s t)
      | _ \<Rightarrow> Inl (TypeErr ''argument is not iterable''))"

definition require_entry ::
  "jdict option \<Rightarrow> string \<Rightarrow> (json \<Rightarrow> exn + bool) \<Rightarrow> string \<Rightarrow> exn + string list" where
  "require_entry actual list_key found_in label =
     bind_res (found_in (get_default (or_empty actual) list_key)) (\<lambda>found.
       Inr (if found then [] else [label @ '' is missing or does not match the exact URN'']))"

definition fields_check ::
  "'w aspect_store \<Rightarrow> string \<Rightarrow> string \<Rightarrow> jdict \<Rightarrow> string \<Rightarrow> ('w, exn, string list) prog" where
  "fields_check st urn aspect expected label =
     bind_p (as_get st urn aspect) (\<lambda>actual. return_p (require_fields actual expected label))"

definition entry_check ::
  "'w aspect_store \<Rightarrow> string \<Rightarrow> string \<Rightarrow> string \<Rightarrow> (json \<Rightarrow> exn + bool) \<Rightarrow> string
    \<Rightarrow> ('w, exn, string list) prog" where
  "entry_check st urn aspect list_key found_in label =
     bind_p (as_get st urn aspect) (\<lambda>actual. result_p (require_entry actual list_key found_in label))"

definition exists_check :: "'w aspect_store \<Rightarrow> string \<Rightarrow> string \<Rightarrow> ('w, exn, string list) prog" where
  "exists_check st label urn =
     bind_p (as_exists st urn) (\<lambda>found. return_p (if found then [] else [label @ urn]))"

definition check_dbt_lineage :: "'w aspect_store \<Rightarrow> context_spec \<Rightarrow> ('w, exn, string list) prog" where
  "check_dbt_lineage st sp =
     sequence_p (map (\<lambda>(downstream_urn, expected, label).
       entry_check st downstream_urn ''upstreamLineage'' ''upstreams'' (\<lambda>vs. entry_listed vs expected) label)
       (lineage_checks sp))"

definition exposes_document :: "context_spec \<Rightarrow> jdict \<Rightarrow> bool" where
  "exposes_document sp item \<longleftrightarrow>
     jget item ''urn'' = JStr (sp_context_document sp)
     \<and> (case jget item ''info'' of
          JDict info \<Rightarrow> jget info ''title'' = JStr (sp_context_title sp) | _ \<Rightarrow> False)"

definition is_runtime_error :: "exn \<Rightarrow> bool" where
  "is_runtime_error e \<longleftrightarrow>
     (case e of RuntimeError _ \<Rightarrow> True | Other n _ \<Rightarrow> n = ''VerificationError'' | _ \<Rightarrow> False)"

definition related_check :: "'w aspect_store \<Rightarrow> context_spec \<Rightarrow> ('w, exn, string list) prog" where
  "related_check st sp =
     catch_p
       (bind_p (as_related st (sp_source sp)) (\<lambda>documents.
          return_p (if list_ex (exposes_document sp) documents then []
                    else [''dataset does not expose the deterministic context document''])))
       (\<lambda>e. if is_runtime_error e \<or> is_value_error e
            then return_p [''dataset related-document lookup failed: '' @ exn_text e]
            else raise_p e)"

definition document_info_check :: "'w aspect_store \<Rightarrow> context_spec \<Rightarrow> ('w, exn, string list) prog" where
  "document_info_check st sp =
     bind_p (as_get st (sp_context_document sp) ''documentInfo'') (\<lambda>info.
     bind_p (result_p (require_entry info ''relatedAssets'' (\<lambda>vs. entry_listed vs (asset_link sp))
               ''context-document dataset relationship'')) (\<lambda>link_errors.
       return_p (require_fields info (context_info sp) ''DataRescue context document'' @ link_errors)))"

definition check_related_document :: "'w aspect_store \<Rightarrow> context_spec \<Rightarrow> ('w, exn, string list) prog" where
  "check_related_document st sp =
     (let doc = sp_context_document sp in
      sequence_p
        [exists_check st ''shared document parent is missing: '' (sp_shared sp),
         exists_check st ''context document is missing: '' doc,
         document_info_check st sp,
         fields_check st doc ''documentSettings'' [(''showInGlobalContext'', JBool True)]
           ''context-document global visibility'',
         entry_check st doc ''subTypes'' ''typeNames'' (string_in ''Context'') ''context-document subtype'',
         entry_check st doc ''ownership'' ''owners'' (\<lambda>vs. entry_listed vs (owner_entry sp)) ''context-document owner'',
         entry_check st doc ''glossaryTerms'' ''terms'' (\<lambda>vs. entry_listed vs (term_entry sp))
           ''context-document glossary term'',
         related_check st sp])"

definition context_errors :: "'w aspect_store \<Rightarrow> context_spec \<Rightarrow> ('w, exn, string list) prog" where
  "context_errors st sp =
     sequence_p
       (map (exists_check st ''missing ingested dataset: '') (dataset_urns sp)
        @ [fields_check st (sp_term sp) ''glossaryTermInfo'' (take 3 (term_info sp))
             ''NetRevenue glossary definition'',
           fields_check st (sp_owner sp) ''corpUserInfo'' (take 3 owner_info) ''Finance Data owner'',
           fields_check st (sp_source sp) ''editableDatasetProperties''
             [(''description'', JStr (sp_asset_description sp))] ''source description'',
           entry_check st (sp_source sp) ''ownership'' ''owners'' (\<lambda>vs. entry_listed vs (owner_entry sp))
             ''source owner attachment'',
           entry_check st (sp_source sp) ''glossaryTerms'' ''terms'' (\<lambda>vs. entry_listed vs (term_entry sp))
             ''source glossary attachment'',
           entry_check st (sp_source sp) ''institutionalMemory'' ''elements''
             (\<lambda>vs. entry_listed vs (document_entry sp)) ''source documentation context'',
           check_related_document st sp,
           check_dbt_lineage st sp])"

definition context_report :: "context_spec \<Rightarrow> jdict" where
  "context_report sp =
     [(''status'', JStr ''VERIFIED''), (''source_urn'', JStr (sp_source sp)),
      (''term_urn'', JStr (sp_term sp)), (''owner_urn'', JStr (sp_owner sp)),
      (''lineage_urns'', JList (map JStr (dataset_urns sp))),
      (''document_url'', JStr (sp_document_url sp)), (''document_urn'', JStr (sp_context_document sp))]"

definition bullets :: "string list \<Rightarrow> string" where
  "bullets items = join_with (newline @ ''- '') items"

definition verify_context ::
  "'w aspect_store \<Rightarrow> context_spec \<Rightarrow> bool \<Rightarrow> ('w, exn, jdict) prog" where
  "verify_context st sp test_connection =
     then_p (if test_connection then as_test st else return_p ())
       (bind_p (context_errors st sp) (\<lambda>errors.
          if errors \<noteq> []
          then raise_p (verification_error
                 (''DataHub semantic-context verification failed:'' @ newline @ ''- '' @ bullets errors))
          else return_p (context_report sp)))"

section \<open>Seeding\<close>

fun absent :: "'w aspect_store \<Rightarrow> string list \<Rightarrow> ('w, exn, string list) prog" where
  "absent st [] = return_p []"
| "absent st (urn # urns) =
     bind_p (as_exists st urn) (\<lambda>found.
     bind_p (absent st urns) (\<lambda>rest. return_p (if found then rest else urn # rest)))"

definition require_ingested_datasets :: "'w aspect_store \<Rightarrow> context_spec \<Rightarrow> ('w, exn, unit) prog" where
  "require_ingested_datasets st sp =
     bind_p (absent st (dataset_urns sp)) (\<lambda>missing.
       if missing \<noteq> []
       then raise_p (verification_error
              (''Run the PostgreSQL and dbt ingestion before semantic seeding; missing:'' @ newline
               @ ''- '' @ bullets missing))
       else return_p ())"

definition require_dbt_lineage :: "'w aspect_store \<Rightarrow> context_spec \<Rightarrow> ('w, exn, unit) prog" where
  "require_dbt_lineage st sp =
     bind_p (check_dbt_lineage st sp) (\<lambda>errors.
       if errors \<noteq> []
       then raise_p (verification_error
              (''DataHub dbt-lineage verification failed:'' @ newline @ ''- '' @ bullets errors))
       else return_p ())"

definition seed_steps ::
  "'w aspect_store \<Rightarrow> context_spec \<Rightarrow> jdict \<Rightarrow> ('w, exn, string list) prog list" where
  "seed_steps st sp stamp =
     [ensure_object_aspect st (sp_term sp) ''glossaryTermInfo'' (term_info sp),
      ensure_object_aspect st (sp_owner sp) ''corpUserInfo'' owner_info,
      ensure_description st sp stamp,
      ensure_owner st sp stamp,
      ensure_term_attachment st sp stamp,
      ensure_document st sp stamp,
      ensure_related_document st sp stamp]"

definition seed_context ::
  "'w aspect_store \<Rightarrow> context_spec \<Rightarrow> int \<Rightarrow> ('w, exn, string list) prog" where
  "seed_context st sp now_ms =
     (let stamp = [(''time'', JInt now_ms), (''actor'', JStr (sp_owner sp))] in
      then_p (as_test st)
     (then_p (require_ingested_datasets st sp)
     (then_p (require_dbt_lineage st sp)
     (bind_p (sequence_p (seed_steps st sp stamp)) (\<lambda>changed.
      then_p (verify_context st sp False) (return_p changed))))))"

text \<open>\<^verbatim>\<open>main\<close> after the arguments are parsed: the exit code, and the report when it is zero.\<close>

definition seed_main ::
  "(string \<Rightarrow> ('w, exn, 'w aspect_store) prog) \<Rightarrow> string option \<Rightarrow> bool \<Rightarrow> context_spec \<Rightarrow> int
    \<Rightarrow> ('w, exn, int \<times> jdict) prog" where
  "seed_main store_factory gms_url seeding sp now_ms =
     (case gms_url of
        None \<Rightarrow> return_p (2, [])
      | Some url \<Rightarrow>
          if url = [] then return_p (2, [])
          else catch_p
            (bind_p (store_factory (rstrip_by (\<lambda>c. c = CHR ''/'') url)) (\<lambda>st.
               if seeding
               then bind_p (seed_context st sp now_ms) (\<lambda>changed.
                    bind_p (verify_context st sp False) (\<lambda>found.
                      return_p (0, dict_set found ''changed_aspects'' (JList (map JStr changed)))))
               else bind_p (verify_context st sp True) (\<lambda>found. return_p (0, found))))
            (\<lambda>e. if is_runtime_error e \<or> is_value_error e then return_p (1, []) else raise_p e))"

end
