(* ===== verification/Seed_Safety.thy ===== *)
theory Seed_Safety
  imports Context_Seed
begin

text \<open>
  What seeding the semantic context guarantees against a store that keeps what is written to it: it is
  idempotent, and it loses nothing.
\<close>

section \<open>A store that keeps what is written\<close>

text \<open>
  \<open>view w u a\<close> is the aspect \<open>a\<close> of the entity \<open>u\<close>, and \<open>ex w u\<close> says that the entity exists. Reading
  changes nothing, and a written aspect is the one that is read.
\<close>

definition faithful ::
  "'w aspect_store \<Rightarrow> ('w \<Rightarrow> string \<Rightarrow> string \<Rightarrow> jdict option) \<Rightarrow> ('w \<Rightarrow> string \<Rightarrow> bool) \<Rightarrow> bool" where
  "faithful st view ex \<longleftrightarrow>
     (\<forall>w. as_test st w = (Inr (), w))
     \<and> (\<forall>u w. as_exists st u w = (Inr (ex w u), w))
     \<and> (\<forall>u a w. as_get st u a w = (Inr (view w u a), w))
     \<and> (\<forall>u a v w. fst (as_emit st u a v w) = Inr ()
          \<and> view (snd (as_emit st u a v w)) = (view w)(u := (view w u)(a := Some v))
          \<and> (\<forall>x. ex (snd (as_emit st u a v w)) x \<longleftrightarrow> x = u \<or> ex w x))
     \<and> (\<forall>u w. snd (as_related st u w) = w)"

lemma faithful_reads:
  assumes "faithful st view ex"
  shows "as_test st w = (Inr (), w)" and "as_exists st u w = (Inr (ex w u), w)"
    and "as_get st u a w = (Inr (view w u a), w)" and "snd (as_related st u w) = w"
  using assms by (auto simp: faithful_def)

lemma faithful_emit:
  assumes "faithful st view ex"
  obtains w' where "as_emit st u a v w = (Inr (), w')" "view w' = (view w)(u := (view w u)(a := Some v))"
    "\<And>x. ex w' x \<longleftrightarrow> x = u \<or> ex w x"
  using assms unfolding faithful_def by (metis prod.collapse)

section \<open>Steps that settle\<close>

text \<open>
  An update that, applied again at any other time, finds nothing left to do.
\<close>

definition settling :: "('t \<Rightarrow> jdict \<Rightarrow> exn + jdict option) \<Rightarrow> bool" where
  "settling f \<longleftrightarrow> (\<forall>t d r t'. f t d = Inr r \<longrightarrow> f t' (case r of None \<Rightarrow> d | Some v \<Rightarrow> v) = Inr None)"

lemma settlingI:
  assumes "\<And>t d v t'. f t d = Inr (Some v) \<Longrightarrow> f t' v = Inr None"
    and "\<And>t d t'. f t d = Inr None \<Longrightarrow> f t' d = Inr None"
  shows "settling f"
  unfolding settling_def
proof (intro allI impI)
  fix t d r t'
  assume "f t d = Inr r"
  then show "f t' (case r of None \<Rightarrow> d | Some v \<Rightarrow> v) = Inr None"
    using assms(1) [of t d _ t'] assms(2) [of t d t'] by (cases r) simp_all
qed

lemma settlingD: "settling f \<Longrightarrow> f t d = Inr r \<Longrightarrow> f t' (case r of None \<Rightarrow> d | Some v \<Rightarrow> v) = Inr None"
  unfolding settling_def by blast

lemma covers_JStr: "covers a e \<Longrightarrow> (k, JStr s) \<in> set e \<Longrightarrow> jget a k = JStr s"
  by (induction a e rule: covers.induct) auto

lemma object_settles: "plain (JDict required) \<Longrightarrow> settling (\<lambda>_. object_update required)"
  by (rule settlingI) (auto simp: object_update_def covers_merge split: if_splits)

lemma description_settles: "settling (description_update sp)"
  by (rule settlingI) (auto simp: description_update_def split: if_splits)

lemma replace_entry_settles:
  assumes "plain (JDict e)" "(i, JStr s) \<in> set e"
  shows "replace_entry i e xs = Inr (Some ys) \<Longrightarrow> replace_entry i e ys = Inr None"
proof (induction xs arbitrary: ys)
  case Nil
  have "jget e i = JStr s"
    using covers_JStr [OF covers_refl [OF assms(1)] assms(2)] .
  with Nil show ?case using covers_refl [OF assms(1)] by auto
next
  case (Cons x xs)
  have i: "jget e i = JStr s"
    using covers_JStr [OF covers_refl [OF assms(1)] assms(2)] .
  from Cons.prems obtain d where d: "x = JDict d" by (cases x) auto
  show ?case
  proof (cases "jget d i = JStr s")
    case True
    have "jget (merge_required d e) i = JStr s"
      using covers_JStr [OF covers_merge [OF assms(1)] assms(2)] .
    with True Cons.prems d i show ?thesis
      using covers_merge [OF assms(1)] by (auto split: if_splits)
  next
    case False
    with Cons d i show ?thesis by (auto elim!: bind_res_InrE)
  qed
qed

lemma get_default_dict_set:
  "get_default (dict_set d k v) x = (if x = k then v else get_default d x)"
  by (simp add: get_default_def map_of_dict_set)

lemma list_settles:
  assumes "plain (JDict e)" "(i, JStr s) \<in> set e" "list_key \<noteq> stamp_key"
  shows "settling (entries_update list_key e i stamp_key)"
proof (rule settlingI)
  fix t d v t'
  assume "entries_update list_key e i stamp_key t d = Inr (Some v)"
  then obtain es ys where "replace_entry i e es = Inr (Some ys)"
      "v = dict_set (dict_set d list_key (JList ys)) stamp_key (JDict t)"
    by (auto simp: entries_update_def elim!: bind_res_InrE)
  then show "entries_update list_key e i stamp_key t' v = Inr None"
    using replace_entry_settles [OF assms(1,2)] assms(3)
    by (simp add: entries_update_def get_default_dict_set iterate_def)
qed (auto simp: entries_update_def elim!: bind_res_InrE)

lemma replace_document_None: "replace_document sp t xs = Inr None \<Longrightarrow> replace_document sp t' xs = Inr None"
  by (induction xs) (auto elim!: bind_res_InrE split: json.splits if_splits)

lemma document_entry_plain: "plain (JDict (document_entry sp))"
  by (simp add: document_entry_def)

lemma covers_document:
  "covers d (document_entry sp) \<longleftrightarrow>
     jget d ''url'' = JStr (sp_document_url sp) \<and> jget d ''description'' = JStr (sp_document_description sp)"
  by (simp add: document_entry_def)

lemma jget_document_update:
  "jget (dict_update d (document_entry sp)) ''url'' = JStr (sp_document_url sp)"
  "jget (dict_update d (document_entry sp)) ''description'' = JStr (sp_document_description sp)"
  by (simp_all add: jget_dict_update document_entry_def)

lemma replace_document_settles:
  "replace_document sp t xs = Inr (Some ys) \<Longrightarrow> replace_document sp t' ys = Inr None"
proof (induction xs arbitrary: ys)
  case Nil
  then show ?case by (auto simp: covers_document jget_def document_entry_def)
next
  case (Cons x xs)
  then obtain d where d: "x = JDict d" by (cases x) auto
  with Cons show ?case
    by (auto simp: covers_document jget_document_update elim!: bind_res_InrE split: if_splits)
qed

lemma document_settles: "settling (document_update sp)"
proof (rule settlingI)
  fix t d v t'
  assume "document_update sp t d = Inr (Some v)"
  then show "document_update sp t' v = Inr None"
    using replace_document_settles
    by (auto simp: document_update_def get_default_dict_set iterate_def elim!: bind_res_InrE)
next
  fix t d t'
  assume "document_update sp t d = Inr None"
  then obtain es where "iterate (get_default d ''elements'') = Inr es" "replace_document sp t es = Inr None"
    by (auto simp: document_update_def elim!: bind_res_InrE)
  then show "document_update sp t' d = Inr None"
    using replace_document_None [of sp t es t'] by (simp add: document_update_def)
qed

lemma subtype_settles: "settling (\<lambda>_. subtype_update subtype)"
  by (rule settlingI)
    (auto simp: subtype_update_def get_default_dict_set iterate_def elim!: bind_res_InrE split: if_splits)

lemma settings_settle: "settling settings_update"
  by (rule settlingI) (auto simp: settings_update_def split: if_splits)

lemma any_covers_snoc:
  "any_covers link xs = Inr False \<Longrightarrow> plain (JDict link) \<Longrightarrow> any_covers link (xs @ [JDict link]) = Inr True"
  by (induction xs) (auto simp: covers_refl split: json.splits if_splits)

lemma context_info_plain: "plain (JDict (context_info sp))"
  by (simp add: context_info_def)

lemma context_info_value_covers: "covers (context_info_value sp t d links) (context_info sp)"
proof -
  have "covers (context_info_value sp t d links) (context_info sp) \<longleftrightarrow> covers (context_info sp) (context_info sp)"
  proof (rule covers_cong)
    fix k assume "k \<in> fst ` set (context_info sp)"
    then have k: "k \<in> {''title'', ''source'', ''status'', ''contents'', ''parentDocument''}"
      by (simp add: context_info_def)
    then have "k \<notin> {''relatedAssets'', ''lastModified'', ''created'', ''customProperties''}"
      by (elim insertE emptyE) simp_all
    then have "jget (context_info_value sp t d links) k = jget (dict_update d (context_info sp)) k"
      by (simp add: context_info_value_def Let_def jget_set_default)
    also have "\<dots> = (case map_of (context_info sp) k of Some v \<Rightarrow> v | None \<Rightarrow> jget d k)"
      by (rule jget_dict_update) (simp add: context_info_def)
    also have "\<dots> = jget (context_info sp) k"
      using k by (elim insertE emptyE) (simp_all add: context_info_def jget_def)
    finally show "jget (context_info_value sp t d links) k = jget (context_info sp) k" .
  qed
  then show ?thesis using covers_refl [OF context_info_plain] by simp
qed

lemma context_info_settles: "settling (context_info_update sp)"
proof (rule settlingI)
  fix t d v t'
  assume "context_info_update sp t d = Inr (Some v)"
  then obtain old b where old: "any_covers (asset_link sp) old = Inr b"
      and v: "v = context_info_value sp t d (if b then old else old @ [JDict (asset_link sp)])"
    by (auto simp: context_info_update_def elim!: bind_res_InrE split: if_split_asm)
  have "plain (JDict (asset_link sp))"
    by (simp add: asset_link_def)
  then have "any_covers (asset_link sp) (if b then old else old @ [JDict (asset_link sp)]) = Inr True"
    using old any_covers_snoc [of "asset_link sp" old] by (cases b) simp_all
  moreover have "get_default v ''relatedAssets'' = JList (if b then old else old @ [JDict (asset_link sp)])"
    by (simp add: v context_info_value_def get_default_dict_set Let_def)
  ultimately show "context_info_update sp t' v = Inr None"
    using context_info_value_covers by (simp add: context_info_update_def iterate_def v)
qed (auto simp: context_info_update_def elim!: bind_res_InrE split: if_split_asm)

section \<open>Sequences of steps\<close>

text \<open>What a run may have changed: only the aspects of \<open>S\<close>; entities stay.\<close>

definition only_writes ::
  "('w \<Rightarrow> string \<Rightarrow> string \<Rightarrow> jdict option) \<Rightarrow> ('w \<Rightarrow> string \<Rightarrow> bool) \<Rightarrow> (string \<times> string) set
    \<Rightarrow> 'w \<Rightarrow> 'w \<Rightarrow> bool" where
  "only_writes view ex S w w' \<longleftrightarrow>
     (\<forall>u a. (u, a) \<notin> S \<longrightarrow> view w' u a = view w u a) \<and> (\<forall>u. ex w u \<longrightarrow> ex w' u)"

lemma only_writes_refl: "only_writes view ex S w w"
  by (simp add: only_writes_def)

lemma only_writes_mono: "only_writes view ex S w w' \<Longrightarrow> S \<subseteq> T \<Longrightarrow> only_writes view ex T w w'"
  unfolding only_writes_def by blast

text \<open>
  A step \<open>(M, S, R, P)\<close>: whenever \<open>M t\<close> succeeds, \<open>P\<close> holds; while \<open>P\<close> holds, \<open>M t\<close> does nothing; \<open>M t\<close>
  writes only \<open>S\<close>, and \<open>P\<close> depends on no more than the aspects of \<open>R\<close> and on which entities exist.
\<close>

type_synonym ('w, 't) step =
  "('t \<Rightarrow> ('w, exn, string list) prog) \<times> (string \<times> string) set \<times> (string \<times> string) set \<times> ('w \<Rightarrow> bool)"

definition good_step ::
  "('w \<Rightarrow> string \<Rightarrow> string \<Rightarrow> jdict option) \<Rightarrow> ('w \<Rightarrow> string \<Rightarrow> bool) \<Rightarrow> ('w, 't) step \<Rightarrow> bool" where
  "good_step view ex = (\<lambda>(M, S, R, P).
     (\<forall>t w c w'. M t w = (Inr c, w') \<longrightarrow> P w') \<and> (\<forall>t w. P w \<longrightarrow> M t w = (Inr [], w))
     \<and> (\<forall>t w0. keeps (only_writes view ex S w0) (M t))
     \<and> (\<forall>w w' S'. P w \<longrightarrow> only_writes view ex S' w w' \<longrightarrow> R \<inter> S' = {} \<longrightarrow> P w'))"

definition apart :: "('w, 't) step \<Rightarrow> ('w, 't) step \<Rightarrow> bool" where
  "apart = (\<lambda>(_, _, R, _) (_, S', _, _). R \<inter> S' = {})"

lemma sequence_keeps [keeps_intros]: "(\<And>m. m \<in> set ms \<Longrightarrow> keeps I m) \<Longrightarrow> keeps I (sequence_p ms)"
  by (induction ms) (auto intro!: keeps_return keeps_bind)

lemma only_writes_trans:
  "only_writes view ex S w0 w \<Longrightarrow> only_writes view ex S w w' \<Longrightarrow> only_writes view ex S w0 w'"
  unfolding only_writes_def by metis

lemma only_writes_widen:
  assumes "\<And>w0. keeps (only_writes view ex S w0) m" "S \<subseteq> T"
  shows "keeps (only_writes view ex T w0) m"
proof (rule keepsI)
  fix w assume before: "only_writes view ex T w0 w"
  have "only_writes view ex S w (snd (m w))"
    using assms(1) [of w] only_writes_refl [of view ex S w] by (simp add: keeps_def)
  then show "only_writes view ex T w0 (snd (m w))"
    using only_writes_mono assms(2) only_writes_trans before by metis
qed

definition step_writes :: "('w, 't) step list \<Rightarrow> (string \<times> string) set" where
  "step_writes steps = (\<Union>x \<in> set steps. fst (snd x))"

lemma sequence_writes:
  assumes "\<forall>x \<in> set steps. good_step view ex x"
  shows "keeps (only_writes view ex (step_writes steps) w0) (sequence_p (map (\<lambda>x. fst x t) steps))"
proof (rule sequence_keeps)
  fix m assume "m \<in> set (map (\<lambda>x. fst x t) steps)"
  then obtain x where x: "x \<in> set steps" "m = fst x t" by auto
  show "keeps (only_writes view ex (step_writes steps) w0) m"
  proof (rule only_writes_widen)
    show "keeps (only_writes view ex (fst (snd x)) w1) m" for w1
      using assms x by (auto simp: good_step_def)
    show "fst (snd x) \<subseteq> step_writes steps"
      using x(1) by (auto simp: step_writes_def)
  qed
qed

definition settled_step :: "('w, 't) step \<Rightarrow> 'w \<Rightarrow> bool" where
  "settled_step = (\<lambda>(M, S, R, P) w. P w)"

lemma sequence_settles:
  assumes "\<forall>x \<in> set steps. good_step view ex x" "sorted_wrt apart steps"
    and "sequence_p (map (\<lambda>x. fst x t) steps) w = (Inr c, w')"
  shows "\<forall>x \<in> set steps. settled_step x w'"
  using assms
proof (induction steps arbitrary: w c)
  case (Cons x rest)
  obtain M S R P where x: "x = (M, S, R, P)" by (cases x) auto
  from Cons.prems(3) obtain c1 w1 c2 where run: "M t w = (Inr c1, w1)"
      "sequence_p (map (\<lambda>x. fst x t) rest) w1 = (Inr c2, w')"
    unfolding x by (auto elim!: bind_p_cases)
  have good: "good_step view ex (M, S, R, P)" "\<forall>x \<in> set rest. good_step view ex x"
    using Cons.prems(1) x by auto
  have "P w1" using run(1) good(1) unfolding good_step_def by blast
  moreover have "only_writes view ex (step_writes rest) w1 w'"
    by (rule keepsD [where s = w1, OF sequence_writes [OF good(2)] only_writes_refl run(2)])
  moreover have "R \<inter> step_writes rest = {}"
    using Cons.prems(2) unfolding x by (fastforce simp: apart_def step_writes_def)
  ultimately have "P w'" using good(1) unfolding good_step_def prod.case by metis
  moreover have "\<forall>x \<in> set rest. settled_step x w'"
    using Cons.IH [OF good(2) _ run(2)] Cons.prems(2) by simp
  ultimately show ?case by (simp add: x settled_step_def)
qed simp

lemma sequence_idle:
  assumes "\<forall>x \<in> set steps. good_step view ex x" "\<forall>x \<in> set steps. settled_step x w"
  shows "sequence_p (map (\<lambda>x. fst x t) steps) w = (Inr [], w)"
  using assms
proof (induction steps)
  case (Cons x rest)
  obtain M S R P where x: "x = (M, S, R, P)" by (cases x) auto
  have "good_step view ex (M, S, R, P)" "P w"
    using Cons.prems by (simp_all add: x settled_step_def)
  then have "M t w = (Inr [], w)"
    unfolding good_step_def prod.case by blast
  moreover have "sequence_p (map (\<lambda>x. fst x t) rest) w = (Inr [], w)"
    by (rule Cons.IH) (use Cons.prems in simp_all)
  ultimately show ?case by (simp add: x bind_p_def)
qed simp

lemma sequence_flat: "sequence_p (ms @ [sequence_p ns]) = sequence_p (ms @ ns)"
  by (induction ms) (auto simp: fun_eq_iff bind_p_def split: prod.split sum.split)

section \<open>The steps of the seed\<close>

definition ensure_step ::
  "'w aspect_store \<Rightarrow> ('w \<Rightarrow> string \<Rightarrow> string \<Rightarrow> jdict option) \<Rightarrow> string \<Rightarrow> string
    \<Rightarrow> ('t \<Rightarrow> jdict \<Rightarrow> exn + jdict option) \<Rightarrow> ('w, 't) step" where
  "ensure_step st view u a f =
     (\<lambda>t. ensure st u a (f t), {(u, a)}, {(u, a)}, \<lambda>w. \<forall>t. f t (or_empty (view w u a)) = Inr None)"

lemma ensure_cases:
  assumes "faithful st view ex"
  obtains (err) e where "f (or_empty (view w u a)) = Inl e" "ensure st u a f w = (Inl e, w)"
  | (idle) "f (or_empty (view w u a)) = Inr None" "ensure st u a f w = (Inr [], w)"
  | (emitted) v w' where "f (or_empty (view w u a)) = Inr (Some v)" "ensure st u a f w = (Inr [u @ '':'' @ a], w')"
      "view w' = (view w)(u := (view w u)(a := Some v))" "\<And>x. ex w' x \<longleftrightarrow> x = u \<or> ex w x"
proof (cases "f (or_empty (view w u a))")
  case (Inl e)
  then show ?thesis
    by (intro err) (simp_all add: ensure_def bind_p_def faithful_reads [OF assms])
next
  case (Inr r)
  show ?thesis
  proof (cases r)
    case None
    with Inr show ?thesis
      by (intro idle) (simp_all add: ensure_def bind_p_def faithful_reads [OF assms])
  next
    case (Some v)
    obtain w' where emit: "as_emit st u a v w = (Inr (), w')"
        "view w' = (view w)(u := (view w u)(a := Some v))" "\<And>x. ex w' x \<longleftrightarrow> x = u \<or> ex w x"
      by (rule faithful_emit [OF assms, of u a v w]) blast
    with Inr Some have "ensure st u a f w = (Inr [u @ '':'' @ a], w')"
      by (simp add: ensure_def emit_changed_def then_p_def bind_p_def faithful_reads [OF assms])
    with emit Inr Some show ?thesis by (intro emitted) auto
  qed
qed

lemma ensure_writes:
  assumes "faithful st view ex"
  shows "keeps (only_writes view ex {(u, a)} w0) (ensure st u a f)"
proof (rule keepsI)
  fix w assume "only_writes view ex {(u, a)} w0 w"
  then show "only_writes view ex {(u, a)} w0 (snd (ensure st u a f w))"
    by (cases rule: ensure_cases [OF assms, of f w u a]) (auto simp: only_writes_def)
qed

lemma ensure_good:
  assumes "faithful st view ex" "settling f"
  shows "good_step view ex (ensure_step st view u a f)"
proof -
  have settled: "f t' (or_empty (view w' u a)) = Inr None"
    if run: "ensure st u a (f t) w = (Inr c, w')" for t t' w w' c
  proof -
    have same: "f t d = Inr None \<Longrightarrow> f t' d = Inr None" for d
      using settlingD [OF assms(2), of t d None t'] by simp
    have finished: "f t d = Inr (Some v) \<Longrightarrow> f t' v = Inr None" for d v
      using settlingD [OF assms(2), of t d "Some v" t'] by simp
    show ?thesis
      using run by (cases rule: ensure_cases [OF assms(1), of "f t" w u a])
        (simp_all add: same finished [of "or_empty (view w u a)"] or_empty_def)
  qed
  have idle: "ensure st u a (f t) w = (Inr [], w)" if "\<forall>t. f t (or_empty (view w u a)) = Inr None" for t w
    using that by (cases rule: ensure_cases [OF assms(1), of "f t" w u a]) auto
  show ?thesis
    unfolding ensure_step_def good_step_def
    using settled idle ensure_writes [OF assms(1)] by (auto simp: only_writes_def)
qed

definition parent_step ::
  "'w aspect_store \<Rightarrow> ('w \<Rightarrow> string \<Rightarrow> bool) \<Rightarrow> context_spec \<Rightarrow> ('w, jdict) step" where
  "parent_step st ex sp =
     (ensure_shared_document_parent st sp,
      {(sp_shared sp, ''documentInfo''), (sp_shared sp, ''subTypes''), (sp_shared sp, ''documentSettings'')},
      {}, \<lambda>w. ex w (sp_shared sp))"

lemma emit_cases:
  assumes "faithful st view ex"
  obtains w' where "emit_changed st u a v w = (Inr [u @ '':'' @ a], w')"
    "view w' = (view w)(u := (view w u)(a := Some v))" "\<And>x. ex w' x \<longleftrightarrow> x = u \<or> ex w x"
proof -
  obtain w' where w': "as_emit st u a v w = (Inr (), w')" "view w' = (view w)(u := (view w u)(a := Some v))"
      "\<And>x. ex w' x \<longleftrightarrow> x = u \<or> ex w x"
    by (rule faithful_emit [OF assms, of u a v w]) blast
  show thesis
    by (rule that [of w']) (use w' in \<open>simp_all add: emit_changed_def then_p_def bind_p_def\<close>)
qed

lemma emit_writes:
  assumes "faithful st view ex"
  shows "keeps (only_writes view ex {(u, a)} w0) (emit_changed st u a v)"
proof (rule keepsI)
  fix w assume before: "only_writes view ex {(u, a)} w0 w"
  obtain w' where "emit_changed st u a v w = (Inr [u @ '':'' @ a], w')"
      "view w' = (view w)(u := (view w u)(a := Some v))" "\<And>x. ex w' x \<longleftrightarrow> x = u \<or> ex w x"
    by (rule emit_cases [OF assms, of u a v w]) blast
  with before show "only_writes view ex {(u, a)} w0 (snd (emit_changed st u a v w))"
    by (auto simp: only_writes_def)
qed

lemma sequence_first:
  assumes "m w = (Inr c1, w1)" "sequence_p (m # ms) w = (Inr c, w')"
  shows "w' = snd (sequence_p ms w1)"
  using assms by (auto elim!: bind_p_cases)

lemma parent_writes:
  assumes "faithful st view ex"
  shows "keeps (only_writes view ex
    {(sp_shared sp, ''documentInfo''), (sp_shared sp, ''subTypes''), (sp_shared sp, ''documentSettings'')} w0)
    (ensure_shared_document_parent st sp stamp)"
proof -
  have exists: "keeps I (as_exists st u)" for I u
    using faithful_reads(2) [OF assms] by (simp add: keeps_def)
  have steps: "keeps (only_writes view ex
      {(sp_shared sp, ''documentInfo''), (sp_shared sp, ''subTypes''), (sp_shared sp, ''documentSettings'')} w0) m"
    if "m \<in> set [emit_changed st (sp_shared sp) ''documentInfo'' (shared_folder stamp),
          ensure_subtype st (sp_shared sp) ''Folder'',
          ensure_document_settings st (sp_shared sp) stamp]" for m
    using that only_writes_widen [OF emit_writes [OF assms]] only_writes_widen [OF ensure_writes [OF assms]]
    by (auto simp: ensure_subtype_def ensure_document_settings_def)
  let ?ms = "[emit_changed st (sp_shared sp) ''documentInfo'' (shared_folder stamp),
      ensure_subtype st (sp_shared sp) ''Folder'', ensure_document_settings st (sp_shared sp) stamp]"
  have "keeps (only_writes view ex
      {(sp_shared sp, ''documentInfo''), (sp_shared sp, ''subTypes''), (sp_shared sp, ''documentSettings'')} w0)
      (sequence_p ?ms)"
    by (rule sequence_keeps) (rule steps)
  then have "keeps (only_writes view ex
      {(sp_shared sp, ''documentInfo''), (sp_shared sp, ''subTypes''), (sp_shared sp, ''documentSettings'')} w0)
      (if found then return_p [] else sequence_p ?ms)" for found
    by (cases found) (simp_all only: if_True if_False keeps_return)
  then show ?thesis
    unfolding ensure_shared_document_parent_def by (intro keeps_bind exists)
qed

lemma parent_exists:
  assumes "faithful st view ex"
  shows "ensure_shared_document_parent st sp stamp w = (Inr c, w') \<Longrightarrow> ex w' (sp_shared sp)"
    and "ex w (sp_shared sp) \<Longrightarrow> ensure_shared_document_parent st sp stamp w = (Inr [], w)"
proof -
  let ?u = "sp_shared sp"
  show idle: "ex w ?u \<Longrightarrow> ensure_shared_document_parent st sp stamp w = (Inr [], w)"
    by (simp add: ensure_shared_document_parent_def bind_p_def faithful_reads [OF assms])
  assume run: "ensure_shared_document_parent st sp stamp w = (Inr c, w')"
  show "ex w' ?u"
  proof (cases "ex w ?u")
    case False
    let ?rest = "sequence_p [ensure_subtype st ?u ''Folder'', ensure_document_settings st ?u stamp]"
    obtain w1 where emit: "emit_changed st ?u ''documentInfo'' (shared_folder stamp) w
          = (Inr [?u @ '':'' @ ''documentInfo''], w1)" "\<And>x. ex w1 x \<longleftrightarrow> x = ?u \<or> ex w x"
      by (rule emit_cases [OF assms, of ?u "''documentInfo''" "shared_folder stamp" w]) blast
    have "ensure_shared_document_parent st sp stamp w
        = sequence_p [emit_changed st ?u ''documentInfo'' (shared_folder stamp), ensure_subtype st ?u ''Folder'',
            ensure_document_settings st ?u stamp] w"
      using False by (simp add: ensure_shared_document_parent_def bind_p_def faithful_reads [OF assms]
        del: sequence_p.simps)
    with run have "sequence_p [emit_changed st ?u ''documentInfo'' (shared_folder stamp),
        ensure_subtype st ?u ''Folder'', ensure_document_settings st ?u stamp] w = (Inr c, w')"
      by simp
    with emit(1) have w': "w' = snd (?rest w1)"
      by (rule sequence_first)
    have "keeps (only_writes view ex UNIV w1) ?rest"
      by (rule sequence_keeps)
        (use only_writes_widen [OF ensure_writes [OF assms] subset_UNIV] in
          \<open>auto simp: ensure_subtype_def ensure_document_settings_def\<close>)
    from this only_writes_refl have "only_writes view ex UNIV w1 (snd (?rest w1))"
      by (rule keeps_snd)
    then have "only_writes view ex UNIV w1 w'"
      unfolding w' .
    with emit(2) show ?thesis by (simp add: only_writes_def)
  qed (use idle run in simp)
qed

lemma parent_good: "faithful st view ex \<Longrightarrow> good_step view ex (parent_step st ex sp)"
  unfolding parent_step_def good_step_def
  using parent_exists parent_writes by (auto simp: only_writes_def)

definition seed_plan ::
  "'w aspect_store \<Rightarrow> ('w \<Rightarrow> string \<Rightarrow> string \<Rightarrow> jdict option) \<Rightarrow> ('w \<Rightarrow> string \<Rightarrow> bool) \<Rightarrow> context_spec
    \<Rightarrow> ('w, jdict) step list" where
  "seed_plan st view ex sp =
     [ensure_step st view (sp_term sp) ''glossaryTermInfo'' (\<lambda>_. object_update (term_info sp)),
      ensure_step st view (sp_owner sp) ''corpUserInfo'' (\<lambda>_. object_update owner_info),
      ensure_step st view (sp_source sp) ''editableDatasetProperties'' (description_update sp),
      ensure_step st view (sp_source sp) ''ownership''
        (entries_update ''owners'' (owner_entry sp) ''owner'' ''lastModified''),
      ensure_step st view (sp_source sp) ''glossaryTerms''
        (entries_update ''terms'' (term_entry sp) ''urn'' ''auditStamp''),
      ensure_step st view (sp_source sp) ''institutionalMemory'' (document_update sp),
      parent_step st ex sp,
      ensure_step st view (sp_context_document sp) ''documentInfo'' (context_info_update sp),
      ensure_step st view (sp_context_document sp) ''subTypes'' (\<lambda>_. subtype_update ''Context''),
      ensure_step st view (sp_context_document sp) ''documentSettings'' settings_update,
      ensure_step st view (sp_context_document sp) ''ownership''
        (entries_update ''owners'' (owner_entry sp) ''owner'' ''lastModified''),
      ensure_step st view (sp_context_document sp) ''glossaryTerms''
        (entries_update ''terms'' (term_entry sp) ''urn'' ''auditStamp'')]"

lemma seed_steps_plan:
  "sequence_p (seed_steps st sp stamp) = sequence_p (map (\<lambda>x. fst x stamp) (seed_plan st view ex sp))"
proof -
  let ?front = "map (\<lambda>x. fst x stamp) (take 6 (seed_plan st view ex sp))"
  let ?rear = "map (\<lambda>x. fst x stamp) (drop 6 (seed_plan st view ex sp))"
  have "seed_steps st sp stamp = ?front @ [sequence_p ?rear]"
    by (simp add: seed_steps_def seed_plan_def ensure_step_def parent_step_def ensure_object_aspect_def
      ensure_description_def ensure_owner_def ensure_term_attachment_def ensure_document_def
      ensure_related_document_def ensure_list_aspect_def ensure_subtype_def ensure_document_settings_def
      ensure_context_document_info_def)
  then show ?thesis
    by (metis append_take_drop_id map_append sequence_flat)
qed

lemma entry_plain: "plain (JDict (owner_entry sp))" "plain (JDict (term_entry sp))"
  "plain (JDict (term_info sp))" "plain (JDict owner_info)"
  by (simp_all add: owner_entry_def term_entry_def term_info_def owner_info_def)

lemma entry_identity [simp]:
  "(''owner'', JStr (sp_owner sp)) \<in> set (owner_entry sp)" "(''urn'', JStr (sp_term sp)) \<in> set (term_entry sp)"
  by (simp_all add: owner_entry_def term_entry_def)

lemma seed_plan_good:
  assumes "faithful st view ex"
  shows "\<forall>x \<in> set (seed_plan st view ex sp). good_step view ex x"
proof -
  note good = ensure_good [OF assms] parent_good [OF assms]
  have "settling (entries_update ''owners'' (owner_entry sp) ''owner'' ''lastModified'')"
    by (rule list_settles [OF entry_plain(1) entry_identity(1)]) simp
  moreover have "settling (entries_update ''terms'' (term_entry sp) ''urn'' ''auditStamp'')"
    by (rule list_settles [OF entry_plain(2) entry_identity(2)]) simp
  ultimately show ?thesis
    unfolding seed_plan_def
    by (simp add: good object_settles [OF entry_plain(3)] object_settles [OF entry_plain(4)] description_settles document_settles context_info_settles
      subtype_settles settings_settle)
qed

lemma seed_plan_apart:
  "sp_source sp \<noteq> sp_context_document sp \<Longrightarrow> sorted_wrt apart (seed_plan st view ex sp)"
  by (simp add: seed_plan_def ensure_step_def parent_step_def apart_def)

section \<open>Seeding twice\<close>

lemma reads_only_sequence: "(\<And>m. m \<in> set ms \<Longrightarrow> leaves_world m) \<Longrightarrow> leaves_world (sequence_p ms)"
  unfolding reads_only_keeps by (intro allI sequence_keeps) auto

lemma reads_only_store:
  assumes "faithful st view ex"
  shows "leaves_world (as_test st)" "leaves_world (as_exists st u)" "leaves_world (as_get st u a)"
    "leaves_world (as_related st u)"
  using faithful_reads [OF assms] by (simp_all add: leaves_world_def)

lemma checks_read_only:
  assumes "faithful st view ex"
  shows "leaves_world (exists_check st l u)" "leaves_world (fields_check st u a e l)"
    "leaves_world (entry_check st u a k p l)" "leaves_world (document_info_check st sp)"
    "leaves_world (related_check st sp)"
  unfolding exists_check_def fields_check_def entry_check_def document_info_check_def related_check_def
  by (auto intro!: reads_only_bind reads_only_catch reads_only_basic reads_only_store [OF assms])

lemma lineage_reads_only:
  "faithful st view ex \<Longrightarrow> leaves_world (check_dbt_lineage st sp)"
  unfolding check_dbt_lineage_def by (rule reads_only_sequence) (auto simp: checks_read_only)

lemma related_document_reads_only:
  "faithful st view ex \<Longrightarrow> leaves_world (check_related_document st sp)"
  unfolding check_related_document_def Let_def
  by (rule reads_only_sequence) (auto simp: checks_read_only)

lemma errors_read_only:
  assumes "faithful st view ex" and "m \<in> set
      (map (exists_check st ''missing ingested dataset: '') (dataset_urns sp)
        @ [fields_check st (sp_term sp) ''glossaryTermInfo'' (take 3 (term_info sp))
             ''NetRevenue glossary definition'',
           fields_check st (sp_owner sp) ''corpUserInfo'' (take 3 owner_info) ''Finance Data owner'',
           fields_check st (sp_source sp) ''editableDatasetProperties''
             [(''description'', JStr (sp_asset_description sp))] ''source description'',
           entry_check st (sp_source sp) ''ownership'' ''owners'' (\<lambda>vs. entry_listed vs (owner_entry sp))
             ''source owner attachment'',
           entry_check st (sp_source sp) ''glossaryTerms'' ''terms'' (\<lambda>vs. entry_listed vs (term_entry sp))
             ''source glossary attachment'',
           entry_check st (sp_source sp) ''institutionalMemory'' ''elements''
             (\<lambda>vs. entry_listed vs (document_entry sp)) ''source documentation context'',
           check_related_document st sp,
           check_dbt_lineage st sp])"
  shows "leaves_world m"
  using assms(2) checks_read_only [OF assms(1)] related_document_reads_only [OF assms(1)]
    lineage_reads_only [OF assms(1)]
  by auto

lemma sequence_none:
  assumes "sequence_p ms w = (Inr [], w)" "\<And>m. m \<in> set ms \<Longrightarrow> leaves_world m" "m \<in> set ms"
  shows "m w = (Inr [], w)"
  using assms
proof (induction ms)
  case (Cons m' ms)
  have quiet: "snd (m' w) = w" using Cons.prems(2) [of m'] by (simp add: leaves_world_def)
  from Cons.prems(1) obtain c1 w1 c2 where run: "m' w = (Inr c1, w1)" "sequence_p ms w1 = (Inr c2, w)"
      "c1 @ c2 = []"
    by (auto elim!: bind_p_cases)
  with quiet Cons show ?case by auto
qed simp

lemma context_errors_reads_only: "faithful st view ex \<Longrightarrow> leaves_world (context_errors st sp)"
  unfolding context_errors_def by (rule reads_only_sequence) (rule errors_read_only)

lemma verified:
  assumes "faithful st view ex" "verify_context st sp False w = (Inr r, w')"
  shows "w' = w" "context_errors st sp w = (Inr [], w)" "r = context_report sp"
proof -
  obtain errors where "context_errors st sp w = (Inr errors, w')" "errors = []" "r = context_report sp"
    using assms(2) by (auto simp: verify_context_def then_p_def bind_p_def split: prod.splits sum.splits if_splits)
  moreover from this have "w' = w"
    using context_errors_reads_only [OF assms(1), of sp] by (auto simp: leaves_world_def dest: spec [of _ w])
  ultimately show "w' = w" "context_errors st sp w = (Inr [], w)" "r = context_report sp"
    by simp_all
qed

lemma verified_datasets:
  assumes "faithful st view ex" "context_errors st sp w = (Inr [], w)"
  shows "u \<in> set (dataset_urns sp) \<Longrightarrow> ex w u" and "check_dbt_lineage st sp w = (Inr [], w)"
proof -
  note part = sequence_none [OF assms(2) [unfolded context_errors_def] errors_read_only [OF assms(1)]]
  show "check_dbt_lineage st sp w = (Inr [], w)"
    by (rule part) simp_all
  assume "u \<in> set (dataset_urns sp)"
  then have "exists_check st ''missing ingested dataset: '' u w = (Inr [], w)"
    by (intro part) auto
  then show "ex w u"
    by (auto simp: exists_check_def bind_p_def faithful_reads [OF assms(1)] split: if_splits)
qed

lemma absent_none:
  assumes "faithful st view ex"
  shows "\<forall>u \<in> set us. ex w u \<Longrightarrow> absent st us w = (Inr [], w)"
  by (induction us) (simp_all add: bind_p_def faithful_reads [OF assms])

definition seed_stamp :: "context_spec \<Rightarrow> int \<Rightarrow> jdict" where
  "seed_stamp sp now = [(''time'', JInt now), (''actor'', JStr (sp_owner sp))]"

lemma seed_context_stamp:
  "seed_context st sp now =
     then_p (as_test st) (then_p (require_ingested_datasets st sp) (then_p (require_dbt_lineage st sp)
     (bind_p (sequence_p (seed_steps st sp (seed_stamp sp now))) (\<lambda>changed.
      then_p (verify_context st sp False) (return_p changed)))))"
  by (simp add: seed_context_def seed_stamp_def)

lemma absent_reads_only: "faithful st view ex \<Longrightarrow> leaves_world (absent st us)"
  by (induction us) (auto intro!: reads_only_bind reads_only_basic reads_only_store)

lemma requirements_read_only:
  assumes "faithful st view ex"
  shows "leaves_world (require_ingested_datasets st sp)" "leaves_world (require_dbt_lineage st sp)"
  unfolding require_ingested_datasets_def require_dbt_lineage_def
  by (auto intro!: reads_only_bind reads_only_basic absent_reads_only [OF assms] lineage_reads_only [OF assms])

lemma seed_runs:
  assumes "faithful st view ex" "seed_context st sp now w = (Inr changed, w')"
  shows "sequence_p (seed_steps st sp (seed_stamp sp now)) w = (Inr changed, w')"
    and "verify_context st sp False w' = (Inr (context_report sp), w')"
proof -
  obtain w1 w2 w3 w4 r where run: "as_test st w = (Inr (), w1)" "require_ingested_datasets st sp w1 = (Inr (), w2)"
      "require_dbt_lineage st sp w2 = (Inr (), w3)"
      "sequence_p (seed_steps st sp (seed_stamp sp now)) w3 = (Inr changed, w4)"
      "verify_context st sp False w4 = (Inr r, w')"
    using assms(2) unfolding seed_context_stamp then_p_def by (auto elim!: bind_p_cases)
  note reads = reads_onlyD [OF reads_only_store(1) [OF assms(1)] run(1)]
    reads_onlyD [OF requirements_read_only(1) [OF assms(1)] run(2)]
    reads_onlyD [OF requirements_read_only(2) [OF assms(1)] run(3)]
  show "sequence_p (seed_steps st sp (seed_stamp sp now)) w = (Inr changed, w')"
    using run(4) reads verified(1) [OF assms(1) run(5)] by simp
  show "verify_context st sp False w' = (Inr (context_report sp), w')"
    using run(5) verified(1,3) [OF assms(1) run(5)] by simp
qed

lemma seed_again:
  assumes "faithful st view ex" "sp_source sp \<noteq> sp_context_document sp"
    and "seed_context st sp now w = (Inr changed, w')"
  shows "seed_context st sp later w' = (Inr [], w')"
proof -
  note run = seed_runs [OF assms(1,3)]
  have errors: "context_errors st sp w' = (Inr [], w')"
    using verified(2) [OF assms(1) run(2)] .
  have "\<forall>x \<in> set (seed_plan st view ex sp). settled_step x w'"
    using sequence_settles [OF seed_plan_good [OF assms(1)] seed_plan_apart [OF assms(2)]] run(1)
    unfolding seed_steps_plan [of st sp _ view ex] by blast
  then have idle: "sequence_p (seed_steps st sp stamp) w' = (Inr [], w')" for stamp
    unfolding seed_steps_plan [of st sp _ view ex] by (rule sequence_idle [OF seed_plan_good [OF assms(1)]])
  have "require_ingested_datasets st sp w' = (Inr (), w')"
    using absent_none [OF assms(1), of "dataset_urns sp" w'] verified_datasets(1) [OF assms(1) errors]
    by (simp add: require_ingested_datasets_def bind_p_def)
  moreover have "require_dbt_lineage st sp w' = (Inr (), w')"
    using verified_datasets(2) [OF assms(1) errors] by (simp add: require_dbt_lineage_def bind_p_def)
  ultimately show ?thesis
    using idle run(2) faithful_reads(1) [OF assms(1)]
    by (simp add: seed_context_stamp then_p_def bind_p_def)
qed

end
