(* ===== verification/Seed_Retains.thy ===== *)
theory Seed_Retains
  imports Seed_Safety
begin

text \<open>
  Seeding the semantic context loses nothing: whatever happens on the way, only the aspects of the plan are
  written, and of these only the fields and the list entries that the contract names.
\<close>

section \<open>What seeding may touch\<close>

definition seeded_aspects :: "context_spec \<Rightarrow> (string \<times> string) list" where
  "seeded_aspects sp =
     [(sp_term sp, ''glossaryTermInfo''), (sp_owner sp, ''corpUserInfo''),
      (sp_source sp, ''editableDatasetProperties''), (sp_source sp, ''ownership''),
      (sp_source sp, ''glossaryTerms''), (sp_source sp, ''institutionalMemory''),
      (sp_shared sp, ''documentInfo''), (sp_shared sp, ''subTypes''), (sp_shared sp, ''documentSettings''),
      (sp_context_document sp, ''documentInfo''), (sp_context_document sp, ''subTypes''),
      (sp_context_document sp, ''documentSettings''), (sp_context_document sp, ''ownership''),
      (sp_context_document sp, ''glossaryTerms'')]"

definition owned_fields :: "(string \<times> string list) list" where
  "owned_fields =
     [(''glossaryTermInfo'', [''definition'', ''termSource'', ''name'', ''customProperties'']),
      (''corpUserInfo'', [''active'', ''displayName'', ''title'', ''email'', ''system'']),
      (''editableDatasetProperties'', [''created'', ''lastModified'', ''description'']),
      (''ownership'', [''owners'', ''lastModified'']),
      (''glossaryTerms'', [''terms'', ''auditStamp'']),
      (''institutionalMemory'', [''elements'']),
      (''documentInfo'', [''title'', ''source'', ''status'', ''contents'', ''parentDocument'',
         ''relatedAssets'', ''customProperties'', ''created'', ''lastModified'']),
      (''subTypes'', [''typeNames'']),
      (''documentSettings'', [''showInGlobalContext'', ''lastModified''])]"

definition owned :: "string \<Rightarrow> string \<Rightarrow> bool" where
  "owned a k \<longleftrightarrow> (case map_of owned_fields a of Some ks \<Rightarrow> k \<in> set ks | None \<Rightarrow> False)"

definition entries_of :: "jdict \<Rightarrow> string \<Rightarrow> json list" where
  "entries_of d k = (case iterate (get_default d k) of Inr xs \<Rightarrow> xs | Inl _ \<Rightarrow> [])"

definition names :: "string \<Rightarrow> string \<Rightarrow> json \<Rightarrow> bool" where
  "names k s e \<longleftrightarrow> (case e of JDict d \<Rightarrow> jget d k = JStr s | _ \<Rightarrow> False)"

text \<open>The list entries of an aspect that are not the contract's own.\<close>

definition bystanders :: "context_spec \<Rightarrow> string \<Rightarrow> jdict \<Rightarrow> json list" where
  "bystanders sp a d =
     (if a = ''ownership'' then filter (\<lambda>e. \<not> names ''owner'' (sp_owner sp) e) (entries_of d ''owners'')
      else if a = ''glossaryTerms'' then filter (\<lambda>e. \<not> names ''urn'' (sp_term sp) e) (entries_of d ''terms'')
      else if a = ''institutionalMemory''
      then filter (\<lambda>e. \<not> names ''url'' (sp_document_url sp) e) (entries_of d ''elements'')
      else if a = ''documentInfo'' then entries_of d ''relatedAssets''
      else if a = ''subTypes'' then entries_of d ''typeNames''
      else [])"

definition extends :: "context_spec \<Rightarrow> string \<Rightarrow> jdict \<Rightarrow> jdict \<Rightarrow> bool" where
  "extends sp a d d' \<longleftrightarrow>
     (\<forall>k. \<not> owned a k \<longrightarrow> map_of d' k = map_of d k) \<and> set (bystanders sp a d) \<subseteq> set (bystanders sp a d')"

definition retains ::
  "('w \<Rightarrow> string \<Rightarrow> string \<Rightarrow> jdict option) \<Rightarrow> ('w \<Rightarrow> string \<Rightarrow> bool) \<Rightarrow> context_spec \<Rightarrow> 'w \<Rightarrow> 'w \<Rightarrow> bool" where
  "retains view ex sp w w' \<longleftrightarrow>
     (\<forall>u a. (u, a) \<notin> set (seeded_aspects sp) \<longrightarrow> view w' u a = view w u a)
     \<and> (\<forall>u. ex w u \<longrightarrow> ex w' u)
     \<and> (\<forall>u a. extends sp a (or_empty (view w u a)) (or_empty (view w' u a))
          \<or> \<not> ex w (sp_shared sp) \<and> u = sp_shared sp \<and> a = ''documentInfo'')"

section \<open>Every update extends\<close>

lemma extends_refl: "extends sp a d d"
  by (simp add: extends_def)

lemma extends_trans: "extends sp a d d1 \<Longrightarrow> extends sp a d1 d2 \<Longrightarrow> extends sp a d d2"
  unfolding extends_def by auto

definition growing_update :: "context_spec \<Rightarrow> string \<Rightarrow> (jdict \<Rightarrow> exn + jdict option) \<Rightarrow> bool" where
  "growing_update sp a f \<longleftrightarrow> (\<forall>d v. f d = Inr (Some v) \<longrightarrow> extends sp a d v)"

lemma growing_updateI: "(\<And>d v. f d = Inr (Some v) \<Longrightarrow> extends sp a d v) \<Longrightarrow> growing_update sp a f"
  by (simp add: growing_update_def)

lemma merge_required_map_of: "k \<notin> fst ` set r \<Longrightarrow> map_of (merge_required d r) k = map_of d k"
  by (induction d r rule: merge_required.induct) (auto simp: map_of_dict_set split: json.split)

lemma dict_update_map_of:
  "k \<notin> fst ` set e \<Longrightarrow> map_of (dict_update d e) k = map_of d k"
proof (induction e arbitrary: d)
  case (Cons kv e)
  have "dict_update d (kv # e) = dict_update (dict_set d (fst kv) (snd kv)) e"
    by (simp add: dict_update_def split_def)
  with Cons show ?case by (simp add: map_of_dict_set)
qed (simp add: dict_update_def)

lemma owned_simps:
  "owned ''glossaryTermInfo'' k \<longleftrightarrow> k \<in> {''definition'', ''termSource'', ''name'', ''customProperties''}"
  "owned ''corpUserInfo'' k \<longleftrightarrow> k \<in> {''active'', ''displayName'', ''title'', ''email'', ''system''}"
  "owned ''editableDatasetProperties'' k \<longleftrightarrow> k \<in> {''created'', ''lastModified'', ''description''}"
  "owned ''ownership'' k \<longleftrightarrow> k \<in> {''owners'', ''lastModified''}"
  "owned ''glossaryTerms'' k \<longleftrightarrow> k \<in> {''terms'', ''auditStamp''}"
  "owned ''institutionalMemory'' k \<longleftrightarrow> k \<in> {''elements''}"
  "owned ''documentInfo'' k \<longleftrightarrow> k \<in> {''title'', ''source'', ''status'', ''contents'', ''parentDocument'',
     ''relatedAssets'', ''customProperties'', ''created'', ''lastModified''}"
  "owned ''subTypes'' k \<longleftrightarrow> k \<in> {''typeNames''}"
  "owned ''documentSettings'' k \<longleftrightarrow> k \<in> {''showInGlobalContext'', ''lastModified''}"
  by (simp_all add: owned_def owned_fields_def)

lemma bystanders_simps:
  "bystanders sp ''glossaryTermInfo'' d = []"
  "bystanders sp ''corpUserInfo'' d = []"
  "bystanders sp ''editableDatasetProperties'' d = []"
  "bystanders sp ''documentSettings'' d = []"
  "bystanders sp ''ownership'' d = filter (\<lambda>e. \<not> names ''owner'' (sp_owner sp) e) (entries_of d ''owners'')"
  "bystanders sp ''glossaryTerms'' d = filter (\<lambda>e. \<not> names ''urn'' (sp_term sp) e) (entries_of d ''terms'')"
  "bystanders sp ''institutionalMemory'' d =
     filter (\<lambda>e. \<not> names ''url'' (sp_document_url sp) e) (entries_of d ''elements'')"
  "bystanders sp ''documentInfo'' d = entries_of d ''relatedAssets''"
  "bystanders sp ''subTypes'' d = entries_of d ''typeNames''"
  by (simp_all add: bystanders_def)

lemma entries_of_set: "entries_of (dict_set d k v) x
    = (if x = k then (case iterate v of Inr xs \<Rightarrow> xs | Inl _ \<Rightarrow> []) else entries_of d x)"
  by (simp add: entries_of_def get_default_dict_set)

lemma object_grows:
  assumes "\<And>k. k \<in> fst ` set r \<Longrightarrow> owned a k" "\<And>d. bystanders sp a d = []"
  shows "growing_update sp a (object_update r)"
proof (rule growing_updateI)
  fix d v assume "object_update r d = Inr (Some v)"
  then have "v = merge_required d r" by (simp add: object_update_def split: if_splits)
  moreover have "map_of (merge_required d r) k = map_of d k" if "\<not> owned a k" for k
    using merge_required_map_of [of k r d] assms(1) that by blast
  ultimately show "extends sp a d v"
    using assms(2) by (simp add: extends_def)
qed

lemma term_info_grows: "growing_update sp ''glossaryTermInfo'' (object_update (term_info sp))"
  by (rule object_grows) (auto simp: owned_simps bystanders_simps term_info_def)

lemma owner_info_grows: "growing_update sp ''corpUserInfo'' (object_update owner_info)"
  by (rule object_grows) (auto simp: owned_simps bystanders_simps owner_info_def)

lemma description_grows: "growing_update sp ''editableDatasetProperties'' (description_update sp stamp)"
  by (rule growing_updateI)
    (auto simp: description_update_def extends_def owned_simps bystanders_simps map_of_dict_set
      map_of_set_default split: if_splits)

lemma settings_grow: "growing_update sp ''documentSettings'' (settings_update stamp)"
  by (rule growing_updateI)
    (auto simp: settings_update_def extends_def owned_simps bystanders_simps map_of_dict_set split: if_splits)

lemma subtype_grows: "growing_update sp ''subTypes'' (subtype_update subtype)"
proof (rule growing_updateI)
  fix d v assume "subtype_update subtype d = Inr (Some v)"
  then obtain xs where "iterate (get_default d ''typeNames'') = Inr xs"
      "v = dict_set d ''typeNames'' (JList (xs @ [JStr subtype]))"
    by (auto simp: subtype_update_def elim!: bind_res_InrE split: if_splits)
  then show "extends sp ''subTypes'' d v"
    by (simp add: extends_def owned_simps bystanders_simps map_of_dict_set entries_of_set)
      (auto simp: entries_of_def iterate_def)
qed

lemma replace_entry_others:
  assumes "(i, JStr s) \<in> set e" "plain (JDict e)"
  shows "replace_entry i e xs = Inr (Some ys) \<Longrightarrow> x \<in> set xs \<Longrightarrow> \<not> names i s x \<Longrightarrow> x \<in> set ys"
proof (induction xs arbitrary: ys)
  case (Cons item rest)
  have i: "jget e i = JStr s"
    using covers_JStr [OF covers_refl [OF assms(2)] assms(1)] .
  from Cons.prems(1) obtain d where "item = JDict d" by (cases item) auto
  with Cons i show ?case by (auto simp: names_def elim!: bind_res_InrE split: if_splits)
qed simp

lemma replace_document_others:
  "replace_document sp t xs = Inr (Some ys) \<Longrightarrow> x \<in> set xs \<Longrightarrow> \<not> names ''url'' (sp_document_url sp) x
    \<Longrightarrow> x \<in> set ys"
proof (induction xs arbitrary: ys)
  case (Cons element rest)
  from Cons.prems(1) obtain d where "element = JDict d" by (cases element) auto
  with Cons show ?case by (auto simp: names_def elim!: bind_res_InrE split: if_splits)
qed simp

lemma entries_updateE:
  assumes "entries_update k e i stamp_key t d = Inr (Some v)"
  obtains xs ys where "iterate (get_default d k) = Inr xs" "replace_entry i e xs = Inr (Some ys)"
    "v = dict_set (dict_set d k (JList ys)) stamp_key (JDict t)"
  using assms by (auto simp: entries_update_def elim!: bind_res_InrE)

lemma owners_grow: "growing_update sp ''ownership'' (entries_update ''owners'' (owner_entry sp) ''owner'' ''lastModified'' t)"
proof (rule growing_updateI)
  fix d v assume "entries_update ''owners'' (owner_entry sp) ''owner'' ''lastModified'' t d = Inr (Some v)"
  then obtain xs ys where "iterate (get_default d ''owners'') = Inr xs"
      "replace_entry ''owner'' (owner_entry sp) xs = Inr (Some ys)"
      "v = dict_set (dict_set d ''owners'' (JList ys)) ''lastModified'' (JDict t)"
    by (rule entries_updateE)
  then show "extends sp ''ownership'' d v"
    using replace_entry_others [OF entry_identity(1) entry_plain(1)]
    by (simp add: extends_def owned_simps bystanders_simps map_of_dict_set entries_of_set)
      (auto simp: entries_of_def iterate_def)
qed

lemma terms_grow: "growing_update sp ''glossaryTerms'' (entries_update ''terms'' (term_entry sp) ''urn'' ''auditStamp'' t)"
proof (rule growing_updateI)
  fix d v assume "entries_update ''terms'' (term_entry sp) ''urn'' ''auditStamp'' t d = Inr (Some v)"
  then obtain xs ys where "iterate (get_default d ''terms'') = Inr xs"
      "replace_entry ''urn'' (term_entry sp) xs = Inr (Some ys)"
      "v = dict_set (dict_set d ''terms'' (JList ys)) ''auditStamp'' (JDict t)"
    by (rule entries_updateE)
  then show "extends sp ''glossaryTerms'' d v"
    using replace_entry_others [OF entry_identity(2) entry_plain(2)]
    by (simp add: extends_def owned_simps bystanders_simps map_of_dict_set entries_of_set)
      (auto simp: entries_of_def iterate_def)
qed

lemma document_grows: "growing_update sp ''institutionalMemory'' (document_update sp t)"
proof (rule growing_updateI)
  fix d v assume "document_update sp t d = Inr (Some v)"
  then obtain xs ys where "iterate (get_default d ''elements'') = Inr xs"
      "replace_document sp t xs = Inr (Some ys)" "v = dict_set d ''elements'' (JList ys)"
    by (auto simp: document_update_def elim!: bind_res_InrE)
  then show "extends sp ''institutionalMemory'' d v"
    using replace_document_others
    by (simp add: extends_def owned_simps bystanders_simps map_of_dict_set entries_of_set)
      (auto simp: entries_of_def iterate_def)
qed

lemma context_info_grows: "growing_update sp ''documentInfo'' (context_info_update sp t)"
proof (rule growing_updateI)
  fix d v assume "context_info_update sp t d = Inr (Some v)"
  then obtain xs b where xs: "iterate (get_default d ''relatedAssets'') = Inr xs"
      and b: "any_covers (asset_link sp) xs = Inr b"
      and v: "v = context_info_value sp t d (if b then xs else xs @ [JDict (asset_link sp)])"
    by (auto simp: context_info_update_def elim!: bind_res_InrE split: if_split_asm)
  have "map_of v k = map_of d k" if "\<not> owned ''documentInfo'' k" for k
  proof -
    have "map_of v k = map_of (dict_update d (context_info sp)) k"
      using that by (simp add: v context_info_value_def Let_def map_of_dict_set map_of_set_default owned_simps)
    also have "\<dots> = map_of d k"
      using that by (intro dict_update_map_of) (simp add: context_info_def owned_simps)
    finally show ?thesis .
  qed
  moreover have "set (entries_of d ''relatedAssets'') \<subseteq> set (entries_of v ''relatedAssets'')"
    using xs by (simp add: v context_info_value_def Let_def entries_of_set) (auto simp: entries_of_def iterate_def)
  ultimately show "extends sp ''documentInfo'' d v"
    by (simp add: extends_def bystanders_simps)
qed

section \<open>Every step retains\<close>

lemma retains_refl: "retains view ex sp w w"
  by (simp add: retains_def extends_refl)

lemma ensure_retains:
  assumes "faithful st view ex" "(u, a) \<in> set (seeded_aspects sp)" "growing_update sp a f"
  shows "keeps (retains view ex sp w0) (ensure st u a f)"
proof (rule keepsI)
  fix w assume before: "retains view ex sp w0 w"
  show "retains view ex sp w0 (snd (ensure st u a f w))"
  proof (cases "\<exists>v. f (or_empty (view w u a)) = Inr (Some v)")
    case True
    then obtain v w' where v: "f (or_empty (view w u a)) = Inr (Some v)"
        and w': "snd (ensure st u a f w) = w'" "view w' = (view w)(u := (view w u)(a := Some v))"
          "\<And>x. ex w' x \<longleftrightarrow> x = u \<or> ex w x"
      by (cases rule: ensure_cases [OF assms(1), of f w u a]) auto
    have "extends sp a (or_empty (view w u a)) v"
      using assms(3) v by (simp add: growing_update_def)
    then have "extends sp x (or_empty (view w y x)) (or_empty (view w' y x))" for x y
      by (simp add: w' or_empty_def extends_refl)
    then have "extends sp x (or_empty (view w0 y x)) (or_empty (view w' y x))"
      if "extends sp x (or_empty (view w0 y x)) (or_empty (view w y x))" for x y
      using that extends_trans by blast
    then have "\<forall>y x. extends sp x (or_empty (view w0 y x)) (or_empty (view w' y x))
        \<or> \<not> ex w0 (sp_shared sp) \<and> y = sp_shared sp \<and> x = ''documentInfo''"
      using before unfolding retains_def by blast
    moreover have "view w' y x = view w y x" if "(y, x) \<notin> set (seeded_aspects sp)" for x y
      using that assms(2) by (auto simp: w'(2))
    ultimately show ?thesis
      using before unfolding retains_def w'(1) by (simp add: w'(3))
  next
    case False
    then have "snd (ensure st u a f w) = w"
      by (cases rule: ensure_cases [OF assms(1), of f w u a]) auto
    with before show ?thesis by simp
  qed
qed

lemma seeded [simp]:
  "(sp_term sp, ''glossaryTermInfo'') \<in> set (seeded_aspects sp)"
  "(sp_owner sp, ''corpUserInfo'') \<in> set (seeded_aspects sp)"
  "(sp_source sp, ''editableDatasetProperties'') \<in> set (seeded_aspects sp)"
  "(sp_source sp, ''ownership'') \<in> set (seeded_aspects sp)"
  "(sp_source sp, ''glossaryTerms'') \<in> set (seeded_aspects sp)"
  "(sp_source sp, ''institutionalMemory'') \<in> set (seeded_aspects sp)"
  "(sp_shared sp, ''documentInfo'') \<in> set (seeded_aspects sp)"
  "(sp_shared sp, ''subTypes'') \<in> set (seeded_aspects sp)"
  "(sp_shared sp, ''documentSettings'') \<in> set (seeded_aspects sp)"
  "(sp_context_document sp, ''documentInfo'') \<in> set (seeded_aspects sp)"
  "(sp_context_document sp, ''subTypes'') \<in> set (seeded_aspects sp)"
  "(sp_context_document sp, ''documentSettings'') \<in> set (seeded_aspects sp)"
  "(sp_context_document sp, ''ownership'') \<in> set (seeded_aspects sp)"
  "(sp_context_document sp, ''glossaryTerms'') \<in> set (seeded_aspects sp)"
  by (simp_all add: seeded_aspects_def)

lemma folder_retains:
  assumes "faithful st view ex" "\<not> ex w (sp_shared sp)"
    "retains view ex sp w0 w"
  shows "retains view ex sp w0 (snd (emit_changed st (sp_shared sp) ''documentInfo'' v w))"
proof -
  obtain w' where w': "emit_changed st (sp_shared sp) ''documentInfo'' v w
        = (Inr [sp_shared sp @ '':'' @ ''documentInfo''], w')"
      "view w' = (view w)(sp_shared sp := (view w (sp_shared sp))(''documentInfo'' := Some v))"
      "\<And>x. ex w' x \<longleftrightarrow> x = sp_shared sp \<or> ex w x"
    by (rule emit_cases [OF assms(1), of "sp_shared sp" "''documentInfo''" v w]) blast
  have new: "\<not> ex w0 (sp_shared sp)"
    using assms(2,3) unfolding retains_def by blast
  have other: "view w' y x = view w y x" if "\<not> (y = sp_shared sp \<and> x = ''documentInfo'')" for x y
    using that by (auto simp: w'(2))
  have "\<forall>y x. extends sp x (or_empty (view w0 y x)) (or_empty (view w' y x))
      \<or> \<not> ex w0 (sp_shared sp) \<and> y = sp_shared sp \<and> x = ''documentInfo''"
    using assms(3) new other unfolding retains_def by metis
  moreover have "view w' y x = view w y x" if "(y, x) \<notin> set (seeded_aspects sp)" for x y
    using that by (intro other) auto
  ultimately show ?thesis
    using assms(3) unfolding retains_def w'(1) by (simp add: w'(3))
qed

lemma parent_retains:
  assumes "faithful st view ex"
  shows "keeps (retains view ex sp w0) (ensure_shared_document_parent st sp stamp)"
proof (rule keepsI)
  fix w assume before: "retains view ex sp w0 w"
  let ?u = "sp_shared sp"
  let ?rest = "sequence_p [ensure_subtype st ?u ''Folder'', ensure_document_settings st ?u stamp]"
  have rest: "keeps (retains view ex sp w0) ?rest"
    by (rule sequence_keeps)
      (auto simp: ensure_subtype_def ensure_document_settings_def
        intro!: ensure_retains [OF assms] subtype_grows settings_grow)
  show "retains view ex sp w0 (snd (ensure_shared_document_parent st sp stamp w))"
  proof (cases "ex w ?u")
    case False
    obtain w1 where w1: "emit_changed st ?u ''documentInfo'' (shared_folder stamp) w
        = (Inr [?u @ '':'' @ ''documentInfo''], w1)"
      by (rule emit_cases [OF assms, of ?u "''documentInfo''" "shared_folder stamp" w]) blast
    have "retains view ex sp w0 w1"
      using folder_retains [OF assms False before, of "shared_folder stamp"] w1 by simp
    with rest have after: "retains view ex sp w0 (snd (?rest w1))"
      by (rule keeps_snd)
    have "snd (ensure_shared_document_parent st sp stamp w) = snd (?rest w1)"
      using False w1
      by (simp add: ensure_shared_document_parent_def faithful_reads [OF assms] bind_p_def
        split: prod.splits sum.splits)
    with after show ?thesis
      by (simp only:)
  qed (use parent_exists(2) [OF assms] before in simp)
qed

lemma seed_steps_retain:
  assumes "faithful st view ex"
  shows "keeps (retains view ex sp w0) (sequence_p (seed_steps st sp stamp))"
proof (rule sequence_keeps)
  fix m assume "m \<in> set (seed_steps st sp stamp)"
  note one = ensure_retains [OF assms, of _ _ sp _ w0]
  have related: "keeps (retains view ex sp w0) (ensure_related_document st sp stamp)"
    unfolding ensure_related_document_def
    by (rule sequence_keeps)
      (auto simp: ensure_context_document_info_def ensure_subtype_def ensure_document_settings_def
        ensure_list_aspect_def intro!: one parent_retains [OF assms] context_info_grows subtype_grows
        settings_grow owners_grow terms_grow)
  with \<open>m \<in> _\<close> show "keeps (retains view ex sp w0) m"
    by (auto simp: seed_steps_def ensure_object_aspect_def ensure_description_def ensure_owner_def
      ensure_term_attachment_def ensure_document_def ensure_list_aspect_def intro!: one term_info_grows
      owner_info_grows description_grows owners_grow terms_grow document_grows)
qed

lemma verify_reads_only: "faithful st view ex \<Longrightarrow> leaves_world (verify_context st sp b)"
  unfolding verify_context_def then_p_def
  by (auto intro!: reads_only_bind reads_only_basic reads_only_store context_errors_reads_only)

lemma seed_retains:
  assumes "faithful st view ex"
  shows "retains view ex sp w (snd (seed_context st sp now w))"
proof -
  have "keeps (retains view ex sp w) (seed_context st sp now)"
    unfolding seed_context_stamp then_p_def
    by (intro keeps_bind keeps_return seed_steps_retain [OF assms]
      reads_only_keepsI [OF reads_only_store(1) [OF assms]]
      reads_only_keepsI [OF requirements_read_only(1) [OF assms]]
      reads_only_keepsI [OF requirements_read_only(2) [OF assms]]
      reads_only_keepsI [OF verify_reads_only [OF assms]])
  from this retains_refl show ?thesis
    by (rule keeps_snd)
qed

end
