(* ===== verification/Seed_Examples.thy ===== *)
theory Seed_Examples
  imports Seed_Retains
begin

text \<open>
  Seeding against a store in memory, the fake of \<^verbatim>\<open>tests/test_datahub_semantic_seed.py\<close>: it is faithful, and a
  catalogue with an owner of its own is seeded.
\<close>

section \<open>The store in memory\<close>

record catalogue =
  entities :: "string list"
  aspects :: "((string \<times> string) \<times> jdict) list"

definition aspect_view :: "catalogue \<Rightarrow> string \<Rightarrow> string \<Rightarrow> jdict option" where
  "aspect_view w u a = map_of (aspects w) (u, a)"

definition entity_known :: "catalogue \<Rightarrow> string \<Rightarrow> bool" where
  "entity_known w u \<longleftrightarrow> u \<in> set (entities w)"

definition related_in :: "catalogue \<Rightarrow> string \<Rightarrow> jdict list" where
  "related_in w asset_urn =
     List.map_filter (\<lambda>((u, a), v).
       if a = ''documentInfo'' \<and> list_ex (names ''asset'' asset_urn) (entries_of v ''relatedAssets'')
       then Some [(''urn'', JStr u), (''info'', JDict [(''title'', jget v ''title'')])] else None) (aspects w)"

definition memory_store :: "catalogue aspect_store" where
  "memory_store =
     \<lparr>as_test = return_p (),
      as_exists = (\<lambda>u w. (Inr (entity_known w u), w)),
      as_get = (\<lambda>u a w. (Inr (aspect_view w u a), w)),
      as_emit = (\<lambda>u a v w.
        (Inr (), w\<lparr>entities := u # entities w, aspects := ((u, a), v) # aspects w\<rparr>)),
      as_related = (\<lambda>u w. (Inr (related_in w u), w))\<rparr>"

lemma memory_faithful: "faithful memory_store aspect_view entity_known"
  by (auto simp: faithful_def memory_store_def return_p_def aspect_view_def entity_known_def fun_eq_iff)

section \<open>A catalogue after ingestion\<close>

definition other_owner :: json where
  "other_owner = JDict [(''owner'', JStr ''urn:li:corpuser:ops''), (''type'', JStr ''TECHNICAL_OWNER'')]"

definition ingested :: catalogue where
  "ingested =
     \<lparr>entities = dataset_urns default_spec,
      aspects =
        map (\<lambda>(downstream_urn, e, _). ((downstream_urn, ''upstreamLineage''), [(''upstreams'', JList [JDict e])]))
          (lineage_checks default_spec)
        @ [((sp_source default_spec, ''ownership''), [(''owners'', JList [other_owner])])]\<rparr>"

definition seeded_catalogue :: catalogue where
  "seeded_catalogue = snd (seed_context memory_store default_spec 1 ingested)"

definition seed_writes :: "string list" where
  "seed_writes =
     map (\<lambda>(u, a). u @ '':'' @ a) (seeded_aspects default_spec)"

lemma seeding_succeeds: "fst (seed_context memory_store default_spec 1 ingested) = Inr seed_writes"
  by code_simp

lemma seeded_run: "seed_context memory_store default_spec 1 ingested = (Inr seed_writes, seeded_catalogue)"
  using seeding_succeeds by (simp add: seeded_catalogue_def prod_eq_iff)

lemma other_owner_kept: "other_owner \<in> set (bystanders default_spec ''ownership''
    (or_empty (aspect_view ingested (sp_source default_spec) ''ownership'')))"
  by code_simp

end
