(* ===== verification/Installation.thy ===== *)
theory Installation
  imports Checkout Service_Api Incident_Graphql Draft_Pr Mcp_Adapter Candidates
begin

text \<open>
  From the settings of an installation (\<^verbatim>\<open>apps/api/config.py\<close>) to its components, as
  \<^verbatim>\<open>WorkflowService.__init__\<close> makes them; the request to the model provider (\<^verbatim>\<open>packages/remediation/candidates.py\<close>);
  and what the application serves beside its routes (\<^verbatim>\<open>create_app\<close> of \<^verbatim>\<open>apps/api/main.py\<close>). Reading the environment is
  the library's.
\<close>

section \<open>Settings\<close>

record installation =
  in_app :: app_settings
  in_environment :: string
  in_datahub_gms_url :: "string option"
  in_datahub_token :: "string option"
  in_mcp_url :: "string option"
  in_mcp_token :: "string option"
  in_mcp_context_tool :: string
  in_mcp_write_tool :: string
  in_openai_api_key :: "string option"
  in_openai_model :: string
  in_openai_base_url :: string
  in_github_write_enabled :: bool
  in_web_dist_dir :: string

text \<open>The defaults, with the directory for temporary files.\<close>

definition default_core :: "string \<Rightarrow> settings" where
  "default_core temp_dir =
     \<lparr>st_allowed_assets = canonical_asset_urn, st_replay_mode = True, st_execution_mode = ''replay'',
      st_runtime_dir = join_path temp_dir ''datarescue'', st_github_repository = ''girginomer10/datarescue'',
      st_github_repo_root = ''.'', st_github_base_branch = ''main'',
      st_github_patch_path = ''demo/dbt/models/staging/stg_payments.sql'', st_policy = default_policy_config\<rparr>"

definition default_app :: "string \<Rightarrow> app_settings" where
  "default_app temp_dir =
     \<lparr>as_core = default_core temp_dir, as_database_path = None, as_postgres_dsn = None,
      as_dbt_project_dir = ''demo/dbt'', as_dbt_profiles_dir = ''demo/dbt'', as_dbt_target = ''dev'',
      as_cors_origins = ''http://localhost:5173,http://127.0.0.1:5173''\<rparr>"

definition default_installation :: "string \<Rightarrow> installation" where
  "default_installation temp_dir =
     \<lparr>in_app = default_app temp_dir, in_environment = ''development'', in_datahub_gms_url = None,
      in_datahub_token = None, in_mcp_url = None, in_mcp_token = None, in_mcp_context_tool = ''get_entities'',
      in_mcp_write_tool = ''save_document'', in_openai_api_key = None, in_openai_model = ''gpt-5.6-terra'',
      in_openai_base_url = ''https://api.openai.com/v1'', in_github_write_enabled = False,
      in_web_dist_dir = ''apps/web/dist''\<rparr>"

section \<open>The model provider\<close>

record 'w openai_peer =
  op_post :: "string \<Rightarrow> (string \<times> string) list \<Rightarrow> json \<Rightarrow> ('w, exn, http_response) prog"
  op_dumps :: "json \<Rightarrow> string"
  op_event :: "schema_change_event \<Rightarrow> json"
  op_context :: "context_bundle \<Rightarrow> json"

definition string_type :: json where
  "string_type = JDict [(''type'', JStr ''string'')]"

definition candidate_fields :: "string list" where
  "candidate_fields = [''source_field'', ''target_alias'', ''rationale'', ''semantic_evidence'']"

definition answer_schema :: json where
  "answer_schema = JDict
     [(''type'', JStr ''object''),
      (''properties'', JDict [(''candidates'', JDict
         [(''type'', JStr ''array''), (''minItems'', JInt 1), (''maxItems'', JInt 5),
          (''items'', JDict
            [(''type'', JStr ''object''),
             (''properties'', JDict
               [(''source_field'', string_type), (''target_alias'', string_type), (''rationale'', string_type),
                (''semantic_evidence'', JDict [(''type'', JStr ''array''), (''items'', string_type)])]),
             (''required'', JList (map JStr candidate_fields)), (''additionalProperties'', JBool False)])])]),
      (''required'', JList [JStr ''candidates'']), (''additionalProperties'', JBool False)]"

definition openai_prompt :: "'w openai_peer \<Rightarrow> schema_change_event \<Rightarrow> context_bundle \<Rightarrow> json" where
  "openai_prompt peer event cx = JDict
     [(''instruction'', JStr (''Propose identifier-only source-to-alias mappings for a broken dbt model. ''
         @ ''Do not emit SQL. Cite only supplied evidence identifiers. The candidates ''
         @ ''will be executed and accepted or rejected by deterministic gates.'')),
      (''schema_change'', op_event peer event), (''context'', op_context peer cx)]"

definition openai_body :: "'w openai_peer \<Rightarrow> string \<Rightarrow> schema_change_event \<Rightarrow> context_bundle \<Rightarrow> json" where
  "openai_body peer model event cx = JDict
     [(''model'', JStr model), (''reasoning'', JDict [(''effort'', JStr ''medium'')]),
      (''input'', JStr (op_dumps peer (openai_prompt peer event cx))),
      (''text'', JDict [(''format'', JDict
         [(''type'', JStr ''json_schema''), (''name'', JStr ''datarescue_candidates''), (''strict'', JBool True),
          (''schema'', answer_schema)])])]"

definition openai_exchange ::
  "'w openai_peer \<Rightarrow> string \<Rightarrow> string \<Rightarrow> string \<Rightarrow> schema_change_event \<Rightarrow> context_bundle \<Rightarrow> ('w, exn, json) prog"
  where
  "openai_exchange peer base_url key model event cx =
     bind_p (op_post peer (base_url @ ''/responses'')
         [(''Authorization'', ''Bearer '' @ key), (''Content-Type'', ''application/json'')]
         (openai_body peer model event cx)) (\<lambda>response.
     then_p (result_p (raise_for_status response)) (result_p (hr_body response)))"

text \<open>\<^verbatim>\<open>propose\<close> with the exchange in it: the provider is only asked when there is a key.\<close>

definition propose_with ::
  "json_lib \<Rightarrow> 'w openai_peer \<Rightarrow> string \<Rightarrow> candidate_generator \<Rightarrow> schema_change_event \<Rightarrow> context_bundle
    \<Rightarrow> ('w, exn, candidate_generation_result) prog" where
  "propose_with lib peer base_url gen event cx w =
     (case present (cg_api_key gen) of
        None \<Rightarrow> (propose lib (\<lambda>_ _. Inr JNull) gen event cx, w)
      | Some key \<Rightarrow>
          (case openai_exchange peer base_url key (cg_model gen) event cx w of
             (answer, w') \<Rightarrow> (propose lib (\<lambda>_ _. answer) gen event cx, w')))"

section \<open>The components\<close>

record 'w network =
  nw_mcp :: "'w mcp_adapter"
  nw_incidents :: "'w graphql_adapter"

record 'w components =
  co_database :: string
  co_policy :: policy_config
  co_mcp :: "'w mcp_adapter"
  co_incidents :: "'w graphql_adapter"
  co_generator :: candidate_generator
  co_openai_url :: string
  co_executor :: "executor_config option"
  co_github :: draft_adapter

definition installed_mcp :: "'w network \<Rightarrow> installation \<Rightarrow> 'w mcp_adapter" where
  "installed_mcp nw s = (nw_mcp nw)
     \<lparr>ma_endpoint := in_mcp_url s, ma_token := in_mcp_token s, ma_legacy_context_tool := in_mcp_context_tool s,
      ma_write_tool := in_mcp_write_tool s, ma_gms_url := in_datahub_gms_url s,
      ma_gms_token := in_datahub_token s, ma_attempts := 5, ma_delay := dbl (2 / 10)\<rparr>"

definition installed_incidents :: "'w network \<Rightarrow> installation \<Rightarrow> 'w graphql_adapter" where
  "installed_incidents nw s = (nw_incidents nw)
     \<lparr>ga_gms_url := in_datahub_gms_url s, ga_token := in_datahub_token s, ga_attempts := 5,
      ga_delay := dbl (2 / 10)\<rparr>"

definition installed_generator :: "installation \<Rightarrow> candidate_generator" where
  "installed_generator s =
     \<lparr>cg_api_key = in_openai_api_key s, cg_model = in_openai_model s,
      cg_replay_mode = st_replay_mode (as_core (in_app s))\<rparr>"

definition installed_github :: "file_system \<Rightarrow> installation \<Rightarrow> draft_adapter" where
  "installed_github fs s =
     (let core = as_core (in_app s)
      in \<lparr>da_enabled = in_github_write_enabled s, da_repository = st_github_repository core,
          da_repo_root = fs_resolve fs (st_github_repo_root core), da_base_branch = st_github_base_branch core,
          da_patch_path = st_github_patch_path core, da_runtime_dir = st_runtime_dir core\<rparr>)"

definition new_workflow ::
  "file_system \<Rightarrow> (string \<Rightarrow> bool) \<Rightarrow> (string \<Rightarrow> bool) \<Rightarrow> 'w network \<Rightarrow> installation \<Rightarrow> exn + 'w components" where
  "new_workflow fs ip ipv6_loopback nw s =
     bind_res (new_mcp_adapter ip ipv6_loopback (installed_mcp nw s)) (\<lambda>mcp.
     bind_res (new_adapter (installed_incidents nw s)) (\<lambda>incidents.
     bind_res (default_executor fs (in_app s)) (\<lambda>executor.
       Inr \<lparr>co_database = resolved_database_path (in_app s), co_policy = st_policy (as_core (in_app s)),
            co_mcp = mcp, co_incidents = incidents, co_generator = installed_generator s,
            co_openai_url = rstrip_slash (in_openai_base_url s), co_executor = executor,
            co_github = installed_github fs s\<rparr>)))"

section \<open>The application\<close>

definition health_route :: "installation \<Rightarrow> (string \<times> string) list" where
  "health_route s = [(''status'', ''ok''), (''mode'', st_execution_mode (as_core (in_app s)))]"

record cors_policy =
  cors_origins :: "string list"
  cors_credentials :: bool
  cors_methods :: "string list"
  cors_headers :: "string list"

definition app_cors :: "installation \<Rightarrow> cors_policy" where
  "app_cors s =
     \<lparr>cors_origins = allowed_origins (in_app s), cors_credentials = False, cors_methods = [''GET'', ''POST''],
      cors_headers = [''Content-Type'', ''Last-Event-ID'']\<rparr>"

text \<open>\<^verbatim>\<open>base / path\<close>: an absolute path replaces the base.\<close>

definition path_join :: "string \<Rightarrow> string \<Rightarrow> string" where
  "path_join base path = (if is_absolute path then path else join_path base path)"

text \<open>The file served for a path, or the error; None when there is no built console.\<close>

definition production_spa ::
  "file_system \<Rightarrow> (string \<Rightarrow> bool) \<Rightarrow> installation \<Rightarrow> string \<Rightarrow> (http_error + string) option" where
  "production_spa fs is_file s full_path =
     (let web_dist = fs_resolve fs (in_web_dist_dir s); web_index = join_path web_dist ''index.html''
      in if \<not> is_file web_index then None
         else if full_path = ''health'' \<or> prefix ''api/'' full_path then Some (Inl (http_error 404 ''Not found''))
         else let requested = fs_resolve fs (path_join web_dist full_path)
           in if strict_prefix (path_parts web_dist) (path_parts requested) \<and> is_file requested
              then Some (Inr requested) else Some (Inr web_index))"

section \<open>What the application serves, and the installation without credentials\<close>

lemma split_on_sep: "split_on d (a @ d # b) = split_on d a @ split_on d b"
proof (induction a)
  case (Cons c cs)
  then show ?case by (cases "split_on d cs") auto
qed simp

lemma spa_stays_inside:
  assumes "production_spa fs is_file s full_path = Some (Inr served)"
  shows "inside (fs_resolve fs (in_web_dist_dir s)) served \<and> is_file served"
proof -
  have "prefix (path_parts d) (path_parts (join_path d ''index.html''))" for d
    by (simp add: path_parts_def join_path_def split_on_sep)
  with assms show ?thesis
    by (auto simp: production_spa_def Let_def inside_def strict_prefix_def split: if_splits)
qed

text \<open>The actions of the disabled pull request adapter: writing files.\<close>

definition writes_only :: "gh_action \<Rightarrow> bool" where
  "writes_only a \<longleftrightarrow> (case a of MakeDirs _ \<Rightarrow> True | WriteText _ _ \<Rightarrow> True | _ \<Rightarrow> False)"

lemma bundled_writes: "list_all writes_only t \<Longrightarrow>
    list_all writes_only (snd (bundled gw da case_id branch patch status message t))"
  by (auto simp: bundled_def write_bundle_def Let_def then_p_def bind_p_def observe_def writes_only_def
      split: sum.split prod.split)

lemma propose_without_key:
  "present (cg_api_key gen) = None \<Longrightarrow> propose_with lib peer base_url gen event cx w
     = (Inr \<lparr>gr_candidates = deterministic_candidates event cx,
              gr_integration = gr_integration (projr (propose lib (\<lambda>_ _. Inr JNull) gen event cx))\<rparr>, w)"
  by (auto simp: propose_with_def propose_def present_def split: option.splits if_splits)

lemma default_components:
  "new_workflow fs ip ipv6_loopback nw (default_installation temp_dir) = Inr
     \<lparr>co_database = join_path (join_path temp_dir ''datarescue'') ''state.sqlite3'',
      co_policy = default_policy_config,
      co_mcp = (installed_mcp nw (default_installation temp_dir)),
      co_incidents = (installed_incidents nw (default_installation temp_dir)),
      co_generator = installed_generator (default_installation temp_dir),
      co_openai_url = ''https://api.openai.com/v1'', co_executor = None,
      co_github = installed_github fs (default_installation temp_dir)\<rparr>"
proof -
  have "\<not> flt (dbl (2 / 10)) (Fin 0)" "casefold (strip ''replay'') = ''replay''"
      "rstrip_slash ''https://api.openai.com/v1'' = ''https://api.openai.com/v1''"
    by code_simp+
  then show ?thesis
    by (simp add: new_workflow_def new_mcp_adapter_def new_adapter_def installed_mcp_def installed_incidents_def
        default_installation_def default_app_def default_core_def validated_endpoint_def default_executor_def
        present_def resolved_database_path_def)
qed

end
