(* ===== verification/Operations.thy ===== *)
theory Operations
  imports Installation Json_Ops Loops
begin

text \<open>
  \<^verbatim>\<open>scripts/dbt-artifact-lock.py\<close>: holding the publication lock for the shell that owns it, and
  \<^verbatim>\<open>scripts/verify-live-workflow.py\<close>: one ingestion on PostgreSQL and dbt, with the checks on its case.
\<close>

section \<open>The artifact lock\<close>

record 'w lock_host =
  lh_open :: "('w, exn, unit) prog"
  lh_flock :: "('w, exn, unit) prog"
  lh_record :: "string \<Rightarrow> ('w, exn, unit) prog"
  lh_ready :: "('w, exn, unit) prog"
  lh_wait :: "'w \<Rightarrow> bool \<times> 'w"
  lh_parent :: "'w \<Rightarrow> int \<times> 'w"
  lh_close :: "('w, exn, unit) prog"

definition is_blocking :: "exn \<Rightarrow> bool" where
  "is_blocking e \<longleftrightarrow> (case e of OSErr n _ \<Rightarrow> n = ''BlockingIOError'' | _ \<Rightarrow> False)"

text \<open>Waiting for a signal or for the owner to go away; None is still waiting when the fuel is gone.\<close>

fun hold_loop :: "nat \<Rightarrow> 'w lock_host \<Rightarrow> int \<Rightarrow> 'w \<Rightarrow> 'w option" where
  "hold_loop 0 lh owner w = None"
| "hold_loop (Suc fuel) lh owner w =
     (case lh_wait lh w of (stop, w1) \<Rightarrow>
        if stop then Some w1
        else case lh_parent lh w1 of (parent, w2) \<Rightarrow>
          if parent \<noteq> owner then Some w2 else hold_loop fuel lh owner w2)"

definition hold_lock :: "nat \<Rightarrow> 'w lock_host \<Rightarrow> int \<Rightarrow> 'w \<Rightarrow> ((exn + int) \<times> 'w) option" where
  "hold_lock fuel lh owner w =
     (case lh_flock lh w of
        (Inl e, w1) \<Rightarrow> Some (if is_blocking e then Inr 75 else Inl e, w1)
      | (Inr _, w1) \<Rightarrow>
          (case then_p (lh_record lh (''owner_pid='' @ decimal owner @ newline)) (lh_ready lh) w1 of
             (Inl e, w2) \<Rightarrow> Some (Inl e, w2)
           | (Inr _, w2) \<Rightarrow> map_option (\<lambda>w3. (Inr 0, w3)) (hold_loop fuel lh owner w2)))"

definition lock_main :: "nat \<Rightarrow> 'w lock_host \<Rightarrow> int \<Rightarrow> 'w \<Rightarrow> ((exn + int) \<times> 'w) option" where
  "lock_main fuel lh owner w =
     (case lh_open lh w of
        (Inl e, w1) \<Rightarrow> Some (Inl e, w1)
      | (Inr _, w1) \<Rightarrow>
          (case hold_lock fuel lh owner w1 of
             None \<Rightarrow> None
           | Some (r, w2) \<Rightarrow>
               (case lh_close lh w2 of (Inl e, w3) \<Rightarrow> Some (Inl e, w3) | (Inr _, w3) \<Rightarrow> Some (r, w3))))"

text \<open>Once the file is open, whatever happens, closing it is the last thing that is done.\<close>

lemma lock_is_closed:
  assumes "lock_main fuel lh owner w = Some (r, w')" "lh_open lh w = (Inr u, w1)"
  obtains w2 r2 where "hold_lock fuel lh owner w1 = Some (r2, w2)" "w' = snd (lh_close lh w2)"
    "fst (lh_close lh w2) = Inr () \<longrightarrow> r = r2"
  using assms by (auto simp: lock_main_def split: option.splits prod.splits sum.splits)

lemma busy_lock:
  assumes "lh_open lh w = (Inr u, w1)" "lh_flock lh w1 = (Inl e, w2)" "is_blocking e" "lh_close lh w2 = (Inr v, w3)"
  shows "lock_main fuel lh owner w = Some (Inr 75, w3)"
  using assms by (simp add: lock_main_def hold_lock_def)

text \<open>The lock does not outlive its owner by more than one wait.\<close>

definition owner_leaves :: "('w \<Rightarrow> nat) \<Rightarrow> 'w lock_host \<Rightarrow> int \<Rightarrow> nat \<Rightarrow> bool" where
  "owner_leaves ticks lh owner n \<longleftrightarrow>
     (\<forall>w. ticks w < ticks (snd (lh_wait lh w))) \<and> (\<forall>w. ticks w \<le> ticks (snd (lh_parent lh w)))
     \<and> (\<forall>w. n \<le> ticks w \<longrightarrow> fst (lh_parent lh w) \<noteq> owner)"

definition hold_turn :: "'w lock_host \<Rightarrow> int \<Rightarrow> 'w \<Rightarrow> 'w + 'w" where
  "hold_turn lh owner w =
     (case lh_wait lh w of (stop, w1) \<Rightarrow>
        if stop then Inl w1
        else case lh_parent lh w1 of (parent, w2) \<Rightarrow> if parent \<noteq> owner then Inl w2 else Inr w2)"

interpretation holding: waiting_loop "\<lambda>fuel. hold_loop fuel lh owner" "hold_turn lh owner"
  by unfold_locales (auto simp: hold_turn_def split: prod.split)

lemma hold_turn_time:
  assumes "owner_leaves ticks lh owner n" "hold_turn lh owner w = Inr w'"
  shows "ticks w < n \<and> ticks w < ticks w'"
proof -
  from assms(2) obtain w1 where turn: "lh_wait lh w = (False, w1)" "lh_parent lh w1 = (owner, w')"
    by (auto simp: hold_turn_def split: prod.splits if_splits)
  have "ticks w < ticks w1" "ticks w1 \<le> ticks w'" "\<not> n \<le> ticks w1"
    using assms(1) turn unfolding owner_leaves_def by (metis snd_conv, metis snd_conv, metis fst_conv)
  then show ?thesis by simp
qed

lemma hold_loop_ends: "owner_leaves ticks lh owner n \<Longrightarrow> \<exists>w'. \<forall>fuel \<ge> Suc n. hold_loop fuel lh owner w = Some w'"
  by (rule holding.ends_with_fuel) (rule hold_turn_time)

section \<open>The live workflow\<close>

definition proof_field :: "string \<Rightarrow> string \<Rightarrow> schema_field" where
  "proof_field name data_type = \<lparr>sf_name = name, sf_data_type = data_type, sf_nullable = False\<rparr>"

definition proof_event :: "int \<Rightarrow> schema_change_event" where
  "proof_event now =
     \<lparr>ev_event_id = None, ev_entity_urn = canonical_asset_urn,
      ev_before_fields = [proof_field ''payment_id'' ''text'', proof_field ''amount'' ''numeric''],
      ev_after_fields =
        [proof_field ''payment_id'' ''text'', proof_field ''gross_amount'' ''numeric'',
         proof_field ''net_amount'' ''numeric''],
      ev_observed_at = now, ev_source = ''CI_POSTGRES_DBT_PROOF''\<rparr>"

text \<open>The installation of the proof: the given settings over those of the environment.\<close>

definition proof_installation :: "string \<Rightarrow> string \<Rightarrow> string \<Rightarrow> installation \<Rightarrow> installation" where
  "proof_installation runtime dsn repo_root base =
     base\<lparr>in_app := (in_app base)
            \<lparr>as_core := (as_core (in_app base))
               \<lparr>st_replay_mode := True, st_execution_mode := ''postgres'', st_runtime_dir := runtime,
                st_github_repo_root := repo_root\<rparr>,
             as_database_path := Some (join_path runtime ''state.sqlite3''), as_postgres_dsn := Some dsn\<rparr>,
          in_github_write_enabled := False, in_datahub_gms_url := None, in_mcp_url := None,
          in_openai_api_key := None\<rparr>"

definition check_that :: "bool \<Rightarrow> exn + unit" where
  "check_that c = (if c then Inr () else Inl (Other ''AssertionError'' []))"

definition assessment_of :: "candidate_assessment list \<Rightarrow> string \<Rightarrow> exn + candidate_assessment" where
  "assessment_of candidates field =
     (case map_of (rev (map (\<lambda>a. (ca_source_field a, a)) candidates)) field of
        Some a \<Rightarrow> Inr a | None \<Rightarrow> Inl (KeyErr field))"

definition check_case :: "case_snapshot \<Rightarrow> exn + unit" where
  "check_case c =
     bind_res (check_that (cs_state c = PATCH_READY)) (\<lambda>_.
     bind_res (case cs_selected_candidate c of
         None \<Rightarrow> check_that False
       | Some a \<Rightarrow> check_that (ca_source_field a = ''net_amount'')) (\<lambda>_.
     bind_res (assessment_of (cs_candidates c) ''gross_amount'') (\<lambda>gross.
     bind_res (check_that (is_close (dbl (1 / 1000000000)) (dbl (1 / 1000000000))
         (rm_total_variance_pct (ca_reconciliation gross)) (dbl (34 / 10)))) (\<lambda>_.
     bind_res (check_that (br_passed_checks (ca_build gross) = 8)) (\<lambda>_.
     bind_res (assessment_of (cs_candidates c) ''net_amount'') (\<lambda>net.
     bind_res (check_that (feq (rm_total_variance_pct (ca_reconciliation net)) (Fin 0))) (\<lambda>_.
     bind_res (check_that (feq (rm_primary_key_overlap_pct (ca_reconciliation net)) (Fin 100))) (\<lambda>_.
     bind_res (check_that (br_passed_checks (ca_build net) = 8)) (\<lambda>_.
       case cs_pull_request c of
         None \<Rightarrow> check_that False
       | Some pr \<Rightarrow> check_that (ir_status (pr_integration pr) = NOT_RUN))))))))))"

definition check_files :: "string list \<Rightarrow> exn + unit" where
  "check_files names =
     bind_res (check_that (length names = 6)) (\<lambda>_.
       check_that (set names = {''candidate.sql'', ''reconciliation.json'', ''run_results.json''}))"

definition check_clean :: "int option \<Rightarrow> exn + unit" where
  "check_clean left_over = check_that (left_over = Some 0)"

text \<open>\<^verbatim>\<open>main\<close>, with the names of the evidence files and the number of candidate schemas left.\<close>

definition live_workflow ::
  "settings \<Rightarrow> 'w services \<Rightarrow> int \<Rightarrow> ('w, exn, string list) prog \<Rightarrow> ('w, exn, int option) prog \<Rightarrow> ('w, int) wf"
  where
  "live_workflow cfg sv now evidence_names schemas_left =
     bind_p (ingest cfg sv (proof_event now)) (\<lambda>response.
     then_p (result_p (check_case (sr_case response)))
    (bind_p (world_p evidence_names) (\<lambda>names.
     then_p (result_p (check_files names))
    (bind_p (world_p schemas_left) (\<lambda>left_over.
     then_p (result_p (check_clean left_over)) (return_p 0))))))"

lemma checked_case:
  assumes "check_case c = Inr ()"
  shows "cs_state c = PATCH_READY \<and> (\<exists>a. cs_selected_candidate c = Some a \<and> ca_source_field a = ''net_amount'')
    \<and> (\<exists>pr. cs_pull_request c = Some pr \<and> ir_status (pr_integration pr) = NOT_RUN)"
  using assms by (auto simp: check_case_def check_that_def elim!: bind_res_InrE split: option.splits if_splits)

text \<open>The proof only ever runs on its own database, with GitHub, DataHub and the provider switched off.\<close>

lemma proof_is_local:
  assumes "new_workflow fs ip ipv6_loopback nw (proof_installation runtime dsn repo_root base) = Inr c"
  shows "co_database c = join_path runtime ''state.sqlite3'' \<and> \<not> da_enabled (co_github c)
    \<and> present (ma_endpoint (co_mcp c)) = None \<and> gms_url (co_incidents c) = None
    \<and> cg_api_key (co_generator c) = None \<and> (\<exists>x. co_executor c = Some x \<and> xc_postgres_dsn x = dsn)"
proof -
  have mode: "casefold (strip ''postgres'') = ''postgres''" by code_simp
  show ?thesis
    using assms
    by (auto simp: new_workflow_def new_mcp_adapter_def new_adapter_def installed_mcp_def installed_incidents_def
        installed_generator_def installed_github_def proof_installation_def validated_endpoint_def present_def
        gms_url_def default_executor_def new_executor_def resolved_database_path_def mode Let_def
        elim!: bind_res_InrE split: if_splits)
qed

end
