(* ===== verification/Spec2Isabelle.thy ===== *)
theory Spec2Isabelle
  imports Replay_Examples Live_Examples Memory_Examples Seed_Examples Operations
begin

text \<open>
  \<^bold>\<open>DataRescue: a verification library.\<close>

  DataRescue repairs the consequences of a schema change that DataHub reports for a payments table. The
  watcher (\<^verbatim>\<open>packages/datahub/actions.py\<close>) or a client of the HTTP API (\<^verbatim>\<open>apps/api/main.py\<close>) hands a
  schema change to the workflow (\<^verbatim>\<open>apps/api/workflow.py\<close>). It raises an incident
  (\<^verbatim>\<open>packages/datahub/graphql.py\<close>), gathers context (\<^verbatim>\<open>packages/datahub/mcp.py\<close>), generates candidate
  mappings (\<^verbatim>\<open>packages/remediation/candidates.py\<close>), executes each in isolation
  (\<^verbatim>\<open>packages/evidence/executor.py\<close>), lets a policy decide (\<^verbatim>\<open>packages/policy/engine.py\<close>), seals a patch
  (\<^verbatim>\<open>packages/remediation/sql_safety.py\<close>) and opens a draft pull request
  (\<^verbatim>\<open>packages/remediation/github.py\<close>). Every step is an event of an append-only log
  (\<^verbatim>\<open>apps/api/store.py\<close>) whose states follow \<^verbatim>\<open>apps/api/state_machine.py\<close>; after a human merge the
  deployment is verified and the incident resolved. The guard (\<^verbatim>\<open>apps/api/cli.py\<close>) blocks commands on an
  asset with an open case. Around the service, scripts seed the catalog with the context the workflow reads
  (\<^verbatim>\<open>scripts/seed_datahub_context.py\<close>), verify the recorded package (\<^verbatim>\<open>scripts/verify-replay.py\<close>), prove a
  connected case, the live context and the watcher's case (\<^verbatim>\<open>scripts/verify-connected-case.py\<close> and its two
  siblings for MCP and MCL), check the live workflow, hold a lock for a publisher, and keep an index of the
  repository's notes (\<^verbatim>\<open>scripts/repo_memory.py\<close>).

  \<^bold>\<open>How the code is modelled.\<close> Strings are lists of ASCII characters; Python's integers are \<open>int\<close> or
  \<open>nat\<close>; floats are the datatype \<open>pyfloat\<close> with IEEE rounding written out; SHA-256 is the executable
  function itself on 32-bit words. Exceptions are the datatype \<open>exn\<close>; a fallible function returns
  \<open>exn + 'a\<close>, and a method with effects is a \<open>prog\<close>: a function from a state to an outcome and the state
  it leaves, which is kept when it raises. Code that is not in the repository (SQLite, git, gh, dbt,
  PostgreSQL, HTTP peers, JSON text, the file system, clocks and random ids) is a parameter: a program
  over a world of its own, or a function of the record of everything asked so far, so that every
  answer and every exception is covered.

  \<^bold>\<open>The theories.\<close>
  \<^item> Rescue_Prelude: results, programs, \<open>keeps\<close> and \<open>yields\<close> (what a program preserves and returns), text.
    Py_Values: floats, JSON values. Text_Lines: lines and words.
  \<^item> Models: the enums, pydantic models and exceptions (\<^verbatim>\<open>models.py\<close>).
  \<^item> State_Machine: the transition table, histories and their shape; the locale of a life cycle.
  \<^item> Policy: the seven checks and the decision, against an abstract acceptance condition.
  \<^item> Sql_Safety: identifiers, the candidate query, its validator, the dbt patch.
  \<^item> Sha256: the digest. Candidates: the deterministic generator, the OpenAI provider, the fallback.
  \<^item> Event_Store: the log as a table of rows, appends, resets and scopes, and its well-formedness.
    Case_Projection: folding events into a snapshot; the queries.
  \<^item> Dsn: URL splitting and the PostgreSQL DSN. Git_Remote: which repository a remote names.
  \<^item> Evidence: both executors, the dbt run and its artifact, reconciliation, clean-up.
  \<^item> Workflow: ingest, every step of an advance, reset, verification of a deployment.
    Audit_Trail: what a row may say (\<open>written\<close>), and that every call of every honest process keeps it.
    Identity: when two schema changes are the same.
  \<^item> Checkout: choosing an executor and binding it to a verified checkout.
  \<^item> Mcl_Watcher: from a change log entry to a delivery, both sinks, the action and the command line.
  \<^item> Read_Back: the retry loop of both DataHub adapters; counts and exceptions of programs.
    Incident_Graphql: raising and resolving an incident with its read-back.
  \<^item> Mcp_Protocol: the JSON-RPC exchange with the MCP server, server-sent events and tool answers.
    Mcp_Context: the validators of an asset's entity, schema, lineage and documents, and the context made
    of them. Mcp_Adapter: construction, fetching a context, writing a report. Mcp_Safety: requests,
    destinations, exceptions and what a success stands for.
  \<^item> Draft_Pr: the pull request adapter over a record of actions. Draft_Safety: what it may do and when.
  \<^item> Service_Api: the routes with their error mapping, the event stream, the guard.
  \<^item> Loops: loops that wait, the locale of their turns, interpreted for the polling of a connected case, the
    watch for the watcher's case and the lock that is held.
  \<^item> Json_Ops: equality, lookup and conversion of JSON values as the scripts use them.
    Context_Seed: the aspects the seed adds to the catalog and their check. Seed_Safety: repeating a step
    changes nothing. Seed_Retains: what a step leaves of other people's metadata.
  \<^item> Replay_Package: the manifest, the artifacts and the claims of the recorded package. Replay_Safety: what
    it means that a package was accepted.
  \<^item> Connected_Proof: the validation of a connected case and the polling loop. Connected_Safety: what an
    accepted case has, and that polling ends.
  \<^item> Live_Proof: the proofs of a live context, a written report and the watcher's case. Live_Safety: that the
    first agrees with the workflow's judgement, and that the watch ends.
  \<^item> Memory_Index: notes, vectors, the table of chunks with its sync, search, the health check and adding a
    note. Memory_Safety: what the table holds after a sync, and reading an added note back.
  \<^item> Installation: the defaults of the settings, the components made from them, the request to the model
    provider, and the files of the console. Operations: the artifact lock and the live workflow proof.
  \<^item> Examples and the theories that end in it (Mcp, Seed, Replay, Connected, Live, Memory): the concrete inputs of the
    witnesses. This theory: the properties.

  \<^bold>\<open>What the properties show.\<close> The log of any mix of calls and of other processes is well-formed,
  grows, follows the life cycle and tells the truth; nothing is resolved without a successful pull
  request, a deployment and accepted evidence. The decision is the policy; accepted evidence comes from
  a dbt run that was run and whose numbers were measured, in a schema of its own that is dropped again.
  Generated SQL and patches say what was validated. Connections, identities, remotes and commits are
  parsed exactly. Outside effects are claimed only when read back, and happen only after the
  allowlists were checked. The context the workflow decides on is well typed, comes from the validated
  endpoint, and is complete for the canonical asset exactly when its lineage contract is. Seeding the catalog twice is seeding
  it once, and keeps what others wrote; an accepted replay package is sealed and claims nothing that was not
  run; the proof of a connected case ends and stands for a complete case; the live proof judges a context as
  the workflow does. The index of the notes follows the notes. Without configuration no component makes a
  request.

  \<^bold>\<open>Bounds.\<close> \<open>claim_case\<close> retries eight times and \<open>wider_id\<close> walks the widths of \<open>id_widths\<close>, as the
  source does; \<open>stream\<close> ends after 4800 reads, its own limit; \<open>retrying\<close> makes at most the configured
  number of attempts; an executor can be bound to checkouts as often as its first argument says (once is
  what the workflow needs). \<open>poll\<close> has fuel for its readings: one more than the ticks the clock needs to its
  deadline is enough, and \<open>None\<close> is a loop still running; \<open>watch_loop\<close> and \<open>hold_loop\<close> are alike.

  \<^bold>\<open>Not modelled.\<close> Text outside of ASCII; SQL and the file of SQLite; parsing of command lines and of
  the environment; the web console, its static files and the dbt project; what the scripts print. The functions of the math
  library, and the order in which a set is printed, are parameters. Threads appear as interleavings of whole store transactions of other
  processes, and the workflow's in-process lock as the serialisation it gives.
\<close>

section \<open>The workflow as a whole\<close>

text \<open>
  C1 Whatever the adapters answer, and whatever honest processes that share the store do between any
  two of its transactions, every row in the log is truthful after any sequence of ingests,
  verifications and resets: a selected candidate passes the policy, a patch is sealed by its hash and
  has exactly one revenue default, an opened pull request succeeded, a containment has between one and
  twenty reasons, and a post-deploy verification carries evidence the policy accepts.
\<close>

theorem every_row_truthful:
  assumes "honest_others cfg sv" "list_all (written cfg) (wf_rows st)"
  shows "list_all (written cfg) (wf_rows (run_calls cfg sv calls st))"
  using run_calls_keep [where P = "\<lambda>st. list_all (written cfg) (wf_rows st)", OF honest_calls [OF assms(1)] assms(2)] .

theorem every_row_truthful_witness:
  "honest_others example_settings example_services \<and> list_all (written example_settings) (wf_rows example_state)
   \<and> list_all (written example_settings)
       (wf_rows (run_calls example_settings example_services
          [Ingest example_event, ResetAll ''demo'', Ingest example_event] example_state))"
proof -
  have start: "list_all (written example_settings) (wf_rows example_state)"
    by (simp add: example_state_def)
  show ?thesis
    using example_alone start every_row_truthful [OF example_alone start] by blast
qed

text \<open>
  C2 No case is resolved without its milestones. In a log written by honest processes, before a row
  that puts a case into RESOLVED there are, in this order and in the same reset scope of the same case,
  a draft pull request that succeeded, a recorded deployment (of a full commit id when the evidence is
  recomputed live) and a post-deploy verification whose evidence the configured policy accepts.
\<close>

theorem resolution_needs_milestones:
  assumes "honest_others cfg sv" "store_ok (wf_rows st)" "list_all (written cfg) (wf_rows st)"
    and "r \<in> set (wf_rows (run_calls cfg sv calls st))" "rw_state r = Some RESOLVED"
  shows "milestones cfg (wf_rows (run_calls cfg sv calls st)) r"
proof (rule resolved_milestones)
  show "store_ok (wf_rows (run_calls cfg sv calls st))"
    using run_calls_keep [where P = "\<lambda>st. store_ok (wf_rows st)", OF log_calls assms(2)] .
  show "list_all (written cfg) (wf_rows (run_calls cfg sv calls st))"
    using run_calls_keep [where P = "\<lambda>st. list_all (written cfg) (wf_rows st)",
        OF honest_calls [OF assms(1)] assms(3)] .
qed (use assms in auto)

theorem resolution_needs_milestones_witness:
  "\<exists>st :: unit wf_state. \<exists>r. honest_others example_settings example_services \<and> rw_state r = Some RESOLVED
     \<and> r \<in> set (wf_rows (run_calls example_settings example_services [] st))
     \<and> milestones example_settings (wf_rows (run_calls example_settings example_services [] st)) r"
proof -
  define st where "st = example_state\<lparr>wf_rows := example_resolved\<rparr>"
  define r where "r = example_row 9 ''e9'' INCIDENT_RESOLVED RESOLVED (P_Integration (example_ok ''resolve''))"
  have "r \<in> set (wf_rows (run_calls example_settings example_services [] st))" "rw_state r = Some RESOLVED"
    by (simp_all add: run_calls_def st_def r_def example_resolved_def example_row_def append_row_def)
  moreover have "store_ok (wf_rows st)" "list_all (written example_settings) (wf_rows st)"
    using example_resolved_ok example_resolved_written by (simp_all add: st_def)
  ultimately show ?thesis
    using resolution_needs_milestones [OF example_alone] example_alone by blast
qed

section \<open>The event store\<close>

text \<open>
  C3 Whatever other processes do, honest or not, and whatever the adapters answer, a sequence of
  service calls leaves a well-formed log that extends the log it found: keys without gaps, the scope of
  the latest reset on every row, no violation of the unique indexes, and states the life cycle allows.
\<close>

theorem calls_keep_log:
  assumes "store_ok (wf_rows st)"
  shows "store_ok (wf_rows (run_calls cfg sv calls st))
    \<and> prefix (wf_rows st) (wf_rows (run_calls cfg sv calls st))"
proof
  show "store_ok (wf_rows (run_calls cfg sv calls st))"
    using run_calls_keep [where P = "\<lambda>st. store_ok (wf_rows st)", OF log_calls assms] .
  show "prefix (wf_rows st) (wf_rows (run_calls cfg sv calls st))"
    by (rule run_calls_keep [where P = "\<lambda>s. prefix (wf_rows st) (wf_rows s)", OF growing_calls]) simp
qed

theorem calls_keep_log_witness:
  "store_ok (wf_rows (example_state\<lparr>wf_rows := example_resolved\<rparr>))
   \<and> prefix example_resolved (wf_rows (run_calls example_settings example_services
       [ResetAll ''demo'', Ingest example_event] (example_state\<lparr>wf_rows := example_resolved\<rparr>)))"
  using calls_keep_log [of "example_state\<lparr>wf_rows := example_resolved\<rparr>"] example_resolved_ok by simp

text \<open>
  C4 In every table that transactions of any number of processes can produce, the states a case is
  given within one reset scope follow the recovery path from DETECTED without skipping a state, and end
  at the latest with one move to CONTAINED or FAILED; and the detection is never recorded twice.
\<close>

theorem case_histories:
  assumes "reachable_table rows" "case_states rows c scope \<noteq> []"
  shows "path_shape recovery_path (remdups_adj (case_states rows c scope))
    \<and> (\<forall>r \<in> set (tl (case_rows rows c scope)). rw_event_type r \<noteq> SCHEMA_CHANGE_DETECTED)"
proof -
  note ok = reachable_ok [OF assms(1)]
  from histories [OF ok, of c scope] assms(2) obtain ts where
    "case_states rows c scope = DETECTED # ts" "history_ok (Some DETECTED) ts"
    by (cases "case_states rows c scope") auto
  then show ?thesis
    using history_shape [of DETECTED ts] one_detection [OF ok]
    by (simp add: stopped_def path_from_def)
qed

theorem case_histories_witness:
  "\<exists>rows. reachable_table rows \<and> case_states rows ''DR-1'' 0 = [DETECTED]
     \<and> path_shape recovery_path (remdups_adj (case_states rows ''DR-1'' 0))"
proof -
  let ?rows = "[example_row 1 ''e1'' INCIDENT_RAISED DETECTED (P_Integration (example_ok ''x''))]"
  have "case_states ?rows ''DR-1'' 0 = [DETECTED]"
    by (simp add: case_states_def case_rows_def example_row_def append_row_def)
  then show ?thesis
    using case_histories [OF example_first_reachable, of "''DR-1''" 0] example_first_reachable
    by (intro exI [of _ ?rows]) simp
qed

text \<open>
  C5 Appending an event either is refused, leaving the table as it was and never with a bare
  integrity error, or adds exactly one row at the end, with the requested content, the next key and the
  scope of the latest reset, for a transition the life cycle allows.
\<close>

theorem append_all_or_nothing:
  "(\<exists>e. append_event uuid now c t s p d i rows = (Inl e, rows) \<and> (\<forall>m. e \<noteq> IntegrityError m))
   \<or> (\<exists>new. append_event uuid now c t s p d i rows = (Inr (row_to_event new), rows @ [new])
        \<and> new = append_row (effective_id uuid i) now c t s p d (current_scope rows) (next_sequence rows)
        \<and> validate_transition (current_state rows c (current_scope rows)) s = Inr ())"
proof -
  obtain r rows' where eq: "append_event uuid now c t s p d i rows = (r, rows')" by fastforce
  then show ?thesis
  proof (cases rule: append_event_cases)
    case (refused x)
    then have "append_event uuid now c t s p d i rows = (Inl x, rows) \<and> (\<forall>m. x \<noteq> IntegrityError m)"
      using eq by simp
    then show ?thesis by (intro disjI1 exI)
  next
    case (appended new)
    then show ?thesis using eq by (intro disjI2 exI [of _ new]) simp
  qed
qed

text \<open>
  C6 Delivering an event again is harmless: once an append with an explicit event id has succeeded,
  the same append is answered with the duplicate's case and changes nothing, while the same id with
  another case, state or payload is a conflict.
\<close>

theorem append_again:
  assumes "append_event uuid now c t s p d (Some i) rows = (Inr e, rows')" "i \<noteq> []"
    and "t \<noteq> SYSTEM_RESET"
  shows "append_event uuid' now' c t s p d (Some i) rows' = (Inl (DuplicateEventError c), rows')
    \<and> (\<not> (c = c' \<and> t = t' \<and> s = s' \<and> d = d' \<and> same_event_payload p p') \<longrightarrow>
         append_event uuid' now' c' t' s' p' d' (Some i) rows' = (Inl (EventConflictError i c), rows'))"
  using taken_again [OF assms] .

theorem append_again_witness:
  "\<exists>rows. append_event ''v'' 7 ''DR-1'' INCIDENT_RAISED DETECTED (P_Integration (example_ok ''x'')) None (Some ''e1'') rows
     = (Inl (DuplicateEventError ''DR-1''), rows)"
proof -
  have "append_event ''u'' 0 ''DR-1'' INCIDENT_RAISED DETECTED (P_Integration (example_ok ''x'')) None (Some ''e1'') []
      = (Inr (row_to_event (example_row 1 ''e1'' INCIDENT_RAISED DETECTED (P_Integration (example_ok ''x'')))),
         [example_row 1 ''e1'' INCIDENT_RAISED DETECTED (P_Integration (example_ok ''x''))])"
    by (simp add: append_event_def current_scope_def row_by_id_def current_state_def Let_def
        sql_insert_def violates_index_def append_row_def next_sequence_def example_row_def validate_transition_def row_to_event_def)
  from append_again [OF this] show ?thesis by blast
qed

text \<open>
  C7 A reset hides every earlier case without deleting anything: the old table stays a prefix, no
  case is listed or found afterwards, no deduplication key and no case id of an earlier scope is taken.
\<close>

theorem reset_hides_everything:
  assumes "store_ok rows" "reset_store uuid now reason rows = (Inr n, rows')"
  shows "(\<exists>r. rows' = rows @ [r] \<and> rw_sequence r = n) \<and> list_cases rows' = Inr []
    \<and> get_case rows' c = Inl (CaseNotFoundError c) \<and> \<not> case_id_exists rows' c
    \<and> find_case_for_dedup rows' k = None"
  using reset_hides [OF assms] .

theorem reset_hides_everything_witness:
  "\<exists>rows' n. reset_store ''reset'' 0 ''demo'' example_resolved = (Inr n, rows') \<and> list_cases rows' = Inr []"
proof -
  have "\<exists>n rows'. reset_store ''reset'' 0 ''demo'' example_resolved = (Inr n, rows')"
    by (simp add: reset_store_def sql_insert_def violates_index_def reset_row_def
        example_resolved_def example_row_def append_row_def)
  then show ?thesis using reset_hides_everything [OF example_resolved_ok] by blast
qed

text \<open>
  C8 The snapshot served for a case refines the log: reading it succeeds exactly when the case's
  events form a stream that starts with its detection and carries the payloads its event types need,
  and then its state is the state the store itself checks transitions against.
\<close>

theorem snapshot_refines_log:
  "case get_case rows c of
     Inl _ \<Rightarrow> \<not> stream_ok (events_for_case rows c 0)
   | Inr snap \<Rightarrow> stream_ok (events_for_case rows c 0)
       \<and> cs_id snap = c \<and> cs_events snap = events_for_case rows c 0
       \<and> cs_state snap = (case current_state rows c (current_scope rows) of None \<Rightarrow> DETECTED | Some s \<Rightarrow> s)"
proof (cases "get_case rows c")
  case (Inl e)
  then show ?thesis using get_case_found [of rows c] by simp
next
  case (Inr snap)
  then have "stream_ok (events_for_case rows c 0)" using get_case_found [of rows c] by simp
  then show ?thesis using get_case_state [OF Inr] Inr by simp
qed

text \<open>
  The life of a case is short: within a reset scope its state changes at most eight times, so it
  shows at most nine different consecutive states, and once it is RESOLVED, CONTAINED or FAILED every
  later row of it repeats that state.
\<close>

lemma life_is_bounded:
  assumes "reachable_table rows" "case_states rows c scope = states @ s # later"
  shows "length (remdups_adj (case_states rows c scope)) \<le> 9
    \<and> (final_state s \<longrightarrow> (\<forall>t \<in> set later. t = s))"
proof -
  have ok: "history_ok None (case_states rows c scope)" using histories [OF reachable_ok [OF assms(1)]] .
  moreover have "case_states rows c scope \<noteq> []" using assms(2) by simp
  ultimately obtain ts where ts: "case_states rows c scope = DETECTED # ts" "history_ok (Some DETECTED) ts"
    by (cases "case_states rows c scope") auto
  have "length (remdups_adj (DETECTED # ts)) \<le> 9"
    using cases.run_changes [of DETECTED ts] ts(2) by (simp add: history_ok_run)
  moreover have "history_ok (Some s) later"
    using ok assms(2) by (auto simp: history_ok_append split: if_splits)
  then have "final_state s \<longrightarrow> (\<forall>t \<in> set later. t = s)"
    using cases.run_final [of s later] by (auto simp: history_ok_run)
  ultimately show ?thesis using ts(1) by simp
qed

lemma life_is_bounded_at_work:
  "\<exists>rows. reachable_table rows \<and> case_states rows ''DR-1'' 0 = [] @ DETECTED # []
     \<and> length (remdups_adj (case_states rows ''DR-1'' 0)) \<le> 9"
proof -
  let ?rows = "[example_row 1 ''e1'' INCIDENT_RAISED DETECTED (P_Integration (example_ok ''x''))]"
  have states: "case_states ?rows ''DR-1'' 0 = [] @ DETECTED # []"
    by (simp add: case_states_def case_rows_def example_row_def append_row_def)
  show ?thesis
    using life_is_bounded [OF example_first_reachable states] example_first_reachable states
    by (intro exI [of _ ?rows]) simp
qed

section \<open>The recovery policy\<close>

text \<open>
  The decision is the policy: an execution is accepted exactly when it satisfies every condition
  the configuration demands, and the reasons are one line for each check that did not pass, so that a
  refusal always has one.
\<close>

lemma policy_decides:
  "pd_accepted (evaluate cfg v m b l) = acceptable cfg v m b l
   \<and> pd_reasons (evaluate cfg v m b l) =
       map reason_text (filter (\<lambda>c. \<not> pc_passed c) (pd_checks (evaluate cfg v m b l)))
   \<and> pd_accepted (evaluate cfg v m b l) = (pd_reasons (evaluate cfg v m b l) = [])
   \<and> length (pd_checks (evaluate cfg v m b l)) = 7"
  using evaluate_accepted [of cfg v m b l] evaluate_reasons [of cfg v m b l]
    evaluate_accepted_checks [of cfg v m b l] arg_cong [OF evaluate_check_names [of cfg v m b l], of length]
  by (auto simp: filter_empty_conv)



text \<open>
  Tightening the configuration never accepts more: what a policy that is at least as strict in
  every threshold and every switch accepts, the looser one accepts too.
\<close>

lemma stricter_accepts_less:
  assumes "stricter c d" "pd_accepted (evaluate c v m b l)"
  shows "pd_accepted (evaluate d v m b l)"
  using acceptable_antimono [OF assms(1)] assms(2) by (simp add: evaluate_accepted)

lemma stricter_accepts_less_witness:
  "pd_accepted (evaluate (default_policy_config\<lparr>pol_dbt_build_required := False\<rparr>)
     MATCH example_metrics example_build True)"
proof (rule stricter_accepts_less [of default_policy_config])
  show "stricter default_policy_config (default_policy_config\<lparr>pol_dbt_build_required := False\<rparr>)"
    unfolding stricter_def default_policy_config_def default_thresholds by simp
  show "pd_accepted (evaluate default_policy_config MATCH example_metrics example_build True)"
    using example_accepted by (simp add: evaluate_accepted)
qed

section \<open>The SQL gate\<close>

text \<open>
  C10 Rendering and validating agree: a proposal renders exactly when its field is an identifier, its
  alias is revenue and the relation is safe, and then the validator accepts the text and reads the same
  field and alias back from it.
\<close>

theorem render_then_validate:
  "case render_candidate_sql p relation of
     Inl _ \<Rightarrow> \<not> (is_identifier (cp_source_field p) \<and> cp_target_alias p = ''revenue''
                   \<and> require_relation relation = Inr relation)
   | Inr sql \<Rightarrow> is_identifier (cp_source_field p) \<and> cp_target_alias p = ''revenue''
       \<and> require_relation relation = Inr relation
       \<and> validate_candidate_sql sql relation = Inr sql
       \<and> match_candidate_sql relation sql = Some (cp_source_field p, ''revenue'')"
proof (cases "render_candidate_sql p relation")
  case (Inl e)
  then have "\<not> (\<exists>sql. render_candidate_sql p relation = Inr sql)" by simp
  then show ?thesis unfolding render_candidate_sql_Inr using Inl by auto
next
  case (Inr sql)
  then have "is_identifier (cp_source_field p) \<and> cp_target_alias p = ''revenue''
      \<and> require_relation relation = Inr relation"
    unfolding render_candidate_sql_Inr by (elim conjE, intro conjI)
  then show ?thesis
    unfolding Inr sum.case using render_validate [OF Inr] by (elim conjE, intro conjI)
qed



text \<open>
  C12 The dbt patch changes one place: either the model already reads the proposed column and is
  returned as it is, or the one default of the revenue column is replaced and everything around it kept.
  The result holds the new default once and the old one nowhere, and patching it again changes nothing.
\<close>

theorem patch_changes_one_place:
  assumes "render_dbt_patch p sql = Inr out"
  shows "(out = sql \<or> (\<exists>a b. sql = a @ revenue_default ''amount'' @ b
            \<and> out = a @ revenue_default (cp_source_field p) @ b))
    \<and> count_sub (revenue_default ''amount'') out = 0
    \<and> count_sub (revenue_default (cp_source_field p)) out = 1
    \<and> render_dbt_patch p out = Inr out"
proof -
  have "out = sql \<or> (\<exists>a b. sql = a @ revenue_default ''amount'' @ b
      \<and> out = a @ revenue_default (cp_source_field p) @ b)"
    using assms by (rule render_dbt_patch_cases) blast+
  then show ?thesis
    using render_dbt_patch_counts [OF assms] render_dbt_patch_again [OF assms] by (elim conjE, intro conjI)
qed

theorem patch_changes_one_place_witness:
  "\<exists>out. render_dbt_patch example_proposal (revenue_default ''amount'') = Inr out
     \<and> count_sub (revenue_default ''net_amount'') out = 1"
proof -
  have "render_dbt_patch example_proposal (revenue_default ''amount'') = Inr (revenue_default ''net_amount'')"
    by code_simp
  from patch_changes_one_place [OF this] this show ?thesis by (simp add: example_proposal_def)
qed

section \<open>Candidate generation\<close>

text \<open>
  The deterministic generator proposes every column of the changed schema except the key exactly
  once, gross before net before the others in order, each under the alias revenue, with ids that are
  pairwise different.
\<close>

lemma deterministic_proposals:
  "map cp_source_field (deterministic_candidates event cx) = ordered_fields (after_names event)
   \<and> distinct (ordered_fields (after_names event))
   \<and> set (ordered_fields (after_names event)) = set (after_names event) - {''payment_id''}
   \<and> distinct (map cp_id (deterministic_candidates event cx))
   \<and> {p \<in> set (deterministic_candidates event cx). cp_target_alias p \<noteq> ''revenue''} = {}"
  using deterministic_fields deterministic_ids distinct_ordered_fields set_ordered_fields
    deterministic_alias by blast

text \<open>
  C13 Whatever a model provider answers, a proposal names a column of the changed schema and the alias
  revenue; and when the generator reports success, the answer was the provider's and each of its
  proposals is an identifier that cites only evidence of the fetched context.
\<close>

theorem proposals_are_grounded:
  assumes "propose lib post gen event cx = Inr r" "p \<in> set (gr_candidates r)"
  shows "proposal_ok event p
    \<and> (ir_status (gr_integration r) = SUCCEEDED \<longrightarrow> grounded event cx p)"
  using propose_ok [OF assms] assms
  by (cases rule: propose_cases [OF assms(1)]) (auto dest: openai_candidates_ok)

definition example_generator :: candidate_generator where
  "example_generator = \<lparr>cg_api_key = None, cg_model = ''m'', cg_replay_mode = True\<rparr>"

theorem proposals_are_grounded_witness:
  "\<exists>r p. propose example_json (\<lambda>_ _. Inr JNull) example_generator example_event example_context = Inr r
     \<and> p \<in> set (gr_candidates r) \<and> proposal_ok example_event p"
proof -
  obtain r where r: "propose example_json (\<lambda>_ _. Inr JNull) example_generator example_event example_context = Inr r"
      "gr_candidates r = deterministic_candidates example_event example_context"
    by (simp add: propose_def example_generator_def)
  have "set (map cp_source_field (gr_candidates r)) \<noteq> {}"
    by (simp add: r(2) deterministic_fields set_ordered_fields after_names_def example_event_def
        example_field_def del: set_map)
  then obtain p where "p \<in> set (gr_candidates r)" by fastforce
  with proposals_are_grounded [OF r(1)] r(1) show ?thesis by blast
qed

text \<open>
  The fallback is not complete: a provider that answers with a JSON list instead of an object makes
  the generator raise an AttributeError, which is none of the failures it falls back on.
\<close>

lemma fallback_gap:
  assumes "cg_api_key gen = Some (c # cs)" "post event cx = Inr (JList xs)"
  shows "\<exists>m. propose lib post gen event cx = Inl (AttributeErr m) \<and> \<not> falls_back (AttributeErr m)"
  using propose_non_object [of gen c cs post event cx xs lib] assms propose_Inl by blast

lemma fallback_gap_reached:
  "\<exists>m. propose example_json (\<lambda>_ _. Inr (JList [])) (example_generator\<lparr>cg_api_key := Some ''key''\<rparr>)
     example_event example_context = Inl (AttributeErr m)"
  using fallback_gap [of "example_generator\<lparr>cg_api_key := Some ''key''\<rparr>" "CHR ''k''" "''ey''"
      "\<lambda>_ _. Inr (JList [])" example_event example_context "[]" example_json]
  by auto

section \<open>Evidence\<close>

text \<open>
  C14 A passed build of the live executor was run: some dbt process, started with the connection of the
  configured DSN and the candidate's own schema and column, exited with zero and left a report of a dbt
  build in which every node passed, both revenue models are there and at least eight tests ran; and the
  metrics were computed from three queries of that schema and the baseline.
\<close>

theorem passed_build_was_run:
  assumes "live_execute out cfg case_id p cx tr = (Inr x, tr')" "br_passed (cx_build x)"
  shows "\<exists>schema trace. candidate_schema case_id (cp_source_field p) = Inr schema
    \<and> built_at out cfg schema (cp_source_field p) trace \<and> prefix trace tr'
    \<and> 8 \<le> br_total_checks (cx_build x) \<and> br_passed_checks (cx_build x) = br_total_checks (cx_build x)
    \<and> reconciled_from out cfg schema (cx_reconciliation x)"
  using live_execute_passed [OF assms] .

theorem passed_build_was_run_witness:
  "\<exists>x tr. live_execute example_outside example_executor ''DR-1'' example_proposal example_context [] = (Inr x, tr)
     \<and> br_passed (cx_build x) \<and> 8 \<le> br_total_checks (cx_build x)"
  using example_run passed_build_was_run by blast


text \<open>
  C16 The candidate's schema is cleaned up: once an execution with a valid DSN has done more than write
  its query, the last thing it does is to drop its schema, or to fail to connect and raise.
\<close>

theorem schema_is_dropped:
  assumes "live_execute out cfg case_id p cx tr = (r, tr')"
    and "parse_postgres_dsn (os_bracketed_host out) (xc_postgres_dsn cfg) = Inr c"
    and "\<exists>a \<in> set (drop (length tr) tr'). \<nexists>q content. a = WriteFile q content"
  shows "\<exists>schema t. candidate_schema case_id (cp_source_field p) = Inr schema
    \<and> (tr' = t @ [Connect c True, DropSchema schema]
       \<or> tr' = t @ [Connect c True] \<and> (\<exists>e. r = Inl e))"
  using live_execute_drops [OF assms] .

theorem schema_is_dropped_witness:
  "\<exists>r tr t c. live_execute example_outside example_executor ''DR-1'' example_proposal example_context [] = (r, tr)
     \<and> tr = t @ [Connect c True, DropSchema ''candidate_dr_1_net_amount'']"
proof -
  obtain x tr where run: "live_execute example_outside example_executor ''DR-1'' example_proposal
      example_context [] = (Inr x, tr)" "br_passed (cx_build x)"
    using example_run by blast
  from live_execute_passed [OF this] obtain schema trace where
    "built_at example_outside example_executor schema (cp_source_field example_proposal) trace" "prefix trace tr"
    by blast
  then have "\<exists>a \<in> set (drop (length []) tr). \<nexists>q content. a = WriteFile q content"
    by (auto simp: built_at_def prefix_def)
  moreover have "parse_postgres_dsn (os_bracketed_host example_outside) (xc_postgres_dsn example_executor)
      = Inr example_connection"
    by (simp add: example_executor_simps example_dsn)
  ultimately obtain t where "tr = t @ [Connect example_connection True, DropSchema ''candidate_dr_1_net_amount'']"
    using schema_is_dropped [OF run(1)] example_schema by (auto simp: example_field)
  with run(1) show ?thesis by blast
qed

text \<open>
  The schema of a candidate is always a safe PostgreSQL identifier: whatever the case id and the
  column are, the name exists, starts with the candidate prefix, has identifier characters only and fits
  into the sixty-three bytes that PostgreSQL keeps.
\<close>

lemma schema_name_is_safe:
  "\<exists>s. candidate_schema case_id source_field = Inr s \<and> is_identifier s \<and> prefix ''candidate_'' s
     \<and> length s \<le> 63"
  by (rule candidate_schema_ok)

text \<open>
  With an invalid DSN the live executor never returns the build result it prepares for that case:
  the execution raises.
\<close>

lemma invalid_dsn_raises:
  assumes "parse_postgres_dsn (os_bracketed_host out) (xc_postgres_dsn cfg) = Inl e"
  shows "\<exists>x. fst (live_execute out cfg case_id p cx tr) = Inl x"
  using live_execute_invalid_dsn [OF assms] .

lemma invalid_dsn_raises_witness:
  "\<exists>x. fst (live_execute example_outside (example_executor\<lparr>xc_postgres_dsn := []\<rparr>) ''DR-1''
     example_proposal example_context []) = Inl x"
proof -
  have "parse_postgres_dsn (\<lambda>_. False) [] = Inl (ValueError ''PostgreSQL DSN must use a postgres or postgresql URL'')"
    by (simp add: parse_postgres_dsn_def urlsplit_def clean_url_def split_scheme_def check_brackets_def
        check_dsn_shape_def partition_def casefold_def)
  then show ?thesis
    by (intro invalid_dsn_raises [of example_outside "example_executor\<lparr>xc_postgres_dsn := []\<rparr>"])
      (simp add: example_outside_simps)
qed

text \<open>
  C17 Both executors give evidence a policy can rely on: if a policy accepts what the replay or the live
  executor returned, the glossary does not contradict the column; and unless its variance threshold is
  absurd the build passed, even when the policy does not ask for one.
\<close>

theorem accepted_evidence:
  assumes "fle (pol_max_total_variance_pct policy) (Fin 100)"
    and "live_execute out cfg case_id p cx tr = (Inr x, tr') \<or> x = replay_execute p cx"
    and "pd_accepted (evaluate policy (cx_semantic_verdict x) (cx_reconciliation x) (cx_build x) current)"
  shows "semantic_verdict_of (cp_source_field p) cx \<noteq> CONFLICT \<and> br_passed (cx_build x)"
  using assms(2)
proof
  assume run: "live_execute out cfg case_id p cx tr = (Inr x, tr')"
  show ?thesis
    using live.accepted_verdict [OF run] live.accepted_built [OF run _ assms(1)] assms(3)
    by (auto simp: live.accepts_def)
next
  assume "x = replay_execute p cx"
  then have run: "return_p (replay_execute p cx) () = (Inr x, ())" by simp
  show ?thesis
    using replay.accepted_verdict [OF run] replay.accepted_built [OF run _ assms(1)] assms(3)
    by (auto simp: replay.accepts_def)
qed

theorem accepted_evidence_witness:
  "\<exists>x :: candidate_execution. pd_accepted (evaluate default_policy_config (cx_semantic_verdict x) (cx_reconciliation x) (cx_build x) True)
     \<and> br_passed (cx_build x)"
proof -
  have threshold: "fle (pol_max_total_variance_pct default_policy_config) (Fin 100)"
    unfolding default_policy_config_def default_thresholds by simp
  obtain x tr where x: "live_execute example_outside example_executor ''DR-1'' example_proposal
      example_context [] = (Inr x, tr)"
      "pd_accepted (evaluate default_policy_config (cx_semantic_verdict x) (cx_reconciliation x) (cx_build x) True)"
    using example_run by (elim exE conjE)
  from accepted_evidence [OF threshold disjI1 [OF x(1)] x(2)] x(2) show ?thesis
    by (intro exI [of _ x]) simp
qed

text \<open>
  The recorded replay decides as the demo tells it: under the default policy and with current
  lineage, of all candidates exactly the net amount is accepted, and only while the glossary speaks of
  net revenue.
\<close>

lemma replay_decisions:
  "pd_accepted (let x = replay_execute p cx in
     evaluate default_policy_config (cx_semantic_verdict x) (cx_reconciliation x) (cx_build x) True)
   \<longleftrightarrow> cp_source_field p = ''net_amount''
       \<and> contains ''net'' (casefold (case cb_glossary_definition cx of Some d \<Rightarrow> d | None \<Rightarrow> []))"
proof -
  have dbls: "dbl (340/100) = Fin (7656119366529843/2251799813685248)" "dbl (-150/100) = Fin (-3/2)"
    "dbl 100 = Fin 100" "dbl 1000000000 = Fin 1000000000"
    by code_simp+
  have names: "contains ''net'' (casefold ''net_amount'')" by code_simp
  show ?thesis
    unfolding evaluate_accepted Let_def acceptable_default default_thresholds
    using names
    by (auto simp: replay_execute_def Let_def recorded_metrics_def failing_metrics_def dbls dbls [simplified]
        semantic_verdict_of_def)
qed

section \<open>Connection strings\<close>

text \<open>
  C18 Parsing a DSN never fails other than with a ValueError, and what it accepts is one explicit
  connection: a host that is neither a list nor an escape, a port between 1 and 65535, user, password
  and database that are not empty and free of control characters, and sslmode disable.
\<close>

theorem parsed_dsn_is_explicit:
  "case parse_postgres_dsn ip dsn of
     Inl e \<Rightarrow> (\<exists>m. e = ValueError m)
   | Inr c \<Rightarrow> connection_ok c"
  using parse_dsn_ok parse_dsn_error by (auto split: sum.split)

text \<open>
  A connection written as a URL, with its user, password and database percent-encoded, is parsed
  back to the same connection.
\<close>

lemma dsn_round_trip:
  assumes "connection_ok c" "dns_name (pg_host c)"
    "ascii_text (pg_user c)" "ascii_text (pg_password c)" "ascii_text (pg_dbname c)"
  shows "parse_postgres_dsn ip (render_dsn c) = Inr c"
  using parse_render_dsn [OF assms] .

lemma dsn_round_trip_at_work:
  "parse_postgres_dsn (\<lambda>_. False) (render_dsn (example_connection\<lparr>pg_password := ''p@s:s/%''\<rparr>))
   = Inr (example_connection\<lparr>pg_password := ''p@s:s/%''\<rparr>)"
  by (rule dsn_round_trip)
    (simp_all add: connection_ok_def plain_text_def example_connection_def dns_name_def ascii_text_def
      is_lower_def code_def)

text \<open>
  The dbt process gets exactly the parsed connection: the five connection variables, the schema and
  the column are set from the execution whatever the parent environment held, and every other variable
  is inherited.
\<close>

lemma dbt_environment_is_explicit:
  "dbt_process_env env c schema column k =
     (if k = ''DATARESCUE_REVENUE_COLUMN'' then Some column
      else if k = ''DBT_SCHEMA'' then Some schema
      else if k = ''POSTGRES_HOST'' then Some (pg_host c)
      else if k = ''POSTGRES_PORT'' then Some (decimal (int (pg_port c)))
      else if k = ''POSTGRES_DB'' then Some (pg_dbname c)
      else if k = ''POSTGRES_USER'' then Some (pg_user c)
      else if k = ''POSTGRES_PASSWORD'' then Some (pg_password c)
      else env k)"
  by (rule dbt_process_env_lookup)

section \<open>Identity\<close>

text \<open>
  C19 The text whose hash identifies a schema change is canonical: two changes have the same text
  exactly when they name the same asset up to letter case and the same fields, in any order, with the
  same multiplicities before and after.
\<close>

theorem identity_is_canonical:
  "dedup_text e = dedup_text e' \<longleftrightarrow>
     casefold (ev_entity_urn e) = casefold (ev_entity_urn e')
     \<and> mset (ev_before_fields e) = mset (ev_before_fields e')
     \<and> mset (ev_after_fields e) = mset (ev_after_fields e')"
  by (rule dedup_text_eq)

text \<open>
  The allowlist comes first: a change of an asset that is not allowlisted is refused before the
  service reads or writes anything, so its whole state is as before.
\<close>

lemma allowlist_comes_first:
  assumes "ev_entity_urn event \<notin> set (allowed_asset_urns cfg)"
  shows "\<exists>m. ingest cfg sv event st = (Inl (AssetNotAllowedError m), st)"
  using assms by (simp add: ingest_def)

lemma allowlist_comes_first_witness:
  "\<exists>m. ingest example_settings example_services (example_event\<lparr>ev_entity_urn := ''urn:other''\<rparr>) example_state
     = (Inl (AssetNotAllowedError m), example_state)"
  by (rule allowlist_comes_first) (simp add: example_allowed)

text \<open>
  The repository a git remote is taken to name has the form owner/name with safe characters, and a
  URL is only accepted when it addresses github.com over https without credentials or over ssh as git.
\<close>

lemma remote_is_github:
  assumes "github_repository_from_remote_url ip url = Inr (Some r)"
  shows "(\<exists>owner name. r = owner @ ''/'' @ name \<and> owner \<noteq> [] \<and> name \<noteq> []
      \<and> list_all repository_char owner \<and> list_all repository_char name)
    \<and> (scp_path url \<noteq> None
       \<or> (\<exists>u. urlsplit ip url = Some u \<and> casefold (hostname (us_netloc u)) = ''github.com''
            \<and> snd (userinfo (us_netloc u)) = None
            \<and> (us_scheme u = ''https'' \<and> fst (userinfo (us_netloc u)) = None
               \<or> us_scheme u = ''ssh'' \<and> fst (userinfo (us_netloc u)) = Some ''git'')))"
  using remote_url_shape [OF assms] remote_url_github [OF assms] by (intro conjI)

lemma remote_is_github_witness:
  "\<exists>owner name. ''acme/shop'' = owner @ ''/'' @ name \<and> list_all repository_char owner"
proof -
  have "github_repository_from_remote_url (\<lambda>_. False) ''git@github.com:acme/shop.git'' = Inr (Some ''acme/shop'')"
    by code_simp
  from remote_is_github [OF this] show ?thesis by blast
qed
section \<open>The service from outside\<close>

text \<open>
  C20 Every change log entry the watcher gets has one of three outcomes: a result that is not ENQUEUED
  while the sink was not called at all; or the sink was called once, with an event read from a dataset's
  schema aspects whose fields before and after differ as multisets, and it raised, which becomes the
  result of that exception or is passed on; or it answered, which becomes an ENQUEUED result. No
  malformed entry raises.
\<close>

theorem watcher_outcomes:
  "case handle lib sink payload w of (r, w') \<Rightarrow>
     (\<exists>x. r = Inr x \<and> mr_status x \<noteq> ENQUEUED \<and> w' = w)
     \<or> (\<exists>event answer. delivered_event lib payload event \<and> sink event w = (answer, w')
          \<and> r = (case answer of
                   Inl e \<Rightarrow> (case mcl_failure e of Some x \<Rightarrow> Inr x | None \<Rightarrow> Inl e)
                 | Inr response \<Rightarrow> accepted lib response))"
proof -
  obtain r w' where run: "handle lib sink payload w = (r, w')" by fastforce
  then show ?thesis
  proof (cases rule: handle_cases)
    case (refused event e)
    with run show ?thesis by (auto intro!: exI [of _ event] split: option.split)
  next
    case (delivered event response)
    with run show ?thesis by (auto intro!: exI [of _ event])
  qed (use run in simp)
qed

text \<open>
  C21 An asset outside the allowlist is refused with the whole state unchanged, and the refusal survives
  every way in: the API answers 403 with its label; the watcher in front of the workflow skips the
  entry; and a watcher that posts to the API, given any response that carries that status, header and
  detail, skips it too, so that no such entry is retried.
\<close>

theorem refusal_survives:
  assumes delivered: "delivered_event lib payload event"
    and outside: "ev_entity_urn event \<notin> set (allowed_asset_urns cfg)"
    and posted: "post (sink_url api_url) event w = (Inr response, w')"
    and answered: "\<And>h. schema_change_route cfg sv event st = (Inr (Inl h), st) \<Longrightarrow> carries response h"
  shows "\<exists>m h. ingest cfg sv event st = (Inl (AssetNotAllowedError m), st)
    \<and> schema_change_route cfg sv event st = (Inr (Inl h), st) \<and> he_status h = 403
    \<and> handle lib (workflow_sink cfg sv) payload st = (Inr outside_allowlist, st)
    \<and> handle lib (http_sink post api_url) payload w = (Inr outside_allowlist, w')"
proof -
  let ?m = "''Asset is outside the configured remediation allowlist: '' @ ev_entity_urn event"
  let ?h = "\<lparr>he_status = 403, he_detail = ?m,
              he_headers = [(''X-DataRescue-Error'', ''ASSET_OUTSIDE_ALLOWLIST'')]\<rparr>"
  have refused: "ingest cfg sv event st = (Inl (AssetNotAllowedError ?m), st)"
    using outside by (simp add: ingest_def)
  then have route: "schema_change_route cfg sv event st = (Inr (Inl ?h), st)"
    by (simp add: schema_change_route_def mapping_errors_def schema_change_error_def catch_p_def bind_p_def)
  have "is_api_allowlist_rejection response = Inr True"
    using allowlist_rejection [of response "'': '' @ ev_entity_urn event"] answered [OF route] by simp
  with posted have "http_sink post api_url event w
      = (Inl (HTTPAssetOutOfScopeError ''DataRescue API rejected an asset outside its allowlist''), w')"
    by (simp add: http_sink_def bind_p_def)
  moreover have "workflow_sink cfg sv event st = (Inl (AssetNotAllowedError ?m), st)"
    using refused by (simp add: workflow_sink_def bind_p_def)
  ultimately show ?thesis
    using refused route
    by (intro exI [of _ ?m] exI [of _ ?h])
      (simp add: handle_refused [OF delivered] mcl_failure_def outside_allowlist_def)
qed

theorem refusal_survives_witness:
  "handle example_library (workflow_sink example_settings example_services) (JDict example_mcl) example_state
     = (Inr outside_allowlist, example_state)
   \<and> handle example_library (http_sink (\<lambda>_ _ w. (Inr example_refusal, Suc w)) ''http://api/'') (JDict example_mcl) 0
     = (Inr outside_allowlist, 1)"
  using refusal_survives [of example_library "JDict example_mcl" example_mcl_event example_settings
      "\<lambda>_ _ w. (Inr example_refusal, Suc w)" "''http://api/''" 0 example_refusal 1 example_services example_state]
    example_mcl_delivered example_refusal_carries
  by (simp add: example_allowed) (auto simp: example_mcl_event_def)



text \<open>
  C23 While any case of an asset is unresolved, the guard does not run the guarded command: it returns
  the containment code, or fails because the store cannot be projected, and has done nothing else.
\<close>

theorem guard_never_runs:
  assumes "get_case rows c = Inr snap" "c \<noteq> ''__system__''"
    and "cs_asset_urn snap = asset" "cs_state snap \<noteq> RESOLVED"
  shows "guard run rows asset arguments w = (Inr contained_exit_code, w)
    \<or> (\<exists>e. list_cases rows = Inl e \<and> guard run rows asset arguments w = (Inl e, w))"
  by (rule guard_blocks [OF assms])

theorem guard_never_runs_witness:
  "\<exists>r. guard (\<lambda>_ w. (Inr 0, Suc w)) example_open ''urn:payments'' [''--'', ''dbt''] 0 = (r, 0)"
proof -
  obtain snap where snap: "get_case example_open ''DR-1'' = Inr snap" "cs_asset_urn snap = ''urn:payments''"
    "cs_state snap = DETECTED"
    using example_open_case by blast
  from guard_never_runs [OF snap(1) _ snap(2), of "\<lambda>_ w. (Inr 0, Suc w)" "[''--'', ''dbt'']" 0] snap(3)
  show ?thesis by auto
qed

text \<open>
  C24 An executor bound to the checkout of a verified commit runs the dbt project of that checkout, from
  profiles of the checkout or of a place outside of the repository, against the same database, target and
  relations as before: what is measured after a deployment is the deployed commit.
\<close>

theorem bound_executor_stays_inside:
  assumes "bind_to_checkout fs cfg checkout_root repository_root = Inr bound"
    and "\<And>p. fs_resolve fs (fs_resolve fs p) = fs_resolve fs p"
    and "fs_resolve fs (xc_dbt_profiles_dir cfg) = xc_dbt_profiles_dir cfg"
  shows "inside (fs_resolve fs checkout_root) (xc_dbt_project_dir bound)
    \<and> fs_is_dir fs (xc_dbt_project_dir bound)
    \<and> (inside (fs_resolve fs checkout_root) (xc_dbt_profiles_dir bound)
       \<or> xc_dbt_profiles_dir bound = xc_dbt_profiles_dir cfg
         \<and> \<not> inside (fs_resolve fs repository_root) (xc_dbt_profiles_dir bound))
    \<and> xc_postgres_dsn bound = xc_postgres_dsn cfg \<and> xc_dbt_target bound = xc_dbt_target cfg
    \<and> xc_source_relation bound = xc_source_relation cfg
    \<and> xc_baseline_relation bound = xc_baseline_relation cfg"
  using bind_to_checkout_inside [OF assms] .

theorem bound_executor_stays_inside_witness:
  "inside ''/tmp/wt'' ''/tmp/wt/dbt''"
  using bound_executor_stays_inside [OF example_bound]
  by (simp add: example_files_def example_live_def)



section \<open>The draft pull request\<close>



text \<open>
  C27 A success stands for a pull request that was looked at: at the end of a successful run GitHub has
  listed an open draft on the allowlisted repository, from its branch to the base branch, with the
  reported URL, and git has shown that the head commit of it holds, at the patched path, exactly the
  validated content, which matches its hash.
\<close>

theorem draft_success_is_verified:
  assumes "create_draft gw da case_id patch [] = (Inr pr, t)"
    and "ir_status (pr_integration pr) = SUCCEEDED"
  shows "request_sealed da case_id patch \<and> allowlisted gw da t
    \<and> (\<exists>url. pr_url pr = Some url \<and> found_pr gw da (branch_of case_id) patch t url)"
  using create_draft_succeeded [OF assms] create_real_draft_checked create_real_draft_found by blast

theorem draft_success_is_verified_witness:
  "\<exists>t. found_pr example_gh example_gh_adapter (branch_of ''DR-1'') example_patch t example_pr_url"
proof -
  obtain pr t where pr: "create_draft example_gh example_gh_adapter ''DR-1'' example_patch [] = (Inr pr, t)"
    "ir_status (pr_integration pr) = SUCCEEDED" "pr_url pr = Some example_pr_url"
    using example_gh_draft by blast
  from draft_success_is_verified [OF pr(1,2)] pr(3) show ?thesis by auto
qed

text \<open>
  The adapter recognises the commits it makes: the message it writes, read back line by line, names
  the case and the patch and is accepted with exactly the base commit it was made from, and with no
  other parent, so that a retry finds its own work and takes nothing else for it.
\<close>

lemma own_commit_is_recognised:
  assumes "one_line case_id" "one_line (pa_sha256 patch)" "one_line base"
  shows "hd (splitlines (commit_message case_id (pa_sha256 patch) base)) = commit_subject case_id
    \<and> recorded_base case_id patch (splitlines (commit_message case_id (pa_sha256 patch) base)) parent
      = (if parent = base then Some base else None)"
  using own_commit_recognised [OF assms] by (simp add: Let_def)

lemma own_commit_is_recognised_at_work:
  "recorded_base ''DR-1'' example_patch
     (splitlines (commit_message ''DR-1'' (pa_sha256 example_patch) ''abc'')) ''abc'' = Some ''abc''"
proof -
  have "one_line ''DR-1''" "one_line ''abc''" by code_simp+
  moreover have "one_line (pa_sha256 example_patch)"
    unfolding example_patch_def patch_artifact.simps by (rule sha256_one_line)
  ultimately show ?thesis using own_commit_is_recognised by simp
qed

section \<open>The DataHub MCP adapter\<close>

text \<open>
  C28 A context the adapter reports as fetched is well typed, and the workflow reads it without loss: the
  schema has at least one field and every field a path, the lineage starts with the asset and holds only
  DataHub URNs without repetition, the documents are glossary terms and documents, and texts are not
  empty; the bundle the workflow builds from the dictionary has exactly these values.
\<close>

theorem mcp_context_is_well_typed:
  assumes "mcp_fetch_context a asset_urn w = (Inr r, w')"
    and "ir_status (mc_integration r) = SUCCEEDED"
  shows "\<exists>lc. r = context_result asset_urn lc \<and> lc_asset_urn lc = asset_urn \<and> well_typed_context lc
    \<and> context_of cfg asset_urn r =
        \<lparr>cb_asset_urn = asset_urn, cb_glossary_definition = lc_glossary_definition lc,
         cb_owner = lc_owner lc, cb_lineage_urns = lc_lineage_urns lc,
         cb_context_documents = lc_documents lc, cb_lineage_current = lc_lineage_current lc,
         cb_source = ''DATAHUB_MCP'', cb_integration = mc_integration r\<rparr>"
proof -
  from fetch_ok [OF assms] obtain entity schema lineage direct info lc where
      lc: "normalize_context asset_urn entity schema lineage direct info = Inr lc"
        "r = context_result asset_urn lc"
    by metis
  then show ?thesis
    using normalized_well_typed [OF lc(1)] context_of_items [of "mc_integration r" cfg asset_urn lc] assms(2)
    by (auto simp: context_result_def)
qed

theorem mcp_context_is_well_typed_witness:
  "\<exists>lc. well_typed_context lc \<and> lc_asset_urn lc = contract_asset_urn
     \<and> fst (mcp_fetch_context (example_mcp canonical_tools) contract_asset_urn 0)
         = Inr (context_result contract_asset_urn lc)"
proof -
  obtain r where "mcp_fetch_context (example_mcp canonical_tools) contract_asset_urn 0 = (Inr r, 9)"
    "ir_status (mc_integration r) = SUCCEEDED"
    using canonical_run by (auto split: prod.splits sum.splits)
  from mcp_context_is_well_typed [OF this] this(1) show ?thesis by auto
qed

text \<open>
  C29 For the canonical asset the workflow's context is complete exactly when the whole bridge of
  lineage is there: all five required URNs, and each of the four direct edges at degree one, with no other
  canonical node beside its target but the known parallel edge. The owner, the definition and the document
  it then works with are the exact ones of the contract.
\<close>

theorem canonical_context_is_exact:
  assumes "mcp_fetch_context a contract_asset_urn w = (Inr r, w')"
    and "ir_status (mc_integration r) = SUCCEEDED"
  shows "\<exists>results v entity schema lineage direct.
    call_tools a (context_calls contract_asset_urn) w = (Inr results, v)
    \<and> context_payloads (ma_json a) contract_asset_urn results = Inr (entity, schema, lineage, Some direct)
    \<and> (context_complete (context_of cfg contract_asset_urn r) \<longleftrightarrow>
         set required_lineage_urns \<subseteq> set (cb_lineage_urns (context_of cfg contract_asset_urn r))
         \<and> (\<forall>e \<in> set direct_lineage_edges. exact_edge direct e))
    \<and> canonical_owner_verified entity
    \<and> cb_owner (context_of cfg contract_asset_urn r) = Some canonical_owner_name
    \<and> cb_glossary_definition (context_of cfg contract_asset_urn r) = canonical_glossary_definition entity
    \<and> canonical_document_urn \<in> set (cb_context_documents (context_of cfg contract_asset_urn r))"
proof -
  from fetch_ok [OF assms] obtain results v entity schema lineage direct info lc where run:
      "call_tools a (context_calls contract_asset_urn) w = (Inr results, v)"
      "context_payloads (ma_json a) contract_asset_urn results = Inr (entity, schema, lineage, direct)"
      "normalize_context contract_asset_urn entity schema lineage direct info = Inr lc"
      "r = context_result contract_asset_urn lc"
    by metis
  from context_payloads_direct [OF run(2)] obtain d where d:
      "direct = Some d" "map fst d = map fst direct_lineage_edges" .
  note exact = canonical_context [OF run(3) [unfolded d(1)] d(2)]
  have "context_of cfg contract_asset_urn r =
      \<lparr>cb_asset_urn = contract_asset_urn, cb_glossary_definition = lc_glossary_definition lc,
       cb_owner = lc_owner lc, cb_lineage_urns = lc_lineage_urns lc, cb_context_documents = lc_documents lc,
       cb_lineage_current = lc_lineage_current lc, cb_source = ''DATAHUB_MCP'', cb_integration = mc_integration r\<rparr>"
    using context_of_items [of "mc_integration r" cfg contract_asset_urn lc] assms(2) run(4)
    by (simp add: context_result_def)
  then show ?thesis
    using run(1,2) d(1) exact by (auto simp: context_complete_def)
qed

theorem canonical_context_is_exact_witness:
  "\<exists>direct. \<forall>e \<in> set direct_lineage_edges. exact_edge direct e"
proof -
  obtain r where run: "mcp_fetch_context (example_mcp canonical_tools) contract_asset_urn 0 = (Inr r, 9)"
    "ir_status (mc_integration r) = SUCCEEDED"
    "context_complete (context_of example_settings contract_asset_urn r)"
    using canonical_run by (auto split: prod.splits sum.splits)
  from canonical_context_is_exact [OF run(1,2), of example_settings] run(3) show ?thesis by blast
qed



text \<open>
  C31 Both operations end, whatever the server answers: fetching a context makes at most nine requests and
  one for every configured attempt, writing a report at most three and four for every attempt, so that no
  sequence of failed reads keeps the workflow waiting for ever.
\<close>

theorem mcp_requests_are_bounded:
  assumes "new_mcp_adapter ip ipv6_loopback a0 = Inr a" and "counts_requests n a"
  shows "n (snd (mcp_fetch_context a asset_urn w)) \<le> n w + (9 + nat (ma_attempts a))
    \<and> n (snd (write_evidence_report a asset_urn case_id report degraded w))
      \<le> n w + (3 + 4 * nat (ma_attempts a))"
  using fetch_adds [OF assms(2) new_adapter_parts(2) [OF assms(1)]]
    write_adds [OF assms(2) new_adapter_parts(2) [OF assms(1)]]
  by (simp_all add: adds_def)

theorem mcp_requests_are_bounded_witness:
  "snd (mcp_fetch_context (example_mcp canonical_tools\<lparr>ma_write_tool := document_tool\<rparr>) ''urn:payments'' 0) \<le> 14"
proof -
  have "new_mcp_adapter (\<lambda>_. False) (\<lambda>_. False) (example_mcp canonical_tools)
      = Inr (example_mcp canonical_tools\<lparr>ma_write_tool := document_tool\<rparr>)"
    by (rule example_mcp_new)
  moreover have "ma_attempts (example_mcp canonical_tools\<lparr>ma_write_tool := document_tool\<rparr>) = 5"
    by (simp add: example_mcp_def)
  ultimately show ?thesis
    using mcp_requests_are_bounded [OF _ example_mcp_counts2, where w = 0 and asset_urn = "''urn:payments''"]
    by fastforce
qed

text \<open>
  C32 A stream of events is read as it was written: of every event the values of its data lines, joined
  by line feeds, in order; comments, event names and ids are skipped, and an event without data gives
  nothing.
\<close>

theorem sse_round_trip:
  assumes "list_all (list_all line_ok) events"
  shows "sse_data_frames (concat (map event_text events)) = concat (map event_frames events)"
  by (rule sse_frames_events [OF assms])

theorem sse_round_trip_witness:
  "sse_data_frames (concat (map event_text
      [[Skipped ''event: message'', Data ''{}''], [Skipped '': ping''], [Data ''[1,'', Data ''2]'']]))
     = concat (map event_frames
      [[Skipped ''event: message'', Data ''{}''], [Skipped '': ping''], [Data ''[1,'', Data ''2]'']])"
proof (rule sse_round_trip)
  show "list_all (list_all line_ok)
      [[Skipped ''event: message'', Data ''{}''], [Skipped '': ping''], [Data ''[1,'', Data ''2]'']]"
    by code_simp
qed



text \<open>
  With an HTTP client that raises only HTTP errors, every failure of the adapter becomes a failed
  integration result but one: a tool answer whose content is null, or another value that cannot be
  iterated, makes both operations raise a TypeError.
\<close>

lemma only_null_content_escapes:
  assumes "proper_client a"
  shows "(mcp_fetch_context a asset_urn w = (Inl e, w') \<longrightarrow> e = TypeErr ''object is not iterable'')
    \<and> (write_evidence_report a asset_urn case_id report degraded w = (Inl e, w')
         \<longrightarrow> e = TypeErr ''object is not iterable'')"
  using raisesD [OF fetch_raises [OF assms]] raisesD [OF write_raises [OF assms]] by blast+

lemma only_null_content_escapes_at_work:
  "\<exists>e. mcp_fetch_context (example_mcp null_tools) ''urn:payments'' 0 = (Inl e, 5)
     \<and> e = TypeErr ''object is not iterable''"
  using only_null_content_escapes [OF example_mcp_proper] null_run by blast

section \<open>The semantic context\<close>

text \<open>
  C34 Seeding the semantic context is idempotent. Against a catalogue that keeps what is written to it, a
  seed that returns has left the catalogue in a state that verifies, and any later seed of the same
  contract succeeds, changes no aspect and leaves the catalogue exactly as it is.
\<close>

theorem seed_is_idempotent:
  assumes "faithful st view ex" "sp_source sp \<noteq> sp_context_document sp"
    and "seed_context st sp now w = (Inr changed, w')"
  shows "verify_context st sp False w' = (Inr (context_report sp), w')
    \<and> seed_context st sp later w' = (Inr [], w')"
  using seed_runs(2) [OF assms(1,3)] seed_again [OF assms] by blast

theorem seed_is_idempotent_witness:
  "seed_context memory_store default_spec 2 seeded_catalogue = (Inr [], seeded_catalogue)
   \<and> verify_context memory_store default_spec False seeded_catalogue
       = (Inr (context_report default_spec), seeded_catalogue)"
  using seed_is_idempotent [OF memory_faithful _ seeded_run, of 2]
  by (simp add: default_spec_def source_asset_urn_def)



section \<open>Proofs of the demonstration\<close>





text \<open>
  C38 The live proof judges a context exactly as the workflow does. For a context of the canonical asset that the
  adapter reports as fetched, the proof returns a summary if and only if the workflow would treat the context as
  complete, the schema is the healthy or the drifted one, and the glossary's rule names both amount columns.
\<close>

theorem live_proof_agrees:
  assumes "mcp_fetch_context a contract_asset_urn w = (Inr r, w')" "ir_status (mc_integration r) = SUCCEEDED"
  shows "(\<exists>summary. validate_context pt r = Inr summary) \<longleftrightarrow>
    context_complete (context_of cfg contract_asset_urn r)
    \<and> known_schema (jget (mc_context r) ''schema_fields'')
    \<and> names_both_columns (cb_glossary_definition (context_of cfg contract_asset_urn r))"
  by (rule fetched_accepted [OF assms])

theorem live_proof_agrees_witness:
  "\<exists>r summary. fst (mcp_fetch_context (example_mcp live_tools) contract_asset_urn 0) = Inr r
     \<and> validate_context example_text r = Inr summary"
proof -
  obtain r n where run: "mcp_fetch_context (example_mcp live_tools) contract_asset_urn 0 = (Inr r, n)"
    "ir_status (mc_integration r) = SUCCEEDED"
    "jget (mc_context r) ''schema_fields'' = JList (map (\<lambda>f. JDict [(''fieldPath'', JStr f)]) live_fields)"
    "context_complete (context_of example_settings contract_asset_urn r)"
    "cb_glossary_definition (context_of example_settings contract_asset_urn r) = Some live_description"
    using live_run by (auto split: prod.splits sum.splits)
  have "\<exists>summary. validate_context example_text r = Inr summary"
    using live_proof_agrees [OF run(1,2), of example_text example_settings] run(3-5) live_known by simp
  with run(1) show ?thesis by auto
qed

section \<open>The memory of the repository\<close>

text \<open>
  C39 The index of a repository's notes follows the notes. When a sync succeeds, the rows of the repository are
  those of the notes that are there, each with the digest of its note and all of it rendered from one text with
  that digest; the rows of other repositories stay as they are; every note is counted once; and a sync of the
  same notes after it changes no row and reports nothing but unchanged notes.
\<close>

theorem index_follows_notes:
  assumes "notes_only_read env" "settled env s" "manifest_apart env" "sync env rebuild s = (Inr report, s')"
  shows "settled env s' \<and> (\<exists>ns found.
      fst (repo_namespace env (mem_world s)) = Inr ns \<and> fst (all_notes env (mem_world s)) = Inr found
      \<and> index_of env ns found (mem_chunks s')
      \<and> filter (\<lambda>c. ch_namespace c \<noteq> ns) (mem_chunks s') = filter (\<lambda>c. ch_namespace c \<noteq> ns) (mem_chunks s)
      \<and> counted (sr_counts report) = length found)
    \<and> (\<forall>r s''. sync env False s' = (r, s'') \<longrightarrow> mem_chunks s'' = mem_chunks s' \<and> (\<forall>again. r = Inr again \<longrightarrow>
        sr_counts again = \<lparr>sc_inserted = 0, sc_updated = 0, sc_unchanged = sr_scanned again\<rparr> \<and> sr_deleted again = 0))"
proof (intro conjI allI impI)
  note result = sync_result [OF assms(1,2,4)]
  show "settled env s'" using result by (rule conjunct1)
  show "\<exists>ns found. fst (repo_namespace env (mem_world s)) = Inr ns \<and> fst (all_notes env (mem_world s)) = Inr found
      \<and> index_of env ns found (mem_chunks s')
      \<and> filter (\<lambda>c. ch_namespace c \<noteq> ns) (mem_chunks s') = filter (\<lambda>c. ch_namespace c \<noteq> ns) (mem_chunks s)
      \<and> counted (sr_counts report) = length found"
    using conjunct2 [OF result] by auto
  fix r s''
  assume again: "sync env False s' = (r, s'')"
  note twice = sync_twice [OF assms(1-4) again]
  show "mem_chunks s'' = mem_chunks s'" using twice by (rule conjunct1)
  fix report2
  assume "r = Inr report2"
  with twice show "sr_counts report2 = \<lparr>sc_inserted = 0, sc_updated = 0, sc_unchanged = sr_scanned report2\<rparr>"
    "sr_deleted report2 = 0" by simp_all
qed

theorem index_follows_notes_witness:
  "\<exists>s' ns md md'. index_of example_memory ns
     [(''memory/architecture/event-log.md'', first_note, md), (''memory/gotchas/guard.md'', second_note, md')]
     (mem_chunks s') \<and> sync example_memory False example_cache = (fst (sync example_memory False example_cache), s')"
proof -
  obtain report s' where run: "sync example_memory False example_cache = (Inr report, s')"
    using example_sync by blast
  obtain md md' where notes_read: "fst (all_notes example_memory ()) = Inr
      [(''memory/architecture/event-log.md'', first_note, md), (''memory/gotchas/guard.md'', second_note, md')]"
    using example_notes by force
  have "mem_world example_cache = ()" by simp
  then show ?thesis
    using index_follows_notes [OF example_memory_reads example_settled example_manifest_apart run] notes_read run
    by auto
qed

text \<open>
  A note that the memory accepts can be indexed and is read back as it was given. What \<open>add\<close> writes below one
  of the six categories contains nothing that looks like a secret and can always be parsed; and when the values
  are single lines that do not end with a fence, its title, tags and related files are the given ones (without
  surrounding quotes and spaces) and it is active.
\<close>

lemma added_note_is_read_back:
  assumes "add_note env r w = (Inr path, w')"
  shows "\<exists>today w1 md. nr_category r \<in> set required_categories \<and> path = note_path r
    \<and> me_write env path (note_content r today) w1 = (Inr (), w') \<and> \<not> has_secret (note_content r today)
    \<and> parse_note (note_content r today) path = Inr md
    \<and> (given_plainly r today \<longrightarrow> meta md ''title'' = unquoted (nr_title r) \<and> meta md ''status'' = ''active''
        \<and> meta md ''tags'' = unquoted (strip (nr_tags r))
        \<and> meta md ''related_files'' = unquoted (strip (nr_related_files r)))"
proof -
  obtain today w1 where run: "path = note_path r" "nr_category r \<in> set required_categories"
    "\<not> has_secret (note_content r today)" "me_write env path (note_content r today) w1 = (Inr (), w')"
    by (rule add_note_run [OF assms])
  obtain md where md: "parse_note (note_content r today) path = Inr md"
    using added_note_parses by blast
  then have "given_plainly r today \<longrightarrow> meta md ''title'' = unquoted (nr_title r) \<and> meta md ''status'' = ''active''
        \<and> meta md ''tags'' = unquoted (strip (nr_tags r))
        \<and> meta md ''related_files'' = unquoted (strip (nr_related_files r))"
    using added_note_parsed [of r today path] by auto
  with run md show ?thesis by blast
qed

lemma added_note_is_read_back_at_work:
  "\<exists>today md. parse_note (note_content example_request today) ''memory/gotchas/reset-scope.md'' = Inr md
     \<and> \<not> has_secret (note_content example_request today)"
  using added_note_is_read_back [OF example_add] by blast

section \<open>The default installation\<close>

text \<open>
  C40 An installation without configuration claims nothing and reaches nobody. With the default settings the
  service can be built; it has the replay executor; fetching a context, writing a report, raising and resolving an
  incident say that they are not configured, and proposing candidates uses the recorded ones, all without a single
  request, whatever the network would answer; and a pull request is only a bundle of local files.
\<close>

theorem default_installation_is_offline:
  "\<exists>c. new_workflow fs ip ipv6_loopback nw (default_installation temp_dir) = Inr c \<and> co_executor c = None
    \<and> (\<forall>urn w. mcp_fetch_context (co_mcp c) urn w
          = (Inr \<lparr>mc_context = [], mc_integration = mcp_not_configured ''mcp_fetch_context''\<rparr>, w))
    \<and> (\<forall>urn case_id report degraded w. write_evidence_report (co_mcp c) urn case_id report degraded w
          = (Inr (mcp_not_configured ''mcp_write_evidence''), w))
    \<and> (\<forall>urn case_id text' w. raise_incident (co_incidents c) urn case_id text' w
          = (Inr (not_configured ''raise_incident''), w))
    \<and> (\<forall>urn w. resolve_incident (co_incidents c) urn w = (Inr (not_configured ''resolve_incident''), w))
    \<and> (\<forall>lib peer event cx w. \<exists>g. propose_with lib peer (co_openai_url c) (co_generator c) event cx w = (Inr g, w)
          \<and> gr_candidates g = deterministic_candidates event cx \<and> ir_status (gr_integration g) = RECORDED_REPLAY)
    \<and> (\<forall>gw case_id patch. list_all writes_only (snd (create_draft gw (co_github c) case_id patch [])))"
proof -
  let ?s = "default_installation temp_dir"
  have off: "ma_endpoint (installed_mcp nw ?s) = None" "ga_gms_url (installed_incidents nw ?s) = None"
      "cg_api_key (installed_generator ?s) = None" "cg_replay_mode (installed_generator ?s)"
      "\<not> da_enabled (installed_github fs ?s)"
    by (simp_all add: installed_mcp_def installed_incidents_def installed_generator_def installed_github_def
        default_installation_def default_app_def default_core_def Let_def)
  show ?thesis
    unfolding default_components
    by (rule exI, intro conjI allI, rule refl)
      (use off in \<open>simp_all add: mcp_fetch_context_def write_evidence_report_def raise_incident_def
        resolve_incident_def gms_url_def present_def propose_with_def propose_def create_draft_def bundled_writes
        Let_def\<close>)
qed

end
